(* ===== verification/Prelude.thy ===== *)
theory Prelude
  imports Main
begin

text \<open>
  The vocabulary the component theories share: JavaScript string operations on \<open>string\<close>
  (a \<open>char\<close> is one code unit of Latin-1 text), decimal printing of naturals and integers,
  the first-match search that every rule table of the repository uses, and the two
  collections of facts (\<open>str_simps\<close>, \<open>first_match\<close>) that carry the proofs about them.
\<close>

named_theorems str_simps
named_theorems first_match

section \<open>Strings\<close>

text \<open>\<open>s.startsWith(p)\<close>, \<open>s.endsWith(p)\<close> and \<open>s.includes(p)\<close>.\<close>

definition starts_with :: "'a list \<Rightarrow> 'a list \<Rightarrow> bool" where
  "starts_with p s = (take (length p) s = p)"

definition ends_with :: "'a list \<Rightarrow> 'a list \<Rightarrow> bool" where
  "ends_with p s = (length p \<le> length s \<and> drop (length s - length p) s = p)"

fun contains :: "'a list \<Rightarrow> 'a list \<Rightarrow> bool" where
  "contains p [] = (p = [])"
| "contains p (c # s) = (starts_with p (c # s) \<or> contains p s)"

text \<open>\<open>s.slice(n)\<close> is \<open>drop n s\<close>. The white space that \<open>trim\<close> and the regular
  expression class \<open>\s\<close> accept, within Latin-1.\<close>

definition is_ws :: "char \<Rightarrow> bool" where
  "is_ws c = (of_char c \<in> {9, 10, 11, 12, 13, 32, 160 :: nat})"

definition trim_start :: "string \<Rightarrow> string" where
  "trim_start s = dropWhile is_ws s"

definition trim_end :: "string \<Rightarrow> string" where
  "trim_end s = rev (dropWhile is_ws (rev s))"

definition trim :: "string \<Rightarrow> string" where
  "trim s = trim_end (trim_start s)"

text \<open>\<open>s.toLowerCase()\<close> on Latin-1: the ASCII capitals and the accented ones move up
  by 32 (215 is the multiplication sign).\<close>

definition lower_char :: "char \<Rightarrow> char" where
  "lower_char c =
     (let n = of_char c :: nat
      in if (65 \<le> n \<and> n \<le> 90) \<or> (192 \<le> n \<and> n \<le> 222 \<and> n \<noteq> 215) then char_of (n + 32) else c)"

definition to_lower :: "string \<Rightarrow> string" where
  "to_lower s = map lower_char s"

text \<open>The case folding of a regular expression with the flag \<open>i\<close>, restricted to the
  ASCII letters its pattern is made of.\<close>

definition ascii_lower :: "char \<Rightarrow> char" where
  "ascii_lower c = (let n = of_char c :: nat in if 65 \<le> n \<and> n \<le> 90 then char_of (n + 32) else c)"

definition ascii_lowers :: "string \<Rightarrow> string" where
  "ascii_lowers s = map ascii_lower s"

definition contains_ci :: "string \<Rightarrow> string \<Rightarrow> bool" where
  "contains_ci p s = contains p (ascii_lowers s)"

text \<open>\<open>s.split(c)\<close> for a one-character separator: never the empty list.\<close>

fun split_on :: "'a \<Rightarrow> 'a list \<Rightarrow> 'a list list" where
  "split_on c [] = [[]]"
| "split_on c (x # xs) =
     (if x = c then [] # split_on c xs
      else (case split_on c xs of [] \<Rightarrow> [[x]] | w # ws \<Rightarrow> (x # w) # ws))"

text \<open>\<open>xs.join(sep)\<close>.\<close>

fun join :: "'a list \<Rightarrow> 'a list list \<Rightarrow> 'a list" where
  "join sep [] = []"
| "join sep [x] = x"
| "join sep (x # y # xs) = x @ sep @ join sep (y # xs)"

definition is_digit :: "char \<Rightarrow> bool" where
  "is_digit c = (let n = of_char c :: nat in 48 \<le> n \<and> n \<le> 57)"

definition digit_char :: "nat \<Rightarrow> char" where
  "digit_char d = char_of (48 + d)"

text \<open>\<open>String(n)\<close> for the whole numbers that template literals print.\<close>

fun show_nat :: "nat \<Rightarrow> string" where
  "show_nat n = (if n < 10 then [digit_char n] else show_nat (n div 10) @ [digit_char (n mod 10)])"

declare show_nat.simps [simp del]

definition show_int :: "int \<Rightarrow> string" where
  "show_int i = (if i < 0 then ''-'' @ show_nat (nat (- i)) else show_nat (nat i))"

text \<open>A string option is truthy when it is present and not empty.\<close>

definition truthy :: "string option \<Rightarrow> bool" where
  "truthy x = (case x of None \<Rightarrow> False | Some s \<Rightarrow> s \<noteq> [])"

text \<open>\<open>a ?? b\<close>.\<close>

definition nullish :: "'a option \<Rightarrow> 'a \<Rightarrow> 'a" where
  "nullish a b = (case a of None \<Rightarrow> b | Some x \<Rightarrow> x)"

section \<open>First match\<close>

text \<open>\<open>xs.find(p)\<close> and the loops \<open>for (const r of rules) if (matches) return \<dots>\<close>.\<close>

fun find_first :: "('a \<Rightarrow> bool) \<Rightarrow> 'a list \<Rightarrow> 'a option" where
  "find_first p [] = None"
| "find_first p (x # xs) = (if p x then Some x else find_first p xs)"

lemma find_first_None [first_match]: "find_first p xs = None \<longleftrightarrow> (\<forall>x \<in> set xs. \<not> p x)"
  by (induction xs) auto

lemma find_first_Some:
  "find_first p xs = Some x \<longleftrightarrow> (\<exists>ys zs. xs = ys @ x # zs \<and> p x \<and> (\<forall>y \<in> set ys. \<not> p y))"
proof (induction xs)
  case Nil
  then show ?case by simp
next
  case (Cons a xs)
  show ?case
  proof (cases "p a")
    case True
    then show ?thesis by (auto simp: Cons_eq_append_conv)
  next
    case False
    show ?thesis
    proof
      assume "find_first p (a # xs) = Some x"
      with False Cons.IH obtain ys zs where "xs = ys @ x # zs" "p x" "\<forall>y \<in> set ys. \<not> p y" by auto
      with False have "a # xs = (a # ys) @ x # zs \<and> p x \<and> (\<forall>y \<in> set (a # ys). \<not> p y)" by simp
      then show "\<exists>ys zs. a # xs = ys @ x # zs \<and> p x \<and> (\<forall>y \<in> set ys. \<not> p y)" by blast
    next
      assume "\<exists>ys zs. a # xs = ys @ x # zs \<and> p x \<and> (\<forall>y \<in> set ys. \<not> p y)"
      with False Cons.IH show "find_first p (a # xs) = Some x"
        by (auto simp: Cons_eq_append_conv)
    qed
  qed
qed

lemma find_first_in: "find_first p xs = Some x \<Longrightarrow> x \<in> set xs \<and> p x"
  by (auto simp: find_first_Some)

lemma find_first_append [first_match]:
  "find_first p (xs @ ys) = (case find_first p xs of None \<Rightarrow> find_first p ys | Some x \<Rightarrow> Some x)"
  by (induction xs) auto

lemma find_first_map: "find_first p (map f xs) = map_option f (find_first (p \<circ> f) xs)"
  by (induction xs) auto

lemma find_first_cong:
  "(\<And>x. x \<in> set xs \<Longrightarrow> p x = q x) \<Longrightarrow> find_first p xs = find_first q xs"
  by (induction xs) auto

text \<open>A search that succeeds in a prefix does not look further.\<close>

lemma find_first_prefix:
  "\<exists>x \<in> set xs. p x \<Longrightarrow> find_first p (xs @ ys) = find_first p xs \<and> (\<exists>x \<in> set xs. find_first p xs = Some x)"
  by (induction xs) auto

section \<open>Facts about the string operations\<close>

lemma starts_with_iff [str_simps]: "starts_with p s \<longleftrightarrow> (\<exists>t. s = p @ t)"
  unfolding starts_with_def by (metis append_eq_conv_conj append_take_drop_id)

lemma starts_with_append [simp]: "starts_with p (p @ t)"
  by (simp add: starts_with_def)

lemma starts_with_Nil [simp]: "starts_with [] s"
  by (simp add: starts_with_def)

lemma ends_with_iff [str_simps]: "ends_with p s \<longleftrightarrow> (\<exists>t. s = t @ p)"
proof
  assume "ends_with p s"
  then have "s = take (length s - length p) s @ p"
    unfolding ends_with_def by (metis append_take_drop_id)
  then show "\<exists>t. s = t @ p" ..
next
  assume "\<exists>t. s = t @ p"
  then show "ends_with p s" by (auto simp: ends_with_def)
qed

lemma contains_iff [str_simps]: "contains p s \<longleftrightarrow> (\<exists>u v. s = u @ p @ v)"
proof (induction s)
  case Nil
  then show ?case by simp
next
  case (Cons c s)
  show ?case
  proof
    assume "contains p (c # s)"
    then show "\<exists>u v. c # s = u @ p @ v"
    proof (simp, elim disjE)
      assume "starts_with p (c # s)"
      then show "\<exists>u v. c # s = u @ p @ v" by (force simp: starts_with_iff)
    next
      assume "contains p s"
      then obtain u v where "s = u @ p @ v" using Cons.IH by blast
      then have "c # s = (c # u) @ p @ v" by simp
      then show "\<exists>u v. c # s = u @ p @ v" by blast
    qed
  next
    assume "\<exists>u v. c # s = u @ p @ v"
    then obtain u v where eq: "c # s = u @ p @ v" by blast
    show "contains p (c # s)"
    proof (cases u)
      case Nil
      with eq have "starts_with p (c # s)" by (auto simp: starts_with_iff)
      then show ?thesis by simp
    next
      case (Cons d u')
      with eq have "s = u' @ p @ v" by simp
      with Cons.IH show ?thesis by auto
    qed
  qed
qed

lemma contains_append_left: "contains p s \<Longrightarrow> contains p (s @ t)"
  by (auto simp: contains_iff) (metis append.assoc)

lemma contains_append_right: "contains p t \<Longrightarrow> contains p (s @ t)"
  by (auto simp: contains_iff) (metis append.assoc)

lemma contains_trans: "contains p q \<Longrightarrow> contains q s \<Longrightarrow> contains p s"
  by (auto simp: contains_iff) (metis append.assoc)

lemma starts_with_contains: "starts_with p s \<Longrightarrow> contains p s"
  by (auto simp: starts_with_iff contains_iff intro: exI [of _ "[]"])

lemma ends_with_contains: "ends_with p s \<Longrightarrow> contains p s"
  by (auto simp: ends_with_iff contains_iff) (metis append_Nil2)

lemma contains_length: "contains p s \<Longrightarrow> length p \<le> length s"
  by (auto simp: contains_iff)

lemma split_on_not_Nil [simp]: "split_on c s \<noteq> []"
  by (induction s) (auto split: list.splits)

lemma join_split_on: "join [c] (split_on c s) = s"
proof (induction s)
  case Nil
  then show ?case by simp
next
  case (Cons x s)
  obtain w ws where ws: "split_on c s = w # ws"
    by (meson neq_Nil_conv split_on_not_Nil)
  with Cons.IH have "join [c] (w # ws) = s" by simp
  then show ?case using ws by (cases ws) auto
qed

lemma split_on_no_sep: "c \<notin> set s \<Longrightarrow> split_on c s = [s]"
  by (induction s) auto

lemma split_on_append: "c \<notin> set s \<Longrightarrow> split_on c (s @ c # t) = s # split_on c t"
  by (induction s) auto

lemma split_on_pieces: "w \<in> set (split_on c s) \<Longrightarrow> c \<notin> set w"
proof (induction s arbitrary: w)
  case Nil
  then show ?case by simp
next
  case (Cons x s)
  obtain v vs where "split_on c s = v # vs"
    by (meson neq_Nil_conv split_on_not_Nil)
  with Cons show ?case by (auto split: if_splits)
qed

lemma trim_end_empty [simp]: "trim_end [] = []"
  by (simp add: trim_end_def)

lemma trim_Nil [simp]: "trim [] = []"
  by (simp add: trim_def trim_start_def)

lemma dropWhile_idem_id: "(s = [] \<or> \<not> P (hd s)) \<Longrightarrow> dropWhile P s = s"
  by (cases s) auto

lemma hd_dropWhile_not: "dropWhile P s \<noteq> [] \<Longrightarrow> \<not> P (hd (dropWhile P s))"
  by (rule hd_dropWhile)

lemma trim_end_prefix: "\<exists>t. s = trim_end s @ t \<and> (\<forall>c \<in> set t. is_ws c)"
proof -
  have "rev s = takeWhile is_ws (rev s) @ dropWhile is_ws (rev s)" by simp
  then have "s = rev (dropWhile is_ws (rev s)) @ rev (takeWhile is_ws (rev s))"
    by (metis rev_append rev_rev_ident)
  moreover have "\<forall>c \<in> set (rev (takeWhile is_ws (rev s))). is_ws c"
    by (auto dest: set_takeWhileD)
  ultimately show ?thesis unfolding trim_end_def by blast
qed

lemma trim_end_idem [simp]: "trim_end (trim_end s) = trim_end s"
  unfolding trim_end_def by (simp add: dropWhile_idem_id)

lemma trim_idem [simp]: "trim (trim s) = trim s"
proof -
  obtain t where t: "trim_start s = trim s @ t"
    using trim_end_prefix [of "trim_start s"] unfolding trim_def by blast
  have "trim_start (trim s) = trim s"
  proof (cases "trim s = []")
    case True
    then show ?thesis by (simp add: trim_start_def)
  next
    case False
    then have "hd (trim_start s) = hd (trim s)" using t by simp
    moreover have "\<not> is_ws (hd (trim_start s))"
      using False t hd_dropWhile [of is_ws s] unfolding trim_start_def
      by (metis append_is_Nil_conv)
    ultimately show ?thesis unfolding trim_start_def by (simp add: dropWhile_idem_id)
  qed
  then show ?thesis unfolding trim_def by simp
qed

lemma lower_char_idem [simp]: "lower_char (lower_char c) = lower_char c"
proof -
  have b: "(of_char c :: nat) < 256" by simp
  show ?thesis
    using b by (auto simp: lower_char_def Let_def)
qed

lemma to_lower_idem [simp]: "to_lower (to_lower s) = to_lower s"
  by (simp add: to_lower_def)

lemma length_to_lower [simp]: "length (to_lower s) = length s"
  by (simp add: to_lower_def)

lemma ascii_lower_idem [simp]: "ascii_lower (ascii_lower c) = ascii_lower c"
  by (auto simp: ascii_lower_def Let_def)

lemma contains_ci_lower: "contains_ci p (ascii_lowers s) = contains_ci p s"
  by (simp add: contains_ci_def ascii_lowers_def comp_def)

lemma is_ws_lower [simp]: "is_ws (lower_char c) = is_ws c"
proof -
  have "(of_char c :: nat) < 256" by simp
  then show ?thesis by (auto simp: lower_char_def is_ws_def Let_def)
qed

lemma trim_to_lower: "trim (to_lower s) = to_lower (trim s)"
proof -
  have "trim_start (to_lower u) = to_lower (trim_start u)" for u
    unfolding trim_start_def to_lower_def by (simp add: dropWhile_map comp_def)
  moreover have "trim_end (to_lower u) = to_lower (trim_end u)" for u
    unfolding trim_end_def to_lower_def by (simp add: rev_map dropWhile_map comp_def)
  ultimately show ?thesis by (simp add: trim_def)
qed

section \<open>Decimal numerals\<close>

fun read_digits :: "nat \<Rightarrow> string \<Rightarrow> nat" where
  "read_digits acc [] = acc"
| "read_digits acc (c # s) = read_digits (10 * acc + (of_char c - 48)) s"

lemma read_digits_append: "read_digits acc (s @ t) = read_digits (read_digits acc s) t"
  by (induction acc s rule: read_digits.induct) auto

lemma of_char_digit [simp]: "d < 10 \<Longrightarrow> (of_char (digit_char d) :: nat) = 48 + d"
  by (simp add: digit_char_def)

lemma is_digit_digit_char [simp]: "d < 10 \<Longrightarrow> is_digit (digit_char d)"
  by (simp add: is_digit_def Let_def)

lemma show_nat_digits: "c \<in> set (show_nat n) \<Longrightarrow> is_digit c"
proof (induction n rule: show_nat.induct)
  case (1 n)
  then show ?case
    by (subst (asm) (2) show_nat.simps) (auto split: if_splits)
qed

lemma show_nat_not_Nil [simp]: "show_nat n \<noteq> []"
  by (subst show_nat.simps) simp

lemma read_show_nat: "read_digits 0 (show_nat n) = n"
proof (induction n rule: show_nat.induct)
  case (1 n)
  then show ?case
    by (subst show_nat.simps) (auto simp: read_digits_append)
qed

lemma show_nat_inj: "show_nat m = show_nat n \<Longrightarrow> m = n"
  by (metis read_show_nat)

end
