(* ===== verification/OrderedRules.thy ===== *)
theory OrderedRules
  imports Prelude
begin

text \<open>
  The contract every rule table of the repository shares: rules are tried in order and the first
  one that matches gives the verdict. The engine's top-level rules, the keyword tables of the
  authorize and sandbox routes, the stored policies and the SDK's offline table are instances; the
  lemmas below are proved once, for all of them.
\<close>

locale ordered_rules =
  fixes decide :: "'r list \<Rightarrow> 'x \<Rightarrow> 'd option"
    and matches :: "'r \<Rightarrow> 'x \<Rightarrow> bool"
    and verdict :: "'r \<Rightarrow> 'd"
  assumes decide_Nil: "decide [] x = None"
    and decide_Cons: "decide (r # rs) x = (if matches r x then Some (verdict r) else decide rs x)"
begin

lemma decide_find: "decide rs x = map_option verdict (find_first (\<lambda>r. matches r x) rs)"
  by (induction rs) (auto simp: decide_Nil decide_Cons)

lemma decide_None_iff: "decide rs x = None \<longleftrightarrow> (\<forall>r \<in> set rs. \<not> matches r x)"
  by (simp add: decide_find find_first_None)

lemma decide_append:
  "decide (rs @ qs) x = (case decide rs x of None \<Rightarrow> decide qs x | Some d \<Rightarrow> Some d)"
  by (induction rs) (auto simp: decide_Nil decide_Cons)

lemma decide_in: "decide rs x = Some d \<Longrightarrow> \<exists>r \<in> set rs. matches r x \<and> verdict r = d"
  by (auto simp: decide_find dest!: find_first_in)

text \<open>Guard rules: when one of the rules at the head of a table matches, the verdict is one of
  theirs, whatever follows.\<close>

lemma guard:
  assumes "r \<in> set rs" "matches r x"
  shows "\<exists>q \<in> set rs. matches q x \<and> decide (rs @ qs) x = Some (verdict q)"
proof -
  obtain d where d: "decide rs x = Some d" using assms decide_None_iff by fastforce
  then obtain q where "q \<in> set rs" "matches q x" "verdict q = d" using decide_in by blast
  with d show ?thesis by (auto simp: decide_append)
qed

text \<open>A guard verdict that all the head rules share.\<close>

lemma guard_const:
  assumes "r \<in> set rs" "matches r x" "\<forall>q \<in> set rs. P (verdict q)"
  shows "\<exists>d. decide (rs @ qs) x = Some d \<and> P d"
  using guard [OF assms(1,2), of qs] assms(3) by blast

text \<open>A verdict with a property that no head rule has comes from the tail.\<close>

lemma from_tail:
  assumes "decide (rs @ qs) x = Some d" "P d" "\<forall>q \<in> set rs. \<not> P (verdict q)"
  shows "(\<forall>q \<in> set rs. \<not> matches q x) \<and> decide qs x = Some d"
proof (cases "decide rs x")
  case None
  with assms show ?thesis by (simp add: decide_append decide_None_iff)
next
  case (Some d')
  then have "d' = d" using assms(1) by (simp add: decide_append)
  with Some obtain q where "q \<in> set rs" "verdict q = d" using decide_in by blast
  with assms show ?thesis by blast
qed

text \<open>A catch-all at the end makes the table total.\<close>

lemma total:
  assumes "matches r x"
  shows "decide (rs @ [r]) x \<noteq> None"
  using assms by (auto simp: decide_None_iff)

text \<open>Rules that do not match can be dropped.\<close>

lemma drop_irrelevant: "(\<forall>r \<in> set rs. \<not> matches r x) \<Longrightarrow> decide (rs @ qs) x = decide qs x"
  by (simp add: decide_append flip: decide_None_iff)

end

text \<open>Two tables with the same matches whose verdicts are related by \<open>R\<close> decide alike, up to \<open>R\<close>.\<close>

locale related_rules =
  a: ordered_rules decide_a matches_a verdict_a + b: ordered_rules decide_b matches_b verdict_b
  for decide_a :: "'r list \<Rightarrow> 'x \<Rightarrow> 'd option" and matches_a verdict_a
    and decide_b :: "'q list \<Rightarrow> 'x \<Rightarrow> 'e option" and matches_b verdict_b
begin

lemma decide_related:
  assumes "list_all2 (\<lambda>r q. matches_a r x = matches_b q x \<and> (matches_a r x \<longrightarrow> R (verdict_a r) (verdict_b q))) rs qs"
  shows "rel_option R (decide_a rs x) (decide_b qs x)"
  using assms
  by (induction rs qs rule: list_all2_induct) (auto simp: a.decide_Nil b.decide_Nil a.decide_Cons b.decide_Cons)

end

end
