(* ===== verification/JsNumber.thy ===== *)
theory JsNumber
  imports Complex_Main Prelude
begin

text \<open>
  JavaScript numbers. A finite number is a rational; \<open>fl\<close> rounds a rational to the nearest
  IEEE 754 double (53 significant bits, ties to even, gradual underflow), which is what every
  arithmetic operation of the language does to its exact result. Literals beyond the largest
  double become an infinity.
\<close>

datatype jsnum = Fin rat | PosInf | NegInf

definition pow2 :: "int \<Rightarrow> rat" where
  "pow2 e = (if 0 \<le> e then 2 ^ nat e else 1 / 2 ^ nat (- e))"

fun nbits :: "nat \<Rightarrow> nat" where
  "nbits n = (if n = 0 then 0 else Suc (nbits (n div 2)))"

declare nbits.simps [simp del]

text \<open>\<open>ilog2 r\<close> is the exponent of the leading bit of \<open>r > 0\<close>.\<close>

definition ilog2 :: "rat \<Rightarrow> int" where
  "ilog2 r =
     (if 1 \<le> r then int (nbits (nat \<lfloor>r\<rfloor>)) - 1 else - int (nbits (nat (\<lceil>1 / r\<rceil> - 1))))"

definition round_half_even :: "rat \<Rightarrow> int" where
  "round_half_even x =
     (let f = \<lfloor>x\<rfloor>; d = x - of_int f
      in if d < 1 / 2 then f else if 1 / 2 < d then f + 1 else if even f then f else f + 1)"

definition fl_pos :: "rat \<Rightarrow> rat" where
  "fl_pos r =
     (let e = max (ilog2 r - 52) (- 1074)
      in of_int (round_half_even (r / pow2 e)) * pow2 e)"

definition fl :: "rat \<Rightarrow> rat" where
  "fl r = (if r = 0 then 0 else if r < 0 then - fl_pos (- r) else fl_pos r)"

text \<open>What a numeric literal denotes: the first value that no longer rounds to a finite double
  is \<open>2^1024 - 2^970\<close>.\<close>

definition num_of_rat :: "rat \<Rightarrow> jsnum" where
  "num_of_rat r =
     (if 2 ^ 1024 - 2 ^ 970 \<le> r then PosInf
      else if r \<le> - (2 ^ 1024 - 2 ^ 970) then NegInf
      else Fin (fl r))"

text \<open>Comparison with a finite bound, as \<open><\<close> and \<open>>\<close> decide it.\<close>

fun num_less :: "jsnum \<Rightarrow> rat \<Rightarrow> bool" where
  "num_less (Fin x) b = (x < b)"
| "num_less PosInf b = False"
| "num_less NegInf b = True"

fun num_greater :: "jsnum \<Rightarrow> rat \<Rightarrow> bool" where
  "num_greater (Fin x) b = (b < x)"
| "num_greater PosInf b = True"
| "num_greater NegInf b = False"

fun is_finite_num :: "jsnum \<Rightarrow> bool" where
  "is_finite_num (Fin x) = True"
| "is_finite_num PosInf = False"
| "is_finite_num NegInf = False"

section \<open>Facts about rounding\<close>

lemma pow2_pos [simp]: "0 < pow2 e"
  by (simp add: pow2_def)

lemma pow2_nonzero [simp]: "pow2 e \<noteq> 0"
  using pow2_pos [of e] by linarith

lemma round_half_even_of_int [simp]: "round_half_even (of_int n) = n"
  by (simp add: round_half_even_def)

lemma round_half_even_mono:
  assumes "x \<le> y"
  shows "round_half_even x \<le> round_half_even y"
proof (cases "\<lfloor>x\<rfloor> = \<lfloor>y\<rfloor>")
  case True
  with assms show ?thesis by (auto simp: round_half_even_def Let_def)
next
  case False
  with assms have "\<lfloor>x\<rfloor> + 1 \<le> \<lfloor>y\<rfloor>" by (smt (verit) floor_mono)
  moreover have "round_half_even x \<le> \<lfloor>x\<rfloor> + 1" by (simp add: round_half_even_def Let_def)
  moreover have "\<lfloor>y\<rfloor> \<le> round_half_even y" by (simp add: round_half_even_def Let_def)
  ultimately show ?thesis by linarith
qed

lemma round_half_even_nonneg: "0 \<le> x \<Longrightarrow> 0 \<le> round_half_even x"
  using round_half_even_mono [of 0 x] round_half_even_of_int [of 0] by simp

lemma fl_zero [simp]: "fl 0 = 0"
  by (simp add: fl_def)

lemma fl_nonneg: "0 \<le> r \<Longrightarrow> 0 \<le> fl r"
  by (auto simp: fl_def fl_pos_def Let_def intro!: mult_nonneg_nonneg round_half_even_nonneg
      less_imp_le [OF pow2_pos] divide_nonneg_nonneg)

lemma fl_neg: "fl (- r) = - fl r"
  by (auto simp: fl_def)

lemma nbits_le: "n < 2 ^ k \<Longrightarrow> nbits n \<le> k"
proof (induction k arbitrary: n)
  case 0
  then show ?case by (simp add: nbits.simps)
next
  case (Suc k)
  then have "n div 2 < 2 ^ k" by auto
  with Suc.IH have "nbits (n div 2) \<le> k" by blast
  then show ?case by (subst nbits.simps) simp
qed

text \<open>A value whose scaled significand is whole is exact; in particular every integer below
  \<open>2^53\<close>.\<close>

lemma fl_pos_int:
  assumes "0 < n" "n < 2 ^ 53"
  shows "fl_pos (of_int n) = of_int n"
proof -
  let ?e = "max (ilog2 (of_int n) - 52) (- 1074)"
  have "nat n < 2 ^ 53" using assms by (simp add: nat_less_iff)
  then have "nbits (nat n) \<le> 53" by (rule nbits_le)
  then have le: "?e \<le> 0" using assms by (simp add: ilog2_def)
  have eq: "of_int n / pow2 ?e = of_int (n * 2 ^ nat (- ?e))"
    using le by (cases "?e = 0") (auto simp: pow2_def)
  have "fl_pos (of_int n) = of_int (round_half_even (of_int n / pow2 ?e)) * pow2 ?e"
    by (simp add: fl_pos_def Let_def)
  also have "\<dots> = of_int n / pow2 ?e * pow2 ?e"
    by (simp only: eq round_half_even_of_int)
  also have "\<dots> = of_int n" by simp
  finally show ?thesis .
qed

lemma fl_of_int:
  assumes "\<bar>n\<bar> < 2 ^ 53"
  shows "fl (of_int n) = of_int n"
proof -
  consider "n = 0" | "0 < n" | "n < 0" by linarith
  then show ?thesis
  proof cases
    case 1
    then show ?thesis by simp
  next
    case 2
    with assms show ?thesis by (simp add: fl_def fl_pos_int)
  next
    case 3
    with assms have "fl_pos (of_int (- n)) = of_int (- n)" by (intro fl_pos_int) auto
    with 3 show ?thesis by (simp add: fl_def)
  qed
qed

lemma num_of_rat_int:
  assumes "\<bar>n\<bar> < 2 ^ 53"
  shows "num_of_rat (of_int n) = Fin (of_int n)"
proof -
  have big: "(2::rat) ^ 53 \<le> 2 ^ 1024 - 2 ^ 970" by simp
  have "\<bar>of_int n :: rat\<bar> < 2 ^ 53"
    using assms by (metis of_int_abs of_int_less_iff of_int_numeral of_int_power)
  then have "\<not> 2 ^ 1024 - 2 ^ 970 \<le> (of_int n :: rat)" "\<not> (of_int n :: rat) \<le> - (2 ^ 1024 - 2 ^ 970)"
    using big by linarith+
  then show ?thesis using assms by (simp add: num_of_rat_def fl_of_int)
qed

end
