(* ===== verification/Json.thy ===== *)
theory Json
  imports JsNumber
begin

text \<open>
  JSON values, as request bodies, engine answers and files on disk carry them. \<open>'n\<close> is the type
  of numbers: \<open>jsnum\<close> in what \<open>JSON.parse\<close> returns, \<open>int\<close> in the documents the program
  prints itself with \<open>JSON.stringify\<close>. Object members are kept in order; reading a member that
  occurs twice gives the last one, as it does after \<open>JSON.parse\<close>. Texts are Latin-1: an escape
  beyond that range is outside the model and is rejected.
\<close>

datatype 'n json =
    JNull
  | JBool bool
  | JNum 'n
  | JStr string
  | JArr "'n json list"
  | JObj "(string \<times> 'n json) list"

text \<open>\<open>value.key\<close>: \<open>None\<close> is \<open>undefined\<close>.\<close>

definition member :: "string \<Rightarrow> 'n json \<Rightarrow> 'n json option" where
  "member k v = (case v of JObj kvs \<Rightarrow> map_of (rev kvs) k | _ \<Rightarrow> None)"

fun str_of :: "'n json option \<Rightarrow> string option" where
  "str_of (Some (JStr s)) = Some s"
| "str_of _ = None"

text \<open>\<open>String(value)\<close> and \<open>`${value}`\<close>, with the printing of numbers as an argument.\<close>

fun js_string :: "('n \<Rightarrow> string) \<Rightarrow> 'n json \<Rightarrow> string" where
  "js_string num JNull = ''null''"
| "js_string num (JBool b) = (if b then ''true'' else ''false'')"
| "js_string num (JNum n) = num n"
| "js_string num (JStr s) = s"
| "js_string num (JArr vs) = join '','' (map (\<lambda>v. case v of JNull \<Rightarrow> [] | _ \<Rightarrow> js_string num v) vs)"
| "js_string num (JObj kvs) = ''[object Object]''"

definition js_string_opt :: "('n \<Rightarrow> string) \<Rightarrow> 'n json option \<Rightarrow> string" where
  "js_string_opt num v = (case v of None \<Rightarrow> ''undefined'' | Some x \<Rightarrow> js_string num x)"

section \<open>Printing\<close>

definition hex_digit :: "nat \<Rightarrow> char" where
  "hex_digit d = (if d < 10 then char_of (48 + d) else char_of (87 + d))"

definition escape_char :: "char \<Rightarrow> string" where
  "escape_char c =
     (if c = CHR 0x22 then [CHR 0x5C, CHR 0x22]
      else if c = CHR 0x5C then [CHR 0x5C, CHR 0x5C]
      else if c = CHR 8 then [CHR 0x5C, CHR ''b'']
      else if c = CHR 12 then [CHR 0x5C, CHR ''f'']
      else if c = CHR 10 then [CHR 0x5C, CHR ''n'']
      else if c = CHR 13 then [CHR 0x5C, CHR ''r'']
      else if c = CHR 9 then [CHR 0x5C, CHR ''t'']
      else if of_char c < (32 :: nat)
      then [CHR 0x5C, CHR ''u'', CHR ''0'', CHR ''0'', hex_digit (of_char c div 16), hex_digit (of_char c mod 16)]
      else [c])"

definition show_str :: "string \<Rightarrow> string" where
  "show_str s = CHR 0x22 # concat (map escape_char s) @ [CHR 0x22]"

fun stringify :: "int json \<Rightarrow> string" where
  "stringify JNull = ''null''"
| "stringify (JBool b) = (if b then ''true'' else ''false'')"
| "stringify (JNum n) = show_int n"
| "stringify (JStr s) = show_str s"
| "stringify (JArr vs) = ''['' @ join '','' (map stringify vs) @ '']''"
| "stringify (JObj kvs) =
     ''{'' @ join '','' (map (\<lambda>(k, v). show_str k @ '':'' @ stringify v) kvs) @ ''}''"

section \<open>Parsing\<close>

text \<open>The four white space characters of the JSON grammar.\<close>

definition json_ws :: "char \<Rightarrow> bool" where
  "json_ws c = (c \<in> {CHR 32, CHR 9, CHR 10, CHR 13})"

definition skip_ws :: "string \<Rightarrow> string" where
  "skip_ws s = dropWhile json_ws s"

definition hex_val :: "char \<Rightarrow> nat option" where
  "hex_val c =
     (let n = of_char c :: nat
      in if 48 \<le> n \<and> n \<le> 57 then Some (n - 48)
         else if 97 \<le> n \<and> n \<le> 102 then Some (n - 87)
         else if 65 \<le> n \<and> n \<le> 70 then Some (n - 55)
         else None)"

definition hex4 :: "char \<Rightarrow> char \<Rightarrow> char \<Rightarrow> char \<Rightarrow> char option" where
  "hex4 a b c d =
     (case (hex_val a, hex_val b, hex_val c, hex_val d) of
        (Some i, Some j, Some k, Some l) \<Rightarrow>
          (if i = 0 \<and> j = 0 then Some (char_of (16 * k + l)) else None)
      | _ \<Rightarrow> None)"

definition simple_escape :: "char \<Rightarrow> char option" where
  "simple_escape c =
     (if c = CHR 0x22 \<or> c = CHR 0x5C \<or> c = CHR ''/'' then Some c
      else if c = CHR ''b'' then Some (CHR 8)
      else if c = CHR ''f'' then Some (CHR 12)
      else if c = CHR ''n'' then Some (CHR 10)
      else if c = CHR ''r'' then Some (CHR 13)
      else if c = CHR ''t'' then Some (CHR 9)
      else None)"

text \<open>The rest of a string literal, after its opening quote.\<close>

fun parse_chars :: "string \<Rightarrow> (string \<times> string) option" where
  "parse_chars [] = None"
| "parse_chars (c # s) =
     (if c = CHR 0x22 then Some ([], s)
      else if c = CHR 0x5C then
        (case s of
           [] \<Rightarrow> None
         | e # s' \<Rightarrow>
             (if e = CHR ''u'' then
                (case s' of
                   h1 # h2 # h3 # h4 # s'' \<Rightarrow>
                     (case hex4 h1 h2 h3 h4 of
                        None \<Rightarrow> None
                      | Some x \<Rightarrow> map_option (\<lambda>(t, r). (x # t, r)) (parse_chars s''))
                 | _ \<Rightarrow> None)
              else
                (case simple_escape e of
                   None \<Rightarrow> None
                 | Some x \<Rightarrow> map_option (\<lambda>(t, r). (x # t, r)) (parse_chars s'))))
      else if of_char c < (32 :: nat) then None
      else map_option (\<lambda>(t, r). (c # t, r)) (parse_chars s))"

text \<open>Numbers: an optional sign, \<open>0\<close> or digits with no leading zero, an optional fraction, an
  optional exponent.\<close>

definition pow10 :: "int \<Rightarrow> rat" where
  "pow10 e = (if 0 \<le> e then 10 ^ nat e else 1 / 10 ^ nat (- e))"

definition parse_frac :: "string \<Rightarrow> (string \<times> string) option" where
  "parse_frac s =
     (case s of
        c # r \<Rightarrow>
          (if c = CHR ''.'' then
             (let ds = takeWhile is_digit r
              in if ds = [] then None else Some (ds, dropWhile is_digit r))
           else Some ([], s))
      | [] \<Rightarrow> Some ([], s))"

definition parse_exp :: "string \<Rightarrow> (int \<times> string) option" where
  "parse_exp s =
     (case s of
        c # r \<Rightarrow>
          (if c = CHR ''e'' \<or> c = CHR ''E'' then
             (let (sgn, r') =
                    (case r of
                       d # t \<Rightarrow> (if d = CHR ''-'' then (-1, t) else if d = CHR ''+'' then (1, t) else (1, r))
                     | [] \<Rightarrow> (1, r));
                  ds = takeWhile is_digit r'
              in if ds = [] then None else Some (sgn * int (read_digits 0 ds), dropWhile is_digit r'))
           else Some (0, s))
      | [] \<Rightarrow> Some (0, s))"

definition parse_nat_num :: "string \<Rightarrow> (rat \<times> string) option" where
  "parse_nat_num s =
     (let ds = takeWhile is_digit s; r = dropWhile is_digit s
      in if ds = [] \<or> (hd ds = CHR ''0'' \<and> tl ds \<noteq> []) then None
         else
           (case parse_frac r of
              None \<Rightarrow> None
            | Some (fs, r1) \<Rightarrow>
                (case parse_exp r1 of
                   None \<Rightarrow> None
                 | Some (e, r2) \<Rightarrow>
                     Some (of_nat (read_digits 0 (ds @ fs)) * pow10 (e - int (length fs)), r2))))"

definition parse_num :: "string \<Rightarrow> (rat \<times> string) option" where
  "parse_num s =
     (case s of
        c # r \<Rightarrow>
          (if c = CHR ''-'' then map_option (\<lambda>(q, t). (- q, t)) (parse_nat_num r) else parse_nat_num s)
      | [] \<Rightarrow> None)"

text \<open>Values. The first argument bounds the nesting of calls.\<close>

fun parse_value :: "nat \<Rightarrow> string \<Rightarrow> (jsnum json \<times> string) option"
and parse_elems :: "nat \<Rightarrow> string \<Rightarrow> (jsnum json list \<times> string) option"
and parse_members :: "nat \<Rightarrow> string \<Rightarrow> ((string \<times> jsnum json) list \<times> string) option" where
  "parse_value 0 s = None"
| "parse_value (Suc n) s =
     (case skip_ws s of
        [] \<Rightarrow> None
      | c # r \<Rightarrow>
          (if c = CHR 0x22 then map_option (\<lambda>(t, u). (JStr t, u)) (parse_chars r)
           else if c = CHR ''['' then
             (if starts_with '']'' (skip_ws r) then Some (JArr [], drop 1 (skip_ws r))
              else map_option (\<lambda>(vs, u). (JArr vs, u)) (parse_elems n r))
           else if c = CHR ''{'' then
             (if starts_with ''}'' (skip_ws r) then Some (JObj [], drop 1 (skip_ws r))
              else map_option (\<lambda>(kvs, u). (JObj kvs, u)) (parse_members n r))
           else if starts_with ''null'' (c # r) then Some (JNull, drop 4 (c # r))
           else if starts_with ''true'' (c # r) then Some (JBool True, drop 4 (c # r))
           else if starts_with ''false'' (c # r) then Some (JBool False, drop 5 (c # r))
           else map_option (\<lambda>(q, u). (JNum (num_of_rat q), u)) (parse_num (c # r))))"
| "parse_elems 0 s = None"
| "parse_elems (Suc n) s =
     (case parse_value n s of
        None \<Rightarrow> None
      | Some (v, r) \<Rightarrow>
          (if starts_with '','' (skip_ws r)
           then map_option (\<lambda>(vs, u). (v # vs, u)) (parse_elems n (drop 1 (skip_ws r)))
           else if starts_with '']'' (skip_ws r) then Some ([v], drop 1 (skip_ws r))
           else None))"
| "parse_members 0 s = None"
| "parse_members (Suc n) s =
     (if starts_with [CHR 0x22] (skip_ws s) then
        (case parse_chars (drop 1 (skip_ws s)) of
           None \<Rightarrow> None
         | Some (k, r) \<Rightarrow>
             (if starts_with '':'' (skip_ws r) then
                (case parse_value n (drop 1 (skip_ws r)) of
                   None \<Rightarrow> None
                 | Some (v, r2) \<Rightarrow>
                     (if starts_with '','' (skip_ws r2)
                      then map_option (\<lambda>(kvs, u). ((k, v) # kvs, u)) (parse_members n (drop 1 (skip_ws r2)))
                      else if starts_with ''}'' (skip_ws r2) then Some ([(k, v)], drop 1 (skip_ws r2))
                      else None))
              else None))
      else None)"

text \<open>\<open>JSON.parse(s)\<close>: \<open>None\<close> is the \<open>SyntaxError\<close>. An element or member costs two
  nested calls, so the bound is twice the length and one more.\<close>

definition parse_json :: "string \<Rightarrow> jsnum json option" where
  "parse_json s =
     (case parse_value (Suc (2 * length s)) s of
        None \<Rightarrow> None
      | Some (v, r) \<Rightarrow> (if skip_ws r = [] then Some v else None))"

section \<open>The parser reads back what the printer wrote\<close>

lemma hex_val_digit: "d < 16 \<Longrightarrow> hex_val (hex_digit d) = Some d"
  by (auto simp: hex_val_def hex_digit_def Let_def)

lemma hex4_control:
  assumes "of_char c < (32 :: nat)"
  shows "hex4 (CHR ''0'') (CHR ''0'') (hex_digit (of_char c div 16)) (hex_digit (of_char c mod 16)) = Some c"
proof -
  have "hex_val (CHR ''0'') = Some 0" by (simp add: hex_val_def)
  moreover have "of_char c div 16 < (16 :: nat)" using assms by simp
  ultimately show ?thesis
    by (simp add: hex4_def hex_val_digit)
qed

lemma parse_chars_escape:
  "parse_chars (escape_char c @ s) = map_option (\<lambda>(t, r). (c # t, r)) (parse_chars s)"
proof -
  have n: "(of_char c :: nat) < 256" by simp
  show ?thesis
    by (auto simp: escape_char_def simple_escape_def hex4_control split: option.splits)
qed

lemma parse_chars_show:
  "parse_chars (concat (map escape_char s) @ CHR 0x22 # r) = Some (s, r)"
  by (induction s) (auto simp: parse_chars_escape)

text \<open>A text after a value ends it when it cannot extend a number.\<close>

definition stops :: "string \<Rightarrow> bool" where
  "stops r = (r = [] \<or> hd r \<in> {CHR '','', CHR '']'', CHR ''}'', CHR 10})"

lemma stops_facts:
  assumes "stops r"
  shows "takeWhile is_digit r = []" "dropWhile is_digit r = r"
    "parse_frac r = Some ([], r)" "parse_exp r = Some (0, r)"
  using assms by (cases r; auto simp: stops_def is_digit_def parse_frac_def parse_exp_def)+

lemma digit_char_zero: "d < 10 \<Longrightarrow> (digit_char d = CHR ''0'') = (d = 0)"
proof
  assume d: "d < 10" "digit_char d = CHR ''0''"
  then have "of_char (digit_char d) = (of_char (CHR ''0'') :: nat)" by (simp only:)
  then show "d = 0" using d(1) by simp
qed (simp add: digit_char_def char_of_eq_iff)

lemma show_nat_no_zero: "0 < n \<Longrightarrow> hd (show_nat n) \<noteq> CHR ''0''"
proof (induction n rule: show_nat.induct)
  case (1 n)
  show ?case
  proof (cases "n < 10")
    case True
    then show ?thesis using 1 by (subst show_nat.simps) (simp add: digit_char_zero)
  next
    case False
    then have "hd (show_nat (n div 10)) \<noteq> CHR ''0''" using 1 by simp
    then show ?thesis using False by (subst show_nat.simps) simp
  qed
qed

lemma digits_takeWhile:
  assumes "\<forall>c \<in> set ds. is_digit c" "stops r"
  shows "takeWhile is_digit (ds @ r) = ds" "dropWhile is_digit (ds @ r) = r"
  using assms by (auto simp: stops_facts)

lemma parse_nat_num_show:
  assumes "stops r"
  shows "parse_nat_num (show_nat n @ r) = Some (of_nat n, r)"
proof -
  have ds: "\<forall>c \<in> set (show_nat n). is_digit c" using show_nat_digits by blast
  have nz: "\<not> (hd (show_nat n) = CHR ''0'' \<and> tl (show_nat n) \<noteq> [])"
  proof (cases "n = 0")
    case True
    then show ?thesis by (simp add: show_nat.simps)
  qed (simp add: show_nat_no_zero)
  show ?thesis
    using nz by (auto simp: parse_nat_num_def Let_def digits_takeWhile [OF ds assms] stops_facts [OF assms]
        read_show_nat pow10_def)
qed

lemma parse_num_show:
  assumes "stops r"
  shows "parse_num (show_int i @ r) = Some (of_int i, r)"
proof (cases "i < 0")
  case True
  then show ?thesis
    by (simp add: parse_num_def show_int_def parse_nat_num_show [OF assms])
next
  case False
  obtain c t where ct: "show_nat (nat i) = c # t" by (meson neq_Nil_conv show_nat_not_Nil)
  then have "is_digit c" using show_nat_digits [of c "nat i"] by simp
  then have "c \<noteq> CHR ''-''" by (auto simp: is_digit_def)
  then show ?thesis
    using False ct parse_nat_num_show [OF assms, of "nat i"] by (simp add: parse_num_def show_int_def)
qed

lemma show_int_hd: "\<exists>c t. show_int i = c # t \<and> (is_digit c \<or> c = CHR ''-'')"
proof (cases "i < 0")
  case False
  obtain c t where ct: "show_nat (nat i) = c # t" by (meson neq_Nil_conv show_nat_not_Nil)
  then have "is_digit c" using show_nat_digits [of c "nat i"] by simp
  with ct False show ?thesis by (simp add: show_int_def)
qed (simp add: show_int_def)

text \<open>The numbers of a document, and its image after parsing.\<close>

definition safe_doc :: "int json \<Rightarrow> bool" where
  "safe_doc j = (\<forall>n \<in> set_json j. \<bar>n\<bar> < 2 ^ 53)"

definition reread :: "int json \<Rightarrow> jsnum json" where
  "reread j = map_json (\<lambda>n. Fin (of_int n)) j"

lemma skip_ws_hd: "\<not> json_ws c \<Longrightarrow> skip_ws (c # r) = c # r"
  by (simp add: skip_ws_def)

lemma stringify_hd: "\<exists>c t. stringify j = c # t \<and> \<not> json_ws c \<and> c \<notin> {CHR '']'', CHR ''}''}"
proof (cases j)
  case (JNum n)
  obtain c t where "show_int n = c # t" "is_digit c \<or> c = CHR ''-''" using show_int_hd by blast
  with JNum show ?thesis by (auto simp: is_digit_def json_ws_def)
qed (auto simp: json_ws_def show_str_def)


lemma skip_ws_stringify: "skip_ws (stringify j @ r) = stringify j @ r"
  using stringify_hd [of j] by (auto simp: skip_ws_hd)

lemma skip_ws_show_str: "skip_ws (show_str k @ r) = show_str k @ r"
  by (simp add: show_str_def skip_ws_def json_ws_def)

lemma skip_ws_sep: "c \<in> {CHR '','', CHR '']'', CHR ''}'', CHR '':'', CHR 0x22} \<Longrightarrow> skip_ws (c # r) = c # r"
  by (auto simp: skip_ws_def json_ws_def)

lemma stops_sep [simp]: "stops [] " "stops (CHR '','' # r)" "stops (CHR '']'' # r)" "stops (CHR ''}'' # r)"
  by (auto simp: stops_def)

text \<open>What the induction carries: \<open>reads f t v\<close> says that the parser \<open>f\<close>, with a bound of at least
  twice the length of the text \<open>t\<close>, reads \<open>t\<close> as \<open>v\<close> and leaves what follows.\<close>

definition reads :: "string \<Rightarrow> jsnum json \<Rightarrow> bool" where
  "reads t v = (\<forall>n r. 2 * length t \<le> n \<longrightarrow> stops r \<longrightarrow> parse_value n (t @ r) = Some (v, r))"

lemma parse_elems_show:
  assumes "\<And>j. j \<in> set vs \<Longrightarrow> reads (stringify j) (reread j)" "vs \<noteq> []"
    "2 * (length (join '','' (map stringify vs)) + 1) \<le> n"
  shows "parse_elems n (join '','' (map stringify vs) @ CHR '']'' # r) = Some (map reread vs, r)"
  using assms
proof (induction vs arbitrary: n)
  case Nil
  then show ?case by simp
next
  case (Cons j vs)
  obtain m where n: "n = Suc m" using Cons.prems(3) by (cases n) auto
  have j: "reads (stringify j) (reread j)" using Cons.prems(1) by simp
  show ?case
  proof (cases vs)
    case Nil
    then have "parse_value m (stringify j @ CHR '']'' # r) = Some (reread j, CHR '']'' # r)"
      using j Cons.prems(3) n by (simp add: reads_def)
    then show ?thesis using Nil n by (simp add: skip_ws_sep starts_with_def)
  next
    case (Cons k ks)
    let ?rest = "join '','' (map stringify vs)"
    have eq: "join '','' (map stringify (j # vs)) = stringify j @ CHR '','' # ?rest" using Cons by simp
    have "parse_value m (stringify j @ CHR '','' # ?rest @ CHR '']'' # r)
        = Some (reread j, CHR '','' # ?rest @ CHR '']'' # r)"
      using j Cons.prems(3) n unfolding eq by (simp add: reads_def)
    moreover have "parse_elems m (?rest @ CHR '']'' # r) = Some (map reread vs, r)"
      by (rule Cons.IH) (use Cons.prems n eq Cons in auto)
    ultimately show ?thesis unfolding eq n by (simp add: skip_ws_sep starts_with_def)
  qed
qed

abbreviation show_member :: "string \<times> int json \<Rightarrow> string" where
  "show_member \<equiv> \<lambda>(k, v). show_str k @ '':'' @ stringify v"

lemma parse_member_head:
  assumes "reads (stringify j) (reread j)" "2 * length (stringify j) \<le> n" "stops r"
  shows "parse_members (Suc n) (show_member (k, j) @ r) =
      (if starts_with '','' (skip_ws r)
       then map_option (\<lambda>(kvs, u). ((k, reread j) # kvs, u)) (parse_members n (drop 1 (skip_ws r)))
       else if starts_with ''}'' (skip_ws r) then Some ([(k, reread j)], drop 1 (skip_ws r))
       else None)"
proof -
  have "skip_ws (show_member (k, j) @ r)
      = CHR 0x22 # concat (map escape_char k) @ CHR 0x22 # CHR '':'' # stringify j @ r"
    by (simp add: show_str_def skip_ws_sep)
  moreover have "parse_value n (stringify j @ r) = Some (reread j, r)"
    using assms by (simp add: reads_def)
  ultimately show ?thesis
    by (simp add: starts_with_def parse_chars_show skip_ws_sep)
qed

lemma parse_members_show:
  assumes "\<And>k j. (k, j) \<in> set kvs \<Longrightarrow> reads (stringify j) (reread j)" "kvs \<noteq> []"
    "2 * (length (join '','' (map show_member kvs)) + 1) \<le> n"
  shows "parse_members n (join '','' (map show_member kvs) @ CHR ''}'' # r)
    = Some (map (\<lambda>(k, j). (k, reread j)) kvs, r)"
  using assms
proof (induction kvs arbitrary: n)
  case Nil
  then show ?case by simp
next
  case (Cons kj kvs)
  obtain k j where kj: "kj = (k, j)" by force
  obtain m where n: "n = Suc m" using Cons.prems(3) by (cases n) auto
  have j: "reads (stringify j) (reread j)" by (rule Cons.prems(1) [of k]) (simp add: kj)
  show ?case
  proof (cases kvs)
    case Nil
    then have "2 * length (stringify j) \<le> m" using Cons.prems(3) n kj by simp
    from parse_member_head [OF j this, of "CHR ''}'' # r" k]
    show ?thesis using Nil n kj by (simp add: skip_ws_sep starts_with_def)
  next
    case (Cons k' ks)
    let ?rest = "join '','' (map show_member kvs)"
    have eq: "join '','' (map show_member (kj # kvs)) = show_member (k, j) @ CHR '','' # ?rest"
      using Cons kj by simp
    have l: "2 * length (stringify j) \<le> m" using Cons.prems(3) n unfolding eq by simp
    have "parse_members m (?rest @ CHR ''}'' # r) = Some (map (\<lambda>(k, j). (k, reread j)) kvs, r)"
      by (rule Cons.IH) (use Cons.prems n eq Cons in auto)
    then have "parse_members (Suc m) (show_member (k, j) @ CHR '','' # ?rest @ CHR ''}'' # r)
        = Some ((k, reread j) # map (\<lambda>(k, j). (k, reread j)) kvs, r)"
      by (subst parse_member_head [OF j l]) (simp_all add: skip_ws_sep starts_with_def del: parse_members.simps)
    then show ?thesis unfolding eq n unfolding kj by simp
  qed
qed

lemma safe_doc_simps [simp]:
  "safe_doc (JNum n) = (\<bar>n\<bar> < 2 ^ 53)"
  "safe_doc (JArr vs) = (\<forall>v \<in> set vs. safe_doc v)"
  "safe_doc (JObj kvs) = (\<forall>v \<in> snd ` set kvs. safe_doc v)"
  "safe_doc (JStr s)" "safe_doc (JBool b)" "safe_doc JNull"
  by (auto simp: safe_doc_def)

lemma reread_simps [simp]:
  "reread (JNum n) = JNum (Fin (of_int n))"
  "reread (JArr vs) = JArr (map reread vs)"
  "reread (JObj kvs) = JObj (map (\<lambda>(k, v). (k, reread v)) kvs)"
  "reread (JStr s) = JStr s" "reread (JBool b) = JBool b" "reread JNull = JNull"
  by (auto simp: reread_def map_prod_def case_prod_unfold)

lemma parse_value_num:
  assumes "c \<noteq> CHR 0x22" "c \<noteq> CHR ''[''" "c \<noteq> CHR ''{''" "c \<noteq> CHR ''n''" "c \<noteq> CHR ''t''" "c \<noteq> CHR ''f''"
    "\<not> json_ws c"
  shows "parse_value (Suc n) (c # r) = map_option (\<lambda>(q, u). (JNum (num_of_rat q), u)) (parse_num (c # r))"
  using assms by (simp add: skip_ws_hd starts_with_def)

lemma reads_num:
  assumes "\<bar>i\<bar> < 2 ^ 53"
  shows "reads (show_int i) (JNum (Fin (of_int i)))"
  unfolding reads_def
proof (intro allI impI)
  fix n r
  assume n: "2 * length (show_int i) \<le> n" and r: "stops r"
  obtain c t where ct: "show_int i = c # t" "is_digit c \<or> c = CHR ''-''" using show_int_hd by blast
  obtain m where m: "n = Suc m" using n ct by (cases n) auto
  have "c \<noteq> CHR 0x22" "c \<noteq> CHR ''[''" "c \<noteq> CHR ''{''" "c \<noteq> CHR ''n''" "c \<noteq> CHR ''t''" "c \<noteq> CHR ''f''"
    "\<not> json_ws c"
    using ct(2) by (auto simp: is_digit_def json_ws_def)
  note parse_value_num [OF this, of m "t @ r"]
  then show "parse_value n (show_int i @ r) = Some (JNum (Fin (of_int i)), r)"
    using parse_num_show [OF r, of i] ct m num_of_rat_int [OF assms] by simp
qed

lemma reads_literal:
  "reads ''null'' JNull" "reads ''true'' (JBool True)" "reads ''false'' (JBool False)"
proof -
  have "parse_value n (''null'' @ r) = Some (JNull, r)" if "n \<noteq> 0" for n r
    using that by (cases n) (auto simp: skip_ws_def json_ws_def starts_with_def)
  then show "reads ''null'' JNull" by (auto simp: reads_def)
  have "parse_value n (''true'' @ r) = Some (JBool True, r)" if "n \<noteq> 0" for n r
    using that by (cases n) (auto simp: skip_ws_def json_ws_def starts_with_def)
  then show "reads ''true'' (JBool True)" by (auto simp: reads_def)
  have "parse_value n (''false'' @ r) = Some (JBool False, r)" if "n \<noteq> 0" for n r
    using that by (cases n) (auto simp: skip_ws_def json_ws_def starts_with_def)
  then show "reads ''false'' (JBool False)" by (auto simp: reads_def)
qed

lemma reads_stringify: "safe_doc j \<Longrightarrow> reads (stringify j) (reread j)"
proof (induction j)
  case (JNum i)
  then show ?case by (simp add: reads_num)
next
  case (JStr t)
  show ?case unfolding reads_def
  proof (intro allI impI)
    fix n r
    assume "2 * length (stringify (JStr t)) \<le> n"
    then obtain m where "n = Suc m" by (cases n) (auto simp: show_str_def)
    then show "parse_value n (stringify (JStr t) @ r) = Some (reread (JStr t), r)"
      by (simp add: show_str_def skip_ws_sep parse_chars_show)
  qed
next
  case (JArr vs)
  show ?case unfolding reads_def
  proof (intro allI impI)
    fix n r
    assume n: "2 * length (stringify (JArr vs)) \<le> n"
    then obtain m where m: "n = Suc m" by (cases n) auto
    show "parse_value n (stringify (JArr vs) @ r) = Some (reread (JArr vs), r)"
    proof (cases vs)
      case Nil
      then show ?thesis using m by (simp add: skip_ws_def json_ws_def starts_with_def)
    next
      case (Cons v ws)
      let ?body = "join '','' (map stringify vs)"
      have "\<not> starts_with '']'' (skip_ws (?body @ CHR '']'' # r))"
        using Cons stringify_hd [of v] by (cases ws) (auto simp: skip_ws_hd starts_with_def)
      moreover have "parse_elems m (?body @ CHR '']'' # r) = Some (map reread vs, r)"
        by (rule parse_elems_show) (use JArr Cons n m in auto)
      ultimately show ?thesis using m by (simp add: skip_ws_def json_ws_def)
    qed
  qed
next
  case (JObj kvs)
  have mem: "reads (stringify j) (reread j)" if "(k, j) \<in> set kvs" for k j
    using JObj.IH [OF that, of j] JObj.prems that by force
  show ?case unfolding reads_def
  proof (intro allI impI)
    fix n r
    assume n: "2 * length (stringify (JObj kvs)) \<le> n"
    then obtain m where m: "n = Suc m" by (cases n) auto
    show "parse_value n (stringify (JObj kvs) @ r) = Some (reread (JObj kvs), r)"
    proof (cases kvs)
      case Nil
      then show ?thesis using m by (simp add: skip_ws_def json_ws_def starts_with_def)
    next
      case (Cons kv ws)
      let ?body = "join '','' (map show_member kvs)"
      have "\<not> starts_with ''}'' (skip_ws (?body @ CHR ''}'' # r))"
        using Cons by (cases kv; cases ws) (auto simp: show_str_def skip_ws_sep starts_with_def)
      moreover have "parse_members m (?body @ CHR ''}'' # r) = Some (map (\<lambda>(k, j). (k, reread j)) kvs, r)"
        by (rule parse_members_show) (use mem Cons n m in auto)
      ultimately show ?thesis using m by (simp add: skip_ws_def json_ws_def)
    qed
  qed
next
  case JNull
  show ?case using reads_literal(1) by simp
next
  case (JBool b)
  show ?case using reads_literal(2,3) by (cases b) simp_all
qed

theorem parse_stringify:
  assumes "safe_doc j"
  shows "parse_json (stringify j) = Some (reread j)"
proof -
  have "parse_value (Suc (2 * length (stringify j))) (stringify j @ []) = Some (reread j, [])"
    using reads_stringify [OF assms] unfolding reads_def
    by (metis le_SucI order_refl stops_sep(1))
  then show ?thesis by (simp add: parse_json_def skip_ws_def)
qed

declare parse_value.simps [simp del] parse_elems.simps [simp del] parse_members.simps [simp del]

end
