(* ===== verification/GlobPolicy.thy ===== *)
theory GlobPolicy
  imports OrderedRules Json
begin

text \<open>
  The rule language of a policy file, as the engine reads it
  (\<open>engine/internal/evaluator/evaluator.go\<close>): the glob matcher \<open>matchAction\<close> and the ordered
  top-level rules that \<open>EvaluateAgent\<close> tries before anything else. A declarative reading of
  globs (\<open>glob\<close>) is the specification of the matcher.
\<close>

section \<open>Matching an action against a pattern\<close>

text \<open>\<open>strings.Index\<close>, returning the text after the first occurrence.\<close>

fun after_first :: "'a list \<Rightarrow> 'a list \<Rightarrow> 'a list option" where
  "after_first p [] = (if p = [] then Some [] else None)"
| "after_first p (c # s) =
     (if starts_with p (c # s) then Some (drop (length p) (c # s)) else after_first p s)"

text \<open>The loop over the segments after the first: \<open>rest\<close> is what is left of the action.\<close>

fun match_segments :: "string list \<Rightarrow> string \<Rightarrow> bool" where
  "match_segments [] rest = True"
| "match_segments [seg] rest = (seg = [] \<or> ends_with seg rest)"
| "match_segments (seg # seg2 # segs) rest =
     (if seg = [] then match_segments (seg2 # segs) rest
      else (case after_first seg rest of
              None \<Rightarrow> False
            | Some r \<Rightarrow> match_segments (seg2 # segs) r))"

definition match_action :: "string \<Rightarrow> string \<Rightarrow> bool" where
  "match_action pat act =
     (if pat = ''*'' then True
      else if CHR ''*'' \<notin> set pat then pat = act
      else (case split_on (CHR ''*'') pat of
              [] \<Rightarrow> False
            | seg # segs \<Rightarrow>
                (if seg = [] then match_segments segs act
                 else if starts_with seg act then match_segments segs (drop (length seg) act)
                 else False)))"

section \<open>The declarative reading of a glob\<close>

text \<open>A star stands for any text, every other character for itself.\<close>

inductive glob :: "string \<Rightarrow> string \<Rightarrow> bool" where
  glob_Nil: "glob [] []"
| glob_char: "c \<noteq> CHR ''*'' \<Longrightarrow> glob p s \<Longrightarrow> glob (c # p) (c # s)"
| glob_star: "glob p s \<Longrightarrow> glob (CHR ''*'' # p) (u @ s)"

inductive_simps glob_NilE [simp]: "glob [] s"
inductive_simps glob_ConsE: "glob (c # p) s"

lemma glob_star_iff: "glob (CHR ''*'' # p) s \<longleftrightarrow> (\<exists>u v. s = u @ v \<and> glob p v)"
  by (auto simp: glob_ConsE)

lemma glob_literal_append:
  "CHR ''*'' \<notin> set q \<Longrightarrow> glob (q @ p) s \<longleftrightarrow> (\<exists>t. s = q @ t \<and> glob p t)"
  by (induction q arbitrary: s) (auto simp: glob_ConsE)

lemma glob_literal: "CHR ''*'' \<notin> set q \<Longrightarrow> glob q s \<longleftrightarrow> s = q"
  using glob_literal_append [of q "[]" s] by simp

lemma glob_all: "glob ''*'' s"
  using glob_star [OF glob_Nil, of s] by simp

text \<open>\<open>star_join\<close> rebuilds what follows the first segment.\<close>

fun star_join :: "string list \<Rightarrow> string" where
  "star_join [] = []"
| "star_join (seg # segs) = CHR ''*'' # seg @ star_join segs"

lemma split_star_join: "split_on (CHR ''*'') p = seg # segs \<Longrightarrow> p = seg @ star_join segs"
proof (induction p arbitrary: seg segs)
  case Nil
  then show ?case by simp
next
  case (Cons c p)
  obtain w ws where ws: "split_on (CHR ''*'') p = w # ws" by (meson neq_Nil_conv split_on_not_Nil)
  then have p: "p = w @ star_join ws" by (rule Cons.IH)
  from Cons.prems ws have "if c = CHR ''*'' then seg = [] \<and> segs = w # ws else seg = c # w \<and> segs = ws"
    by (auto split: if_splits)
  with p show ?case by (auto split: if_splits)
qed

lemma glob_star_mono: "glob (CHR ''*'' # p) s \<Longrightarrow> glob (CHR ''*'' # p) (u @ s)"
  by (auto simp: glob_star_iff) (metis append.assoc)

lemma glob_star_star: "glob (CHR ''*'' # CHR ''*'' # p) s \<longleftrightarrow> glob (CHR ''*'' # p) s"
  by (auto simp: glob_star_iff) (metis append.assoc append_Nil)+

lemma after_first_Some: "after_first p s = Some r \<Longrightarrow> \<exists>u. s = u @ p @ r"
proof (induction p s arbitrary: r rule: after_first.induct)
  case (1 p)
  then show ?case by (auto split: if_splits)
next
  case (2 p c s)
  show ?case
  proof (cases "starts_with p (c # s)")
    case True
    with 2 have "c # s = [] @ p @ r" by (auto simp: starts_with_iff)
    then show ?thesis by blast
  next
    case False
    with 2 obtain u where "s = u @ p @ r" by auto
    then have "c # s = (c # u) @ p @ r" by simp
    then show ?thesis by blast
  qed
qed

text \<open>The first occurrence leaves the longest rest, so taking it loses nothing.\<close>

lemma after_first_longest:
  assumes "s = u @ p @ v"
  shows "\<exists>r w. after_first p s = Some r \<and> r = w @ v"
  using assms
proof (induction p s arbitrary: u rule: after_first.induct)
  case (1 p)
  then show ?case by simp
next
  case (2 p c s)
  show ?case
  proof (cases "starts_with p (c # s)")
    case True
    with 2 obtain t where t: "c # s = p @ t" by (auto simp: starts_with_iff)
    with 2 have eq: "p @ t = u @ p @ v" by simp
    then have "length (p @ t) = length (u @ p @ v)" by (rule arg_cong)
    then have "length t = length u + length v" by simp
    then have "drop (length u) t = v" using arg_cong [OF eq, of "drop (length u + length p)"]
      by simp
    then have "\<exists>w. t = w @ v" by (metis append_take_drop_id)
    moreover have "after_first p (c # s) = Some t" unfolding after_first.simps using True by (simp add: t)
    ultimately show ?thesis by blast
  next
    case False
    with 2 obtain u' where "u = c # u'" by (cases u) (auto simp: starts_with_iff)
    with 2 False show ?thesis by simp
  qed
qed


lemma match_segments_glob:
  assumes "segs \<noteq> []" "\<forall>seg \<in> set segs. CHR ''*'' \<notin> set seg"
  shows "match_segments segs s \<longleftrightarrow> glob (star_join segs) s"
  using assms
proof (induction segs s rule: match_segments.induct)
  case (1 s)
  then show ?case by simp
next
  case (2 seg s)
  then show ?case
    by (auto simp: glob_star_iff glob_literal ends_with_iff glob_all intro: exI [of _ s])
next
  case (3 seg seg2 segs s)
  let ?p = "star_join (seg2 # segs)"
  have p: "star_join (seg # seg2 # segs) = CHR ''*'' # seg @ ?p" by simp
  show ?case
  proof (cases "seg = []")
    case True
    with 3 show ?thesis by (simp add: glob_star_star)
  next
    case False
    show ?thesis
    proof
      assume m: "match_segments (seg # seg2 # segs) s"
      with False obtain r where r: "after_first seg s = Some r" "match_segments (seg2 # segs) r"
        by (auto split: option.splits)
      with 3 False have "glob ?p r" by auto
      moreover obtain u where "s = u @ seg @ r" using after_first_Some [OF r(1)] by blast
      ultimately show "glob (star_join (seg # seg2 # segs)) s"
        unfolding p glob_star_iff using 3 by (auto simp: glob_literal_append simp del: star_join.simps)
    next
      assume "glob (star_join (seg # seg2 # segs)) s"
      then obtain u v where s: "s = u @ seg @ v" and v: "glob ?p v"
        unfolding p glob_star_iff using 3 by (auto simp: glob_literal_append simp del: star_join.simps)
      obtain r w where r: "after_first seg s = Some r" "r = w @ v"
        using after_first_longest [OF s] by blast
      then have "glob ?p r" using v glob_star_mono by simp
      with 3 False r show "match_segments (seg # seg2 # segs) s" by auto
    qed
  qed
qed

lemma match_action_iff_glob: "match_action pat act \<longleftrightarrow> glob pat act"
proof (cases "pat = ''*'' \<or> CHR ''*'' \<notin> set pat")
  case True
  then show ?thesis by (auto simp: match_action_def glob_all glob_literal)
next
  case False
  obtain seg segs where sp: "split_on (CHR ''*'') pat = seg # segs" by (meson neq_Nil_conv split_on_not_Nil)
  then have pat: "pat = seg @ star_join segs" by (rule split_star_join)
  have no: "CHR ''*'' \<notin> set seg" "\<forall>g \<in> set segs. CHR ''*'' \<notin> set g"
    using split_on_pieces [of _ "CHR ''*''" pat] sp by auto
  have "segs \<noteq> []" using False pat no by auto
  note eq = match_segments_glob [OF this no(2)]
  show ?thesis
    using False sp by (auto simp: match_action_def eq pat glob_literal_append [OF no(1)] starts_with_iff)
qed


section \<open>Top-level rules\<close>

text \<open>\<open>PatternRule\<close>; an absent YAML field is the empty string. The arguments of a safe tool are kept
  as the JSON members they are sent as.\<close>

record pattern_rule =
  rule_id :: string
  rule_match :: string
  rule_actor :: string
  rule_decision :: string
  rule_reason :: string
  rule_safe_tool :: string
  rule_safe_args :: "(string \<times> int json) list"

record engine_decision =
  ed_allowed :: bool
  ed_reason :: string
  ed_review :: bool
  ed_compute :: bool
  ed_safe_tool :: string
  ed_safe_args :: "(string \<times> int json) list"

text \<open>Format \<open>%q\<close> on printable text.\<close>

definition go_quote :: "string \<Rightarrow> string" where
  "go_quote s =
     CHR 0x22 # concat (map (\<lambda>c. if c = CHR 0x22 \<or> c = CHR 0x5C then [CHR 0x5C, c] else [c]) s) @ [CHR 0x22]"

definition rule_reason_text :: "pattern_rule \<Rightarrow> string" where
  "rule_reason_text r =
     (if rule_reason r = [] then ''matched top-level rule '' @ go_quote (rule_id r) else rule_reason r)"

text \<open>The decision of a rule: a word the engine does not know lets the search go on.\<close>

definition rule_verdict :: "pattern_rule \<Rightarrow> engine_decision option" where
  "rule_verdict r =
     (if rule_decision r = ''allow'' then
        Some \<lparr>ed_allowed = True, ed_reason = rule_reason_text r, ed_review = False, ed_compute = False,
              ed_safe_tool = [], ed_safe_args = []\<rparr>
      else if rule_decision r = ''deny'' then
        Some \<lparr>ed_allowed = False, ed_reason = rule_reason_text r, ed_review = False, ed_compute = False,
              ed_safe_tool = [], ed_safe_args = []\<rparr>
      else if rule_decision r = ''human_review'' then
        Some \<lparr>ed_allowed = False, ed_reason = rule_reason_text r, ed_review = True, ed_compute = False,
              ed_safe_tool = [], ed_safe_args = []\<rparr>
      else if rule_decision r = ''compute'' then
        Some \<lparr>ed_allowed = True, ed_reason = rule_reason_text r, ed_review = False, ed_compute = True,
              ed_safe_tool = rule_safe_tool r, ed_safe_args = rule_safe_args r\<rparr>
      else None)"

text \<open>The loop of \<open>EvaluateAgent\<close> over \<open>p.Rules\<close>; \<open>None\<close> when it ends without a decision.\<close>

fun evaluate_rules :: "pattern_rule list \<Rightarrow> string \<times> string \<Rightarrow> engine_decision option" where
  "evaluate_rules [] x = None"
| "evaluate_rules (r # rs) (actor, act) =
     (if \<not> match_action (rule_match r) act then evaluate_rules rs (actor, act)
      else if rule_actor r \<noteq> [] \<and> \<not> match_action (rule_actor r) actor then evaluate_rules rs (actor, act)
      else (case rule_verdict r of
              Some d \<Rightarrow> Some d
            | None \<Rightarrow> evaluate_rules rs (actor, act)))"

text \<open>A rule takes part when it matches action and actor and its decision is a known word.\<close>

definition rule_applies :: "pattern_rule \<Rightarrow> string \<times> string \<Rightarrow> bool" where
  "rule_applies r x =
     (match_action (rule_match r) (snd x)
      \<and> (rule_actor r = [] \<or> match_action (rule_actor r) (fst x))
      \<and> rule_verdict r \<noteq> None)"

interpretation engine_rules: ordered_rules evaluate_rules rule_applies "\<lambda>r. the (rule_verdict r)"
proof unfold_locales
  show "evaluate_rules [] x = None" for x by simp
  show "evaluate_rules (r # rs) x
      = (if rule_applies r x then Some (the (rule_verdict r)) else evaluate_rules rs x)" for r rs x
    by (cases x) (auto simp: rule_applies_def)
qed

end
