(* ===== verification/StarterPolicy.thy ===== *)
theory StarterPolicy
  imports GlobPolicy
begin

text \<open>
  The starter policies that \<open>lelu-mcp\<close> writes on its first run
  (\<open>sdk/mcp/src/local-engine.ts\<close>): the rule tables of both presets, in the order they are
  printed, and what the engine decides under them. A policy is the list of rules that the printed
  YAML document lists; the document's comments and its header are left out. The name of the file,
  which the last rule mentions, is taken to be free of quotes and backslashes.
\<close>

datatype policy_preset = General | CodingAgent

definition preset_name :: "policy_preset \<Rightarrow> string" where
  "preset_name p = (case p of General \<Rightarrow> ''general'' | CodingAgent \<Rightarrow> ''coding-agent'')"

text \<open>\<open>rule(id, match, decision, reason)\<close>.\<close>

definition rule :: "string \<Rightarrow> string \<Rightarrow> string \<Rightarrow> string \<Rightarrow> pattern_rule" where
  "rule i m d reason =
     \<lparr>rule_id = i, rule_match = m, rule_actor = [], rule_decision = d, rule_reason = reason,
      rule_safe_tool = [], rule_safe_args = []\<rparr>"

definition destructive_rules :: "pattern_rule list" where
  "destructive_rules =
     map (\<lambda>(i, m). rule i m ''deny'' ''Destructive operations are blocked by the starter policy.'')
       [(''deny-delete'', ''*delete*''), (''deny-drop'', ''*drop*''), (''deny-wipe'', ''*wipe*''),
        (''deny-destroy'', ''*destroy*''), (''deny-truncate'', ''*truncate*''), (''deny-purge'', ''*purge*''),
        (''deny-erase'', ''*erase*''), (''deny-remove'', ''remove_*''), (''deny-rm'', ''rm_*''),
        (''deny-unlink'', ''unlink_*'')]"

definition exec_rules :: "pattern_rule list" where
  "exec_rules =
     map (\<lambda>(i, m). rule i m ''deny'' ''Code execution requires an explicit allow rule.'')
       [(''deny-exec'', ''*exec*''), (''deny-shell'', ''*shell*''), (''deny-bash'', ''bash*''),
        (''deny-command'', ''*command*''), (''deny-eval'', ''eval*''), (''deny-sql'', ''*sql*'')]"

definition secret_rules :: "pattern_rule list" where
  "secret_rules =
     map (\<lambda>(i, m). rule i m ''human_review''
             ''Actions that touch secrets, credentials or env files need human sign-off.'')
       [(''review-secret'', ''*secret*''), (''review-credential'', ''*credential*''),
        (''review-password'', ''*password*''), (''review-env-file'', ''*env_file*''),
        (''review-dotenv'', ''*dotenv*''), (''review-private-key'', ''*private_key*''),
        (''review-api-key'', ''*api_key*''), (''review-ssh-key'', ''*ssh_key*'')]"

definition outbound_rules :: "pattern_rule list" where
  "outbound_rules =
     [rule ''review-payments'' ''*payment*'' ''human_review'' ''Financial operations require human approval.'',
      rule ''review-transfers'' ''*transfer*'' ''human_review'' ''Financial operations require human approval.'',
      rule ''review-email'' ''send_*'' ''human_review'' ''Outbound communication requires human sign-off.'']"

definition compute_rules :: "pattern_rule list" where
  "compute_rules =
     [\<lparr>rule_id = ''compute-prod-writes'', rule_match = ''write_*_prod'', rule_actor = [],
       rule_decision = ''compute'',
       rule_reason = ''Production writes are redirected to a sandbox path.'',
       rule_safe_tool = ''write_file'',
       rule_safe_args = [(''path'', JStr ''/tmp/lelu-sandbox/{original}''), (''sandboxed'', JBool True)]\<rparr>]"

definition read_allow_rules :: "pattern_rule list" where
  "read_allow_rules =
     map (\<lambda>(i, m). rule i m ''allow'' [])
       [(''allow-read'', ''read_*''), (''allow-get'', ''get_*''), (''allow-list'', ''list_*''),
        (''allow-search'', ''search_*''), (''allow-view'', ''view_*''), (''allow-create'', ''create_*'')]"

definition default_deny :: "string \<Rightarrow> pattern_rule list" where
  "default_deny file =
     [rule ''default-deny'' ''*'' ''deny''
        (''Default-deny: no rule allows this action. Add one to '' @ file @ '' and restart.'')]"

definition coding_review_rules :: "pattern_rule list" where
  "coding_review_rules =
     rule ''deny-force'' ''*force*'' ''deny''
       ''Force operations rewrite shared history and are blocked by the starter policy.''
     # map (\<lambda>(i, m, r). rule i m ''human_review'' r)
       [(''review-install'', ''*install*'', ''Package installs run third-party code; a human approves them.''),
        (''review-push'', ''*push*'', ''Pushing changes leaves this machine; a human approves it.''),
        (''review-merge'', ''*merge*'', ''Merges change shared branches; a human approves them.''),
        (''review-deploy'', ''*deploy*'', ''Deploys need human sign-off.''),
        (''review-publish'', ''*publish*'', ''Publishing needs human sign-off.''),
        (''review-release'', ''*release*'', ''Releases need human sign-off.'')]"

definition coding_allow_rules :: "pattern_rule list" where
  "coding_allow_rules =
     map (\<lambda>(i, m). rule i m ''allow'' [])
       [(''allow-edit'', ''edit_*''), (''allow-write'', ''write_*''), (''allow-run-tests'', ''run_*test*''),
        (''allow-test'', ''test_*''), (''allow-tests-suffix'', ''*_test''), (''allow-tests-suffix2'', ''*_tests''),
        (''allow-lint'', ''lint*''), (''allow-format'', ''format*''), (''allow-build'', ''build*''),
        (''allow-run-build'', ''run_build*''), (''allow-typecheck'', ''typecheck*''),
        (''allow-git-status'', ''git_status''), (''allow-git-diff'', ''git_diff''), (''allow-git-log'', ''git_log''),
        (''allow-git-add'', ''git_add''), (''allow-git-commit'', ''git_commit''), (''allow-git-branch'', ''git_branch''),
        (''allow-git-checkout'', ''git_checkout'')]"

text \<open>\<open>starterPolicy(preset, file)\<close>.\<close>

definition starter_policy :: "policy_preset \<Rightarrow> string \<Rightarrow> pattern_rule list" where
  "starter_policy preset file =
     (let head = destructive_rules @ exec_rules @ secret_rules @ outbound_rules
      in if preset = CodingAgent
         then head @ coding_review_rules @ compute_rules @ coding_allow_rules @ read_allow_rules @ default_deny file
         else head @ compute_rules @ read_allow_rules @ default_deny file)"

text \<open>\<open>resolvePreset(explicit)\<close>: an explicit value, else \<open>LELU_POLICY_PRESET\<close>, else general. The
  error carries the rejected text.\<close>

definition resolve_preset :: "string option \<Rightarrow> string option \<Rightarrow> string + policy_preset" where
  "resolve_preset explicit env =
     (let raw = trim (nullish explicit (nullish env ''general''))
      in if raw = ''general'' then Inr General
         else if raw = ''coding-agent'' then Inr CodingAgent
         else Inl (''Unknown policy preset '' @ [CHR 0x22] @ raw @ [CHR 0x22]
                   @ ''. Use one of: general, coding-agent.''))"

section \<open>What the engine decides under a starter policy\<close>

lemma match_action_contains:
  "CHR ''*'' \<notin> set w \<Longrightarrow> match_action (''*'' @ w @ ''*'') act \<longleftrightarrow> contains w act"
  by (auto simp: match_action_iff_glob glob_star_iff glob_literal_append glob_all contains_iff)

lemma match_action_prefix:
  "CHR ''*'' \<notin> set w \<Longrightarrow> match_action (w @ ''*'') act \<longleftrightarrow> starts_with w act"
  by (auto simp: match_action_iff_glob glob_literal_append glob_all starts_with_iff)

lemma match_action_suffix:
  "CHR ''*'' \<notin> set w \<Longrightarrow> match_action (''*'' @ w) act \<longleftrightarrow> ends_with w act"
  by (auto simp: match_action_iff_glob glob_star_iff glob_literal ends_with_iff)

lemma match_action_star: "match_action ''*'' act"
  by (simp add: match_action_def)

definition is_deny :: "engine_decision \<Rightarrow> bool" where
  "is_deny d = (\<not> ed_allowed d \<and> \<not> ed_review d \<and> \<not> ed_compute d)"

definition is_blocked :: "engine_decision \<Rightarrow> bool" where
  "is_blocked d = (\<not> ed_allowed d \<and> \<not> ed_compute d)"

lemmas rule_tables = destructive_rules_def exec_rules_def secret_rules_def outbound_rules_def
  compute_rules_def read_allow_rules_def default_deny_def coding_review_rules_def coding_allow_rules_def

lemma rule_applies_rule:
  "rule_applies (rule i m d reason) (actor, act) \<longleftrightarrow>
     match_action m act \<and> d \<in> {''allow'', ''deny'', ''human_review'', ''compute''}"
  by (auto simp: rule_applies_def rule_def rule_verdict_def)

lemma verdict_deny: "is_deny (the (rule_verdict (rule i m ''deny'' reason)))"
  by (simp add: rule_verdict_def rule_def is_deny_def)

lemma verdict_review: "is_blocked (the (rule_verdict (rule i m ''human_review'' reason)))"
  by (simp add: rule_verdict_def rule_def is_blocked_def)

lemma deny_blocked: "is_deny d \<Longrightarrow> is_blocked d"
  by (simp add: is_deny_def is_blocked_def)

lemma destructive_exec_deny:
  "r \<in> set (destructive_rules @ exec_rules) \<Longrightarrow> is_deny (the (rule_verdict r))"
  by (auto simp: destructive_rules_def exec_rules_def verdict_deny)

lemma secret_outbound_blocked:
  "r \<in> set (secret_rules @ outbound_rules) \<Longrightarrow> is_blocked (the (rule_verdict r))"
  by (auto simp: secret_rules_def outbound_rules_def verdict_review)

lemma coding_review_blocked:
  "r \<in> set coding_review_rules \<Longrightarrow> is_blocked (the (rule_verdict r))"
  by (auto simp: coding_review_rules_def verdict_review deny_blocked verdict_deny)

lemma starter_policy_split:
  "starter_policy preset file = (destructive_rules @ exec_rules) @ (secret_rules @ outbound_rules) @
     (if preset = CodingAgent then coding_review_rules else []) @ compute_rules @
     (if preset = CodingAgent then coding_allow_rules else []) @ read_allow_rules @ default_deny file"
  by (simp add: starter_policy_def)

text \<open>The words of the guard rules.\<close>

definition destructive_name :: "string \<Rightarrow> bool" where
  "destructive_name act =
     (list_ex (\<lambda>w. contains w act)
        [''delete'', ''drop'', ''wipe'', ''destroy'', ''truncate'', ''purge'', ''erase'',
         ''exec'', ''shell'', ''command'', ''sql'']
      \<or> list_ex (\<lambda>w. starts_with w act) [''remove_'', ''rm_'', ''unlink_'', ''bash'', ''eval''])"

definition secret_name :: "string \<Rightarrow> bool" where
  "secret_name act =
     (list_ex (\<lambda>w. contains w act)
        [''secret'', ''credential'', ''password'', ''env_file'', ''dotenv'', ''private_key'', ''api_key'',
         ''ssh_key'', ''payment'', ''transfer'']
      \<or> starts_with ''send_'' act)"

definition outward_name :: "string \<Rightarrow> bool" where
  "outward_name act =
     list_ex (\<lambda>w. contains w act)
       [''force'', ''install'', ''push'', ''merge'', ''deploy'', ''publish'', ''release'']"

text \<open>A pattern whose only stars are at its ends, as a text test that the simplifier computes.\<close>

lemma glob_contains_shape:
  assumes "p \<noteq> []" "last p = CHR ''*''" "CHR ''*'' \<notin> set (butlast p)"
  shows "match_action (CHR ''*'' # p) act = contains (butlast p) act"
  using match_action_contains [OF assms(3), of act] append_butlast_last_id [OF assms(1)] assms(2) by simp

lemma glob_prefix_shape:
  assumes "p \<noteq> []" "last p = CHR ''*''" "CHR ''*'' \<notin> set (c # butlast p)"
  shows "match_action (c # p) act = starts_with (c # butlast p) act"
  using match_action_prefix [OF assms(3), of act] append_butlast_last_id [OF assms(1)] assms(2) by simp

lemmas glob_shapes = glob_contains_shape glob_prefix_shape

lemma destructive_guard:
  "(\<exists>r \<in> set (destructive_rules @ exec_rules). rule_applies r (actor, act)) \<longleftrightarrow> destructive_name act"
  by (simp add: destructive_rules_def exec_rules_def rule_applies_rule glob_shapes
      destructive_name_def disj_ac)

lemma secret_guard:
  "(\<exists>r \<in> set (secret_rules @ outbound_rules). rule_applies r (actor, act)) \<longleftrightarrow> secret_name act"
  by (simp add: secret_rules_def outbound_rules_def rule_applies_rule glob_shapes
      secret_name_def disj_ac)

lemma outward_guard:
  "(\<exists>r \<in> set coding_review_rules. rule_applies r (actor, act)) \<longleftrightarrow> outward_name act"
  by (simp add: coding_review_rules_def rule_applies_rule glob_shapes outward_name_def disj_ac)

section \<open>Properties\<close>

text \<open>The engine's matcher implements the documented meaning of a pattern. \<open>matchAction\<close>
  splits the pattern at its stars and searches greedily, leftmost first, with anchored first and
  last pieces; for every pattern and every action it accepts exactly the actions the declarative
  reading accepts, in which a star stands for any text, wherever and however often it occurs.\<close>

theorem match_action_is_glob: "match_action pat act \<longleftrightarrow> glob pat act"
  by (rule match_action_iff_glob)

text \<open>Under either starter preset, whoever the actor is, an action whose name mentions a
  destructive or executing operation is denied outright: not allowed, not sent to review and not
  redirected, although later rules of the same file allow prefixes such as \<open>search_*\<close>,
  \<open>create_*\<close> and \<open>run_*test*\<close> that the name may also match.\<close>

theorem starter_denies_destructive:
  assumes "destructive_name act"
  shows "\<exists>d. evaluate_rules (starter_policy preset file) (actor, act) = Some d \<and> is_deny d"
proof -
  obtain r where "r \<in> set (destructive_rules @ exec_rules)" "rule_applies r (actor, act)"
    using destructive_guard assms by blast
  from engine_rules.guard_const [OF this, of is_deny] destructive_exec_deny
  show ?thesis by (simp only: starter_policy_split) blast
qed

theorem starter_denies_destructive_witness:
  "\<exists>d. evaluate_rules (starter_policy CodingAgent ''~/.lelu/policy.yaml'') (''bot'', ''search_and_destroy'') = Some d
       \<and> is_deny d"
  by (rule starter_denies_destructive) (simp add: destructive_name_def starts_with_def)

text \<open>Under either starter preset an action that names a secret, a credential, money or
  outbound mail is never carried out unattended: the engine neither allows nor redirects it. In the
  coding preset the same holds for whatever leaves the machine or changes dependencies (installs,
  pushes, merges, deploys, releases). Hence \<open>read_secrets\<close> is not let through by \<open>read_*\<close>.\<close>

theorem starter_blocks_sensitive:
  assumes "secret_name act \<or> preset = CodingAgent \<and> outward_name act"
  shows "\<exists>d. evaluate_rules (starter_policy preset file) (actor, act) = Some d \<and> is_blocked d"
proof -
  let ?head = "(destructive_rules @ exec_rules) @ (secret_rules @ outbound_rules) @
     (if preset = CodingAgent then coding_review_rules else [])"
  obtain r where r: "r \<in> set ?head" "rule_applies r (actor, act)"
    using assms secret_guard [of actor act] outward_guard [of actor act] by auto
  have "is_blocked (the (rule_verdict q))" if "q \<in> set ?head" for q
    using that destructive_exec_deny [of q] secret_outbound_blocked [of q] coding_review_blocked [of q]
    by (auto intro: deny_blocked split: if_splits)
  with engine_rules.guard_const [OF r, of is_blocked] show ?thesis
    by (simp only: starter_policy_split append_assoc) blast
qed

theorem starter_blocks_sensitive_witness:
  "\<exists>d. evaluate_rules (starter_policy General ''p.yaml'') (''bot'', ''read_secrets'') = Some d \<and> is_blocked d"
  by (rule starter_blocks_sensitive) (simp add: secret_name_def starts_with_def)

text \<open>The starter policies are total and default-deny: every action gets a verdict from the
  rules themselves (the engine never falls through to agent scopes), and an action that is let
  through unchanged names nothing destructive, executing, secret or outbound and matches one of the
  preset's allow patterns.\<close>

theorem starter_total_default_deny:
  "\<exists>d. evaluate_rules (starter_policy preset file) (actor, act) = Some d
       \<and> (is_blocked d \<or> ed_compute d \<or>
            (ed_allowed d \<and> \<not> destructive_name act \<and> \<not> secret_name act
             \<and> \<not> (preset = CodingAgent \<and> outward_name act)
             \<and> (\<exists>r \<in> set (read_allow_rules @ (if preset = CodingAgent then coding_allow_rules else [])).
                  match_action (rule_match r) act)))"
proof -
  let ?deny = "destructive_rules @ exec_rules" and ?ask = "secret_rules @ outbound_rules"
    and ?out = "if preset = CodingAgent then coding_review_rules else []"
    and ?rest = "compute_rules @ (if preset = CodingAgent then coding_allow_rules else []) @ read_allow_rules
        @ default_deny file"
  have policy: "starter_policy preset file = (?deny @ ?ask @ ?out) @ ?rest"
    by (simp add: starter_policy_split)
  have "evaluate_rules (starter_policy preset file) (actor, act) \<noteq> None"
    by (simp add: starter_policy_split engine_rules.decide_None_iff default_deny_def rule_applies_rule
        match_action_star)
  then obtain d where d: "evaluate_rules (starter_policy preset file) (actor, act) = Some d" by blast
  have blocked: "\<forall>q \<in> set (?deny @ ?ask @ ?out). is_blocked (the (rule_verdict q))"
    using destructive_exec_deny secret_outbound_blocked coding_review_blocked
    by (auto intro: deny_blocked split: if_splits)
  have tail: "(\<forall>q \<in> set (?deny @ ?ask @ ?out). \<not> rule_applies q (actor, act))
      \<and> evaluate_rules ?rest (actor, act) = Some d" if "ed_allowed d"
    by (rule engine_rules.from_tail [where P = ed_allowed])
      (use d policy that blocked in \<open>auto simp: is_blocked_def\<close>)
  have "\<exists>r \<in> set (read_allow_rules @ (if preset = CodingAgent then coding_allow_rules else [])).
      match_action (rule_match r) act" if ok: "ed_allowed d" "\<not> ed_compute d"
  proof -
    obtain r where r: "r \<in> set ?rest" "rule_applies r (actor, act)" "the (rule_verdict r) = d"
      using tail [OF ok(1)] engine_rules.decide_in by blast
    have "r \<notin> set compute_rules" "r \<notin> set (default_deny file)"
      using r(3) ok by (auto simp: compute_rules_def default_deny_def rule_def rule_verdict_def)
    with r show ?thesis by (auto simp: rule_applies_def split: if_splits)
  qed
  with d tail show ?thesis
    using destructive_guard [of actor act] secret_guard [of actor act] outward_guard [of actor act]
    by (auto simp: is_blocked_def)
qed

end
