(* ===== verification/PolicyText.thy ===== *)
theory PolicyText
  imports StarterPolicy
begin

text \<open>
  The text of the starter policy file, byte by byte as \<open>starterPolicy\<close> of
  \<open>sdk/mcp/src/local-engine.ts\<close> builds it from the rule tables (comments in UTF-8), and a reader
  of the fields it is made of: the file lists exactly the rules of \<open>starter_policy\<close>.
\<close>

text \<open>A newline, the box-drawing dash of the comments and the long dash, in UTF-8.\<close>

definition nl :: string where
  "nl = [CHR 10]"

definition bar :: "nat \<Rightarrow> string" where
  "bar n = concat (replicate n [CHR 0xE2, CHR 0x94, CHR 0x80])"

definition em_dash :: string where
  "em_dash = [CHR 0xE2, CHR 0x80, CHR 0x94]"

definition dq :: "string \<Rightarrow> string" where
  "dq s = CHR 0x22 # s @ [CHR 0x22]"

text \<open>A template literal of several lines.\<close>

definition unlines :: "string list \<Rightarrow> string" where
  "unlines ls = concat (map (\<lambda>l. l @ nl) ls)"

definition policy_header :: "policy_preset \<Rightarrow> string" where
  "policy_header preset = unlines
     [''version: '' @ dq ''1.0'',
      [],
      ''# '' @ bar 77,
      ''# Lelu starter policy (preset: '' @ preset_name preset @ '') '' @ em_dash @ '' created by lelu-mcp on first run.'',
      ''#'',
      ''# Edit this file, then restart lelu-mcp to apply changes.'',
      ''# Rules are evaluated top to bottom; the first match on the action wins, so'',
      ''# keep deny/review rules above allow rules. Matching is on the action name the'',
      ''# agent supplies '' @ em_dash @ '' list the synonyms you care about.'',
      ''# Globs: '' @ dq ''read_*'' @ '' (prefix), '' @ dq ''*_prod'' @ '' (suffix), '' @ dq ''*delete*'' @ '' (contains), ''
        @ dq ''*'' @ '' (all)'',
      ''# Decisions: allow | deny | human_review | compute'',
      ''#'',
      ''# Omitting the confidence value never loosens a deny: an action this policy'',
      ''# denies stays denied. Other actions without confidence go to human review.'',
      ''# '' @ bar 77,
      [],
      ''rules:'']"

text \<open>\<open>rule(id, match, decision, reason)\<close>: the reason line only when there is a reason.\<close>

definition rule_text :: "pattern_rule \<Rightarrow> string" where
  "rule_text r =
     ''  - id: '' @ rule_id r @ nl @ ''    match: '' @ dq (rule_match r) @ nl
     @ ''    decision: '' @ rule_decision r @ nl
     @ (if rule_reason r = [] then [] else ''    reason: '' @ dq (rule_reason r) @ nl)"

definition rules_text :: "pattern_rule list \<Rightarrow> string" where
  "rules_text rs = concat (map rule_text rs)"

definition destructive_text :: string where
  "destructive_text =
     unlines [''  # '' @ bar 2 @ '' Destructive operations are always denied (synonyms included) '' @ bar 8]
     @ rules_text destructive_rules"

definition exec_text :: string where
  "exec_text =
     unlines [[],
              ''  # '' @ bar 2 @ '' Shell / code / SQL execution is denied by default '' @ bar 19]
     @ rules_text exec_rules"

definition secret_text :: string where
  "secret_text =
     unlines [[],
              ''  # '' @ bar 2 @ '' Secrets: checked before the allow prefixes, so '' @ dq ''read_secrets'' @ '' and '' @ bar 3,
              ''  #    '' @ dq ''get_aws_credentials'' @ '' are not allowed by '' @ dq ''read_*'' @ '' / '' @ dq ''get_*'' @ '' '' @ bar 10]
     @ rules_text secret_rules"

definition outbound_text :: string where
  "outbound_text =
     unlines [[],
              ''  # '' @ bar 2 @ '' Money and outbound communication need a human '' @ bar 25]
     @ rules_text outbound_rules"

text \<open>The one rule that is written out, with its safe tool.\<close>

definition compute_text :: string where
  "compute_text = unlines
     [[],
      ''  # '' @ bar 2 @ '' Risky writes are redirected to a sandbox instead of blocked '' @ bar 11,
      ''  - id: compute-prod-writes'',
      ''    match: '' @ dq ''write_*_prod'',
      ''    decision: compute'',
      ''    safe_tool: write_file'',
      ''    safe_args:'',
      ''      path: '' @ dq ''/tmp/lelu-sandbox/{original}'',
      ''      sandboxed: true'',
      ''    reason: '' @ dq ''Production writes are redirected to a sandbox path.'']"

definition read_allow_text :: string where
  "read_allow_text =
     unlines [[],
              ''  # '' @ bar 2 @ '' Read-only and low-risk operations are allowed '' @ bar 25]
     @ rules_text read_allow_rules"

definition default_deny_text :: "string \<Rightarrow> string" where
  "default_deny_text file =
     unlines [[],
              ''  # '' @ bar 2 @ '' Everything else: default deny '' @ bar 42]
     @ rules_text (default_deny file)"

definition coding_review_text :: string where
  "coding_review_text =
     unlines [[],
              ''  # '' @ bar 2 @ '' Leaves the machine or changes dependencies: a human decides '' @ bar 11]
     @ rules_text coding_review_rules"

definition coding_allow_text :: string where
  "coding_allow_text =
     unlines [[],
              ''  # '' @ bar 2 @ '' The everyday coding loop is allowed '' @ bar 35]
     @ rules_text coding_allow_rules"

definition starter_policy_text :: "policy_preset \<Rightarrow> string \<Rightarrow> string" where
  "starter_policy_text preset file =
     (let head = policy_header preset @ destructive_text @ exec_text @ secret_text @ outbound_text
      in if preset = CodingAgent
         then head @ coding_review_text @ compute_text @ coding_allow_text @ read_allow_text @ default_deny_text file
         else head @ compute_text @ read_allow_text @ default_deny_text file)"

section \<open>Reading the fields back\<close>

text \<open>The lines of a text that ends in a newline.\<close>

definition text_lines :: "string \<Rightarrow> string list" where
  "text_lines s = butlast (split_on (CHR 10) s)"

definition unquote :: "string \<Rightarrow> string" where
  "unquote s = butlast (tl s)"

text \<open>One line, read into the rules collected so far (the last one first): an item starts a
  rule, a field belongs to the last rule, everything else (comments, blank lines, the version) is
  skipped.\<close>

definition read_line :: "string \<Rightarrow> pattern_rule list \<Rightarrow> pattern_rule list" where
  "read_line l rs =
     (if starts_with ''  - id: '' l then rule (drop 8 l) [] [] [] # rs
      else (case rs of
              [] \<Rightarrow> []
            | r # rest \<Rightarrow>
                (if starts_with ''    match: '' l then r\<lparr>rule_match := unquote (drop 11 l)\<rparr> # rest
                 else if starts_with ''    decision: '' l then r\<lparr>rule_decision := drop 14 l\<rparr> # rest
                 else if starts_with ''    reason: '' l then r\<lparr>rule_reason := unquote (drop 12 l)\<rparr> # rest
                 else if starts_with ''    safe_tool: '' l then r\<lparr>rule_safe_tool := drop 15 l\<rparr> # rest
                 else if starts_with ''      path: '' l
                   then r\<lparr>rule_safe_args := rule_safe_args r @ [(''path'', JStr (unquote (drop 12 l)))]\<rparr> # rest
                 else if starts_with ''      sandboxed: true'' l
                   then r\<lparr>rule_safe_args := rule_safe_args r @ [(''sandboxed'', JBool True)]\<rparr> # rest
                 else rs)))"

definition read_lines :: "string list \<Rightarrow> pattern_rule list \<Rightarrow> pattern_rule list" where
  "read_lines ls rs = fold read_line ls rs"

definition read_policy :: "string \<Rightarrow> pattern_rule list" where
  "read_policy s = rev (read_lines (text_lines s) [])"

lemma split_on_append_gen:
  "split_on c (s @ c # t) = split_on c s @ split_on c t"
proof (induction s)
  case Nil
  then show ?case by simp
next
  case (Cons x s)
  obtain w ws where "split_on c s = w # ws" by (meson neq_Nil_conv split_on_not_Nil)
  with Cons show ?case by simp
qed

definition whole_lines :: "string \<Rightarrow> bool" where
  "whole_lines s = (s = [] \<or> last s = CHR 10)"

lemma text_lines_append: "whole_lines s \<Longrightarrow> text_lines (s @ t) = text_lines s @ text_lines t"
proof (cases "s = []")
  case True
  then show ?thesis by (simp add: text_lines_def)
next
  case False
  assume "whole_lines s"
  with False obtain u where s: "s = u @ [CHR 10]" by (metis append_butlast_last_id whole_lines_def)
  have "split_on (CHR 10) s = split_on (CHR 10) u @ [[]]"
    using split_on_append_gen [of "CHR 10" u "[]"] s by simp
  moreover have "split_on (CHR 10) (s @ t) = split_on (CHR 10) u @ split_on (CHR 10) t"
    using split_on_append_gen [of "CHR 10" u t] s by simp
  ultimately show ?thesis by (simp add: text_lines_def butlast_append)
qed

lemma text_lines_line: "CHR 10 \<notin> set l \<Longrightarrow> text_lines (l @ nl @ t) = l # text_lines t"
  by (simp add: text_lines_def nl_def split_on_append)

text \<open>\<open>reads_as s rs\<close>: the text \<open>s\<close> is whole lines, and reading them adds the rules \<open>rs\<close>.\<close>

definition reads_as :: "string \<Rightarrow> pattern_rule list \<Rightarrow> bool" where
  "reads_as s rs = (whole_lines s \<and> (\<forall>acc. read_lines (text_lines s) acc = rev rs @ acc))"

lemma reads_as_append: "reads_as s rs \<Longrightarrow> reads_as t qs \<Longrightarrow> reads_as (s @ t) (rs @ qs)"
  by (auto simp: reads_as_def text_lines_append read_lines_def) (auto simp: whole_lines_def last_append)

lemma reads_as_concat: "\<forall>r \<in> set rs. reads_as (rule_text r) [r] \<Longrightarrow> reads_as (rules_text rs) rs"
proof (induction rs)
  case Nil
  then show ?case by (simp add: reads_as_def rules_text_def whole_lines_def text_lines_def read_lines_def)
next
  case (Cons r rs)
  then have "reads_as (rule_text r @ rules_text rs) ([r] @ rs)" by (intro reads_as_append) auto
  then show ?case by (simp add: rules_text_def)
qed

text \<open>Lines that are no field at all.\<close>

definition skipped :: "string \<Rightarrow> bool" where
  "skipped l =
     list_all (\<lambda>p. \<not> starts_with p l)
       [''  - id: '', ''    match: '', ''    decision: '', ''    reason: '', ''    safe_tool: '', ''      path: '',
        ''      sandboxed: true'']"

lemma read_line_skipped: "skipped l \<Longrightarrow> read_line l acc = acc"
  by (cases acc) (auto simp: skipped_def read_line_def)

lemma read_lines_skipped: "list_all skipped ls \<Longrightarrow> read_lines ls acc = acc"
  by (induction ls arbitrary: acc) (auto simp: read_lines_def read_line_skipped)

lemma reads_as_comment: "whole_lines s \<Longrightarrow> list_all skipped (text_lines s) \<Longrightarrow> reads_as s []"
  by (simp add: reads_as_def read_lines_skipped)

lemma unquote_dq [simp]: "unquote (dq s) = s"
  by (simp add: unquote_def dq_def)

lemma nl_text [simp]: "last nl = CHR 10" "nl \<noteq> []"
  by (auto simp: nl_def)

definition one_line :: "string \<Rightarrow> bool" where
  "one_line s = (CHR 10 \<notin> set s)"

lemma text_lines_field:
  "one_line l \<Longrightarrow> one_line x \<Longrightarrow> text_lines (l @ x @ nl @ t) = (l @ x) # text_lines t"
  using text_lines_line [of "l @ x" t] by (simp add: one_line_def)

lemma text_lines_Nil [simp]: "text_lines [] = []"
  by (simp add: text_lines_def)

lemma one_line_dq [simp]: "one_line (dq s) = one_line s"
  by (simp add: one_line_def dq_def)

lemma text_lines_rule:
  assumes "one_line i" "one_line m" "one_line d" "one_line reason"
  shows "text_lines (rule_text (rule i m d reason))
    = [''  - id: '' @ i, ''    match: '' @ dq m, ''    decision: '' @ d]
      @ (if reason = [] then [] else [''    reason: '' @ dq reason])"
proof -
  have head: "one_line ''  - id: ''" "one_line ''    match: ''" "one_line ''    decision: ''" "one_line ''    reason: ''"
    by (simp_all add: one_line_def)
  have last: "text_lines (''    reason: '' @ dq reason @ nl @ []) = [''    reason: '' @ dq reason]"
    by (subst text_lines_field) (use assms head in simp_all)
  show ?thesis
    unfolding rule_text_def
    using assms head last
    by (simp add: rule_def text_lines_field del: append_Cons append.simps)
qed

lemma reads_as_rule:
  assumes "one_line i" "one_line m" "one_line d" "one_line reason"
  shows "reads_as (rule_text (rule i m d reason)) [rule i m d reason]"
proof -
  have "whole_lines (rule_text (rule i m d reason))"
    by (simp add: whole_lines_def rule_text_def nl_def)
  moreover have "read_lines (text_lines (rule_text (rule i m d reason))) acc = rule i m d reason # acc" for acc
    unfolding text_lines_rule [OF assms]
    by (simp add: read_lines_def read_line_def starts_with_def rule_def)
  ultimately show ?thesis by (simp add: reads_as_def)
qed

definition plain_rules :: "pattern_rule list \<Rightarrow> bool" where
  "plain_rules rs = list_all (\<lambda>r. r = rule (rule_id r) (rule_match r) (rule_decision r) (rule_reason r)
     \<and> one_line (rule_id r) \<and> one_line (rule_match r) \<and> one_line (rule_decision r) \<and> one_line (rule_reason r)) rs"

lemma reads_as_rules: "plain_rules rs \<Longrightarrow> reads_as (rules_text rs) rs"
  by (rule reads_as_concat) (auto simp: plain_rules_def list_all_iff dest!: bspec, metis reads_as_rule)

lemma text_lines_unlines: "list_all one_line ls \<Longrightarrow> text_lines (unlines ls) = ls"
proof (induction ls)
  case (Cons l ls)
  have "unlines (l # ls) = l @ nl @ unlines ls" by (simp add: unlines_def)
  with Cons show ?case by (simp add: text_lines_line one_line_def)
qed (simp add: unlines_def)

lemma whole_lines_unlines: "whole_lines (unlines ls)"
  by (cases ls rule: rev_cases) (auto simp: unlines_def whole_lines_def)

lemma reads_as_unlines: "list_all one_line ls \<Longrightarrow> list_all skipped ls \<Longrightarrow> reads_as (unlines ls) []"
  by (rule reads_as_comment) (simp_all add: whole_lines_unlines text_lines_unlines)

lemma reads_as_section:
  assumes "list_all one_line ls" "list_all skipped ls" "plain_rules rs"
  shows "reads_as (unlines ls @ rules_text rs) rs"
  using reads_as_append [OF reads_as_unlines [OF assms(1,2)] reads_as_rules [OF assms(3)]] by simp

lemma one_line_simps [simp]:
  "one_line []" "one_line (c # l) = (c \<noteq> CHR 10 \<and> one_line l)" "one_line (l @ t) = (one_line l \<and> one_line t)"
  "one_line (bar n)" "one_line em_dash" "one_line (preset_name p)"
  by (auto simp: one_line_def bar_def em_dash_def preset_name_def split: policy_preset.splits)

lemma skipped_simps [simp]:
  "skipped []" "skipped (CHR ''#'' # l)" "skipped (CHR '' '' # CHR '' '' # CHR ''#'' # l)"
  "skipped (CHR ''v'' # l)" "skipped (CHR ''r'' # l)"
  by (auto simp: skipped_def starts_with_def)

lemma plain_tables:
  "plain_rules destructive_rules" "plain_rules exec_rules" "plain_rules secret_rules"
  "plain_rules outbound_rules" "plain_rules read_allow_rules" "plain_rules coding_review_rules"
  "plain_rules coding_allow_rules"
  by (simp_all add: plain_rules_def rule_tables rule_def one_line_def)

lemma plain_default: "one_line file \<Longrightarrow> plain_rules (default_deny file)"
  by (simp add: plain_rules_def default_deny_def rule_def one_line_def)

lemma reads_as_header: "reads_as (policy_header p) []"
  unfolding policy_header_def by (rule reads_as_unlines) simp_all

lemma reads_as_sections:
  "reads_as destructive_text destructive_rules" "reads_as exec_text exec_rules"
  "reads_as secret_text secret_rules" "reads_as outbound_text outbound_rules"
  "reads_as read_allow_text read_allow_rules" "reads_as coding_review_text coding_review_rules"
  "reads_as coding_allow_text coding_allow_rules"
  unfolding destructive_text_def exec_text_def secret_text_def outbound_text_def read_allow_text_def
    coding_review_text_def coding_allow_text_def
  by (rule reads_as_section; simp add: plain_tables)+

lemma reads_as_default: "one_line file \<Longrightarrow> reads_as (default_deny_text file) (default_deny file)"
  unfolding default_deny_text_def by (rule reads_as_section) (simp_all add: plain_default)

lemma reads_as_compute: "reads_as compute_text compute_rules"
proof -
  have "text_lines compute_text =
     [[],
      ''  # '' @ bar 2 @ '' Risky writes are redirected to a sandbox instead of blocked '' @ bar 11,
      ''  - id: compute-prod-writes'',
      ''    match: '' @ dq ''write_*_prod'',
      ''    decision: compute'',
      ''    safe_tool: write_file'',
      ''    safe_args:'',
      ''      path: '' @ dq ''/tmp/lelu-sandbox/{original}'',
      ''      sandboxed: true'',
      ''    reason: '' @ dq ''Production writes are redirected to a sandbox path.'']"
    unfolding compute_text_def by (rule text_lines_unlines) simp
  then show ?thesis
    by (simp add: reads_as_def compute_text_def whole_lines_unlines compute_rules_def)
      (simp add: read_lines_def read_line_def starts_with_def rule_def split: list.splits)
qed

text \<open>The file that \<open>lelu-mcp\<close> writes on its first run says what the rule tables say: reading
  the rule fields of the printed document back, line by line, gives the rules of the preset, all of
  them, in the same order and with the same patterns, decisions, reasons and safe tool.\<close>

theorem starter_policy_text_reads_back:
  assumes "one_line file"
  shows "read_policy (starter_policy_text preset file) = starter_policy preset file"
proof -
  note rs = reads_as_sections reads_as_compute reads_as_default [OF assms]
  have "reads_as (starter_policy_text preset file) ([] @ starter_policy preset file)"
    unfolding starter_policy_text_def starter_policy_def Let_def append_assoc
    by (cases preset) (simp_all only: policy_preset.distinct if_True if_False refl simp_thms,
      (intro reads_as_append [OF reads_as_header] reads_as_append rs)+)
  then show ?thesis by (simp add: reads_as_def read_policy_def)
qed

theorem starter_policy_text_reads_back_witness:
  "read_policy (starter_policy_text General ''~/.lelu/policy.yaml'') = starter_policy General ''~/.lelu/policy.yaml''"
  by (rule starter_policy_text_reads_back) simp

end
