(* ===== verification/Effects.thy ===== *)
theory Effects
  imports Prelude
begin

text \<open>
  Programs that read and change a state and may throw. A thrown error does not undo what was
  changed before it, as in the source. A state that extends \<open>io\<close> carries a schedule of failures:
  every call that leaves the process (a query, a file operation) takes the next entry of the
  schedule and throws when it is \<open>True\<close>; an empty schedule means that nothing fails any more.
  \<open>preserves\<close> is the judgement the invariants are proved with, one rule per construct, in the
  collection \<open>pres\<close>; \<open>outcome\<close> is the judgement for what a program returns.
\<close>

named_theorems pres
named_theorems prog_simps

type_synonym ('s, 'e, 'a) prog = "'s \<Rightarrow> ('e + 'a) \<times> 's"

definition ret :: "'a \<Rightarrow> ('s, 'e, 'a) prog" where
  "ret x = (\<lambda>s. (Inr x, s))"

definition throw :: "'e \<Rightarrow> ('s, 'e, 'a) prog" where
  "throw e = (\<lambda>s. (Inl e, s))"

definition andthen :: "('s, 'e, 'a) prog \<Rightarrow> ('a \<Rightarrow> ('s, 'e, 'b) prog) \<Rightarrow> ('s, 'e, 'b) prog" where
  "andthen m f = (\<lambda>s. case m s of (Inl e, s') \<Rightarrow> (Inl e, s') | (Inr x, s') \<Rightarrow> f x s')"

definition gets :: "('s \<Rightarrow> 'a) \<Rightarrow> ('s, 'e, 'a) prog" where
  "gets f = (\<lambda>s. (Inr (f s), s))"

definition modify :: "('s \<Rightarrow> 's) \<Rightarrow> ('s, 'e, unit) prog" where
  "modify f = (\<lambda>s. (Inr (), f s))"

text \<open>\<open>try { m } catch (e) { h(e) }\<close>.\<close>

definition try_catch :: "('s, 'e, 'a) prog \<Rightarrow> ('e \<Rightarrow> ('s, 'f, 'a) prog) \<Rightarrow> ('s, 'f, 'a) prog" where
  "try_catch m h = (\<lambda>s. case m s of (Inl e, s') \<Rightarrow> h e s' | (Inr x, s') \<Rightarrow> (Inr x, s'))"

text \<open>\<open>try { m } finally { f }\<close>, for a \<open>f\<close> that cannot throw.\<close>

definition try_finally :: "('s, 'e, 'a) prog \<Rightarrow> ('s \<Rightarrow> 's) \<Rightarrow> ('s, 'e, 'a) prog" where
  "try_finally m f = (\<lambda>s. let (r, s') = m s in (r, f s'))"

text \<open>\<open>for (const x of xs) await f(x)\<close>.\<close>

fun for_each :: "('a \<Rightarrow> ('s, 'e, unit) prog) \<Rightarrow> 'a list \<Rightarrow> ('s, 'e, unit) prog" where
  "for_each f [] = ret ()"
| "for_each f (x # xs) = andthen (f x) (\<lambda>_. for_each f xs)"

section \<open>Failure schedules\<close>

record io = faults :: "bool list"

definition next_fault :: "('r io_scheme, 'e, bool) prog" where
  "next_fault = (\<lambda>s. (Inr (faults s \<noteq> [] \<and> hd (faults s)), s\<lparr>faults := tl (faults s)\<rparr>))"

definition may_fail :: "'e \<Rightarrow> ('r io_scheme, 'e, unit) prog" where
  "may_fail e = andthen next_fault (\<lambda>b. if b then throw e else ret ())"

section \<open>Evaluation\<close>

lemma andthen_ret [simp]: "andthen (ret x) f = f x"
  by (simp add: andthen_def ret_def)

lemma andthen_throw [simp]: "andthen (throw e) f = throw e"
  by (simp add: andthen_def throw_def)

lemma andthen_assoc: "andthen (andthen m f) g = andthen m (\<lambda>x. andthen (f x) g)"
  by (auto simp: andthen_def fun_eq_iff split: prod.splits sum.splits)

lemma ret_apply [simp]: "ret x s = (Inr x, s)"
  by (simp add: ret_def)

lemma throw_apply [simp]: "throw e s = (Inl e, s)"
  by (simp add: throw_def)

lemma gets_apply [simp]: "gets f s = (Inr (f s), s)"
  by (simp add: gets_def)

lemma modify_apply [simp]: "modify f s = (Inr (), f s)"
  by (simp add: modify_def)

lemma andthen_apply: "andthen m f s = (case m s of (Inl e, s') \<Rightarrow> (Inl e, s') | (Inr x, s') \<Rightarrow> f x s')"
  by (simp add: andthen_def)

lemma andthen_Inr: "m s = (Inr x, s') \<Longrightarrow> andthen m f s = f x s'"
  by (simp add: andthen_def)

lemma andthen_Inl: "m s = (Inl e, s') \<Longrightarrow> andthen m f s = (Inl e, s')"
  by (simp add: andthen_def)

lemma andthen_gets [simp]: "andthen (gets f) g s = g (f s) s"
  by (simp add: andthen_def)

lemma andthen_modify [simp]: "andthen (modify f) g s = g () (f s)"
  by (simp add: andthen_def)

lemma try_catch_apply:
  "try_catch m h s = (case m s of (Inl e, s') \<Rightarrow> h e s' | (Inr x, s') \<Rightarrow> (Inr x, s'))"
  by (simp add: try_catch_def)

lemma may_fail_quiet: "faults s = [] \<Longrightarrow> may_fail e s = (Inr (), s)"
  by (simp add: may_fail_def next_fault_def andthen_apply)

lemma may_fail_cases:
  obtains "may_fail e s = (Inl e, s\<lparr>faults := tl (faults s)\<rparr>)"
  | "may_fail e s = (Inr (), s\<lparr>faults := tl (faults s)\<rparr>)"
  by (cases "faults s \<noteq> [] \<and> hd (faults s)") (auto simp: may_fail_def next_fault_def andthen_apply)

section \<open>Invariants\<close>

definition preserves :: "('s \<Rightarrow> bool) \<Rightarrow> ('s, 'e, 'a) prog \<Rightarrow> bool" where
  "preserves I m = (\<forall>s. I s \<longrightarrow> I (snd (m s)))"

lemma preservesD: "preserves I m \<Longrightarrow> I s \<Longrightarrow> m s = (r, s') \<Longrightarrow> I s'"
  by (metis preserves_def snd_conv)

lemma preserves_ret [pres]: "preserves I (ret x)"
  by (simp add: preserves_def)

lemma preserves_throw [pres]: "preserves I (throw e)"
  by (simp add: preserves_def)

lemma preserves_gets [pres]: "preserves I (gets f)"
  by (simp add: preserves_def)

lemma preserves_modify: "(\<And>s. I s \<Longrightarrow> I (f s)) \<Longrightarrow> preserves I (modify f)"
  by (simp add: preserves_def)

lemma preserves_andthen [pres]:
  assumes "preserves I m" "\<And>x. preserves I (f x)"
  shows "preserves I (andthen m f)"
  unfolding preserves_def andthen_def
proof (intro allI impI)
  fix s assume s: "I s"
  obtain r s' where m: "m s = (r, s')" by force
  then have "I s'" using assms(1) s by (metis preservesD)
  then show "I (snd (case m s of (Inl e, s') \<Rightarrow> (Inl e, s') | (Inr x, s') \<Rightarrow> f x s'))"
    using m assms(2) by (auto simp: preserves_def split: sum.splits)
qed

lemma preserves_try [pres]:
  assumes "preserves I m" "\<And>e. preserves I (h e)"
  shows "preserves I (try_catch m h)"
  unfolding preserves_def try_catch_def
proof (intro allI impI)
  fix s assume s: "I s"
  obtain r s' where m: "m s = (r, s')" by force
  then have "I s'" using assms(1) s by (metis preservesD)
  then show "I (snd (case m s of (Inl e, s') \<Rightarrow> h e s' | (Inr x, s') \<Rightarrow> (Inr x, s')))"
    using m assms(2) by (auto simp: preserves_def split: sum.splits)
qed

lemma preserves_if [pres]: "(b \<Longrightarrow> preserves I m) \<Longrightarrow> (\<not> b \<Longrightarrow> preserves I n) \<Longrightarrow> preserves I (if b then m else n)"
  by simp

lemma preserves_case_option [pres]:
  "(x = None \<Longrightarrow> preserves I m) \<Longrightarrow> (\<And>y. x = Some y \<Longrightarrow> preserves I (f y))
    \<Longrightarrow> preserves I (case x of None \<Rightarrow> m | Some y \<Rightarrow> f y)"
  by (cases x) auto

lemma preserves_case_prod [pres]:
  "(\<And>a b. p = (a, b) \<Longrightarrow> preserves I (f a b)) \<Longrightarrow> preserves I (case p of (a, b) \<Rightarrow> f a b)"
  by (cases p) auto

lemma preserves_case_list [pres]:
  "(x = [] \<Longrightarrow> preserves I m) \<Longrightarrow> (\<And>y ys. x = y # ys \<Longrightarrow> preserves I (f y ys))
    \<Longrightarrow> preserves I (case x of [] \<Rightarrow> m | y # ys \<Rightarrow> f y ys)"
  by (cases x) auto

lemma preserves_case_sum [pres]:
  "(\<And>y. x = Inl y \<Longrightarrow> preserves I (f y)) \<Longrightarrow> (\<And>y. x = Inr y \<Longrightarrow> preserves I (g y))
    \<Longrightarrow> preserves I (case x of Inl y \<Rightarrow> f y | Inr y \<Rightarrow> g y)"
  by (cases x) auto

lemma preserves_Let [pres]: "preserves I (f x) \<Longrightarrow> preserves I (Let x f)"
  by simp

lemma preserves_for_each [pres]: "(\<And>x. preserves I (f x)) \<Longrightarrow> preserves I (for_each f xs)"
  by (induction xs) (auto intro: pres)

lemma preserves_may_fail [pres]:
  "(\<And>s. I s \<Longrightarrow> I (s\<lparr>faults := tl (faults s)\<rparr>)) \<Longrightarrow> preserves I (may_fail e)"
  unfolding preserves_def may_fail_def next_fault_def andthen_def by auto

section \<open>Outcomes\<close>

text \<open>From a state that satisfies \<open>P\<close>: a result satisfies \<open>Q\<close>, an error \<open>E\<close>.\<close>

definition outcome :: "('s \<Rightarrow> bool) \<Rightarrow> ('s, 'e, 'a) prog \<Rightarrow> ('a \<Rightarrow> 's \<Rightarrow> bool) \<Rightarrow> ('e \<Rightarrow> 's \<Rightarrow> bool) \<Rightarrow> bool" where
  "outcome P m Q E = (\<forall>s. P s \<longrightarrow> (case m s of (Inl e, s') \<Rightarrow> E e s' | (Inr x, s') \<Rightarrow> Q x s'))"

lemma outcome_andthen:
  assumes "outcome P m R E" "\<And>x. outcome (R x) (f x) Q E"
  shows "outcome P (andthen m f) Q E"
  using assms unfolding outcome_def andthen_def by (fastforce split: prod.splits sum.splits)

lemma outcome_Inr: "outcome P m Q E \<Longrightarrow> P s \<Longrightarrow> m s = (Inr x, s') \<Longrightarrow> Q x s'"
  by (auto simp: outcome_def dest!: spec [of _ s])

lemma outcome_Inl: "outcome P m Q E \<Longrightarrow> P s \<Longrightarrow> m s = (Inl e, s') \<Longrightarrow> E e s'"
  by (auto simp: outcome_def dest!: spec [of _ s])

lemma outcome_ret: "(\<And>s. P s \<Longrightarrow> Q x s) \<Longrightarrow> outcome P (ret x) Q E"
  by (simp add: outcome_def)

lemma outcome_throw: "(\<And>s. P s \<Longrightarrow> E e s) \<Longrightarrow> outcome P (throw e) Q E"
  by (simp add: outcome_def)

lemma outcome_if:
  "(b \<Longrightarrow> outcome P m Q E) \<Longrightarrow> (\<not> b \<Longrightarrow> outcome P n Q E) \<Longrightarrow> outcome P (if b then m else n) Q E"
  by simp

end
