(* ===== verification/LocalEngine.thy ===== *)
theory LocalEngine
  imports PolicyText Effects
begin

text \<open>
  The local engine of \<open>lelu-mcp\<close> (\<open>sdk/mcp/src/local-engine.ts\<close>) and its discovery by the SDK
  (\<open>sdk/typescript/src/local.ts\<close>): resolving, downloading and verifying the engine binary, the
  policy file and the local key, starting the child and waiting for it, and the record
  \<open>engine.json\<close> that other processes read. Files are a map from paths to contents, paths are POSIX
  paths. The network (\<open>fetch\<close>) and SHA-256 are arguments.
\<close>

section \<open>Paths\<close>

text \<open>\<open>path.join\<close>: empty parts are dropped, the rest is joined and normalised.\<close>

fun resolve_segments :: "bool \<Rightarrow> string list \<Rightarrow> string list \<Rightarrow> string list" where
  "resolve_segments absolute stack [] = rev stack"
| "resolve_segments absolute stack (seg # segs) =
     (if seg = [] \<or> seg = ''.'' then resolve_segments absolute stack segs
      else if seg = ''..'' then
        (case stack of
           [] \<Rightarrow> resolve_segments absolute (if absolute then [] else [''..'']) segs
         | t # ts \<Rightarrow> (if t = ''..'' then resolve_segments absolute (''..'' # stack) segs
                     else resolve_segments absolute ts segs))
      else resolve_segments absolute (seg # stack) segs)"

definition path_normalize :: "string \<Rightarrow> string" where
  "path_normalize p =
     (if p = [] then ''.''
      else (let absolute = (hd p = CHR ''/''); trailing = (last p = CHR ''/'');
                q = join ''/'' (resolve_segments absolute [] (split_on (CHR ''/'') p))
            in if absolute then ''/'' @ q @ (if trailing \<and> q \<noteq> [] then ''/'' else [])
               else if q = [] then (if trailing then ''./'' else ''.'')
               else q @ (if trailing then ''/'' else [])))"

definition path_join :: "string list \<Rightarrow> string" where
  "path_join parts = path_normalize (join ''/'' (filter (\<lambda>p. p \<noteq> []) parts))"

section \<open>The host and its effects\<close>

record host =
  env :: "string \<rightharpoonup> string"
  platform :: string
  arch :: string
  homedir :: string
  own_pid :: nat

record http_response =
  http_ok :: bool
  http_status :: int
  http_body :: string

text \<open>\<open>None\<close> is a request that fails on the network.\<close>

type_synonym fetch = "string \<Rightarrow> http_response option"

text \<open>The file system; \<open>torn\<close> is how much of a content reaches the disk when a write fails.\<close>

record fs = io +
  files :: "string \<rightharpoonup> string"
  torn :: nat

datatype engine_error =
    UnknownPreset string
  | NoPrebuilt string string
  | ListFailed int
  | NoEngineRelease
  | ChecksumsUnavailable int
  | NoChecksumEntry string
  | DownloadFailed int
  | ChecksumMismatch string string string
  | MissingBinary string
  | NetworkError
  | IoError
  | SyntaxError
  | TypeError
  | ExitedDuringStartup
  | NotHealthy

type_synonym ('r, 'a) fs_prog = "('r fs_scheme, engine_error, 'a) prog"

definition exists_sync :: "string \<Rightarrow> ('r, bool) fs_prog" where
  "exists_sync p = gets (\<lambda>s. files s p \<noteq> None)"

definition read_file :: "string \<Rightarrow> ('r, string) fs_prog" where
  "read_file p =
     andthen (may_fail IoError) (\<lambda>_.
     andthen (gets (\<lambda>s. files s p)) (\<lambda>c.
       case c of None \<Rightarrow> throw IoError | Some t \<Rightarrow> ret t))"

text \<open>A failed write leaves a prefix of the content behind.\<close>

definition write_file :: "string \<Rightarrow> string \<Rightarrow> ('r, unit) fs_prog" where
  "write_file p c =
     andthen next_fault (\<lambda>bad.
       if bad then andthen (modify (\<lambda>s. s\<lparr>files := (files s)(p \<mapsto> take (torn s) c)\<rparr>)) (\<lambda>_. throw IoError)
       else modify (\<lambda>s. s\<lparr>files := (files s)(p \<mapsto> c)\<rparr>))"

text \<open>Renaming replaces the target in one step or fails without an effect.\<close>

definition rename_file :: "string \<Rightarrow> string \<Rightarrow> ('r, unit) fs_prog" where
  "rename_file p q =
     andthen (may_fail IoError) (\<lambda>_.
     andthen (gets (\<lambda>s. files s p)) (\<lambda>c.
       case c of
         None \<Rightarrow> throw IoError
       | Some t \<Rightarrow> modify (\<lambda>s. s\<lparr>files := (files s)(p := None, q := Some t)\<rparr>)))"

text \<open>Directories hold no content of their own: \<open>mkdir\<close> can only fail.\<close>

definition mkdir :: "string \<Rightarrow> ('r, unit) fs_prog" where
  "mkdir p = may_fail IoError"

definition lift_fetch :: "fetch \<Rightarrow> string \<Rightarrow> ('r, http_response) fs_prog" where
  "lift_fetch fetch url = (case fetch url of None \<Rightarrow> throw NetworkError | Some r \<Rightarrow> ret r)"

definition from_sum :: "engine_error + 'a \<Rightarrow> ('r, 'a) fs_prog" where
  "from_sum r = (case r of Inl e \<Rightarrow> throw e | Inr x \<Rightarrow> ret x)"

section \<open>Which binary\<close>

text \<open>\<open>process.env[name]\<close> in a condition: an empty value counts as unset.\<close>

definition env_truthy :: "host \<Rightarrow> string \<Rightarrow> string option" where
  "env_truthy h name = (case env h name of None \<Rightarrow> None | Some v \<Rightarrow> if v = [] then None else Some v)"

definition lelu_home :: "host \<Rightarrow> string" where
  "lelu_home h = nullish (env h ''LELU_HOME'') (path_join [homedir h, ''.lelu''])"

definition asset_name :: "host \<Rightarrow> engine_error + string" where
  "asset_name h =
     (let os = (if platform h = ''linux'' then Some ''linux''
                else if platform h = ''darwin'' then Some ''darwin''
                else if platform h = ''win32'' then Some ''windows'' else None);
          ar = (if arch h = ''x64'' then Some ''amd64''
                else if arch h = ''arm64'' then Some ''arm64'' else None)
      in case (os, ar) of
           (Some o', Some a) \<Rightarrow>
             Inr (''lelu-engine-'' @ o' @ ''-'' @ a @ (if o' = ''windows'' then ''.exe'' else []))
         | _ \<Rightarrow> Inl (NoPrebuilt (platform h) (arch h)))"

definition tag_prefix :: string where
  "tag_prefix = ''engine-v''"

text \<open>\<open>releases.find(r => r.tag_name?.startsWith(prefix))\<close>, with the type errors of reading a
  member of \<open>null\<close> and of calling \<open>startsWith\<close> on something that is not a string.\<close>

fun find_release :: "jsnum json list \<Rightarrow> engine_error + string option" where
  "find_release [] = Inr None"
| "find_release (JNull # rs) = Inl TypeError"
| "find_release (r # rs) =
     (case member ''tag_name'' r of
        None \<Rightarrow> find_release rs
      | Some JNull \<Rightarrow> find_release rs
      | Some (JStr t) \<Rightarrow> (if starts_with tag_prefix t then Inr (Some t) else find_release rs)
      | Some _ \<Rightarrow> Inl TypeError)"

definition releases_url :: string where
  "releases_url = ''https://api.github.com/repos/Lelu-ai/lelu/releases''"

definition resolve_engine_release_tag :: "host \<Rightarrow> fetch \<Rightarrow> ('r, string) fs_prog" where
  "resolve_engine_release_tag h fetch =
     (case env_truthy h ''LELU_ENGINE_VERSION'' of
        Some pinned \<Rightarrow> ret (tag_prefix @ pinned)
      | None \<Rightarrow>
          andthen (lift_fetch fetch releases_url) (\<lambda>res.
            if \<not> http_ok res then throw (ListFailed (http_status res))
            else (case parse_json (http_body res) of
                    None \<Rightarrow> throw SyntaxError
                  | Some (JArr rs) \<Rightarrow>
                      andthen (from_sum (find_release rs)) (\<lambda>t.
                        case t of None \<Rightarrow> throw NoEngineRelease | Some tag \<Rightarrow> ret tag)
                  | Some _ \<Rightarrow> throw TypeError)))"

section \<open>Checksums and the download\<close>

definition is_hex :: "char \<Rightarrow> bool" where
  "is_hex c = (let n = of_char c :: nat in (48 \<le> n \<and> n \<le> 57) \<or> (97 \<le> n \<and> n \<le> 102) \<or> (65 \<le> n \<and> n \<le> 70))"

text \<open>The pattern \<open>^([a-fA-F0-9]{64})\s+\*?(.+)$\<close> on a trimmed line: the digest and the name.\<close>

definition checksum_line :: "string \<Rightarrow> (string \<times> string) option" where
  "checksum_line l =
     (let hash = take 64 l; rest = drop 64 l; r = dropWhile is_ws rest;
          name = (case r of [] \<Rightarrow> [] | c # t \<Rightarrow> if c = CHR ''*'' \<and> t \<noteq> [] then t else r)
      in if length hash = 64 \<and> list_all is_hex hash \<and> rest \<noteq> [] \<and> is_ws (hd rest) \<and> name \<noteq> [] \<and> CHR 13 \<notin> set name
         then Some (hash, name) else None)"

fun find_checksum_line :: "string list \<Rightarrow> string \<Rightarrow> string option" where
  "find_checksum_line [] filename = None"
| "find_checksum_line (l # ls) filename =
     (let trimmed = trim l
      in if trimmed = [] then find_checksum_line ls filename
         else (case checksum_line trimmed of
                 None \<Rightarrow> find_checksum_line ls filename
               | Some (hash, name) \<Rightarrow>
                   (if name = filename then Some (to_lower hash) else find_checksum_line ls filename)))"

definition find_checksum :: "string \<Rightarrow> string \<Rightarrow> string option" where
  "find_checksum txt filename = find_checksum_line (split_on (CHR 10) txt) filename"

definition base_url :: "string \<Rightarrow> string" where
  "base_url tag = ''https://github.com/Lelu-ai/lelu/releases/download/'' @ tag"

definition checksums_url :: "string \<Rightarrow> string" where
  "checksums_url tag = base_url tag @ ''/SHA256SUMS.txt''"

definition asset_url :: "string \<Rightarrow> string \<Rightarrow> string" where
  "asset_url tag asset = base_url tag @ ''/'' @ asset"

definition tmp_path :: "host \<Rightarrow> string \<Rightarrow> string" where
  "tmp_path h dest = dest @ ''.download-'' @ show_nat (own_pid h)"

text \<open>\<open>downloadEngine(dest)\<close>; \<open>sha256\<close> is the hexadecimal digest of a content.\<close>

definition download_engine :: "host \<Rightarrow> fetch \<Rightarrow> (string \<Rightarrow> string) \<Rightarrow> string \<Rightarrow> ('r, unit) fs_prog" where
  "download_engine h fetch sha256 dest =
     andthen (from_sum (asset_name h)) (\<lambda>asset.
     andthen (resolve_engine_release_tag h fetch) (\<lambda>tag.
     andthen (lift_fetch fetch (checksums_url tag)) (\<lambda>listing.
       if \<not> http_ok listing then throw (ChecksumsUnavailable (http_status listing))
       else (case find_checksum (http_body listing) asset of
               None \<Rightarrow> throw (NoChecksumEntry asset)
             | Some expected \<Rightarrow>
                 andthen (lift_fetch fetch (asset_url tag asset)) (\<lambda>res.
                   if \<not> http_ok res then throw (DownloadFailed (http_status res))
                   else if sha256 (http_body res) \<noteq> expected
                   then throw (ChecksumMismatch asset expected (sha256 (http_body res)))
                   else
                     andthen (mkdir dest) (\<lambda>_.
                     andthen (write_file (tmp_path h dest) (http_body res)) (\<lambda>_.
                     rename_file (tmp_path h dest) dest)))))))"

definition resolve_binary :: "host \<Rightarrow> fetch \<Rightarrow> (string \<Rightarrow> string) \<Rightarrow> ('r, string) fs_prog" where
  "resolve_binary h fetch sha256 =
     (case env_truthy h ''LELU_ENGINE_BINARY'' of
        Some explicit \<Rightarrow>
          andthen (exists_sync explicit) (\<lambda>b. if \<not> b then throw (MissingBinary explicit) else ret explicit)
      | None \<Rightarrow>
          andthen (from_sum (asset_name h)) (\<lambda>asset.
            let cached = path_join [lelu_home h, ''bin'', asset]
            in andthen (exists_sync cached) (\<lambda>b.
                 andthen (if \<not> b then download_engine h fetch sha256 cached else ret ()) (\<lambda>_. ret cached))))"

section \<open>The policy file and the local key\<close>

definition default_policy_path :: "host \<Rightarrow> policy_preset \<Rightarrow> string" where
  "default_policy_path h preset =
     path_join [lelu_home h,
       (if preset = General then ''policy.yaml'' else ''policy.'' @ preset_name preset @ ''.yaml'')]"

definition display_path :: "host \<Rightarrow> string \<Rightarrow> string" where
  "display_path h p =
     (if starts_with (homedir h @ ''/'') p then ''~'' @ drop (length (homedir h)) p else p)"

definition policy_path :: "host \<Rightarrow> policy_preset \<Rightarrow> string" where
  "policy_path h preset = nullish (env h ''LELU_POLICY_PATH'') (default_policy_path h preset)"

definition ensure_policy :: "host \<Rightarrow> policy_preset \<Rightarrow> ('r, string) fs_prog" where
  "ensure_policy h preset =
     (let p = policy_path h preset
      in andthen (exists_sync p) (\<lambda>b.
           if \<not> b then
             andthen (mkdir p) (\<lambda>_.
             andthen (write_file p (starter_policy_text preset (display_path h p))) (\<lambda>_. ret p))
           else ret p))"

definition key_path :: "host \<Rightarrow> string" where
  "key_path h = path_join [lelu_home h, ''engine.key'']"

text \<open>\<open>token\<close> is the random part, \<open>randomBytes(24)\<close> in base64url.\<close>

definition ensure_local_api_key :: "host \<Rightarrow> string \<Rightarrow> ('r, string) fs_prog" where
  "ensure_local_api_key h token =
     andthen
       (try_catch (andthen (read_file (key_path h)) (\<lambda>c. ret (trim c))) (\<lambda>_. ret []))
       (\<lambda>existing.
          if existing \<noteq> [] then ret existing
          else
            (let key = ''lelu_local_'' @ token
             in andthen (mkdir (key_path h)) (\<lambda>_.
                andthen (write_file (key_path h) (key @ [CHR 10])) (\<lambda>_. ret key))))"


section \<open>Starting the engine\<close>

text \<open>\<open>waitHealthy\<close>: iteration \<open>n\<close> reads the clock, looks at the exit flag and probes \<open>/healthz\<close>;
  \<open>probe n\<close> is whether the answer was ok (an exception counts as not up yet). \<open>None\<close> means that the
  fuel ran out.\<close>

fun wait_healthy ::
  "int \<Rightarrow> (nat \<Rightarrow> int) \<Rightarrow> (nat \<Rightarrow> bool) \<Rightarrow> (nat \<Rightarrow> bool) \<Rightarrow> nat \<Rightarrow> nat \<Rightarrow> (engine_error + unit) option" where
  "wait_healthy deadline clock exited probe 0 n = None"
| "wait_healthy deadline clock exited probe (Suc fuel) n =
     (if clock n < deadline then
        (if exited n then Some (Inl ExitedDuringStartup)
         else if probe n then Some (Inr ())
         else wait_healthy deadline clock exited probe fuel (Suc n))
      else Some (Inl NotHealthy))"

definition health_timeout :: int where
  "health_timeout = 15000"

text \<open>Every iteration sleeps 250 ms, so 61 iterations reach the deadline.\<close>

definition startup_fuel :: nat where
  "startup_fuel = 61"

definition local_url :: "nat \<Rightarrow> string" where
  "local_url port = ''http://127.0.0.1:'' @ show_nat port"

text \<open>The environment of the child: later entries win.\<close>

definition child_env :: "host \<Rightarrow> nat \<Rightarrow> string \<Rightarrow> string \<Rightarrow> (string \<rightharpoonup> string)" where
  "child_env h port policy key =
     (([''CONFIDENCE_ALLOW_UNVERIFIED'' \<mapsto> ''true'', ''CONFIDENCE_MISSING_MODE'' \<mapsto> ''review''] ++ env h)
       (''LISTEN_ADDR'' \<mapsto> ''127.0.0.1:'' @ show_nat port,
        ''POLICY_PATH'' \<mapsto> policy,
        ''API_KEY'' \<mapsto> key,
        ''DATABASE_PATH'' \<mapsto> path_join [lelu_home h, ''lelu.db''],
        ''LELU_RSA_KEY_PATH'' \<mapsto> path_join [lelu_home h, ''signing.key.pem'']))"

record machine = fs +
  alive :: "nat set"

record local_engine =
  le_url :: string
  le_key :: string
  le_pid :: nat

type_synonym ('r, 'a) m_prog = "('r machine_scheme, engine_error, 'a) prog"

definition runtime_path :: "host \<Rightarrow> string" where
  "runtime_path h = path_join [lelu_home h, ''engine.json'']"

definition runtime_doc :: "string \<Rightarrow> nat \<Rightarrow> string \<Rightarrow> int json" where
  "runtime_doc url pid started =
     JObj [(''url'', JStr url), (''pid'', JNum (int pid)), (''startedAt'', JStr started)]"

definition write_runtime_file :: "host \<Rightarrow> string \<Rightarrow> nat \<Rightarrow> string \<Rightarrow> ('r, unit) fs_prog" where
  "write_runtime_file h url pid started =
     write_file (runtime_path h) (stringify (runtime_doc url pid started) @ [CHR 10])"

definition unlink_file :: "string \<Rightarrow> ('r, unit) fs_prog" where
  "unlink_file p = andthen (may_fail IoError) (\<lambda>_. modify (\<lambda>s. s\<lparr>files := (files s)(p := None)\<rparr>))"

text \<open>\<open>removeRuntimeFile\<close>: only a record that carries the pid of the own child is removed.\<close>

definition remove_runtime_file :: "host \<Rightarrow> nat \<Rightarrow> ('r, unit) fs_prog" where
  "remove_runtime_file h pid =
     try_catch
       (andthen (read_file (runtime_path h)) (\<lambda>c.
          case parse_json c of
            None \<Rightarrow> throw SyntaxError
          | Some JNull \<Rightarrow> throw TypeError
          | Some current \<Rightarrow>
              (if member ''pid'' current = Some (JNum (Fin (of_nat pid)))
               then unlink_file (runtime_path h) else ret ())))
       (\<lambda>_. ret ())"

text \<open>The first call of \<open>stop\<close>; later calls return at once.\<close>

definition stop_engine :: "host \<Rightarrow> nat \<Rightarrow> ('r, unit) m_prog" where
  "stop_engine h pid =
     andthen (remove_runtime_file h pid) (\<lambda>_. modify (\<lambda>s. s\<lparr>alive := alive s - {pid}\<rparr>))"

text \<open>\<open>Promise.all\<close> of three: all of them run, then the first error in order is thrown.\<close>

definition all3 :: "('s, 'e, 'a) prog \<Rightarrow> ('s, 'e, 'b) prog \<Rightarrow> ('s, 'e, 'c) prog \<Rightarrow> ('s, 'e, 'a \<times> 'b \<times> 'c) prog" where
  "all3 m n k = (\<lambda>s.
     let (a, s1) = m s; (b, s2) = n s1; (c, s3) = k s2
     in (case a of Inl e \<Rightarrow> (Inl e, s3)
         | Inr x \<Rightarrow> (case b of Inl e \<Rightarrow> (Inl e, s3)
             | Inr y \<Rightarrow> (case c of Inl e \<Rightarrow> (Inl e, s3) | Inr z \<Rightarrow> (Inr (x, y, z), s3)))))"


text \<open>What one start meets: the random key part, the free port (\<open>None\<close> when none could be
  allocated), the pid of the child, the start time as a number and as a text, and the clock, exit
  flag and probe of each iteration of \<open>waitHealthy\<close>.\<close>

record start_inputs =
  si_token :: string
  si_port :: "nat option"
  si_pid :: nat
  si_now :: int
  si_started :: string
  si_clock :: "nat \<Rightarrow> int"
  si_exited :: "nat \<Rightarrow> bool"
  si_probe :: "nat \<Rightarrow> bool"

definition preset_prog :: "host \<Rightarrow> string option \<Rightarrow> ('s, engine_error, policy_preset) prog" where
  "preset_prog h explicit =
     (case resolve_preset explicit (env h ''LELU_POLICY_PRESET'') of
        Inl msg \<Rightarrow> throw (UnknownPreset msg)
      | Inr p \<Rightarrow> ret p)"

definition await_healthy :: "start_inputs \<Rightarrow> ('s, engine_error, unit) prog" where
  "await_healthy i =
     (case wait_healthy (si_now i + health_timeout) (si_clock i) (si_exited i) (si_probe i) startup_fuel 0 of
        None \<Rightarrow> throw NotHealthy
      | Some (Inl e) \<Rightarrow> throw e
      | Some (Inr _) \<Rightarrow> ret ())"

definition spawn_child :: "nat \<Rightarrow> ('r, unit) m_prog" where
  "spawn_child pid = modify (\<lambda>s. s\<lparr>alive := insert pid (alive s)\<rparr>)"

definition start_local_engine ::
  "host \<Rightarrow> fetch \<Rightarrow> (string \<Rightarrow> string) \<Rightarrow> string option \<Rightarrow> start_inputs \<Rightarrow> ('r, local_engine) m_prog" where
  "start_local_engine h fetch sha256 explicit i =
     andthen (preset_prog h explicit) (\<lambda>preset.
     andthen (all3 (resolve_binary h fetch sha256) (ensure_policy h preset) (ensure_local_api_key h (si_token i)))
       (\<lambda>(bin, policy, key).
          case si_port i of
            None \<Rightarrow> throw IoError
          | Some port \<Rightarrow>
              andthen (spawn_child (si_pid i)) (\<lambda>_.
              andthen
                (try_catch
                  (andthen (await_healthy i) (\<lambda>_.
                   write_runtime_file h (local_url port) (si_pid i) (si_started i)))
                  (\<lambda>err. andthen (stop_engine h (si_pid i)) (\<lambda>_. throw err)))
                (\<lambda>_. ret \<lparr>le_url = local_url port, le_key = key, le_pid = si_pid i\<rparr>))))"

section \<open>Discovery\<close>

record engine_info =
  info_url :: "jsnum json option"
  info_key :: "string option"

definition no_engine :: engine_info where
  "no_engine = \<lparr>info_url = None, info_key = None\<rparr>"

fun json_truthy :: "jsnum json \<Rightarrow> bool" where
  "json_truthy JNull = False"
| "json_truthy (JBool b) = b"
| "json_truthy (JNum n) = (n \<noteq> Fin 0)"
| "json_truthy (JStr t) = (t \<noteq> [])"
| "json_truthy (JArr vs) = True"
| "json_truthy (JObj kvs) = True"

text \<open>\<open>process.kill(pid, 0)\<close> succeeds for a live process of this user. Process groups (negative
  numbers), which \<open>lelu-mcp\<close> never records, are left out.\<close>

definition signals :: "nat set \<Rightarrow> jsnum json \<Rightarrow> bool" where
  "signals procs v =
     (case v of JNum (Fin q) \<Rightarrow> 0 < q \<and> q = of_int \<lfloor>q\<rfloor> \<and> nat \<lfloor>q\<rfloor> \<in> procs | _ \<Rightarrow> False)"

definition discover_local_engine :: "host \<Rightarrow> ('r machine_scheme, engine_error, engine_info) prog" where
  "discover_local_engine h =
     try_catch
       (andthen (read_file (runtime_path h)) (\<lambda>c.
          case parse_json c of
            None \<Rightarrow> throw SyntaxError
          | Some JNull \<Rightarrow> throw TypeError
          | Some runtime \<Rightarrow>
              (case (member ''url'' runtime, member ''pid'' runtime) of
                 (Some url, Some pid) \<Rightarrow>
                   (if \<not> json_truthy url \<or> \<not> json_truthy pid then ret no_engine
                    else
                      andthen (gets (\<lambda>s. signals (alive s) pid)) (\<lambda>up.
                        if \<not> up then ret no_engine
                        else
                          andthen (try_catch (andthen (read_file (key_path h)) (\<lambda>k. ret (trim k))) (\<lambda>_. ret []))
                            (\<lambda>k. ret \<lparr>info_url = Some url, info_key = (if k = [] then None else Some k)\<rparr>)))
               | _ \<Rightarrow> ret no_engine)))
       (\<lambda>_. ret no_engine)"


section \<open>Facts about the file operations\<close>

lemma fault_frame [simp]: "files (s\<lparr>faults := f\<rparr>) = files s"
  by simp

lemma may_fail_frame: "may_fail e s = (r, s') \<Longrightarrow> files s' = files s \<and> (r = Inr () \<or> r = Inl e)"
  by (rule may_fail_cases [of e s]) auto

lemma write_file_cases:
  assumes "write_file p c s = (r, s')"
  shows "r = Inr () \<and> files s' = (files s)(p \<mapsto> c) \<or> (\<exists>t. r = Inl IoError \<and> files s' = (files s)(p \<mapsto> t))"
  using assms by (auto simp: write_file_def next_fault_def andthen_apply split: if_splits)

lemma rename_file_cases:
  assumes "rename_file p q s = (r, s')"
  shows "r = Inl IoError \<and> files s' = files s
    \<or> (\<exists>t. r = Inr () \<and> files s p = Some t \<and> files s' = (files s)(p := None, q := Some t))"
proof (rule may_fail_cases [of IoError s])
  assume "may_fail IoError s = (Inr (), s\<lparr>faults := tl (faults s)\<rparr>)"
  with assms show ?thesis by (auto simp: rename_file_def andthen_apply split: option.splits)
qed (use assms in \<open>auto simp: rename_file_def andthen_apply\<close>)

lemma tmp_path_neq: "tmp_path h dest \<noteq> dest"
  by (simp add: tmp_path_def)

lemma lift_fetch_frame: "lift_fetch f u s = (r, s') \<Longrightarrow> s' = s \<and> (r = Inl NetworkError \<or> (\<exists>x. r = Inr x \<and> f u = Some x))"
  by (auto simp: lift_fetch_def split: option.splits)

lemma find_release_no_io: "find_release rs = Inl e \<Longrightarrow> e = TypeError"
  by (induction rs rule: find_release.induct) (auto split: option.splits json.splits if_splits)

lemma resolve_tag_frame:
  "resolve_engine_release_tag h f s = (r, s') \<Longrightarrow> s' = s \<and> r \<noteq> Inl IoError"
  by (auto simp: resolve_engine_release_tag_def andthen_apply lift_fetch_def from_sum_def
      dest: find_release_no_io split: option.splits if_splits json.splits sum.splits)

text \<open>The steps of the download that follow a matching digest.\<close>

lemma install_cases:
  assumes "andthen (mkdir dest) (\<lambda>_. andthen (write_file tmp c) (\<lambda>_. rename_file tmp dest)) s = (r, s')"
    and "tmp \<noteq> dest"
  shows "r = Inr () \<and> files s' = (files s)(tmp := None, dest := Some c)
    \<or> r = Inl IoError \<and> (\<exists>x. files s' = (files s)(tmp := x))"
proof -
  obtain r1 s1 where m: "mkdir dest s = (r1, s1)" by force
  then have f1: "files s1 = files s" "r1 = Inr () \<or> r1 = Inl IoError"
    unfolding mkdir_def by (auto dest: may_fail_frame)
  show ?thesis
  proof (cases r1)
    case (Inl e)
    then have "r = Inl IoError" "s' = s1" using assms(1) m f1(2) by (auto simp: andthen_apply)
    then show ?thesis using f1 by (metis fun_upd_triv)
  next
    case (Inr u)
    obtain r2 s2 where w: "write_file tmp c s1 = (r2, s2)" by force
    from write_file_cases [OF w] show ?thesis
    proof (elim disjE exE conjE)
      assume ok: "r2 = Inr ()" "files s2 = (files s1)(tmp \<mapsto> c)"
      obtain r3 s3 where rn: "rename_file tmp dest s2 = (r3, s3)" by force
      have "r = r3" "s' = s3" using assms(1) m w rn Inr ok by (auto simp: andthen_apply)
      with rename_file_cases [OF rn] ok f1 assms(2) show ?thesis by (auto simp: fun_upd_idem)
    next
      fix t
      assume "r2 = Inl IoError" "files s2 = (files s1)(tmp \<mapsto> t)"
      then show ?thesis using assms(1) m w Inr f1 by (auto simp: andthen_apply)
    qed
  qed
qed


lemma download_cases:
  assumes "download_engine h fetch sha256 dest s = (r, s')"
  shows "(\<exists>e. r = Inl e \<and> e \<noteq> IoError \<and> s' = s)
    \<or> (\<exists>asset tag listing res.
          asset_name h = Inr asset
          \<and> fetch (checksums_url tag) = Some listing \<and> http_ok listing
          \<and> fetch (asset_url tag asset) = Some res \<and> http_ok res
          \<and> find_checksum (http_body listing) asset = Some (sha256 (http_body res))
          \<and> (r = Inr () \<and> files s' = (files s)(tmp_path h dest := None, dest := Some (http_body res))
             \<or> r = Inl IoError \<and> (\<exists>x. files s' = (files s)(tmp_path h dest := x))))"
proof -
  have early: ?thesis if "r = Inl e" "e \<noteq> IoError" "s' = s" for e using that by blast
  consider asset where "asset_name h = Inr asset"
    | e where "asset_name h = Inl e" "e \<noteq> IoError"
    by (cases "asset_name h") (auto simp: asset_name_def Let_def split: option.splits if_splits)
  then show ?thesis
  proof cases
    case 2
    then show ?thesis using assms by (intro early) (auto simp: download_engine_def from_sum_def)
  next
    case 1
    obtain r1 s1 where t: "resolve_engine_release_tag h fetch s = (r1, s1)" by force
    have s1: "s1 = s" "r1 \<noteq> Inl IoError" using resolve_tag_frame [OF t] by auto
    show ?thesis
    proof (cases r1)
      case (Inl e)
      then show ?thesis using assms 1 t s1
        by (intro early [of e]) (auto simp: download_engine_def from_sum_def andthen_apply)
    next
      case (Inr tag)
      have rest: "download_engine h fetch sha256 dest s =
          andthen (lift_fetch fetch (checksums_url tag)) (\<lambda>listing.
            if \<not> http_ok listing then throw (ChecksumsUnavailable (http_status listing))
            else (case find_checksum (http_body listing) asset of
               None \<Rightarrow> throw (NoChecksumEntry asset)
             | Some expected \<Rightarrow>
                 andthen (lift_fetch fetch (asset_url tag asset)) (\<lambda>res.
                   if \<not> http_ok res then throw (DownloadFailed (http_status res))
                   else if sha256 (http_body res) \<noteq> expected
                   then throw (ChecksumMismatch asset expected (sha256 (http_body res)))
                   else
                     andthen (mkdir dest) (\<lambda>_.
                     andthen (write_file (tmp_path h dest) (http_body res)) (\<lambda>_.
                     rename_file (tmp_path h dest) dest))))) s"
        using 1 t s1 Inr by (simp add: download_engine_def from_sum_def andthen_apply)
      show ?thesis
        using assms unfolding rest
        by (auto simp: andthen_apply [of "lift_fetch _ _"] lift_fetch_def 1
            split: option.splits if_splits dest!: install_cases [OF _ tmp_path_neq]) blast
    qed
  qed
qed

text \<open>C8: An engine binary is installed only when its bytes are the ones the release published.
  When the download succeeds, the destination holds exactly the bytes that were fetched, their
  SHA-256 is the digest that the checksum listing of the same release names for this platform's
  asset, and no other file changed. When it fails, the destination and every file other than the
  temporary one are untouched, whatever write or rename failed half-way; and a failure of anything
  but a file operation (network, missing entry, mismatch) leaves every file as it was.\<close>

theorem download_installs_only_verified:
  assumes "download_engine h fetch sha256 dest s = (r, s')"
  shows "case r of
      Inr _ \<Rightarrow> \<exists>asset tag listing res.
          asset_name h = Inr asset
          \<and> fetch (checksums_url tag) = Some listing \<and> http_ok listing
          \<and> fetch (asset_url tag asset) = Some res \<and> http_ok res
          \<and> find_checksum (http_body listing) asset = Some (sha256 (http_body res))
          \<and> files s' = (files s)(tmp_path h dest := None, dest := Some (http_body res))
    | Inl e \<Rightarrow> files s' dest = files s dest
          \<and> (\<forall>p. p \<noteq> tmp_path h dest \<longrightarrow> files s' p = files s p)
          \<and> (e \<noteq> IoError \<longrightarrow> files s' = files s)"
  using download_cases [OF assms] tmp_path_neq [of h dest] by (auto split: sum.splits)


text \<open>A host and a release for the examples: version pinned, Linux on x64.\<close>

definition demo_host :: host where
  "demo_host = \<lparr>env = [''LELU_ENGINE_VERSION'' \<mapsto> ''1.0'', ''LELU_HOME'' \<mapsto> ''/h''], platform = ''linux'', arch = ''x64'',
     homedir = ''/root'', own_pid = 7\<rparr>"

definition demo_digest :: string where
  "demo_digest = replicate 64 (CHR ''a'')"

definition demo_fetch :: fetch where
  "demo_fetch u = Some \<lparr>http_ok = True, http_status = 200,
     http_body = (if u = checksums_url ''engine-v1.0'' then demo_digest @ ''  lelu-engine-linux-amd64'' else ''ELF'')\<rparr>"

definition demo_fs :: fs where
  "demo_fs = \<lparr>faults = [], files = Map.empty, torn = 0\<rparr>"

lemma demo_asset: "asset_name demo_host = Inr ''lelu-engine-linux-amd64''"
  by (simp add: asset_name_def demo_host_def)

lemma demo_checksum:
  "find_checksum (demo_digest @ ''  lelu-engine-linux-amd64'') ''lelu-engine-linux-amd64'' = Some demo_digest"
  by code_simp

lemma demo_download_ok: "fst (download_engine demo_host demo_fetch (\<lambda>_. demo_digest) ''/e'' demo_fs) = Inr ()"
proof -
  have "resolve_engine_release_tag demo_host demo_fetch demo_fs = (Inr ''engine-v1.0'', demo_fs)"
    by (simp add: resolve_engine_release_tag_def env_truthy_def demo_host_def tag_prefix_def)
  moreover have "asset_url ''engine-v1.0'' ''lelu-engine-linux-amd64'' \<noteq> checksums_url ''engine-v1.0''"
    by (simp add: asset_url_def checksums_url_def)
  ultimately show ?thesis
    by (simp add: download_engine_def from_sum_def demo_asset andthen_apply lift_fetch_def demo_fetch_def
        demo_checksum mkdir_def may_fail_quiet demo_fs_def write_file_def next_fault_def rename_file_def)
qed

theorem download_installs_only_verified_witness:
  "\<exists>s'. download_engine demo_host demo_fetch (\<lambda>_. demo_digest) ''/e'' demo_fs = (Inr (), s')
     \<and> files s' ''/e'' = Some ''ELF''"
proof -
  obtain s' where run: "download_engine demo_host demo_fetch (\<lambda>_. demo_digest) ''/e'' demo_fs = (Inr (), s')"
    using demo_download_ok by (metis prod.collapse)
  have "asset_url t ''lelu-engine-linux-amd64'' \<noteq> checksums_url u" for t u
  proof
    assume "asset_url t ''lelu-engine-linux-amd64'' = checksums_url u"
    then have "last (asset_url t ''lelu-engine-linux-amd64'') = last (checksums_url u)" by simp
    then show False by (simp add: asset_url_def checksums_url_def)
  qed
  with download_installs_only_verified [OF run] have "files s' ''/e'' = Some ''ELF''"
    by (auto simp: demo_asset demo_fetch_def)
  with run show ?thesis by blast
qed


section \<open>Reading a checksum listing\<close>

text \<open>The output of \<open>sha256sum\<close>: digest, two separators (the second is a star in binary mode),
  name, newline.\<close>

definition listing_line :: "string \<times> bool \<times> string \<Rightarrow> string" where
  "listing_line e = (case e of (hash, binary, name) \<Rightarrow>
     hash @ (if binary then '' *'' else ''  '') @ name)"

definition listing :: "(string \<times> bool \<times> string) list \<Rightarrow> string" where
  "listing es = concat (map (\<lambda>e. listing_line e @ nl) es)"

definition good_entry :: "string \<times> bool \<times> string \<Rightarrow> bool" where
  "good_entry e = (case e of (hash, binary, name) \<Rightarrow>
     length hash = 64 \<and> list_all is_hex hash \<and> name \<noteq> []
     \<and> CHR 10 \<notin> set name \<and> CHR 13 \<notin> set name
     \<and> \<not> is_ws (hd name) \<and> hd name \<noteq> CHR ''*'' \<and> \<not> is_ws (last name))"

lemma hex_not_ws: "is_hex c \<Longrightarrow> \<not> is_ws c"
  by (auto simp: is_hex_def is_ws_def Let_def)

lemma trim_solid:
  assumes "s \<noteq> []" "\<not> is_ws (hd s)" "\<not> is_ws (last s)"
  shows "trim s = s"
proof -
  have "trim_start s = s" using assms by (simp add: trim_start_def dropWhile_idem_id)
  moreover have "trim_end s = s"
    using assms by (simp add: trim_end_def dropWhile_idem_id hd_rev)
  ultimately show ?thesis by (simp add: trim_def)
qed

lemma checksum_line_entry:
  assumes "good_entry (hash, binary, name)"
  shows "checksum_line (trim (listing_line (hash, binary, name))) = Some (hash, name)"
    and "trim (listing_line (hash, binary, name)) \<noteq> []"
proof -
  let ?l = "listing_line (hash, binary, name)"
  have h: "length hash = 64" "hash \<noteq> []" "name \<noteq> []" "\<not> is_ws (hd name)" "hd name \<noteq> CHR ''*''" "CHR 13 \<notin> set name"
    using assms by (auto simp: good_entry_def)
  obtain c t where name: "name = c # t" using h(3) by (cases name) auto
  have "\<not> is_ws (hd ?l)" using assms h(2) by (cases hash) (auto simp: listing_line_def good_entry_def hex_not_ws)
  moreover have "\<not> is_ws (last ?l)" "?l \<noteq> []" using assms h by (auto simp: listing_line_def good_entry_def)
  ultimately have t: "trim ?l = ?l" by (intro trim_solid)
  show "checksum_line (trim ?l) = Some (hash, name)"
    unfolding t using assms h name by (auto simp: checksum_line_def listing_line_def Let_def good_entry_def is_ws_def)
  show "trim ?l \<noteq> []" unfolding t by fact
qed

lemma no_newline_entry: "good_entry e \<Longrightarrow> CHR 10 \<notin> set (listing_line e)"
  by (auto simp: good_entry_def listing_line_def list_all_iff is_hex_def Let_def)

lemma split_listing:
  "list_all good_entry es \<Longrightarrow> split_on (CHR 10) (listing es) = map listing_line es @ [[]]"
  by (induction es) (auto simp: listing_def nl_def split_on_append no_newline_entry)

text \<open>The digest that a download is checked against is the one the listing gives for exactly
  that file name: on the output of \<open>sha256sum\<close>, in text or in binary mode, \<open>findChecksum\<close> returns the
  lower-case digest of the first entry with that name, and nothing for a name that is not listed
  (a name that merely contains or extends a listed one is not confused with it).\<close>

theorem find_checksum_of_listing:
  assumes "list_all good_entry es"
  shows "find_checksum (listing es) filename
    = map_option (\<lambda>e. to_lower (fst e)) (find_first (\<lambda>e. snd (snd e) = filename) es)"
  unfolding find_checksum_def split_listing [OF assms]
  using assms
proof (induction es)
  case Nil
  then show ?case by simp
next
  case (Cons e es)
  obtain hash binary name where e: "e = (hash, binary, name)" by (cases e)
  with Cons.prems have "good_entry (hash, binary, name)" by simp
  note checksum_line_entry [OF this]
  with Cons show ?case by (simp add: e)
qed

theorem find_checksum_of_listing_witness:
  "find_checksum (listing [(demo_digest, True, ''lelu-engine-linux-amd64.sig''), (demo_digest, False, ''lelu-engine-linux-amd64'')])
     ''lelu-engine-linux-amd64'' = Some demo_digest"
  by (subst find_checksum_of_listing)
    (simp_all add: good_entry_def demo_digest_def is_hex_def is_ws_def to_lower_def lower_char_def list_all_iff)


section \<open>The paths of the data directory\<close>

lemma resolve_segments_snoc:
  "seg \<noteq> [] \<Longrightarrow> seg \<noteq> ''.'' \<Longrightarrow> seg \<noteq> ''..'' \<Longrightarrow>
     resolve_segments a st (xs @ [seg]) = resolve_segments a st xs @ [seg]"
  by (induction a st xs rule: resolve_segments.induct) (auto split: list.splits)

lemma join_snoc: "join sep (xs @ [x]) = (if xs = [] then x else join sep xs @ sep @ x)"
  by (induction sep xs rule: join.induct) auto

definition plain_segment :: "string \<Rightarrow> bool" where
  "plain_segment seg = (seg \<noteq> [] \<and> seg \<noteq> ''.'' \<and> seg \<noteq> ''..'' \<and> CHR ''/'' \<notin> set seg)"

lemma last_normalize:
  assumes "p \<noteq> []" "last p \<noteq> CHR ''/''" "split_on (CHR ''/'') p = xs @ [seg]" "plain_segment seg"
  shows "last (path_normalize p) = last seg"
proof -
  have seg: "seg \<noteq> []" "seg \<noteq> ''.''" "seg \<noteq> ''..''"
    using assms(4) by (auto simp: plain_segment_def)
  let ?q = "join ''/'' (resolve_segments (hd p = CHR ''/'') [] (split_on (CHR ''/'') p))"
  have "?q \<noteq> []" "last ?q = last seg"
    unfolding assms(3) resolve_segments_snoc [OF seg] using seg(1) by (auto simp: join_snoc)
  then show ?thesis
    using assms(1,2) unfolding path_normalize_def Let_def by (auto simp only: if_False split: if_splits) auto
qed

lemma last_path_join:
  assumes "plain_segment seg"
  shows "last (path_join [d, seg]) = last seg"
proof -
  have seg: "seg \<noteq> []" "CHR ''/'' \<notin> set seg"
    using assms by (auto simp: plain_segment_def)
  have "last seg \<noteq> CHR ''/''" using seg by (metis last_in_set)
  moreover have "split_on (CHR ''/'') (d @ CHR ''/'' # seg) = split_on (CHR ''/'') d @ [seg]"
    using split_on_append_gen [of "CHR ''/''" d seg] split_on_no_sep [OF seg(2)] by simp
  moreover have "split_on (CHR ''/'') seg = [] @ [seg]" using split_on_no_sep [OF seg(2)] by simp
  ultimately show ?thesis
    using seg assms last_normalize [of seg "[]" seg] last_normalize [of "d @ CHR ''/'' # seg" _ seg]
    by (auto simp: path_join_def)
qed

lemma runtime_key_distinct: "runtime_path h \<noteq> key_path h"
proof
  assume "runtime_path h = key_path h"
  then have "last (runtime_path h) = last (key_path h)" by simp
  then show False by (simp add: runtime_path_def key_path_def last_path_join plain_segment_def)
qed

lemma quiet_read:
  "faults s = [] \<Longrightarrow> read_file p s = (case files s p of None \<Rightarrow> Inl IoError | Some t \<Rightarrow> Inr t, s)"
  by (auto simp: read_file_def andthen_apply may_fail_quiet split: option.splits)

lemma read_file_Inr: "read_file p s = (Inr t, s') \<Longrightarrow> files s p = Some t \<and> files s' = files s"
  by (rule may_fail_cases [of IoError s]) (auto simp: read_file_def andthen_apply split: option.splits)

lemma read_file_frame: "read_file p s = (r, s') \<Longrightarrow> files s' = files s"
  by (rule may_fail_cases [of IoError s]) (auto simp: read_file_def andthen_apply split: option.splits)

definition no_ws :: "string \<Rightarrow> bool" where
  "no_ws t = list_all (\<lambda>c. \<not> is_ws c) t"

lemma trim_line: "s \<noteq> [] \<Longrightarrow> no_ws s \<Longrightarrow> trim (s @ [CHR 10]) = s"
proof -
  assume s: "s \<noteq> []" "no_ws s"
  then have h: "\<not> is_ws (hd s)" "\<not> is_ws (last s)" by (auto simp: no_ws_def list_all_iff)
  have "trim_start (s @ [CHR 10]) = s @ [CHR 10]" using s h by (simp add: trim_start_def dropWhile_idem_id)
  moreover have "trim_end (s @ [CHR 10]) = s"
    using s h by (simp add: trim_end_def is_ws_def [of "CHR 10"] dropWhile_idem_id hd_rev)
  ultimately show ?thesis by (simp add: trim_def)
qed

lemma ensure_key_result:
  assumes "ensure_local_api_key h token s = (Inr k, s')" "no_ws token"
  shows "\<exists>c. files s' (key_path h) = Some c \<and> trim c = k \<and> k \<noteq> []
    \<and> (\<forall>p. p \<noteq> key_path h \<longrightarrow> files s' p = files s p)"
proof -
  obtain r1 s1 where rd: "read_file (key_path h) s = (r1, s1)" by force
  let ?existing = "case r1 of Inl _ \<Rightarrow> [] | Inr c \<Rightarrow> trim c"
  have f1: "files s1 = files s" using read_file_frame [OF rd] .
  have step: "ensure_local_api_key h token s =
      (if ?existing \<noteq> [] then (Inr ?existing, s1)
       else andthen (mkdir (key_path h)) (\<lambda>_.
              andthen (write_file (key_path h) (''lelu_local_'' @ token @ [CHR 10])) (\<lambda>_. ret (''lelu_local_'' @ token))) s1)"
    using rd by (auto simp: ensure_local_api_key_def andthen_apply try_catch_apply Let_def split: sum.splits)
  show ?thesis
  proof (cases "?existing = []")
    case False
    with assms step have "k = ?existing" "s' = s1" by auto
    moreover obtain c where "r1 = Inr c" using False by (cases r1) auto
    ultimately show ?thesis using False rd f1 read_file_Inr [of "key_path h" s c s1] by auto
  next
    case True
    let ?key = "''lelu_local_'' @ token"
    obtain r2 s2 where m: "mkdir (key_path h) s1 = (r2, s2)" by force
    have f2: "files s2 = files s1" using m unfolding mkdir_def by (auto dest: may_fail_frame)
    obtain r3 s3 where w: "write_file (key_path h) (''lelu_local_'' @ token @ [CHR 10]) s2 = (r3, s3)" by force
    have "r2 = Inr ()" "r3 = Inr ()" "s' = s3" "k = ?key"
      using assms(1) step True m w by (cases r2; cases r3; auto simp: andthen_apply)+
    moreover have "trim (?key @ [CHR 10]) = ?key"
      using assms(2) by (intro trim_line) (auto simp: no_ws_def is_ws_def)
    ultimately show ?thesis using write_file_cases [OF w] f1 f2 by auto
  qed
qed


section \<open>Start, discover, stop\<close>

lemma all3_Inr:
  assumes "all3 m n k s = (Inr v, s')"
  shows "\<exists>x y z s1 s2. v = (x, y, z) \<and> m s = (Inr x, s1) \<and> n s1 = (Inr y, s2) \<and> k s2 = (Inr z, s')"
proof -
  obtain a s1 where m: "m s = (a, s1)" by force
  obtain b s2 where n: "n s1 = (b, s2)" by force
  obtain c s3 where k: "k s2 = (c, s3)" by force
  show ?thesis using assms m n k by (cases a; cases b; cases c) (auto simp: all3_def)
qed

lemma write_file_alive: "write_file p c s = (r, s') \<Longrightarrow> alive s' = alive s"
  by (auto simp: write_file_def next_fault_def andthen_apply split: if_splits)

lemma await_state: "await_healthy i s = (r, s') \<Longrightarrow> s' = s"
  by (auto simp: await_healthy_def split: option.splits sum.splits)

lemma start_cases:
  fixes s s' :: "'r machine_scheme"
  assumes run: "start_local_engine h fetch sha256 p i s = (Inr e, s')" and tok: "no_ws (si_token i)"
  shows "\<exists>port key c.
      e = \<lparr>le_url = local_url port, le_key = key, le_pid = si_pid i\<rparr>
      \<and> files s' (key_path h) = Some c \<and> trim c = key \<and> key \<noteq> []
      \<and> files s' (runtime_path h) = Some (stringify (runtime_doc (local_url port) (si_pid i) (si_started i)) @ [CHR 10])
      \<and> si_pid i \<in> alive s'"
proof -
  from run obtain preset where pre: "preset_prog h p s = (Inr preset, s)"
    by (auto simp: start_local_engine_def preset_prog_def andthen_apply split: sum.splits)
  let ?all = "all3 (resolve_binary h fetch sha256) (ensure_policy h preset) (ensure_local_api_key h (si_token i))"
  obtain v s1 where a: "?all s = (Inr v, s1)"
    using run pre by (auto simp: start_local_engine_def andthen_apply split: sum.splits prod.splits)
  obtain bin policy key s0 where v: "v = (bin, policy, key)"
    and k: "ensure_local_api_key h (si_token i) s0 = (Inr key, s1)"
    using all3_Inr [OF a] by auto
  from ensure_key_result [OF k tok] obtain c where
    c: "files s1 (key_path h) = Some c" "trim c = key" "key \<noteq> []" by blast
  obtain port where port: "si_port i = Some port"
    using run pre a v by (cases "si_port i") (simp_all add: start_local_engine_def andthen_Inr)
  let ?s2 = "s1\<lparr>alive := insert (si_pid i) (alive s1)\<rparr>"
  let ?w = "write_runtime_file h (local_url port) (si_pid i) (si_started i)"
  have rest: "andthen
      (try_catch (andthen (await_healthy i) (\<lambda>_. ?w)) (\<lambda>err. andthen (stop_engine h (si_pid i)) (\<lambda>_. throw err)))
      (\<lambda>_. ret \<lparr>le_url = local_url port, le_key = key, le_pid = si_pid i\<rparr>) ?s2 = (Inr e, s')"
    using run pre a v port by (simp add: start_local_engine_def andthen_Inr spawn_child_def)
  obtain r3 s3 where aw: "await_healthy i ?s2 = (r3, s3)" by force
  then have s3: "s3 = ?s2" by (rule await_state)
  have w: "?w ?s2 = (Inr (), s')" and e: "e = \<lparr>le_url = local_url port, le_key = key, le_pid = si_pid i\<rparr>"
    using rest aw s3 by (auto simp: andthen_apply try_catch_apply split: sum.splits prod.splits)
  have "files s' = (files ?s2)(runtime_path h \<mapsto> stringify (runtime_doc (local_url port) (si_pid i) (si_started i)) @ [CHR 10])"
    using write_file_cases [OF w [unfolded write_runtime_file_def]] by simp
  moreover have "alive s' = alive ?s2" using write_file_alive [OF w [unfolded write_runtime_file_def]] .
  ultimately show ?thesis using c e runtime_key_distinct [of h] by auto
qed

lemma parse_json_line:
  assumes "safe_doc j"
  shows "parse_json (stringify j @ [CHR 10]) = Some (reread j)"
proof -
  have "stops [CHR 10]" by (simp add: stops_def)
  then have "parse_value (Suc (2 * length (stringify j @ [CHR 10]))) (stringify j @ [CHR 10]) = Some (reread j, [CHR 10])"
    using reads_stringify [OF assms] unfolding reads_def by (auto simp: le_SucI)
  then show ?thesis by (simp add: parse_json_def skip_ws_def json_ws_def)
qed

lemma runtime_doc_reads:
  "pid < 2 ^ 53 \<Longrightarrow> parse_json (stringify (runtime_doc url pid started) @ [CHR 10]) =
     Some (JObj [(''url'', JStr url), (''pid'', JNum (Fin (of_nat pid))), (''startedAt'', JStr started)])"
  by (subst parse_json_line) (simp_all add: runtime_doc_def)

lemma local_url_not_Nil [simp]: "local_url port \<noteq> []"
  by (simp add: local_url_def)

lemma signals_nat: "0 < pid \<Longrightarrow> signals procs (JNum (Fin (of_nat pid))) = (pid \<in> procs)"
  by (simp add: signals_def)


lemma discover_eval:
  assumes "faults s = []" "files s (runtime_path h) = Some (stringify (runtime_doc u pid started) @ [CHR 10])"
    "pid < 2 ^ 53" "0 < pid" "pid \<in> alive s" "u \<noteq> []"
  shows "discover_local_engine h s =
    (Inr \<lparr>info_url = Some (JStr u),
          info_key = (case files s (key_path h) of None \<Rightarrow> None | Some c \<Rightarrow> if trim c = [] then None else Some (trim c))\<rparr>, s)"
  using assms
  by (auto simp: discover_local_engine_def try_catch_apply andthen_apply quiet_read runtime_doc_reads member_def
      signals_nat split: option.splits)

lemma discover_nothing:
  "faults s = [] \<Longrightarrow> files s (runtime_path h) = None \<Longrightarrow> discover_local_engine h s = (Inr no_engine, s)"
  by (simp add: discover_local_engine_def try_catch_apply andthen_apply quiet_read)

lemma stop_engine_eval:
  assumes "faults s = []" "files s (runtime_path h) = Some (stringify (runtime_doc u pid started) @ [CHR 10])"
    "pid < 2 ^ 53"
  shows "stop_engine h q s = (Inr (),
    s\<lparr>files := (if q = pid then (files s)(runtime_path h := None) else files s), alive := alive s - {q}\<rparr>)"
  using assms
  by (auto simp: stop_engine_def remove_runtime_file_def try_catch_apply andthen_apply quiet_read runtime_doc_reads
      member_def unlink_file_def may_fail_quiet)

text \<open>C26: A local engine that was started can be found, and only its own \<open>stop\<close> takes the record
  away. After a successful start the SDK's discovery returns exactly the address and the key of that
  engine; it still does after any other engine (another pid) has been stopped, although all of them
  share one record file; and after the engine itself was stopped discovery finds nothing. The run may
  follow any earlier history of the data directory and any failures before it.\<close>

theorem start_discover_stop:
  fixes s s' :: "'r machine_scheme"
  assumes run: "start_local_engine h fetch sha256 p i s = (Inr e, s')"
    and tok: "no_ws (si_token i)" and pid: "0 < si_pid i" "si_pid i < 2 ^ 53"
    and quiet: "faults s' = []"
  shows "discover_local_engine h s' = (Inr \<lparr>info_url = Some (JStr (le_url e)), info_key = Some (le_key e)\<rparr>, s')
    \<and> (q \<noteq> le_pid e \<longrightarrow>
         fst (discover_local_engine h (snd (stop_engine h q s'))) =
           Inr \<lparr>info_url = Some (JStr (le_url e)), info_key = Some (le_key e)\<rparr>)
    \<and> fst (discover_local_engine h (snd (stop_engine h (le_pid e) s'))) = Inr no_engine"
proof -
  from start_cases [OF run tok] obtain port key c where
    e: "e = \<lparr>le_url = local_url port, le_key = key, le_pid = si_pid i\<rparr>"
    and c: "files s' (key_path h) = Some c" "trim c = key" "key \<noteq> []"
    and f: "files s' (runtime_path h) = Some (stringify (runtime_doc (local_url port) (si_pid i) (si_started i)) @ [CHR 10])"
    and al: "si_pid i \<in> alive s'" by blast
  let ?found = "Inr \<lparr>info_url = Some (JStr (le_url e)), info_key = Some (le_key e)\<rparr>"
  have found: "discover_local_engine h s' = (?found, s')"
    using discover_eval [OF quiet f pid(2) pid(1) al] c e by simp
  have "fst (discover_local_engine h (snd (stop_engine h q s'))) = ?found" if "q \<noteq> le_pid e"
  proof -
    let ?t = "s'\<lparr>files := files s', alive := alive s' - {q}\<rparr>"
    have "snd (stop_engine h q s') = ?t" using stop_engine_eval [OF quiet f pid(2)] that e by simp
    moreover have "fst (discover_local_engine h ?t) = ?found"
      using discover_eval [of ?t h "local_url port" "si_pid i" "si_started i"]
        quiet f pid al that e c by simp
    ultimately show ?thesis by simp
  qed
  moreover have "fst (discover_local_engine h (snd (stop_engine h (le_pid e) s'))) = Inr no_engine"
    using stop_engine_eval [OF quiet f pid(2)] e quiet by (simp add: discover_nothing)
  ultimately show ?thesis using found by blast
qed


text \<open>A start that finds a cached binary, in an otherwise empty data directory.\<close>

definition demo_inputs :: start_inputs where
  "demo_inputs = \<lparr>si_token = ''tok'', si_port = Some 53421, si_pid = 42, si_now = 0, si_started = ''2025'',
     si_clock = (\<lambda>n. 250 * int n), si_exited = (\<lambda>_. False), si_probe = (\<lambda>n. n = 2)\<rparr>"

definition demo_machine :: machine where
  "demo_machine = \<lparr>faults = [], files = [''/h/bin/lelu-engine-linux-amd64'' \<mapsto> ''ELF''], torn = 0, alive = {}\<rparr>"

lemma demo_paths:
  "path_join [''/h'', ''bin'', ''lelu-engine-linux-amd64''] = ''/h/bin/lelu-engine-linux-amd64''"
  "path_join [''/h'', ''policy.yaml''] = ''/h/policy.yaml''" "path_join [''/h'', ''engine.key''] = ''/h/engine.key''"
  by code_simp+

lemma write_file_quiet:
  "faults s = [] \<Longrightarrow> write_file p c s = (Inr (), s\<lparr>files := (files s)(p \<mapsto> c)\<rparr>)"
  by (cases s) (simp add: write_file_def next_fault_def andthen_apply)

lemma mkdir_quiet: "faults s = [] \<Longrightarrow> mkdir p s = (Inr (), s)"
  by (simp add: mkdir_def may_fail_quiet)

lemma demo_env: "env_truthy demo_host ''LELU_ENGINE_BINARY'' = None" "lelu_home demo_host = ''/h''"
  "env demo_host ''LELU_POLICY_PATH'' = None" "env demo_host ''LELU_POLICY_PRESET'' = None"
  by (simp_all add: env_truthy_def lelu_home_def nullish_def demo_host_def)

lemma exists_sync_apply [simp]: "exists_sync p s = (Inr (files s p \<noteq> None), s)"
  by (simp add: exists_sync_def)

lemma demo_files: "files demo_machine = [''/h/bin/lelu-engine-linux-amd64'' \<mapsto> ''ELF'']" "faults demo_machine = []"
  by (simp_all add: demo_machine_def)

lemma demo_resolve:
  "resolve_binary demo_host f sh demo_machine = (Inr ''/h/bin/lelu-engine-linux-amd64'', demo_machine)"
  by (simp add: resolve_binary_def demo_env from_sum_def demo_asset andthen_apply Let_def demo_paths demo_files)

lemma demo_policy:
  "ensure_policy demo_host General demo_machine =
    (Inr ''/h/policy.yaml'', demo_machine\<lparr>files := (files demo_machine)(''/h/policy.yaml'' \<mapsto>
        starter_policy_text General (display_path demo_host ''/h/policy.yaml''))\<rparr>)"
proof -
  have "policy_path demo_host General = ''/h/policy.yaml''"
    by (simp add: policy_path_def default_policy_path_def demo_env nullish_def demo_paths)
  then show ?thesis
    by (simp add: ensure_policy_def andthen_apply mkdir_quiet write_file_quiet demo_files Let_def)
qed

lemma demo_key:
  assumes "faults s = []" "files s ''/h/engine.key'' = None"
  shows "ensure_local_api_key demo_host ''tok'' s =
    (Inr ''lelu_local_tok'', s\<lparr>files := (files s)(''/h/engine.key'' \<mapsto> ''lelu_local_tok'' @ [CHR 10])\<rparr>)"
proof -
  have "key_path demo_host = ''/h/engine.key''"
    by (simp add: key_path_def demo_env demo_paths)
  then show ?thesis using assms
    by (simp add: ensure_local_api_key_def try_catch_apply andthen_apply quiet_read mkdir_quiet
        write_file_quiet Let_def)
qed

lemma demo_await: "await_healthy demo_inputs s = (Inr (), s)"
proof -
  have "wait_healthy (0 + health_timeout) (\<lambda>n. 250 * int n) (\<lambda>_. False) (\<lambda>n. n = 2) startup_fuel 0 = Some (Inr ())"
    by code_simp
  then show ?thesis by (simp add: await_healthy_def demo_inputs_def)
qed

lemma demo_start_ok:
  obtains s' where
    "start_local_engine demo_host demo_fetch (\<lambda>c. c) None demo_inputs demo_machine
      = (Inr \<lparr>le_url = local_url 53421, le_key = ''lelu_local_tok'', le_pid = 42\<rparr>, s')"
    "faults s' = []"
proof -
  let ?s1 = "demo_machine\<lparr>files := (files demo_machine)(''/h/policy.yaml'' \<mapsto>
        starter_policy_text General (display_path demo_host ''/h/policy.yaml''))\<rparr>"
  let ?s2 = "?s1\<lparr>files := (files ?s1)(''/h/engine.key'' \<mapsto> ''lelu_local_tok'' @ [CHR 10])\<rparr>"
  have pre: "preset_prog demo_host None s = (Inr General, s)" for s :: machine
    by (simp add: preset_prog_def resolve_preset_def nullish_def demo_host_def trim_def trim_start_def trim_end_def is_ws_def)
  have key: "ensure_local_api_key demo_host ''tok'' ?s1 = (Inr ''lelu_local_tok'', ?s2)"
    by (rule demo_key) (simp_all add: demo_machine_def)
  have all: "all3 (resolve_binary demo_host demo_fetch (\<lambda>c. c)) (ensure_policy demo_host General)
      (ensure_local_api_key demo_host ''tok'') demo_machine
      = (Inr (''/h/bin/lelu-engine-linux-amd64'', ''/h/policy.yaml'', ''lelu_local_tok''), ?s2)"
    unfolding all3_def demo_resolve demo_policy Let_def prod.case key by simp
  have "faults ?s2 = []" by (simp add: demo_machine_def)
  moreover have "si_token demo_inputs = ''tok''" "si_port demo_inputs = Some 53421" "si_pid demo_inputs = 42"
    by (simp_all add: demo_inputs_def)
  ultimately show ?thesis
    using all pre that
    by (simp add: start_local_engine_def andthen_apply try_catch_apply spawn_child_def demo_await
        write_runtime_file_def write_file_quiet demo_files)
qed


theorem start_discover_stop_witness:
  "\<exists>s' :: machine. fst (discover_local_engine demo_host s')
       = Inr \<lparr>info_url = Some (JStr (local_url 53421)), info_key = Some ''lelu_local_tok''\<rparr>
     \<and> fst (discover_local_engine demo_host (snd (stop_engine demo_host 42 s'))) = Inr no_engine"
proof -
  obtain s' where run: "start_local_engine demo_host demo_fetch (\<lambda>c. c) None demo_inputs demo_machine
      = (Inr \<lparr>le_url = local_url 53421, le_key = ''lelu_local_tok'', le_pid = 42\<rparr>, s')" and q: "faults s' = []"
    using demo_start_ok by blast
  have "no_ws (si_token demo_inputs)" "0 < si_pid demo_inputs" "si_pid demo_inputs < 2 ^ 53"
    by (simp_all add: demo_inputs_def no_ws_def is_ws_def)
  from start_discover_stop [OF run this q, of 0] show ?thesis by (intro exI [of _ s']) simp
qed

section \<open>Waiting for the engine\<close>

lemma wait_enough:
  assumes "\<forall>n. clock n + 250 \<le> clock (Suc n)" "deadline \<le> clock n + 250 * int fuel" "0 < fuel"
  shows "wait_healthy deadline clock exited probe (Suc fuel) n \<noteq> None"
  using assms(2,3)
proof (induction fuel arbitrary: n)
  case 0
  then show ?case by simp
next
  case (Suc fuel)
  have step: "clock n + 250 \<le> clock (Suc n)" using assms(1) by blast
  show ?case
  proof (cases "fuel = 0")
    case True
    then show ?thesis using Suc.prems step by (simp only: wait_healthy.simps(2)) auto
  next
    case False
    then have "wait_healthy deadline clock exited probe (Suc fuel) (Suc n) \<noteq> None"
      using Suc.prems step by (intro Suc.IH) auto
    then show ?thesis by (subst wait_healthy.simps(2)) auto
  qed
qed

lemma wait_Inr:
  "wait_healthy deadline clock exited probe fuel n = Some (Inr u) \<Longrightarrow>
     \<exists>k \<ge> n. probe k \<and> clock k < deadline \<and> (\<forall>m. n \<le> m \<and> m \<le> k \<longrightarrow> \<not> exited m)"
proof (induction fuel arbitrary: n)
  case 0
  then show ?case by simp
next
  case (Suc fuel)
  show ?case
  proof (cases "probe n \<and> \<not> exited n \<and> clock n < deadline")
    case True
    then show ?thesis by (intro exI [of _ n]) auto
  next
    case False
    with Suc.prems have now: "\<not> exited n" and "wait_healthy deadline clock exited probe fuel (Suc n) = Some (Inr u)"
      by (auto split: if_splits)
    from Suc.IH [OF this(2)] obtain k where
      k: "Suc n \<le> k" "probe k" "clock k < deadline" "\<forall>m. Suc n \<le> m \<and> m \<le> k \<longrightarrow> \<not> exited m"
      by blast
    have "\<not> exited m" if "n \<le> m" "m \<le> k" for m
      using now k(4) that by (cases "m = n") auto
    with k show ?thesis by (intro exI [of _ k]) auto
  qed
qed



end
