(* ===== verification/McpCli.thy ===== *)
theory McpCli
  imports LocalEngine
begin

text \<open>
  The command line of the MCP server (\<open>sdk/mcp/src/cli.ts\<close>): its argument parser, the configuration it
  prints or writes for an editor (\<open>add\<close>) and how \<open>start\<close> finds the engine it will serve. Console texts
  other than the printed configuration are left out; the server it then runs is \<open>McpServer\<close>.
\<close>

section \<open>Arguments\<close>

text \<open>The flags in the order they were assigned; a later one wins.\<close>

type_synonym flags = "(string \<times> string) list"

definition flag :: "flags \<Rightarrow> string \<Rightarrow> string option" where
  "flag fs k = map_of (rev fs) k"

fun parse_args :: "string list \<Rightarrow> flags" where
  "parse_args [] = []"
| "parse_args [arg] = (if starts_with ''--'' arg then [(drop 2 arg, ''true'')] else [])"
| "parse_args (arg # nxt # rest) =
     (if \<not> starts_with ''--'' arg then parse_args (nxt # rest)
      else if nxt \<noteq> [] \<and> \<not> starts_with ''--'' nxt then (drop 2 arg, nxt) # parse_args rest
      else (drop 2 arg, ''true'') # parse_args (nxt # rest))"

text \<open>\<open>parseInt(s, 10)\<close>: blanks, a sign, the longest run of digits; \<open>None\<close> is \<open>NaN\<close>.\<close>

definition parse_int :: "string \<Rightarrow> int option" where
  "parse_int s =
     (let t = trim_start s; neg = (t \<noteq> [] \<and> hd t = CHR ''-'');
          u = (if t \<noteq> [] \<and> (hd t = CHR ''-'' \<or> hd t = CHR ''+'') then tl t else t); ds = takeWhile is_digit u
      in if ds = [] then None else Some (if neg then - int (read_digits 0 ds) else int (read_digits 0 ds)))"

section \<open>Editor configuration\<close>

datatype add_target = Cursor | Claude | OpenCode | Manual

definition detect_add_target :: "flags \<Rightarrow> add_target" where
  "detect_add_target fs =
     (if flag fs ''cursor'' = Some ''true'' then Cursor
      else if flag fs ''claude'' = Some ''true'' then Claude
      else if flag fs ''open-code'' = Some ''true'' then OpenCode
      else Manual)"

definition or_env :: "flags \<Rightarrow> string \<Rightarrow> host \<Rightarrow> string \<Rightarrow> string option" where
  "or_env fs k h name = (case flag fs k of None \<Rightarrow> env h name | Some v \<Rightarrow> Some v)"

definition sse_url :: "host \<Rightarrow> flags \<Rightarrow> string" where
  "sse_url h fs = nullish (or_env fs ''url'' h ''LELU_MCP_URL'') ''http://localhost:3001/sse''"

definition connection_mode :: "flags \<Rightarrow> string" where
  "connection_mode fs = nullish (flag fs ''mode'') ''sse''"

definition env_entry :: "string \<Rightarrow> string option \<Rightarrow> (string \<times> int json) list" where
  "env_entry k v = (if truthy v then [(k, JStr (the v))] else [])"

definition build_mcp_server_config :: "host \<Rightarrow> flags \<Rightarrow> int json" where
  "build_mcp_server_config h fs =
     (if connection_mode fs = ''stdio'' then
        (let vars = env_entry ''LELU_ENGINE_URL'' (or_env fs ''engine-url'' h ''LELU_ENGINE_URL'')
                    @ env_entry ''LELU_API_KEY'' (or_env fs ''api-key'' h ''LELU_API_KEY'')
         in JObj ([(''command'', JStr ''npx''),
                   (''args'', JArr (map JStr [''-y'', ''lelu-mcp'', ''start'', ''--transport'', ''stdio'']))]
                  @ (if vars \<noteq> [] then [(''env'', JObj vars)] else [])))
      else JObj [(''url'', JStr (sse_url h fs))])"

text \<open>\<open>JSON.stringify(v, null, 2)\<close>, at an indentation of \<open>n\<close> blanks.\<close>

fun pretty :: "nat \<Rightarrow> int json \<Rightarrow> string" where
  "pretty n (JArr vs) =
     (if vs = [] then ''[]''
      else ''['' @ [CHR 10] @ join ('','' @ [CHR 10]) (map (\<lambda>v. replicate (n + 2) (CHR '' '') @ pretty (n + 2) v) vs)
           @ [CHR 10] @ replicate n (CHR '' '') @ '']'')"
| "pretty n (JObj kvs) =
     (if kvs = [] then ''{}''
      else ''{'' @ [CHR 10]
           @ join ('','' @ [CHR 10])
               (map (\<lambda>(k, v). replicate (n + 2) (CHR '' '') @ show_str k @ '': '' @ pretty (n + 2) v) kvs)
           @ [CHR 10] @ replicate n (CHR '' '') @ ''}'')"
| "pretty n v = stringify v"

text \<open>What \<open>add\<close> does: it refuses a mode, prints a command or a configuration, or writes the
  configuration to a file (and prints it).\<close>

datatype add_result = BadMode | Printed string | Wrote string string

definition claude_command :: "host \<Rightarrow> flags \<Rightarrow> string" where
  "claude_command h fs =
     (if connection_mode fs = ''stdio''
      then ''claude mcp add lelu -- npx -y lelu-mcp start --transport stdio --preset coding-agent''
      else ''claude mcp add --transport http lelu '' @ sse_url h fs @ '' --header '' @ [CHR 0x22]
           @ ''Authorization: Bearer $MCP_AUTH_TOKEN'' @ [CHR 0x22])"

definition config_text :: "host \<Rightarrow> flags \<Rightarrow> string" where
  "config_text h fs = pretty 0 (JObj [(''mcpServers'', JObj [(''lelu'', build_mcp_server_config h fs)])])"

definition target_path :: "string \<Rightarrow> add_target \<Rightarrow> string \<times> string" where
  "target_path cwd target =
     (let dir = path_join [cwd, if target = Cursor then ''.cursor'' else ''.opencode'']
      in (dir, path_join [dir, ''mcp.json'']))"

definition run_add :: "host \<Rightarrow> string \<Rightarrow> flags \<Rightarrow> ('r, add_result) fs_prog" where
  "run_add h cwd fs =
     (let target = detect_add_target fs; text_out = config_text h fs; (dir, path) = target_path cwd target
      in if connection_mode fs \<noteq> ''sse'' \<and> connection_mode fs \<noteq> ''stdio'' then ret BadMode
         else if target = Claude then ret (Printed (claude_command h fs))
         else if flag fs ''write'' \<noteq> Some ''true'' \<or> target = Manual then ret (Printed text_out)
         else andthen (mkdir dir) (\<lambda>_. andthen (write_file path (text_out @ [CHR 10])) (\<lambda>_. ret (Wrote path text_out))))"

section \<open>Main\<close>

record serve_config =
  sv_engine :: string
  sv_key :: "string option"
  sv_timeout :: int
  sv_http :: bool
  sv_port :: "int option"

datatype cli_result = Exit int | Added add_result | Serve serve_config

text \<open>The engine to serve: the given one, or a local engine that is started; when starting fails, the
  default address.\<close>

definition find_engine ::
  "host \<Rightarrow> fetch \<Rightarrow> (string \<Rightarrow> string) \<Rightarrow> start_inputs \<Rightarrow> flags \<Rightarrow> ('r machine_scheme, 'e, string \<times> string option) prog" where
  "find_engine h fetch sha256 i fs =
     (let explicit = or_env fs ''engine-url'' h ''LELU_ENGINE_URL''; url = nullish explicit ''http://localhost:8082'';
          key = or_env fs ''api-key'' h ''LELU_API_KEY''
      in if \<not> truthy explicit \<and> flag fs ''no-local'' \<noteq> Some ''true''
         then try_catch
                (andthen (start_local_engine h fetch sha256 (flag fs ''preset'') i) (\<lambda>e.
                 ret (le_url e, Some (nullish key (le_key e)))))
                (\<lambda>err. ret (url, key))
         else ret (url, key))"

definition serve_port :: "host \<Rightarrow> flags \<Rightarrow> int option" where
  "serve_port h fs =
     (if truthy (flag fs ''port'') then parse_int (the (flag fs ''port''))
      else if truthy (env h ''MCP_PORT'') then parse_int (the (env h ''MCP_PORT''))
      else Some 3001)"

definition cli_start ::
  "host \<Rightarrow> fetch \<Rightarrow> (string \<Rightarrow> string) \<Rightarrow> start_inputs \<Rightarrow> flags \<Rightarrow> ('r, cli_result) m_prog" where
  "cli_start h fetch sha256 i fs =
     (let timeout = (if truthy (flag fs ''timeout'') then parse_int (the (flag fs ''timeout'')) else Some 10000);
          transport = nullish (or_env fs ''transport'' h ''MCP_TRANSPORT'') ''stdio''
      in case timeout of
           None \<Rightarrow> ret (Exit 1)
         | Some ms \<Rightarrow>
             (if ms < 1 then ret (Exit 1)
              else if transport \<noteq> ''stdio'' \<and> transport \<noteq> ''http'' then ret (Exit 1)
              else andthen (find_engine h fetch sha256 i fs) (\<lambda>(url, key).
                   ret (Serve \<lparr>sv_engine = url, sv_key = key, sv_timeout = ms, sv_http = (transport = ''http''),
                               sv_port = serve_port h fs\<rparr>))))"

definition cli_main ::
  "host \<Rightarrow> fetch \<Rightarrow> (string \<Rightarrow> string) \<Rightarrow> start_inputs \<Rightarrow> string \<Rightarrow> string list \<Rightarrow> ('r, cli_result) m_prog" where
  "cli_main h fetch sha256 i cwd args =
     (case args of
        [] \<Rightarrow> ret (Exit 1)
      | command # rest \<Rightarrow>
          (if command = [] then ret (Exit 1)
           else if command = ''--help'' \<or> command = ''-h'' then ret (Exit 0)
           else if command = ''add'' then andthen (run_add h cwd (parse_args rest)) (\<lambda>r. ret (if r = BadMode then Exit 1 else Added r))
           else if command = ''start'' then cli_start h fetch sha256 i (parse_args rest)
           else ret (Exit 1)))"

end
