(* ===== verification/Db.thy ===== *)
theory Db
  imports Effects Json
begin

text \<open>
  The platform's database (\<open>platform/ui/lib/db.ts\<close>): one list of rows per table, in insertion
  order, with the constraints of the schema checked by every insert. The rules of a policy and the scopes of an
  agent are the JSON values that were stored; nothing checks them. A statement takes the next entry
  of the failure schedule before it runs; a failing or constraint-violating statement throws and
  changes nothing. Times are milliseconds. The mail that was handed to the provider is kept in
  \<open>outbox\<close>, the requests that were sent to the engine (address, key, body) in \<open>engine_log\<close>.
\<close>

record user_row =
  u_id :: string
  u_name :: string
  u_email :: string
  u_password :: "string option"
  u_verified :: bool
  u_created :: int
  u_last_login :: "int option"
  u_plan :: string
  u_plan_updated :: "int option"
  u_stripe :: "string option"

record oauth_row =
  oa_id :: string
  oa_user :: string
  oa_provider :: string
  oa_account :: string

record token_row =
  tk_token :: string
  tk_user :: string
  tk_expires :: int

record key_row =
  k_id :: string
  k_user :: string
  k_name :: string
  k_prefix :: string
  k_hash :: string
  k_created :: int
  k_last_used :: "int option"
  k_expires :: "int option"
  k_revoked :: bool
  k_revoked_at :: "int option"

record policy_row =
  p_id :: string
  p_user :: string
  p_name :: string
  p_description :: string
  p_rules :: "jsnum json list"
  p_active :: bool
  p_created :: int
  p_updated :: int

record audit_row =
  a_id :: nat
  a_trace :: string
  a_user :: "string option"
  a_key :: "string option"
  a_actor :: string
  a_action :: string
  a_decision :: string
  a_reason :: string
  a_rule :: string
  a_policy :: "string option"
  a_confidence :: rat
  a_latency :: int
  a_mode :: string
  a_input_hash :: "string option"
  a_output_hash :: "string option"
  a_digest :: "string option"
  a_created :: int

record agent_row =
  g_id :: string
  g_user :: string
  g_name :: string
  g_description :: string
  g_type :: string
  g_owner :: string
  g_status :: string
  g_scopes :: "jsnum json list"
  g_last_seen :: "int option"
  g_created :: int
  g_updated :: int

datatype mail = VerifyMail string string | ResetMail string string

record db = io +
  t_users :: "user_row list"
  t_oauth :: "oauth_row list"
  t_email_tokens :: "token_row list"
  t_reset_tokens :: "token_row list"
  t_keys :: "key_row list"
  t_policies :: "policy_row list"
  t_audit :: "audit_row list"
  t_agents :: "agent_row list"
  audit_serial :: nat
  outbox :: "mail list"
  engine_log :: "(string \<times> string option \<times> jsnum json) list"

datatype app_error =
    DbError
  | EmailTaken
  | ConfigError
  | MailError
  | RemoteError string
  | BadValue

type_synonym 'a app = "(db, app_error, 'a) prog"

definition query :: "unit app" where
  "query = may_fail DbError"

definition select :: "(db \<Rightarrow> 'a) \<Rightarrow> 'a app" where
  "select f = andthen query (\<lambda>_. gets f)"

text \<open>\<open>UPDATE\<close> and \<open>DELETE\<close>; an insert whose constraint \<open>c\<close> fails throws.\<close>

definition update :: "(db \<Rightarrow> db) \<Rightarrow> unit app" where
  "update f = andthen query (\<lambda>_. modify f)"

definition insert_checked :: "(db \<Rightarrow> bool) \<Rightarrow> (db \<Rightarrow> db) \<Rightarrow> unit app" where
  "insert_checked c f =
     andthen query (\<lambda>_. andthen (gets c) (\<lambda>ok. if ok then modify f else throw DbError))"

text \<open>\<open>ensureSchema()\<close> on a database that has been set up: its statements change nothing but may
  fail.\<close>

definition ensure_schema :: "unit app" where
  "ensure_schema = query"

definition user_exists :: "string \<Rightarrow> db \<Rightarrow> bool" where
  "user_exists uid s = (\<exists>u \<in> set (t_users s). u_id u = uid)"

section \<open>The constraints of the schema\<close>

definition insert_user :: "user_row \<Rightarrow> unit app" where
  "insert_user u = insert_checked
     (\<lambda>s. u_id u \<notin> u_id ` set (t_users s) \<and> u_email u \<notin> u_email ` set (t_users s)
          \<and> (case u_stripe u of None \<Rightarrow> True | Some c \<Rightarrow> Some c \<notin> u_stripe ` set (t_users s)))
     (\<lambda>s. s\<lparr>t_users := t_users s @ [u]\<rparr>)"

definition insert_oauth :: "oauth_row \<Rightarrow> unit app" where
  "insert_oauth a = insert_checked
     (\<lambda>s. oa_id a \<notin> oa_id ` set (t_oauth s) \<and> user_exists (oa_user a) s
          \<and> (oa_provider a, oa_account a) \<notin> (\<lambda>r. (oa_provider r, oa_account r)) ` set (t_oauth s))
     (\<lambda>s. s\<lparr>t_oauth := t_oauth s @ [a]\<rparr>)"

definition insert_email_token :: "token_row \<Rightarrow> unit app" where
  "insert_email_token t = insert_checked
     (\<lambda>s. tk_token t \<notin> tk_token ` set (t_email_tokens s) \<and> user_exists (tk_user t) s)
     (\<lambda>s. s\<lparr>t_email_tokens := t_email_tokens s @ [t]\<rparr>)"

definition insert_reset_token :: "token_row \<Rightarrow> unit app" where
  "insert_reset_token t = insert_checked
     (\<lambda>s. tk_token t \<notin> tk_token ` set (t_reset_tokens s) \<and> user_exists (tk_user t) s)
     (\<lambda>s. s\<lparr>t_reset_tokens := t_reset_tokens s @ [t]\<rparr>)"

definition insert_key :: "key_row \<Rightarrow> unit app" where
  "insert_key k = insert_checked
     (\<lambda>s. k_id k \<notin> k_id ` set (t_keys s) \<and> k_hash k \<notin> k_hash ` set (t_keys s) \<and> user_exists (k_user k) s)
     (\<lambda>s. s\<lparr>t_keys := t_keys s @ [k]\<rparr>)"

definition insert_policy :: "policy_row \<Rightarrow> unit app" where
  "insert_policy p = insert_checked
     (\<lambda>s. p_id p \<notin> p_id ` set (t_policies s) \<and> user_exists (p_user p) s)
     (\<lambda>s. s\<lparr>t_policies := t_policies s @ [p]\<rparr>)"

definition insert_agent :: "agent_row \<Rightarrow> unit app" where
  "insert_agent g = insert_checked
     (\<lambda>s. g_id g \<notin> g_id ` set (t_agents s) \<and> user_exists (g_user g) s)
     (\<lambda>s. s\<lparr>t_agents := t_agents s @ [g]\<rparr>)"

text \<open>The serial number is drawn before the row is checked, as a sequence is.\<close>

definition insert_audit :: "audit_row \<Rightarrow> unit app" where
  "insert_audit a =
     andthen query (\<lambda>_.
     andthen (gets audit_serial) (\<lambda>n.
     andthen (modify (\<lambda>s. s\<lparr>audit_serial := Suc n\<rparr>)) (\<lambda>_.
     andthen (gets (\<lambda>s. a_decision a \<in> {''allowed'', ''denied'', ''human_review'', ''compute''}
                \<and> (case a_user a of None \<Rightarrow> True | Some uid \<Rightarrow> user_exists uid s))) (\<lambda>ok.
       if ok then modify (\<lambda>s. s\<lparr>t_audit := t_audit s @ [a\<lparr>a_id := n\<rparr>]\<rparr>) else throw DbError))))"

text \<open>What the constraints amount to.\<close>

definition db_ok :: "'r db_scheme \<Rightarrow> bool" where
  "db_ok s =
     (distinct (map u_id (t_users s)) \<and> distinct (map u_email (t_users s))
      \<and> distinct (map (\<lambda>r. (oa_provider r, oa_account r)) (t_oauth s))
      \<and> distinct (map tk_token (t_email_tokens s)) \<and> distinct (map tk_token (t_reset_tokens s))
      \<and> distinct (map k_id (t_keys s)) \<and> distinct (map k_hash (t_keys s))
      \<and> distinct (map p_id (t_policies s)) \<and> distinct (map g_id (t_agents s)))"

section \<open>Rules for statements\<close>

lemma preserves_query [pres]:
  "(\<And>s. I s \<Longrightarrow> I (s\<lparr>faults := tl (faults s)\<rparr>)) \<Longrightarrow> preserves I query"
  unfolding query_def by (rule preserves_may_fail)

lemma preserves_select [pres]:
  "(\<And>s. I s \<Longrightarrow> I (s\<lparr>faults := tl (faults s)\<rparr>)) \<Longrightarrow> preserves I (select f)"
  unfolding select_def by (intro pres)

lemma preserves_ensure [pres]:
  "(\<And>s. I s \<Longrightarrow> I (s\<lparr>faults := tl (faults s)\<rparr>)) \<Longrightarrow> preserves I ensure_schema"
  unfolding ensure_schema_def by (intro pres)

lemma preserves_update:
  "(\<And>s. I s \<Longrightarrow> I (s\<lparr>faults := tl (faults s)\<rparr>)) \<Longrightarrow> (\<And>s. I s \<Longrightarrow> I (f s)) \<Longrightarrow> preserves I (update f)"
  unfolding update_def by (intro pres preserves_modify)

lemma preserves_insert_checked:
  assumes "\<And>s. I s \<Longrightarrow> I (s\<lparr>faults := tl (faults s)\<rparr>)" "\<And>s. I s \<Longrightarrow> c s \<Longrightarrow> I (f s)"
  shows "preserves I (insert_checked c f)"
  unfolding preserves_def insert_checked_def query_def
proof (intro allI impI)
  fix s assume "I s"
  then have "I (s\<lparr>faults := tl (faults s)\<rparr>)" by (rule assms(1))
  then show "I (snd (andthen (may_fail DbError) (\<lambda>_. andthen (gets c) (\<lambda>ok. if ok then modify f else throw DbError)) s))"
    using may_fail_cases [of DbError s] assms(2) by (cases "faults s \<noteq> [] \<and> hd (faults s)")
      (auto simp: may_fail_def next_fault_def andthen_apply)
qed

lemma db_ok_faults [simp]: "db_ok (s\<lparr>faults := f\<rparr>) = db_ok s"
  by (simp add: db_ok_def)

text \<open>Without failures a statement just runs.\<close>

lemma query_quiet: "faults s = [] \<Longrightarrow> query s = (Inr (), s)"
  by (simp add: query_def may_fail_quiet)

lemma ensure_quiet: "faults s = [] \<Longrightarrow> ensure_schema s = (Inr (), s)"
  by (simp add: ensure_schema_def query_quiet)

lemma select_quiet: "faults s = [] \<Longrightarrow> select f s = (Inr (f s), s)"
  by (simp add: select_def andthen_apply query_quiet)

lemma update_quiet: "faults s = [] \<Longrightarrow> update f s = (Inr (), f s)"
  by (simp add: update_def andthen_apply query_quiet)

lemma insert_checked_quiet:
  "faults s = [] \<Longrightarrow> insert_checked c f s = (if c s then (Inr (), f s) else (Inl DbError, s))"
  by (simp add: insert_checked_def andthen_apply query_quiet)

lemmas quiet_simps = query_quiet ensure_quiet select_quiet update_quiet insert_checked_quiet andthen_apply
  try_catch_apply

text \<open>What a statement can do at all.\<close>

definition tick :: "'r io_scheme \<Rightarrow> 'r io_scheme" where
  "tick s = s\<lparr>faults := tl (faults s)\<rparr>"

lemma query_cases: "query s = (r, s') \<Longrightarrow> s' = tick s \<and> (r = Inr () \<or> r = Inl DbError)"
  using may_fail_cases [of DbError s] by (auto simp: query_def tick_def)

lemma select_cases: "select f s = (r, s') \<Longrightarrow> s' = tick s \<and> (r = Inr (f (tick s)) \<or> r = Inl DbError)"
  by (auto simp: select_def andthen_apply split: prod.splits sum.splits dest!: query_cases)

lemma update_cases: "update f s = (r, s') \<Longrightarrow> r = Inr () \<and> s' = f (tick s) \<or> r = Inl DbError \<and> s' = tick s"
  by (auto simp: update_def andthen_apply split: prod.splits sum.splits dest!: query_cases)

lemma insert_checked_cases:
  "insert_checked c f s = (r, s') \<Longrightarrow> r = Inr () \<and> c (tick s) \<and> s' = f (tick s) \<or> r = Inl DbError \<and> s' = tick s"
  by (auto simp: insert_checked_def andthen_apply split: prod.splits sum.splits if_splits dest!: query_cases)

lemma tick_tables [simp]:
  "t_users (tick s) = t_users s" "t_oauth (tick s) = t_oauth s" "t_email_tokens (tick s) = t_email_tokens s"
  "t_reset_tokens (tick s) = t_reset_tokens s" "t_keys (tick s) = t_keys s" "t_policies (tick s) = t_policies s"
  "t_audit (tick s) = t_audit s" "t_agents (tick s) = t_agents s" "audit_serial (tick s) = audit_serial s"
  "outbox (tick s) = outbox s" "engine_log (tick s) = engine_log s" "user_exists i (tick s) = user_exists i s"
  by (simp_all add: tick_def user_exists_def)

lemma db_ok_inserts [pres]:
  "preserves db_ok (insert_user u)" "preserves db_ok (insert_oauth a)"
  "preserves db_ok (insert_email_token t)" "preserves db_ok (insert_reset_token t)"
  "preserves db_ok (insert_key k)" "preserves db_ok (insert_policy p)" "preserves db_ok (insert_agent g)"
  unfolding insert_user_def insert_oauth_def insert_email_token_def insert_reset_token_def insert_key_def
    insert_policy_def insert_agent_def
  by (rule preserves_insert_checked; simp add: db_ok_def)+

lemma db_ok_audit [pres]: "preserves db_ok (insert_audit a)"
  unfolding insert_audit_def by (intro pres preserves_modify) (simp_all add: db_ok_def)

end
