(* ===== verification/Jwt.thy ===== *)
theory Jwt
  imports Json
begin

text \<open>
  Session tokens and password hashes of \<open>platform/ui/lib/auth.ts\<close>. Bytes and texts are both lists of
  \<open>char\<close>; a text is turned into bytes by UTF-8 and bytes into text by base64url or hexadecimal.
  HMAC-SHA-256 (\<open>hmac key message\<close>, the digest bytes) and scrypt (\<open>scrypt password salt\<close>, 64 bytes)
  are arguments.
\<close>

section \<open>Encodings\<close>

fun b64_values :: "nat list \<Rightarrow> nat list" where
  "b64_values (a # b # c # r) =
     [a div 4, (a mod 4) * 16 + b div 16, (b mod 16) * 4 + c div 64, c mod 64] @ b64_values r"
| "b64_values [a, b] = [a div 4, (a mod 4) * 16 + b div 16, (b mod 16) * 4]"
| "b64_values [a] = [a div 4, (a mod 4) * 16]"
| "b64_values [] = []"

fun b64_bytes :: "nat list \<Rightarrow> nat list" where
  "b64_bytes (w # x # y # z # r) =
     [w * 4 + x div 16, (x mod 16) * 16 + y div 4, (y mod 4) * 64 + z] @ b64_bytes r"
| "b64_bytes [w, x, y] = [w * 4 + x div 16, (x mod 16) * 16 + y div 4]"
| "b64_bytes [w, x] = [w * 4 + x div 16]"
| "b64_bytes [w] = []"
| "b64_bytes [] = []"

definition b64_char :: "nat \<Rightarrow> char" where
  "b64_char v =
     (if v < 26 then char_of (65 + v) else if v < 52 then char_of (71 + v)
      else if v < 62 then char_of (v - 4) else if v = 62 then CHR ''-'' else CHR ''_'')"

text \<open>Decoding accepts both alphabets and skips every other character.\<close>

definition b64_value :: "char \<Rightarrow> nat option" where
  "b64_value c =
     (let n = of_char c :: nat
      in if 65 \<le> n \<and> n \<le> 90 then Some (n - 65)
         else if 97 \<le> n \<and> n \<le> 122 then Some (n - 71)
         else if 48 \<le> n \<and> n \<le> 57 then Some (n + 4)
         else if c = CHR ''-'' \<or> c = CHR ''+'' then Some 62
         else if c = CHR ''_'' \<or> c = CHR ''/'' then Some 63
         else None)"

definition b64url :: "string \<Rightarrow> string" where
  "b64url bytes = map b64_char (b64_values (map of_char bytes))"

definition from_b64 :: "string \<Rightarrow> string" where
  "from_b64 s = map char_of (b64_bytes (List.map_filter b64_value s))"

definition utf8_char :: "char \<Rightarrow> string" where
  "utf8_char c = (let n = of_char c :: nat in if n < 128 then [c] else [char_of (192 + n div 64), char_of (128 + n mod 64)])"

definition utf8 :: "string \<Rightarrow> string" where
  "utf8 s = concat (map utf8_char s)"

text \<open>Decoding; a sequence that is not a Latin-1 character becomes a question mark (the replacement
  character is outside the model).\<close>

fun from_utf8 :: "string \<Rightarrow> string" where
  "from_utf8 [] = []"
| "from_utf8 [c] = [if of_char c < (128 :: nat) then c else CHR ''?'']"
| "from_utf8 (c # d # s) =
     (let m = of_char c :: nat; n = of_char d :: nat
      in if m < 128 then c # from_utf8 (d # s)
         else if (m = 194 \<or> m = 195) \<and> 128 \<le> n \<and> n < 192 then char_of ((m - 192) * 64 + (n - 128)) # from_utf8 s
         else CHR ''?'' # from_utf8 (d # s))"

definition hex :: "string \<Rightarrow> string" where
  "hex bytes = concat (map (\<lambda>b. [hex_digit (of_char b div 16), hex_digit (of_char b mod 16)]) bytes)"

text \<open>\<open>Buffer.from(s, "hex")\<close> stops at the first pair that is not hexadecimal.\<close>

fun unhex :: "string \<Rightarrow> string" where
  "unhex (a # b # s) =
     (case (hex_val a, hex_val b) of (Some h, Some l) \<Rightarrow> char_of (16 * h + l) # unhex s | _ \<Rightarrow> [])"
| "unhex _ = []"

section \<open>Tokens\<close>

record claims =
  cl_user :: string
  cl_email :: string
  cl_name :: string
  cl_verified :: bool

definition session_ttl :: int where
  "session_ttl = 60 * 60 * 24 * 7"

definition seconds :: "int \<Rightarrow> int" where
  "seconds ms = ms div 1000"

definition payload_doc :: "claims \<Rightarrow> int \<Rightarrow> int json" where
  "payload_doc c now =
     JObj [(''userId'', JStr (cl_user c)), (''email'', JStr (cl_email c)), (''name'', JStr (cl_name c)),
           (''emailVerified'', JBool (cl_verified c)), (''iat'', JNum now), (''exp'', JNum (now + session_ttl))]"

definition jwt_header :: string where
  "jwt_header = b64url (utf8 (stringify (JObj [(''alg'', JStr ''HS256''), (''typ'', JStr ''JWT'')])))"

text \<open>\<open>signJWT\<close>; \<open>None\<close> when \<open>JWT_SECRET\<close> is not set (the call throws).\<close>

definition sign_jwt :: "(string \<Rightarrow> string \<Rightarrow> string) \<Rightarrow> string option \<Rightarrow> int \<Rightarrow> claims \<Rightarrow> string option" where
  "sign_jwt hmac secret now_ms c =
     (if \<not> truthy secret then None
      else
        (let body = b64url (utf8 (stringify (payload_doc c (seconds now_ms))));
             msg = jwt_header @ ''.'' @ body;
             sig = b64url (hmac (the secret) (utf8 msg))
         in Some (jwt_header @ ''.'' @ body @ ''.'' @ sig)))"

text \<open>\<open>payload.exp < now\<close>: a missing member compares as false; \<open>signJWT\<close> always writes a number.\<close>

definition expired :: "jsnum json \<Rightarrow> int \<Rightarrow> bool" where
  "expired payload now =
     (case member ''exp'' payload of Some (JNum n) \<Rightarrow> num_less n (of_int now) | _ \<Rightarrow> False)"

definition verify_jwt :: "(string \<Rightarrow> string \<Rightarrow> string) \<Rightarrow> string option \<Rightarrow> int \<Rightarrow> string \<Rightarrow> jsnum json option" where
  "verify_jwt hmac secret now_ms token =
     (if \<not> truthy secret then None
      else
        (case split_on (CHR ''.'') token of
           [header, body, sig] \<Rightarrow>
             (let expected = b64url (hmac (the secret) (utf8 (header @ ''.'' @ body)))
              in if from_b64 sig \<noteq> from_b64 expected then None
                 else (case parse_json (from_utf8 (from_b64 body)) of
                         None \<Rightarrow> None
                       | Some JNull \<Rightarrow> None
                       | Some payload \<Rightarrow> if expired payload (seconds now_ms) then None else Some payload))
         | _ \<Rightarrow> None))"

section \<open>Passwords\<close>

definition hash_password :: "(string \<Rightarrow> string \<Rightarrow> string) \<Rightarrow> string \<Rightarrow> string \<Rightarrow> string" where
  "hash_password scrypt salt password = salt @ '':'' @ hex (scrypt password salt)"

definition verify_password :: "(string \<Rightarrow> string \<Rightarrow> string) \<Rightarrow> string \<Rightarrow> string \<Rightarrow> bool" where
  "verify_password scrypt password stored =
     (case split_on (CHR '':'') stored of
        salt # hash # _ \<Rightarrow> salt \<noteq> [] \<and> hash \<noteq> [] \<and> scrypt password salt = unhex hash
      | _ \<Rightarrow> False)"

section \<open>Round trips\<close>

lemma b64_bytes_values: "\<forall>b \<in> set bs. b < 256 \<Longrightarrow> b64_bytes (b64_values bs) = bs"
proof (induction bs rule: b64_values.induct)
  case (1 a b c r)
  then have "a < 256" "b < 256" "c < 256" by auto
  then have "(a div 4) * 4 + ((a mod 4) * 16 + b div 16) div 16 = a"
    "(((a mod 4) * 16 + b div 16) mod 16) * 16 + ((b mod 16) * 4 + c div 64) div 4 = b"
    "(((b mod 16) * 4 + c div 64) mod 4) * 64 + c mod 64 = c"
    by ((simp_all add: algebra_simps)?, (presburger+)?)
  with 1 show ?case by simp
next
  case (2 a b)
  then have "a < 256" "b < 256" by auto
  then have "(a div 4) * 4 + ((a mod 4) * 16 + b div 16) div 16 = a"
    "(((a mod 4) * 16 + b div 16) mod 16) * 16 + ((b mod 16) * 4) div 4 = b"
    by ((simp_all add: algebra_simps)?, (presburger+)?)
  then show ?case by simp
next
  case (3 a)
  then have "(a div 4) * 4 + ((a mod 4) * 16) div 16 = a" by simp
  then show ?case by simp
next
  case 4
  then show ?case by simp
qed

lemma b64_values_range: "\<forall>b \<in> set bs. b < 256 \<Longrightarrow> \<forall>v \<in> set (b64_values bs). v < 64"
proof (induction bs rule: b64_values.induct)
  case (1 a b c r)
  then have "a div 4 < 64" "(a mod 4) * 16 + b div 16 < 64" "(b mod 16) * 4 + c div 64 < 64" "c mod 64 < 64"
    by (auto, (presburger+)?)
  with 1 show ?case by auto
next
  case (2 a b)
  then have "a div 4 < 64" "(a mod 4) * 16 + b div 16 < 64" "(b mod 16) * 4 < 64"
    by (auto, (presburger+)?)
  then show ?case by auto
next
  case (3 a)
  then have "a div 4 < 64" "(a mod 4) * 16 < 64" by (auto, (presburger+)?)
  then show ?case by auto
qed simp

lemma b64_value_char: "v < 64 \<Longrightarrow> b64_value (b64_char v) = Some v"
  by (auto simp: b64_value_def b64_char_def Let_def)

lemma b64_char_no_dot: "v < 64 \<Longrightarrow> b64_char v \<noteq> CHR ''.''"
proof
  assume "v < 64" "b64_char v = CHR ''.''"
  then have "b64_value (CHR ''.'') = Some v" using b64_value_char by metis
  then show False by (simp add: b64_value_def)
qed

lemma char_div16 [simp]: "(of_char c :: nat) div 16 < 16"
  using nat_of_char_less_256 [of c] by linarith

lemma map_filter_b64: "\<forall>v \<in> set vs. v < 64 \<Longrightarrow> List.map_filter b64_value (map b64_char vs) = vs"
  by (induction vs) (auto simp: List.map_filter_simps b64_value_char)

lemma from_b64_b64url: "from_b64 (b64url s) = s"
proof -
  have r: "\<forall>b \<in> set (map of_char s). b < (256 :: nat)" by auto
  then have "b64_bytes (b64_values (map of_char s)) = map of_char s" by (rule b64_bytes_values)
  moreover have "List.map_filter b64_value (b64url s) = b64_values (map of_char s)"
    unfolding b64url_def by (rule map_filter_b64 [OF b64_values_range [OF r]])
  ultimately show ?thesis by (simp add: from_b64_def comp_def)
qed

lemma b64url_no_dot: "CHR ''.'' \<notin> set (b64url s)"
proof -
  have "\<forall>v \<in> set (b64_values (map of_char s)). v < 64" by (rule b64_values_range) auto
  then show ?thesis unfolding b64url_def using b64_char_no_dot by fastforce
qed

lemma from_utf8_step: "from_utf8 (utf8_char c @ s) = c # from_utf8 s"
proof (cases "of_char c < (128 :: nat)")
  case True
  then show ?thesis by (cases s) (simp_all add: utf8_char_def Let_def)
next
  case False
  let ?n = "of_char c :: nat"
  have n: "128 \<le> ?n" "?n < 256" using False by auto
  have hi: "192 + ?n div 64 = 194 \<or> 192 + ?n div 64 = 195"
    using div_le_mono [of 128 "of_char c" 64] less_mult_imp_div_less [of "of_char c" 4 64] n by auto
  have lo2: "?n mod 64 < 64" by simp
  then have lo: "128 + ?n mod 64 < 256" "?n mod 64 < 64" by linarith+
  have undo: "(192 + ?n div 64 - 192) * 64 + (128 + ?n mod 64 - 128) = ?n" by simp
  have codes: "of_char (char_of (192 + ?n div 64) :: char) = 192 + ?n div 64"
    "of_char (char_of (128 + ?n mod 64) :: char) = 128 + ?n mod 64"
    using hi lo(1) by auto
  show ?thesis
    using False hi lo codes undo by (simp add: utf8_char_def Let_def)
qed

lemma from_utf8_utf8: "from_utf8 (utf8 s) = s"
proof (induction s)
  case (Cons c s)
  then show ?case by (simp add: utf8_def from_utf8_step)
qed (simp add: utf8_def)

lemma unhex_hex: "unhex (hex s) = s"
proof (induction s)
  case (Cons c s)
  from Cons show ?case by (simp add: hex_def hex_val_digit)
qed (simp add: hex_def)

lemma hex_no_colon: "CHR '':'' \<notin> set (hex s)"
proof -
  have "list_all (\<lambda>d. hex_digit d \<noteq> CHR '':'') [0..<16]" by code_simp
  then have d: "d < 16 \<Longrightarrow> hex_digit d \<noteq> CHR '':''" for d by (auto simp: list_all_iff)
  have "\<forall>b. hex_digit (of_char b div 16) \<noteq> CHR '':'' \<and> hex_digit (of_char b mod 16) \<noteq> CHR '':''"
    using d by simp
  then have "\<forall>x \<in> set (hex s). x \<noteq> CHR '':''" unfolding hex_def by auto
  then show ?thesis by blast
qed

text \<open>A salt is itself hexadecimal.\<close>

lemma verify_hash_password:
  assumes "CHR '':'' \<notin> set salt" "salt \<noteq> []" "scrypt stored_pw salt \<noteq> []"
  shows "verify_password scrypt password (hash_password scrypt salt stored_pw)
     \<longleftrightarrow> scrypt password salt = scrypt stored_pw salt"
proof -
  have "hex (scrypt stored_pw salt) \<noteq> []" using assms(3) by (cases "scrypt stored_pw salt") (auto simp: hex_def)
  then show ?thesis
    using assms(1,2) hex_no_colon
    by (simp add: verify_password_def hash_password_def split_on_append split_on_no_sep unhex_hex)
qed

section \<open>Sessions\<close>

lemma split_three:
  "CHR ''.'' \<notin> set a \<Longrightarrow> CHR ''.'' \<notin> set b \<Longrightarrow> CHR ''.'' \<notin> set c \<Longrightarrow>
     split_on (CHR ''.'') (a @ ''.'' @ b @ ''.'' @ c) = [a, b, c]"
  by (simp add: split_on_append split_on_no_sep)

lemma verify_sign_jwt:
  assumes "sign_jwt hmac secret t0 c = Some token"
    and range: "\<bar>seconds t0\<bar> < 2 ^ 53 - session_ttl"
  shows "verify_jwt hmac secret t token =
    (if seconds t0 + session_ttl < seconds t then None else Some (reread (payload_doc c (seconds t0))))"
proof -
  let ?doc = "payload_doc c (seconds t0)"
  let ?body = "b64url (utf8 (stringify ?doc))"
  let ?sig = "b64url (hmac (the secret) (utf8 (jwt_header @ ''.'' @ ?body)))"
  have sec: "truthy secret" and tok: "token = jwt_header @ ''.'' @ ?body @ ''.'' @ ?sig"
    using assms(1) by (auto simp: sign_jwt_def Let_def split: if_splits)
  have sp: "split_on (CHR ''.'') token = [jwt_header, ?body, ?sig]"
    unfolding tok by (rule split_three) (simp_all add: jwt_header_def b64url_no_dot)
  have "safe_doc ?doc" using range by (simp add: payload_doc_def session_ttl_def)
  then have parse: "parse_json (from_utf8 (from_b64 ?body)) = Some (reread ?doc)"
    by (simp add: from_b64_b64url from_utf8_utf8 parse_stringify)
  have ex: "expired (reread ?doc) (seconds t) = (seconds t0 + session_ttl < seconds t)"
  proof -
    have "((of_int (seconds t0) :: rat) + of_int session_ttl < of_int (seconds t))
        = (seconds t0 + session_ttl < seconds t)"
      by (simp flip: of_int_add)
    then show ?thesis by (simp add: expired_def payload_doc_def member_def)
  qed
  show ?thesis
    using sec sp parse ex by (simp add: verify_jwt_def Let_def payload_doc_def)
qed

lemma verify_jwt_signed:
  assumes "verify_jwt hmac secret t token = Some p"
  shows "\<exists>header body sig. split_on (CHR ''.'') token = [header, body, sig] \<and> truthy secret
     \<and> from_b64 sig = hmac (the secret) (utf8 (header @ ''.'' @ body))
     \<and> parse_json (from_utf8 (from_b64 body)) = Some p \<and> \<not> expired p (seconds t)"
  using assms
  by (auto simp: verify_jwt_def Let_def from_b64_b64url split: if_splits list.splits option.splits json.splits)

end
