(* ===== verification/Auth.thy ===== *)
theory Auth
  imports Db Jwt
begin

text \<open>
  Users, tokens and sessions of \<open>platform/ui/lib/auth.ts\<close>. Random identifiers, salts and tokens and
  the time are arguments; \<open>now\<close> is both \<open>Date.now()\<close> and the database's \<open>NOW()\<close> within one call.
  The verification and the reset tokens implement one contract, the locale \<open>token_store\<close>: a token
  resolves at most once, not after its expiry, and only the latest one of a user.
\<close>

record user =
  us_id :: string
  us_name :: string
  us_email :: string
  us_password :: "string option"
  us_verified :: bool
  us_created :: int

definition user_of_row :: "user_row \<Rightarrow> user" where
  "user_of_row r = \<lparr>us_id = u_id r, us_name = u_name r, us_email = u_email r, us_password = u_password r,
     us_verified = u_verified r, us_created = u_created r\<rparr>"

definition norm_email :: "string \<Rightarrow> string" where
  "norm_email e = trim (to_lower e)"

text \<open>A row as the inserts write it: the columns that are not listed take their defaults.\<close>

definition new_user_row :: "user \<Rightarrow> int \<Rightarrow> user_row" where
  "new_user_row u now = \<lparr>u_id = us_id u, u_name = us_name u, u_email = us_email u, u_password = us_password u,
     u_verified = us_verified u, u_created = now, u_last_login = None, u_plan = ''free'',
     u_plan_updated = None, u_stripe = None\<rparr>"

section \<open>User management\<close>

definition create_user ::
  "(string \<Rightarrow> string \<Rightarrow> string) \<Rightarrow> int \<Rightarrow> string \<Rightarrow> string \<Rightarrow> string \<Rightarrow> string \<Rightarrow> string \<Rightarrow> bool \<Rightarrow> user app" where
  "create_user scrypt now new_id salt name email password verified =
     andthen ensure_schema (\<lambda>_.
     let norm = norm_email email
     in andthen (select (\<lambda>s. filter (\<lambda>u. u_email u = norm) (t_users s))) (\<lambda>existing.
          if existing \<noteq> [] then throw EmailTaken
          else
            (let user = \<lparr>us_id = new_id, us_name = trim name, us_email = norm,
                         us_password = Some (hash_password scrypt salt password),
                         us_verified = verified, us_created = now\<rparr>
             in andthen (insert_user (new_user_row user now)) (\<lambda>_. ret user))))"

definition find_user_by_email :: "string \<Rightarrow> user option app" where
  "find_user_by_email email =
     andthen ensure_schema (\<lambda>_.
     andthen (select (\<lambda>s. filter (\<lambda>u. u_email u = norm_email email) (t_users s))) (\<lambda>rows.
       case rows of [] \<Rightarrow> ret None | r # _ \<Rightarrow> ret (Some (user_of_row r))))"

record oauth_profile =
  op_account :: string
  op_email :: string
  op_name :: string
  op_verified :: bool

definition linked_users :: "string \<Rightarrow> string \<Rightarrow> db \<Rightarrow> user_row list" where
  "linked_users provider account s =
     concat (map (\<lambda>a. filter (\<lambda>u. u_id u = oa_user a) (t_users s))
       (filter (\<lambda>a. oa_provider a = provider \<and> oa_account a = account) (t_oauth s)))"

definition find_or_create_oauth_user ::
  "int \<Rightarrow> string \<Rightarrow> string \<Rightarrow> string \<Rightarrow> oauth_profile \<Rightarrow> user app" where
  "find_or_create_oauth_user now new_id link_id provider profile =
     andthen ensure_schema (\<lambda>_.
     let norm = norm_email (op_email profile)
     in andthen (select (linked_users provider (op_account profile))) (\<lambda>linked.
          case linked of
            r # _ \<Rightarrow> ret (user_of_row r)
          | [] \<Rightarrow>
              andthen (find_user_by_email norm) (\<lambda>existing.
                case existing of
                  Some u \<Rightarrow>
                    andthen (insert_oauth \<lparr>oa_id = link_id, oa_user = us_id u, oa_provider = provider,
                               oa_account = op_account profile\<rparr>) (\<lambda>_. ret u)
                | None \<Rightarrow>
                    (let user = \<lparr>us_id = new_id, us_name = trim (op_name profile), us_email = norm,
                                 us_password = None, us_verified = op_verified profile, us_created = now\<rparr>
                     in andthen (insert_user (new_user_row user now)) (\<lambda>_.
                        andthen (insert_oauth \<lparr>oa_id = link_id, oa_user = us_id user, oa_provider = provider,
                                   oa_account = op_account profile\<rparr>) (\<lambda>_. ret user))))))"

definition update_user :: "string \<Rightarrow> (user_row \<Rightarrow> user_row) \<Rightarrow> unit app" where
  "update_user uid f =
     update (\<lambda>s. s\<lparr>t_users := map (\<lambda>u. if u_id u = uid then f u else u) (t_users s)\<rparr>)"

definition mark_email_verified :: "string \<Rightarrow> unit app" where
  "mark_email_verified uid = update_user uid (\<lambda>u. u\<lparr>u_verified := True\<rparr>)"

definition record_login :: "int \<Rightarrow> string \<Rightarrow> unit app" where
  "record_login now uid = update_user uid (\<lambda>u. u\<lparr>u_last_login := Some now\<rparr>)"

definition update_user_password ::
  "(string \<Rightarrow> string \<Rightarrow> string) \<Rightarrow> string \<Rightarrow> string \<Rightarrow> string \<Rightarrow> unit app" where
  "update_user_password scrypt salt uid new_password =
     update_user uid (\<lambda>u. u\<lparr>u_password := Some (hash_password scrypt salt new_password)\<rparr>)"

section \<open>Verification and reset tokens\<close>

definition verification_ttl :: int where
  "verification_ttl = 24 * 60 * 60 * 1000"

definition create_verification_token :: "int \<Rightarrow> string \<Rightarrow> string \<Rightarrow> string app" where
  "create_verification_token now token uid =
     andthen ensure_schema (\<lambda>_.
     andthen (update (\<lambda>s. s\<lparr>t_email_tokens := filter (\<lambda>t. tk_user t \<noteq> uid) (t_email_tokens s)\<rparr>)) (\<lambda>_.
     andthen (insert_email_token \<lparr>tk_token = token, tk_user = uid, tk_expires = now + verification_ttl\<rparr>) (\<lambda>_.
     ret token)))"

definition consume_verification_token :: "int \<Rightarrow> string \<Rightarrow> string option app" where
  "consume_verification_token now token =
     andthen (select (\<lambda>s. filter (\<lambda>t. tk_token t = token) (t_email_tokens s))) (\<lambda>rows.
       case rows of
         [] \<Rightarrow> ret None
       | row # _ \<Rightarrow>
           (if tk_expires row < now then
              andthen (update (\<lambda>s. s\<lparr>t_email_tokens := filter (\<lambda>t. tk_token t \<noteq> token) (t_email_tokens s)\<rparr>)) (\<lambda>_.
              ret None)
            else
              andthen (update (\<lambda>s. s\<lparr>t_email_tokens := filter (\<lambda>t. tk_token t \<noteq> token) (t_email_tokens s)\<rparr>)) (\<lambda>_.
              ret (Some (tk_user row)))))"

definition reset_ttl :: int where
  "reset_ttl = 60 * 60 * 1000"

definition create_password_reset_token :: "int \<Rightarrow> string \<Rightarrow> string \<Rightarrow> string app" where
  "create_password_reset_token now token uid =
     andthen ensure_schema (\<lambda>_.
     andthen (update (\<lambda>s. s\<lparr>t_reset_tokens := filter (\<lambda>t. tk_user t \<noteq> uid) (t_reset_tokens s)\<rparr>)) (\<lambda>_.
     andthen (insert_reset_token \<lparr>tk_token = token, tk_user = uid, tk_expires = now + reset_ttl\<rparr>) (\<lambda>_.
     ret token)))"

definition consume_password_reset_token :: "int \<Rightarrow> string \<Rightarrow> string option app" where
  "consume_password_reset_token now token =
     andthen (select (\<lambda>s. filter (\<lambda>t. tk_token t = token) (t_reset_tokens s))) (\<lambda>rows.
       case rows of
         [] \<Rightarrow> ret None
       | row # _ \<Rightarrow>
           (if tk_expires row < now then
              andthen (update (\<lambda>s. s\<lparr>t_reset_tokens := filter (\<lambda>t. tk_token t \<noteq> token) (t_reset_tokens s)\<rparr>)) (\<lambda>_.
              ret None)
            else
              andthen (update (\<lambda>s. s\<lparr>t_reset_tokens := filter (\<lambda>t. tk_token t \<noteq> token) (t_reset_tokens s)\<rparr>)) (\<lambda>_.
              ret (Some (tk_user row)))))"

section \<open>Sessions and administrators\<close>

text \<open>\<open>getCurrentUser\<close> on the session cookie of a request.\<close>

definition get_current_user ::
  "(string \<Rightarrow> string \<Rightarrow> string) \<Rightarrow> string option \<Rightarrow> int \<Rightarrow> string option \<Rightarrow> jsnum json option" where
  "get_current_user hmac secret now cookie =
     (if \<not> truthy cookie then None else verify_jwt hmac secret now (the cookie))"

definition admin_emails :: "string option \<Rightarrow> string list" where
  "admin_emails env_value =
     (if truthy env_value
      then filter (\<lambda>e. e \<noteq> []) (map (\<lambda>e. to_lower (trim e)) (split_on (CHR '','') (the env_value)))
      else [''abenezerg@lelu-ai.com''])"

definition is_admin_email :: "string option \<Rightarrow> string option \<Rightarrow> bool" where
  "is_admin_email env_value email =
     (truthy email \<and> norm_email (the email) \<in> set (admin_emails env_value))"

definition get_admin_user ::
  "(string \<Rightarrow> string \<Rightarrow> string) \<Rightarrow> string option \<Rightarrow> int \<Rightarrow> string option \<Rightarrow> string option \<Rightarrow> jsnum json option" where
  "get_admin_user hmac secret now env_value cookie =
     (case get_current_user hmac secret now cookie of
        None \<Rightarrow> None
      | Some session \<Rightarrow>
          (if is_admin_email env_value (str_of (member ''email'' session)) then Some session else None))"

section \<open>The contract of a token store\<close>

datatype token_event = CreateToken int string string | ConsumeToken int string

text \<open>A run of the store: creations and consumptions in any order, whatever their outcome.\<close>

fun token_run ::
  "(int \<Rightarrow> string \<Rightarrow> string \<Rightarrow> string app) \<Rightarrow> (int \<Rightarrow> string \<Rightarrow> string option app) \<Rightarrow> token_event list \<Rightarrow> db \<Rightarrow> db" where
  "token_run create consume [] s = s"
| "token_run create consume (CreateToken now tok uid # es) s =
     token_run create consume es (snd (create now tok uid s))"
| "token_run create consume (ConsumeToken now tok # es) s =
     token_run create consume es (snd (consume now tok s))"

fun creates :: "string \<Rightarrow> token_event \<Rightarrow> bool" where
  "creates tok (CreateToken now t uid) = (t = tok)"
| "creates tok (ConsumeToken now t) = False"

locale token_store =
  fixes tokens :: "db \<Rightarrow> token_row list"
    and create :: "int \<Rightarrow> string \<Rightarrow> string \<Rightarrow> string app"
    and consume :: "int \<Rightarrow> string \<Rightarrow> string option app"
    and ttl :: int
  assumes create_ok: "create now tok uid s = (Inr t, s') \<Longrightarrow>
      t = tok \<and> tok \<notin> tk_token ` {r \<in> set (tokens s). tk_user r \<noteq> uid}
      \<and> tokens s' = filter (\<lambda>r. tk_user r \<noteq> uid) (tokens s) @ [\<lparr>tk_token = tok, tk_user = uid, tk_expires = now + ttl\<rparr>]"
    and create_err: "create now tok uid s = (Inl e, s') \<Longrightarrow> set (tokens s') \<subseteq> set (tokens s)"
    and consume_some: "consume now tok s = (Inr (Some uid), s') \<Longrightarrow>
      (\<exists>r \<in> set (tokens s). tk_token r = tok \<and> tk_user r = uid \<and> now \<le> tk_expires r)
      \<and> tokens s' = filter (\<lambda>r. tk_token r \<noteq> tok) (tokens s)"
    and consume_other: "consume now tok s = (r, s') \<Longrightarrow> set (tokens s') \<subseteq> set (tokens s)"
begin

lemma run_tokens:
  assumes "\<forall>e \<in> set es. \<not> creates tok e"
  shows "{r \<in> set (tokens (token_run create consume es s)). tk_token r = tok} \<subseteq> {r \<in> set (tokens s). tk_token r = tok}"
  using assms
proof (induction es arbitrary: s)
  case Nil
  then show ?case by simp
next
  case (Cons e es)
  show ?case
  proof (cases e)
    case (CreateToken now t uid)
    obtain r s' where c: "create now t uid s = (r, s')" by force
    have "{r \<in> set (tokens s'). tk_token r = tok} \<subseteq> {r \<in> set (tokens s). tk_token r = tok}"
    proof (cases r)
      case (Inl err)
      with c create_err show ?thesis by blast
    next
      case (Inr x)
      with c create_ok [of now t uid s x s'] Cons.prems CreateToken show ?thesis by auto
    qed
    with Cons CreateToken c show ?thesis by force
  next
    case (ConsumeToken now t)
    obtain r s' where c: "consume now t s = (r, s')" by force
    have "set (tokens s') \<subseteq> set (tokens s)" by (rule consume_other [OF c])
    with Cons ConsumeToken c show ?thesis by force
  qed
qed

text \<open>A token resolves at most once.\<close>

lemma single_use:
  assumes "consume now tok s = (Inr (Some uid), s')" "\<forall>e \<in> set es. \<not> creates tok e"
  shows "fst (consume now' tok (token_run create consume es s')) \<noteq> Inr (Some uid')"
proof
  assume "fst (consume now' tok (token_run create consume es s')) = Inr (Some uid')"
  then obtain s'' where "consume now' tok (token_run create consume es s') = (Inr (Some uid'), s'')"
    by (metis prod.collapse)
  with consume_some obtain r where "r \<in> set (tokens (token_run create consume es s'))" "tk_token r = tok"
    by blast
  with run_tokens [OF assms(2)] have "r \<in> set (tokens s')" by blast
  then show False using consume_some [OF assms(1)] \<open>tk_token r = tok\<close> by auto
qed

text \<open>It resolves to the user it was made for, and only until it expires.\<close>

lemma resolves_owner_until_expiry:
  assumes "create now tok uid s = (Inr t, s')" "\<forall>e \<in> set es. \<not> creates tok e"
    and "consume now' tok (token_run create consume es s') = (Inr (Some uid'), s'')"
  shows "uid' = uid \<and> now' \<le> now + ttl"
proof -
  from consume_some [OF assms(3)] obtain r where
    r: "r \<in> set (tokens (token_run create consume es s'))" "tk_token r = tok" "tk_user r = uid'" "now' \<le> tk_expires r"
    by blast
  then have "r \<in> set (tokens s')" using run_tokens [OF assms(2)] by blast
  then have "r = \<lparr>tk_token = tok, tk_user = uid, tk_expires = now + ttl\<rparr>"
    using create_ok [OF assms(1)] r(2) by auto
  with r show ?thesis by simp
qed

text \<open>A new token of a user kills the older ones.\<close>

lemma latest_only:
  assumes "create now new uid s = (Inr t, s')" "\<forall>e \<in> set es. \<not> creates old e"
    and "old \<noteq> new" "\<forall>r \<in> set (tokens s). tk_token r = old \<longrightarrow> tk_user r = uid"
  shows "fst (consume now' old (token_run create consume es s')) \<noteq> Inr (Some uid')"
proof
  assume "fst (consume now' old (token_run create consume es s')) = Inr (Some uid')"
  then obtain s'' where "consume now' old (token_run create consume es s') = (Inr (Some uid'), s'')"
    by (metis prod.collapse)
  with consume_some obtain r where "r \<in> set (tokens (token_run create consume es s'))" "tk_token r = old"
    by blast
  with run_tokens [OF assms(2)] have "r \<in> set (tokens s')" by blast
  then show False using create_ok [OF assms(1)] assms(3,4) \<open>tk_token r = old\<close> by auto
qed

end


lemma create_verification_cases:
  assumes "create_verification_token now tok uid s = (r, s')"
  shows "(r = Inr tok \<and> tok \<notin> tk_token ` {r \<in> set (t_email_tokens s). tk_user r \<noteq> uid} \<and> user_exists uid s
      \<and> t_email_tokens s' = filter (\<lambda>r. tk_user r \<noteq> uid) (t_email_tokens s)
            @ [\<lparr>tk_token = tok, tk_user = uid, tk_expires = now + verification_ttl\<rparr>])
    \<or> (r = Inl DbError \<and> t_email_tokens s' \<in> {t_email_tokens s, filter (\<lambda>r. tk_user r \<noteq> uid) (t_email_tokens s)})"
  using assms
  by (auto simp: create_verification_token_def ensure_schema_def insert_email_token_def andthen_apply user_exists_def
      split: prod.splits sum.splits
      dest!: query_cases update_cases insert_checked_cases)

lemma create_reset_cases:
  assumes "create_password_reset_token now tok uid s = (r, s')"
  shows "(r = Inr tok \<and> tok \<notin> tk_token ` {r \<in> set (t_reset_tokens s). tk_user r \<noteq> uid} \<and> user_exists uid s
      \<and> t_reset_tokens s' = filter (\<lambda>r. tk_user r \<noteq> uid) (t_reset_tokens s)
            @ [\<lparr>tk_token = tok, tk_user = uid, tk_expires = now + reset_ttl\<rparr>])
    \<or> (r = Inl DbError \<and> t_reset_tokens s' \<in> {t_reset_tokens s, filter (\<lambda>r. tk_user r \<noteq> uid) (t_reset_tokens s)})"
  using assms
  by (auto simp: create_password_reset_token_def ensure_schema_def insert_reset_token_def andthen_apply user_exists_def
      split: prod.splits sum.splits
      dest!: query_cases update_cases insert_checked_cases)

lemma filter_hd: "y # ys = filter P xs \<Longrightarrow> y \<in> set xs \<and> P y"
  by (metis filter_eq_ConsD in_set_conv_decomp)

lemma consume_verification_cases:
  assumes "consume_verification_token now tok s = (r, s')"
  shows "(\<exists>row \<in> set (t_email_tokens s). r = Inr (Some (tk_user row)) \<and> tk_token row = tok \<and> now \<le> tk_expires row
        \<and> t_email_tokens s' = filter (\<lambda>r. tk_token r \<noteq> tok) (t_email_tokens s))
    \<or> (r \<in> {Inr None, Inl DbError}
        \<and> t_email_tokens s' \<in> {t_email_tokens s, filter (\<lambda>r. tk_token r \<noteq> tok) (t_email_tokens s)})"
  using assms
  by (auto simp: consume_verification_token_def andthen_apply not_less
      split: prod.splits sum.splits list.splits if_splits
      dest!: select_cases update_cases filter_hd)

lemma consume_reset_cases:
  assumes "consume_password_reset_token now tok s = (r, s')"
  shows "(\<exists>row \<in> set (t_reset_tokens s). r = Inr (Some (tk_user row)) \<and> tk_token row = tok \<and> now \<le> tk_expires row
        \<and> t_reset_tokens s' = filter (\<lambda>r. tk_token r \<noteq> tok) (t_reset_tokens s))
    \<or> (r \<in> {Inr None, Inl DbError}
        \<and> t_reset_tokens s' \<in> {t_reset_tokens s, filter (\<lambda>r. tk_token r \<noteq> tok) (t_reset_tokens s)})"
  using assms
  by (auto simp: consume_password_reset_token_def andthen_apply not_less
      split: prod.splits sum.splits list.splits if_splits
      dest!: select_cases update_cases filter_hd)

interpretation email_tokens: token_store t_email_tokens create_verification_token consume_verification_token verification_ttl
proof unfold_locales
  fix now tok uid t e r and s s' :: db
  show "t = tok \<and> tok \<notin> tk_token ` {r \<in> set (t_email_tokens s). tk_user r \<noteq> uid}
      \<and> t_email_tokens s' = filter (\<lambda>r. tk_user r \<noteq> uid) (t_email_tokens s)
            @ [\<lparr>tk_token = tok, tk_user = uid, tk_expires = now + verification_ttl\<rparr>]"
    if "create_verification_token now tok uid s = (Inr t, s')"
    using create_verification_cases [OF that] by auto
  show "set (t_email_tokens s') \<subseteq> set (t_email_tokens s)" if "create_verification_token now tok uid s = (Inl e, s')"
    using create_verification_cases [OF that] by auto
  show "(\<exists>r \<in> set (t_email_tokens s). tk_token r = tok \<and> tk_user r = uid \<and> now \<le> tk_expires r)
      \<and> t_email_tokens s' = filter (\<lambda>r. tk_token r \<noteq> tok) (t_email_tokens s)"
    if "consume_verification_token now tok s = (Inr (Some uid), s')"
    using consume_verification_cases [OF that] by auto
  show "set (t_email_tokens s') \<subseteq> set (t_email_tokens s)" if "consume_verification_token now tok s = (r, s')"
    using consume_verification_cases [OF that] by auto
qed

interpretation reset_tokens: token_store t_reset_tokens create_password_reset_token consume_password_reset_token reset_ttl
proof unfold_locales
  fix now tok uid t e r and s s' :: db
  show "t = tok \<and> tok \<notin> tk_token ` {r \<in> set (t_reset_tokens s). tk_user r \<noteq> uid}
      \<and> t_reset_tokens s' = filter (\<lambda>r. tk_user r \<noteq> uid) (t_reset_tokens s)
            @ [\<lparr>tk_token = tok, tk_user = uid, tk_expires = now + reset_ttl\<rparr>]"
    if "create_password_reset_token now tok uid s = (Inr t, s')"
    using create_reset_cases [OF that] by auto
  show "set (t_reset_tokens s') \<subseteq> set (t_reset_tokens s)" if "create_password_reset_token now tok uid s = (Inl e, s')"
    using create_reset_cases [OF that] by auto
  show "(\<exists>r \<in> set (t_reset_tokens s). tk_token r = tok \<and> tk_user r = uid \<and> now \<le> tk_expires r)
      \<and> t_reset_tokens s' = filter (\<lambda>r. tk_token r \<noteq> tok) (t_reset_tokens s)"
    if "consume_password_reset_token now tok s = (Inr (Some uid), s')"
    using consume_reset_cases [OF that] by auto
  show "set (t_reset_tokens s') \<subseteq> set (t_reset_tokens s)" if "consume_password_reset_token now tok s = (r, s')"
    using consume_reset_cases [OF that] by auto
qed

section \<open>The database invariant\<close>

lemma db_ok_update_user:
  assumes "\<And>u. u_id (f u) = u_id u" "\<And>u. u_email (f u) = u_email u"
  shows "preserves db_ok (update_user uid f)"
  unfolding update_user_def
proof (rule preserves_update)
  fix s :: db assume ok: "db_ok s"
  have "map u_id (map (\<lambda>u. if u_id u = uid then f u else u) (t_users s)) = map u_id (t_users s)"
    "map u_email (map (\<lambda>u. if u_id u = uid then f u else u) (t_users s)) = map u_email (t_users s)"
    using assms by auto
  with ok show "db_ok (s\<lparr>t_users := map (\<lambda>u. if u_id u = uid then f u else u) (t_users s)\<rparr>)"
    by (simp add: db_ok_def del: map_map)
qed simp

lemma db_ok_filter_tokens [pres]:
  "preserves db_ok (update (\<lambda>s. s\<lparr>t_email_tokens := filter P (t_email_tokens s)\<rparr>))"
  "preserves db_ok (update (\<lambda>s. s\<lparr>t_reset_tokens := filter P (t_reset_tokens s)\<rparr>))"
  by (rule preserves_update; simp add: db_ok_def distinct_map_filter)+

lemma db_ok_auth [pres]:
  "preserves db_ok (create_user scrypt now i salt name email password v)"
  "preserves db_ok (find_user_by_email email)"
  "preserves db_ok (find_or_create_oauth_user now i l provider profile)"
  "preserves db_ok (mark_email_verified uid)" "preserves db_ok (record_login now uid)"
  "preserves db_ok (update_user_password scrypt salt uid pw)"
  "preserves db_ok (create_verification_token now tok uid)" "preserves db_ok (consume_verification_token now tok)"
  "preserves db_ok (create_password_reset_token now tok uid)" "preserves db_ok (consume_password_reset_token now tok)"
  unfolding create_user_def find_user_by_email_def find_or_create_oauth_user_def mark_email_verified_def
    record_login_def update_user_password_def create_verification_token_def consume_verification_token_def
    create_password_reset_token_def consume_password_reset_token_def
  by (intro pres db_ok_update_user; simp)+

end
