(* ===== verification/ApiKeys.thy ===== *)
theory ApiKeys
  imports Auth
begin

text \<open>
  API keys (\<open>platform/ui/lib/apikeys.ts\<close>) and the resolution of the acting user of a request
  (\<open>platform/ui/lib/request-auth.ts\<close>). Only the SHA-256 of a key is stored. Identifier, prefix and
  secret of a new key are arguments.
\<close>

definition full_key :: "string \<Rightarrow> string \<Rightarrow> string" where
  "full_key prefix secret = ''lelu_sk_'' @ prefix @ ''_'' @ secret"

text \<open>\<open>Date.now() + expiresInDays * 24 * 60 * 60 * 1000\<close>, truncated to whole milliseconds as a date
  is.\<close>

definition key_expiry :: "int \<Rightarrow> rat option \<Rightarrow> int option" where
  "key_expiry now expires_in =
     (case expires_in of
        None \<Rightarrow> None
      | Some d \<Rightarrow> if 0 < d then Some \<lfloor>of_int now + d * 86400000\<rfloor> else None)"

text \<open>The range of a \<open>Date\<close>; writing an invalid one throws.\<close>

definition valid_date :: "int \<Rightarrow> bool" where
  "valid_date t = (\<bar>t\<bar> \<le> 8640000000000000)"

definition create_api_key ::
  "(string \<Rightarrow> string) \<Rightarrow> int \<Rightarrow> string \<Rightarrow> string \<Rightarrow> string \<Rightarrow> string \<Rightarrow> string \<Rightarrow> rat option \<Rightarrow> (key_row \<times> string) app" where
  "create_api_key sha256 now new_id prefix secret uid name expires_in =
     andthen ensure_schema (\<lambda>_.
     let full = full_key prefix secret;
         row = \<lparr>k_id = new_id, k_user = uid, k_name = name, k_prefix = prefix, k_hash = sha256 full,
                k_created = now, k_last_used = None, k_expires = key_expiry now expires_in,
                k_revoked = False, k_revoked_at = None\<rparr>
     in if \<not> (case key_expiry now expires_in of None \<Rightarrow> True | Some e \<Rightarrow> valid_date e) then throw BadValue
        else andthen (insert_key row) (\<lambda>_. ret (row, full)))"

definition newest_first :: "('a \<Rightarrow> int) \<Rightarrow> 'a list \<Rightarrow> 'a list" where
  "newest_first created xs = sort_key (\<lambda>x. - created x) xs"

definition list_api_keys :: "string \<Rightarrow> key_row list app" where
  "list_api_keys uid =
     andthen ensure_schema (\<lambda>_. select (\<lambda>s. newest_first k_created (filter (\<lambda>k. k_user k = uid) (t_keys s))))"

definition revocable :: "string \<Rightarrow> string \<Rightarrow> key_row \<Rightarrow> bool" where
  "revocable i uid k = (k_id k = i \<and> k_user k = uid \<and> \<not> k_revoked k)"

definition revoke_api_key :: "int \<Rightarrow> string \<Rightarrow> string \<Rightarrow> bool app" where
  "revoke_api_key now i uid =
     andthen (select (\<lambda>s. list_ex (revocable i uid) (t_keys s))) (\<lambda>hit.
     andthen (modify (\<lambda>s. s\<lparr>t_keys := map (\<lambda>k. if revocable i uid k then k\<lparr>k_revoked := True, k_revoked_at := Some now\<rparr> else k)
                                (t_keys s)\<rparr>)) (\<lambda>_.
     ret hit))"

text \<open>The account and the key that a presented key stands for.\<close>

definition validate_api_key :: "(string \<Rightarrow> string) \<Rightarrow> int \<Rightarrow> string \<Rightarrow> (string \<times> string) option app" where
  "validate_api_key sha256 now full =
     andthen (select (\<lambda>s. filter (\<lambda>k. k_hash k = sha256 full) (t_keys s))) (\<lambda>rows.
       case rows of
         [] \<Rightarrow> ret None
       | row # _ \<Rightarrow>
           (if k_revoked row then ret None
            else if (case k_expires row of None \<Rightarrow> False | Some e \<Rightarrow> e < now) then ret None
            else
              andthen (update (\<lambda>s. s\<lparr>t_keys := map (\<lambda>k. if k_id k = k_id row then k\<lparr>k_last_used := Some now\<rparr> else k) (t_keys s)\<rparr>)) (\<lambda>_.
              ret (Some (k_user row, k_id row)))))"

record request =
  rq_auth :: "string option"
  rq_cookie :: "string option"
  rq_body :: string

record platform_env =
  pe_hmac :: "string \<Rightarrow> string \<Rightarrow> string"
  pe_sha256 :: "string \<Rightarrow> string"
  pe_scrypt :: "string \<Rightarrow> string \<Rightarrow> string"
  pe_secret :: "string option"
  pe_now :: int

definition bearer :: "request \<Rightarrow> string option" where
  "bearer rq =
     (case rq_auth rq of
        None \<Rightarrow> None
      | Some a \<Rightarrow> if starts_with ''Bearer '' a then Some (trim (drop 7 a)) else None)"

definition session_user :: "platform_env \<Rightarrow> request \<Rightarrow> string option" where
  "session_user pe rq =
     (case get_current_user (pe_hmac pe) (pe_secret pe) (pe_now pe) (rq_cookie rq) of
        None \<Rightarrow> None
      | Some session \<Rightarrow> str_of (member ''userId'' session))"

text \<open>\<open>resolveUserId(req)\<close>: a bearer key decides alone, valid or not.\<close>

definition resolve_user_id :: "platform_env \<Rightarrow> request \<Rightarrow> string option app" where
  "resolve_user_id pe rq =
     (case bearer rq of
        Some key \<Rightarrow>
          andthen (validate_api_key (pe_sha256 pe) (pe_now pe) key) (\<lambda>r. ret (map_option fst r))
      | None \<Rightarrow> ret (session_user pe rq))"

section \<open>What validation means\<close>

text \<open>A live key: stored under the presented key's digest, not revoked, not expired.\<close>

definition live_key :: "(string \<Rightarrow> string) \<Rightarrow> int \<Rightarrow> string \<Rightarrow> key_row \<Rightarrow> bool" where
  "live_key sha256 now full k =
     (k_hash k = sha256 full \<and> \<not> k_revoked k \<and> (case k_expires k of None \<Rightarrow> True | Some e \<Rightarrow> now \<le> e))"

lemma validate_cases:
  assumes "validate_api_key sha256 now full s = (r, s')"
  shows "(\<exists>k \<in> set (t_keys s). r = Inr (Some (k_user k, k_id k)) \<and> live_key sha256 now full k)
    \<or> r = Inr None \<or> r = Inl DbError"
  using assms
  by (auto simp: validate_api_key_def andthen_apply live_key_def not_less
      split: prod.splits sum.splits list.splits if_splits option.splits
      dest!: select_cases update_cases filter_hd)

lemma filter_unique: "distinct (map f ys) \<Longrightarrow> k \<in> set ys \<Longrightarrow> filter (\<lambda>x. f x = f k) ys = [k]"
proof (induction ys)
  case Nil
  then show ?case by simp
next
  case (Cons y ys)
  show ?case
  proof (cases "y = k")
    case True
    then have "f k \<notin> f ` set ys" using Cons.prems(1) by simp
    then have "\<forall>z \<in> set ys. f z \<noteq> f k" by (metis imageI)
    then show ?thesis using True by (simp add: filter_empty_conv)
  next
    case False
    then have "f y \<noteq> f k" using Cons.prems by auto
    with Cons False show ?thesis by auto
  qed
qed

lemma unique_key:
  assumes "db_ok s" "k \<in> set (t_keys s)"
  shows "filter (\<lambda>x. k_hash x = k_hash k) (t_keys s) = [k]"
  using assms by (intro filter_unique) (auto simp: db_ok_def)

lemma validate_quiet:
  assumes "db_ok s" "faults s = []" "k \<in> set (t_keys s)" "k_hash k = sha256 full"
  shows "fst (validate_api_key sha256 now full s)
    = Inr (if live_key sha256 now full k then Some (k_user k, k_id k) else None)"
  using unique_key [OF assms(1,3)] assms
  by (auto simp: validate_api_key_def quiet_simps live_key_def split: option.splits)

lemma validate_unknown:
  assumes "faults s = []" "\<forall>k \<in> set (t_keys s). k_hash k \<noteq> sha256 full"
  shows "fst (validate_api_key sha256 now full s) = Inr None"
proof -
  have "filter (\<lambda>k. k_hash k = sha256 full) (t_keys s) = []" using assms(2) by (auto simp: filter_empty_conv)
  then show ?thesis using assms(1) by (simp add: validate_api_key_def quiet_simps)
qed

end
