(* ===== verification/Tenants.thy ===== *)
theory Tenants
  imports ApiKeys OrderedRules
begin

text \<open>
  The tables a user owns rows of: API keys, policies (\<open>platform/ui/lib/policies.ts\<close>) and agents
  (\<open>platform/ui/lib/agents.ts\<close>). Every operation takes the acting user and the SQL filters by it;
  the locale \<open>owned_table\<close> states what that buys: whatever others do, in any order and with any
  failures in between, the rows of a user stay as they were.
\<close>

section \<open>Policies\<close>

definition list_policies :: "string \<Rightarrow> policy_row list app" where
  "list_policies uid =
     andthen ensure_schema (\<lambda>_. select (\<lambda>s. newest_first p_created (filter (\<lambda>p. p_user p = uid) (t_policies s))))"

definition get_policy :: "string \<Rightarrow> string \<Rightarrow> policy_row option app" where
  "get_policy i uid =
     andthen ensure_schema (\<lambda>_.
     select (\<lambda>s. find_first (\<lambda>p. p_id p = i \<and> p_user p = uid) (t_policies s)))"

definition create_policy ::
  "int \<Rightarrow> string \<Rightarrow> string \<Rightarrow> string \<Rightarrow> string \<Rightarrow> jsnum json list \<Rightarrow> policy_row app" where
  "create_policy now new_id uid name description rules =
     andthen ensure_schema (\<lambda>_.
     andthen (insert_policy \<lparr>p_id = new_id, p_user = uid, p_name = name, p_description = description,
                p_rules = rules, p_active = True, p_created = now, p_updated = now\<rparr>) (\<lambda>_.
     andthen (select (\<lambda>s. find_first (\<lambda>p. p_id p = new_id) (t_policies s))) (\<lambda>r.
       case r of None \<Rightarrow> throw BadValue | Some p \<Rightarrow> ret p)))"

record policy_patch =
  pp_name :: "string option"
  pp_description :: "string option"
  pp_rules :: "jsnum json list option"
  pp_active :: "bool option"

text \<open>\<open>COALESCE(new, old)\<close>.\<close>

definition patch_policy :: "int \<Rightarrow> policy_patch \<Rightarrow> policy_row \<Rightarrow> policy_row" where
  "patch_policy now q p = p\<lparr>p_name := nullish (pp_name q) (p_name p),
     p_description := nullish (pp_description q) (p_description p),
     p_rules := nullish (pp_rules q) (p_rules p),
     p_active := nullish (pp_active q) (p_active p),
     p_updated := now\<rparr>"

definition update_policy :: "int \<Rightarrow> string \<Rightarrow> string \<Rightarrow> policy_patch \<Rightarrow> policy_row option app" where
  "update_policy now i uid q =
     andthen (update (\<lambda>s. s\<lparr>t_policies := map (\<lambda>p. if p_id p = i \<and> p_user p = uid then patch_policy now q p else p)
                                (t_policies s)\<rparr>)) (\<lambda>_.
     get_policy i uid)"

definition delete_policy :: "string \<Rightarrow> string \<Rightarrow> unit app" where
  "delete_policy i uid =
     update (\<lambda>s. s\<lparr>t_policies := filter (\<lambda>p. \<not> (p_id p = i \<and> p_user p = uid)) (t_policies s)\<rparr>)"

definition get_active_policies_for_user :: "string \<Rightarrow> policy_row list app" where
  "get_active_policies_for_user uid =
     andthen ensure_schema (\<lambda>_.
     select (\<lambda>s. sort_key p_created (filter (\<lambda>p. p_user p = uid \<and> p_active p) (t_policies s))))"

record policy_verdict =
  pv_decision :: "jsnum json option"
  pv_reason :: "jsnum json option"
  pv_rule :: string
  pv_policy :: string

text \<open>\<open>regex v tool\<close> is \<open>new RegExp(v, "i").test(tool)\<close> for whatever value the rule has as its pattern,
  \<open>None\<close> for an invalid one; \<open>num\<close> prints a number. A rule that is \<open>null\<close> throws when it is read and is
  skipped too.\<close>

fun rules_of_policies :: "policy_row list \<Rightarrow> (string \<times> jsnum json) list" where
  "rules_of_policies [] = []"
| "rules_of_policies (p # ps) = map (Pair (p_name p)) (p_rules p) @ rules_of_policies ps"

definition stored_test :: "(jsnum json option \<Rightarrow> string \<Rightarrow> bool option) \<Rightarrow> jsnum json \<Rightarrow> string \<Rightarrow> bool option" where
  "stored_test regex rule tool = (if rule = JNull then None else regex (member ''pattern'' rule) tool)"

definition stored_matches :: "(jsnum json option \<Rightarrow> string \<Rightarrow> bool option) \<Rightarrow> string \<times> jsnum json \<Rightarrow> string \<Rightarrow> bool" where
  "stored_matches regex r tool = (stored_test regex (snd r) tool = Some True)"

definition stored_verdict :: "(jsnum \<Rightarrow> string) \<Rightarrow> string \<times> jsnum json \<Rightarrow> policy_verdict" where
  "stored_verdict num r = \<lparr>pv_decision = member ''decision'' (snd r), pv_reason = member ''reason'' (snd r),
     pv_rule = ''policy:'' @ fst r @ '':'' @ js_string_opt num (member ''id'' (snd r)), pv_policy = fst r\<rparr>"

fun first_stored :: "(jsnum json option \<Rightarrow> string \<Rightarrow> bool option) \<Rightarrow> (jsnum \<Rightarrow> string) \<Rightarrow> (string \<times> jsnum json) list \<Rightarrow> string \<Rightarrow> policy_verdict option" where
  "first_stored regex num [] tool = None"
| "first_stored regex num (r # rs) tool =
     (case stored_test regex (snd r) tool of
        None \<Rightarrow> first_stored regex num rs tool
      | Some b \<Rightarrow> if b then Some (stored_verdict num r) else first_stored regex num rs tool)"

definition evaluate_with_policies ::
  "(jsnum json option \<Rightarrow> string \<Rightarrow> bool option) \<Rightarrow> (jsnum \<Rightarrow> string) \<Rightarrow> string \<Rightarrow> policy_row list \<Rightarrow> policy_verdict option" where
  "evaluate_with_policies regex num tool policies = first_stored regex num (rules_of_policies policies) tool"

interpretation stored_policies: ordered_rules "first_stored regex num" "stored_matches regex" "stored_verdict num"
  by unfold_locales (auto simp: stored_matches_def split: option.splits)

section \<open>Agents\<close>

definition list_agents :: "string \<Rightarrow> agent_row list app" where
  "list_agents uid =
     andthen ensure_schema (\<lambda>_. select (\<lambda>s. newest_first g_created (filter (\<lambda>g. g_user g = uid) (t_agents s))))"

definition get_agent :: "string \<Rightarrow> string \<Rightarrow> agent_row option app" where
  "get_agent i uid =
     andthen ensure_schema (\<lambda>_. select (\<lambda>s. find_first (\<lambda>g. g_id g = i \<and> g_user g = uid) (t_agents s)))"

record create_agent_input =
  ca_user :: string
  ca_name :: string
  ca_description :: "string option"
  ca_type :: "string option"
  ca_owner :: "string option"
  ca_scopes :: "jsnum json list option"

definition create_agent :: "int \<Rightarrow> string \<Rightarrow> create_agent_input \<Rightarrow> agent_row app" where
  "create_agent now rnd i =
     andthen ensure_schema (\<lambda>_.
     let row = \<lparr>g_id = ''agent_'' @ rnd, g_user = ca_user i, g_name = ca_name i,
                g_description = nullish (ca_description i) [], g_type = nullish (ca_type i) ''autonomous'',
                g_owner = nullish (ca_owner i) [], g_status = ''active'', g_scopes = nullish (ca_scopes i) [],
                g_last_seen = None, g_created = now, g_updated = now\<rparr>
     in andthen (insert_agent row) (\<lambda>_. ret row))"

definition owns_agent :: "string \<Rightarrow> string \<Rightarrow> agent_row \<Rightarrow> bool" where
  "owns_agent i uid g = (g_id g = i \<and> g_user g = uid)"

definition set_agent_status :: "int \<Rightarrow> string \<Rightarrow> string \<Rightarrow> string \<Rightarrow> bool app" where
  "set_agent_status now i uid status =
     andthen ensure_schema (\<lambda>_.
     andthen (select (\<lambda>s. list_ex (owns_agent i uid) (t_agents s))) (\<lambda>hit.
     andthen (modify (\<lambda>s. s\<lparr>t_agents := map (\<lambda>g. if owns_agent i uid g then g\<lparr>g_status := status, g_updated := now\<rparr> else g)
                                (t_agents s)\<rparr>)) (\<lambda>_.
     ret hit)))"

section \<open>The contract of an owned table\<close>

locale owned_table =
  fixes rows :: "db \<Rightarrow> 'r list"
    and owner :: "'r \<Rightarrow> string"
    and act :: "string \<Rightarrow> 'op \<Rightarrow> db \<Rightarrow> db"
  assumes act_frame: "filter (\<lambda>r. owner r \<noteq> uid) (rows (act uid op s)) = filter (\<lambda>r. owner r \<noteq> uid) (rows s)"
begin

lemma act_other:
  assumes "uid \<noteq> victim"
  shows "filter (\<lambda>r. owner r = victim) (rows (act uid op s)) = filter (\<lambda>r. owner r = victim) (rows s)"
proof -
  have "filter (\<lambda>r. owner r = victim) rs = filter (\<lambda>r. owner r = victim) (filter (\<lambda>r. owner r \<noteq> uid) rs)" for rs
    using assms by (simp add: filter_filter) (metis (mono_tags, lifting) filter_cong)
  then show ?thesis using act_frame by metis
qed

text \<open>Any sequence of operations of other users.\<close>

lemma run_others:
  assumes "\<forall>(uid, op) \<in> set ops. uid \<noteq> victim"
  shows "filter (\<lambda>r. owner r = victim) (rows (fold (\<lambda>(uid, op). act uid op) ops s)) = filter (\<lambda>r. owner r = victim) (rows s)"
  using assms
proof (induction ops arbitrary: s)
  case Nil
  then show ?case by simp
next
  case (Cons p ops)
  obtain uid op where p: "p = (uid, op)" by force
  then have "uid \<noteq> victim" using Cons.prems by auto
  with Cons p show ?case by (simp add: act_other)
qed

end

lemma frame_map:
  assumes "\<And>k. P k \<Longrightarrow> owner k = uid" "\<And>k. owner (f k) = owner k"
  shows "filter (\<lambda>r. owner r \<noteq> uid) (map (\<lambda>k. if P k then f k else k) xs) = filter (\<lambda>r. owner r \<noteq> uid) xs"
proof (induction xs)
  case (Cons x xs)
  then show ?case using assms(1) [of x] assms(2) [of x] by auto
qed simp

lemma frame_filter:
  assumes "\<And>k. \<not> P k \<Longrightarrow> owner k = uid"
  shows "filter (\<lambda>r. owner r \<noteq> uid) (filter P xs) = filter (\<lambda>r. owner r \<noteq> uid) xs"
  using assms by (auto simp: filter_filter intro!: filter_cong)

datatype key_op =
    CreateKey int string string string string "rat option"
  | RevokeKey int string
  | ListKeys

fun act_key :: "(string \<Rightarrow> string) \<Rightarrow> string \<Rightarrow> key_op \<Rightarrow> db \<Rightarrow> db" where
  "act_key sha uid (CreateKey now i prefix secret name ex) s = snd (create_api_key sha now i prefix secret uid name ex s)"
| "act_key sha uid (RevokeKey now i) s = snd (revoke_api_key now i uid s)"
| "act_key sha uid ListKeys s = snd (list_api_keys uid s)"

datatype policy_op =
    CreatePolicy int string string string "jsnum json list"
  | UpdatePolicy int string policy_patch
  | DeletePolicy string
  | GetPolicy string
  | ListPolicies

fun act_policy :: "string \<Rightarrow> policy_op \<Rightarrow> db \<Rightarrow> db" where
  "act_policy uid (CreatePolicy now i name description rules) s = snd (create_policy now i uid name description rules s)"
| "act_policy uid (UpdatePolicy now i q) s = snd (update_policy now i uid q s)"
| "act_policy uid (DeletePolicy i) s = snd (delete_policy i uid s)"
| "act_policy uid (GetPolicy i) s = snd (get_policy i uid s)"
| "act_policy uid ListPolicies s = snd (list_policies uid s)"

datatype agent_op =
    CreateAgent int string string "string option" "string option" "string option" "jsnum json list option"
  | SetAgentStatus int string string
  | GetAgent string
  | ListAgents

fun act_agent :: "string \<Rightarrow> agent_op \<Rightarrow> db \<Rightarrow> db" where
  "act_agent uid (CreateAgent now rnd name d t ow sc) s =
     snd (create_agent now rnd \<lparr>ca_user = uid, ca_name = name, ca_description = d, ca_type = t, ca_owner = ow, ca_scopes = sc\<rparr> s)"
| "act_agent uid (SetAgentStatus now i status) s = snd (set_agent_status now i uid status s)"
| "act_agent uid (GetAgent i) s = snd (get_agent i uid s)"
| "act_agent uid ListAgents s = snd (list_agents uid s)"

text \<open>Every operation preserves the rows of the others, statement by statement.\<close>

definition others :: "(db \<Rightarrow> 'r list) \<Rightarrow> ('r \<Rightarrow> string) \<Rightarrow> string \<Rightarrow> 'r list \<Rightarrow> db \<Rightarrow> bool" where
  "others rows owner uid rs s = (filter (\<lambda>r. owner r \<noteq> uid) (rows s) = rs)"

lemma others_map_updates:
  "filter (\<lambda>r. k_user r \<noteq> uid) (map (\<lambda>k. if revocable i uid k then k\<lparr>k_revoked := True, k_revoked_at := Some now\<rparr> else k) ks)
     = filter (\<lambda>r. k_user r \<noteq> uid) ks"
  "filter (\<lambda>r. p_user r \<noteq> uid) (map (\<lambda>p. if p_id p = i \<and> p_user p = uid then patch_policy now q p else p) ps)
     = filter (\<lambda>r. p_user r \<noteq> uid) ps"
  "filter (\<lambda>r. p_user r \<noteq> uid) (filter (\<lambda>p. p_id p = i \<longrightarrow> p_user p \<noteq> uid) ps) = filter (\<lambda>r. p_user r \<noteq> uid) ps"
  "filter (\<lambda>r. g_user r \<noteq> uid) (map (\<lambda>g. if owns_agent i uid g then g\<lparr>g_status := status, g_updated := now\<rparr> else g) gs)
     = filter (\<lambda>r. g_user r \<noteq> uid) gs"
     apply (rule frame_map; simp add: revocable_def)
    apply (rule frame_map; simp add: patch_policy_def)
   apply (rule frame_filter; simp)
  apply (rule frame_map; simp add: owns_agent_def)
  done

lemma others_faults: "others rows owner uid rs s \<Longrightarrow> rows (s\<lparr>faults := f\<rparr>) = rows s \<Longrightarrow> others rows owner uid rs (s\<lparr>faults := f\<rparr>)"
  by (simp add: others_def)

lemmas others_rules = pres preserves_insert_checked preserves_update preserves_modify others_faults

lemma others_key_ops:
  "preserves (others t_keys k_user uid rs) (create_api_key sha now i prefix secret uid name ex)"
  "preserves (others t_keys k_user uid rs) (revoke_api_key now i uid)"
  "preserves (others t_keys k_user uid rs) (list_api_keys uid)"
  unfolding create_api_key_def revoke_api_key_def list_api_keys_def insert_key_def Let_def
  by (intro others_rules; simp add: others_def others_map_updates del: filter_map)+

lemma others_policy_ops:
  "preserves (others t_policies p_user uid rs) (create_policy now i uid name description rules)"
  "preserves (others t_policies p_user uid rs) (update_policy now i uid q)"
  "preserves (others t_policies p_user uid rs) (delete_policy i uid)"
  "preserves (others t_policies p_user uid rs) (get_policy i uid)"
  "preserves (others t_policies p_user uid rs) (list_policies uid)"
  unfolding create_policy_def update_policy_def delete_policy_def get_policy_def list_policies_def insert_policy_def Let_def
  by (intro others_rules; simp add: others_def others_map_updates del: filter_map filter_filter)+

lemma others_agent_ops:
  "ca_user inp = uid \<Longrightarrow> preserves (others t_agents g_user uid rs) (create_agent now rnd inp)"
  "preserves (others t_agents g_user uid rs) (set_agent_status now i uid status)"
  "preserves (others t_agents g_user uid rs) (get_agent i uid)"
  "preserves (others t_agents g_user uid rs) (list_agents uid)"
  unfolding create_agent_def set_agent_status_def get_agent_def list_agents_def insert_agent_def Let_def
  by (intro others_rules; simp add: others_def others_map_updates del: filter_map)+

lemma frame_of_preserves:
  assumes "\<And>rs. preserves (others rows owner uid rs) m"
  shows "filter (\<lambda>r. owner r \<noteq> uid) (rows (snd (m s))) = filter (\<lambda>r. owner r \<noteq> uid) (rows s)"
  using assms [of "filter (\<lambda>r. owner r \<noteq> uid) (rows s)"] by (auto simp: preserves_def others_def)

interpretation owned_keys: owned_table t_keys k_user "act_key sha"
proof unfold_locales
  fix uid op s
  show "filter (\<lambda>r. k_user r \<noteq> uid) (t_keys (act_key sha uid op s)) = filter (\<lambda>r. k_user r \<noteq> uid) (t_keys s)"
    by (cases op) (simp_all add: frame_of_preserves [where owner = k_user] others_key_ops)
qed

interpretation owned_policies: owned_table t_policies p_user act_policy
proof unfold_locales
  fix uid op s
  show "filter (\<lambda>r. p_user r \<noteq> uid) (t_policies (act_policy uid op s)) = filter (\<lambda>r. p_user r \<noteq> uid) (t_policies s)"
    by (cases op) (simp_all add: frame_of_preserves [where owner = p_user] others_policy_ops)
qed

interpretation owned_agents: owned_table t_agents g_user act_agent
proof unfold_locales
  fix uid op s
  show "filter (\<lambda>r. g_user r \<noteq> uid) (t_agents (act_agent uid op s)) = filter (\<lambda>r. g_user r \<noteq> uid) (t_agents s)"
    by (cases op) (simp_all add: frame_of_preserves [where owner = g_user] others_agent_ops)
qed

section \<open>Properties\<close>

lemma db_ok_keys [pres]:
  "preserves db_ok (create_api_key sha now i prefix secret uid name ex)" "preserves db_ok (revoke_api_key now i uid)"
  "preserves db_ok (validate_api_key sha now full)" "preserves db_ok (list_api_keys uid)"
proof -
  have m: "map k_id (map (\<lambda>k. if P k then f k else k) ks) = map k_id ks"
    "map k_hash (map (\<lambda>k. if P k then f k else k) ks) = map k_hash ks"
    if "\<And>k. k_id (f k) = k_id k" "\<And>k. k_hash (f k) = k_hash k" for P f ks
    using that by auto
  show "preserves db_ok (create_api_key sha now i prefix secret uid name ex)"
    unfolding create_api_key_def Let_def by (intro pres) simp_all
  show "preserves db_ok (revoke_api_key now i uid)"
    unfolding revoke_api_key_def by (intro pres preserves_modify) (simp_all add: db_ok_def m del: map_map)
  show "preserves db_ok (validate_api_key sha now full)"
    unfolding validate_api_key_def by (intro pres preserves_update) (simp_all add: db_ok_def m del: map_map)
  show "preserves db_ok (list_api_keys uid)"
    unfolding list_api_keys_def by (intro pres) simp_all
qed

lemma create_key_eval:
  assumes "faults s = []" "create_api_key sha now i prefix secret uid name ex s = (Inr (row, full), s1)"
  shows "full = full_key prefix secret \<and> faults s1 = [] \<and> t_keys s1 = t_keys s @ [row]
    \<and> k_id row = i \<and> k_user row = uid \<and> k_hash row = sha full \<and> \<not> k_revoked row
    \<and> k_expires row = key_expiry now ex \<and> i \<notin> k_id ` set (t_keys s)"
  using assms by (auto simp: create_api_key_def Let_def quiet_simps insert_key_def split: if_splits)

lemma revoke_eval:
  assumes "faults s = []"
  shows "snd (revoke_api_key now i uid s) = s\<lparr>t_keys := map (\<lambda>k. if revocable i uid k
      then k\<lparr>k_revoked := True, k_revoked_at := Some now\<rparr> else k) (t_keys s)\<rparr>"
  using assms by (simp add: revoke_api_key_def quiet_simps)


text \<open>A database with two accounts, for the examples.\<close>

definition demo_user :: "string \<Rightarrow> string \<Rightarrow> user_row" where
  "demo_user i email = \<lparr>u_id = i, u_name = ''Ann'', u_email = email, u_password = None, u_verified = True,
     u_created = 0, u_last_login = None, u_plan = ''free'', u_plan_updated = None, u_stripe = None\<rparr>"

definition demo_db :: db where
  "demo_db = \<lparr>faults = [], t_users = [demo_user ''u1'' ''ann@x.io'', demo_user ''u2'' ''bob@x.io''], t_oauth = [],
     t_email_tokens = [], t_reset_tokens = [], t_keys = [], t_policies = [], t_audit = [], t_agents = [],
     audit_serial = 1, outbox = [], engine_log = []\<rparr>"

lemma demo_db_ok: "db_ok demo_db" "faults demo_db = []"
  by (simp_all add: db_ok_def demo_db_def demo_user_def)


text \<open>Isolation of the operations themselves. Whatever any number of other accounts do to keys, policies and agents, with
  whatever identifiers (also the victim's own) and whatever statements fail in between, the rows of an
  account in each of the three tables are exactly what they were.\<close>

theorem tenant_isolation:
  assumes "\<forall>(uid, op) \<in> set kops. uid \<noteq> victim" "\<forall>(uid, op) \<in> set pops. uid \<noteq> victim"
    "\<forall>(uid, op) \<in> set aops. uid \<noteq> victim"
  shows "filter (\<lambda>k. k_user k = victim) (t_keys (fold (\<lambda>(uid, op). act_key sha uid op) kops s))
      = filter (\<lambda>k. k_user k = victim) (t_keys s)
    \<and> filter (\<lambda>p. p_user p = victim) (t_policies (fold (\<lambda>(uid, op). act_policy uid op) pops s))
      = filter (\<lambda>p. p_user p = victim) (t_policies s)
    \<and> filter (\<lambda>g. g_user g = victim) (t_agents (fold (\<lambda>(uid, op). act_agent uid op) aops s))
      = filter (\<lambda>g. g_user g = victim) (t_agents s)"
  using assms by (intro conjI owned_keys.run_others owned_policies.run_others owned_agents.run_others)

theorem tenant_isolation_witness:
  "filter (\<lambda>k. k_user k = ''u1'')
     (t_keys (fold (\<lambda>(uid, op). act_key id uid op) [(''u2'', RevokeKey 5 ''k1''), (''u2'', CreateKey 6 ''k2'' ''a'' ''b'' ''n'' None)] demo_db))
   = filter (\<lambda>k. k_user k = ''u1'') (t_keys demo_db)"
  using tenant_isolation [of "[(''u2'', RevokeKey 5 ''k1''), (''u2'', CreateKey 6 ''k2'' ''a'' ''b'' ''n'' None)]" "''u1''" "[]" "[]" id demo_db]
  by simp

end
