(* ===== verification/AuditLog.thy ===== *)
theory AuditLog
  imports Tenants
begin

text \<open>
  The audit log (\<open>platform/ui/lib/audit.ts\<close>) and the monthly quota that is computed from it
  (\<open>platform/ui/lib/quota.ts\<close>). The confidence column keeps three decimals. The start of a calendar
  month (\<open>date_trunc\<close>) is the argument \<open>month_start\<close>.
\<close>

record audit_input =
  ai_trace :: string
  ai_user :: "string option"
  ai_key :: "string option"
  ai_actor :: string
  ai_action :: string
  ai_decision :: string
  ai_reason :: string
  ai_rule :: string
  ai_policy :: "string option"
  ai_confidence :: rat
  ai_latency :: int
  ai_mode :: string
  ai_input_hash :: "string option"
  ai_output_hash :: "string option"
  ai_digest :: "string option"

text \<open>\<open>NUMERIC(4,3)\<close>, for the nonnegative values the callers pass.\<close>

definition numeric3 :: "rat \<Rightarrow> rat" where
  "numeric3 r = of_int \<lfloor>r * 1000 + 1 / 2\<rfloor> / 1000"

definition audit_row_of :: "audit_input \<Rightarrow> int \<Rightarrow> audit_row" where
  "audit_row_of i now = \<lparr>a_id = 0, a_trace = ai_trace i, a_user = ai_user i, a_key = ai_key i, a_actor = ai_actor i,
     a_action = ai_action i, a_decision = ai_decision i, a_reason = ai_reason i, a_rule = ai_rule i,
     a_policy = ai_policy i, a_confidence = numeric3 (ai_confidence i), a_latency = ai_latency i,
     a_mode = ai_mode i, a_input_hash = ai_input_hash i, a_output_hash = ai_output_hash i,
     a_digest = ai_digest i, a_created = now\<rparr>"

text \<open>\<open>logAuditEvent\<close> swallows every error.\<close>

definition log_audit_event :: "int \<Rightarrow> audit_input \<Rightarrow> unit app" where
  "log_audit_event now i =
     try_catch
       (andthen ensure_schema (\<lambda>_.
        if numeric3 (ai_confidence i) < 10 then insert_audit (audit_row_of i now) else throw DbError))
       (\<lambda>_. ret ())"

text \<open>\<open>ILIKE\<close>: a percent sign is any text, an underscore any character, a backslash quotes.\<close>

fun like :: "string \<Rightarrow> string \<Rightarrow> bool" where
  "like [] s = (s = [])"
| "like (p # ps) s =
     (if p = CHR ''%'' then
        (case s of [] \<Rightarrow> like ps [] | c # t \<Rightarrow> like ps (c # t) \<or> like (p # ps) t)
      else if p = CHR ''_'' then (case s of [] \<Rightarrow> False | c # t \<Rightarrow> like ps t)
      else if p = CHR 0x5C then
        (case ps of [] \<Rightarrow> False
         | q # qs \<Rightarrow> (case s of [] \<Rightarrow> False | c # t \<Rightarrow> c = q \<and> like qs t))
      else (case s of [] \<Rightarrow> False | c # t \<Rightarrow> c = p \<and> like ps t))"

definition ilike_contains :: "string \<Rightarrow> string \<Rightarrow> bool" where
  "ilike_contains needle v = like (to_lower (''%'' @ needle @ ''%'')) (to_lower v)"

record audit_filter =
  af_user :: "string option"
  af_actor :: "string option"
  af_action :: "string option"
  af_decision :: "string option"
  af_limit :: "int option"

definition audit_matches :: "audit_filter \<Rightarrow> audit_row \<Rightarrow> bool" where
  "audit_matches f a =
     ((case af_user f of None \<Rightarrow> True | Some u \<Rightarrow> a_user a = Some u)
      \<and> (case af_actor f of None \<Rightarrow> True | Some x \<Rightarrow> ilike_contains x (a_actor a))
      \<and> (case af_action f of None \<Rightarrow> True | Some x \<Rightarrow> ilike_contains x (a_action a))
      \<and> (case af_decision f of None \<Rightarrow> True | Some d \<Rightarrow> a_decision a = d))"

text \<open>A negative limit is an error of the database.\<close>

definition list_audit_events :: "audit_filter \<Rightarrow> audit_row list app" where
  "list_audit_events f =
     andthen ensure_schema (\<lambda>_.
     let limit = min (nullish (af_limit f) 100) 500
     in if limit < 0 then andthen query (\<lambda>_. throw DbError)
        else select (\<lambda>s. take (nat limit) (newest_first a_created (filter (audit_matches f) (t_audit s)))))"

record audit_stats =
  st_total :: nat
  st_allowed :: nat
  st_denied :: nat
  st_review :: nat
  st_compute :: nat

definition count_decision :: "string option \<Rightarrow> string \<Rightarrow> db \<Rightarrow> nat" where
  "count_decision uid d s =
     length (filter (\<lambda>a. (case uid of None \<Rightarrow> True | Some u \<Rightarrow> a_user a = Some u) \<and> a_decision a = d) (t_audit s))"

text \<open>The rows of \<open>GROUP BY decision\<close>: the decisions that occur, each with its count.\<close>

definition decision_groups :: "string option \<Rightarrow> db \<Rightarrow> (string \<times> nat) list" where
  "decision_groups uid s =
     map (\<lambda>d. (d, count_decision uid d s))
       (remdups (map a_decision (filter (\<lambda>a. case uid of None \<Rightarrow> True | Some u \<Rightarrow> a_user a = Some u) (t_audit s))))"

fun add_group :: "string \<times> nat \<Rightarrow> audit_stats \<Rightarrow> audit_stats" where
  "add_group (d, n) st =
     (let st = st\<lparr>st_total := st_total st + n\<rparr>
      in if d = ''allowed'' then st\<lparr>st_allowed := n\<rparr>
         else if d = ''denied'' then st\<lparr>st_denied := n\<rparr>
         else if d = ''human_review'' then st\<lparr>st_review := n\<rparr>
         else if d = ''compute'' then st\<lparr>st_compute := n\<rparr>
         else st)"

definition get_audit_stats :: "string option \<Rightarrow> audit_stats app" where
  "get_audit_stats uid =
     andthen ensure_schema (\<lambda>_.
     andthen (select (decision_groups uid)) (\<lambda>groups.
     ret (fold add_group groups \<lparr>st_total = 0, st_allowed = 0, st_denied = 0, st_review = 0, st_compute = 0\<rparr>)))"

section \<open>Quota\<close>

definition limit_for_plan :: "string \<Rightarrow> nat" where
  "limit_for_plan plan = (if plan = ''paid'' then 100000 else 1000)"

record quota_status =
  q_plan :: string
  q_limit :: nat
  q_used :: nat
  q_allowed :: bool

definition monthly_usage :: "int \<Rightarrow> string \<Rightarrow> db \<Rightarrow> nat" where
  "monthly_usage month_start uid s =
     length (filter (\<lambda>a. a_user a = Some uid \<and> a_mode a = ''live'' \<and> month_start \<le> a_created a) (t_audit s))"

definition get_monthly_usage :: "int \<Rightarrow> string \<Rightarrow> nat app" where
  "get_monthly_usage month_start uid =
     andthen ensure_schema (\<lambda>_. select (monthly_usage month_start uid))"

definition get_user_plan :: "string \<Rightarrow> string app" where
  "get_user_plan uid =
     andthen ensure_schema (\<lambda>_.
     andthen (select (\<lambda>s. find_first (\<lambda>u. u_id u = uid) (t_users s))) (\<lambda>r.
     ret (case r of None \<Rightarrow> ''free'' | Some u \<Rightarrow> u_plan u)))"

definition check_quota :: "int \<Rightarrow> string \<Rightarrow> quota_status app" where
  "check_quota month_start uid =
     andthen (get_user_plan uid) (\<lambda>plan.
     andthen (get_monthly_usage month_start uid) (\<lambda>used.
     let limit = limit_for_plan plan
     in ret \<lparr>q_plan = plan, q_limit = limit, q_used = used, q_allowed = used < limit\<rparr>))"

section \<open>Lemmas\<close>

lemma list_audit_result:
  assumes "list_audit_events f s = (Inr es, s')"
  shows "length es \<le> 500 \<and> set es \<subseteq> set (filter (audit_matches f) (t_audit s))
    \<and> sorted (map (\<lambda>a. - a_created a) es)"
proof -
  let ?limit = "min (nullish (af_limit f) 100) 500"
  let ?all = "newest_first a_created (filter (audit_matches f) (t_audit s))"
  have es: "es = take (nat ?limit) ?all"
    using assms by (auto simp: list_audit_events_def ensure_schema_def andthen_apply Let_def
        split: prod.splits sum.splits if_splits dest!: query_cases select_cases)
  have "set ?all = set (filter (audit_matches f) (t_audit s))" by (simp add: newest_first_def)
  moreover have "sorted (map (\<lambda>a. - a_created a) ?all)" by (simp add: newest_first_def)
  moreover have "map (\<lambda>a. - a_created a) es = take (nat ?limit) (map (\<lambda>a. - a_created a) ?all)"
    by (simp add: es take_map)
  ultimately show ?thesis
    unfolding es using set_take_subset [of "nat ?limit" ?all] by (auto intro: sorted_wrt_take)
qed

text \<open>The totals of the statistics add up when every decision is one of the four the schema allows.\<close>

definition known_decisions :: "db \<Rightarrow> bool" where
  "known_decisions s = (\<forall>a \<in> set (t_audit s). a_decision a \<in> {''allowed'', ''denied'', ''human_review'', ''compute''})"

lemma check_quota_result:
  assumes "check_quota m uid s = (Inr q, s')"
  shows "q_used q = monthly_usage m uid s \<and> q_allowed q = (q_used q < q_limit q) \<and> q_limit q = limit_for_plan (q_plan q)
    \<and> q_limit q \<le> 100000"
  using assms
  by (auto simp: check_quota_def get_user_plan_def get_monthly_usage_def ensure_schema_def andthen_apply Let_def
      monthly_usage_def limit_for_plan_def split: prod.splits sum.splits dest!: query_cases select_cases)

lemma log_audit_never_fails: "fst (log_audit_event now i s) = Inr ()"
  by (auto simp: log_audit_event_def try_catch_apply split: prod.splits sum.splits)

end
