(* ===== verification/Web.thy ===== *)
theory Web
  imports AuditLog
begin

text \<open>
  What the platform's routes answer with, the page guard \<open>platform/ui/middleware.ts\<close>, and the
  validation patterns and redirect rule that several routes share. A reply has a status, a JSON body,
  a redirect target and the cookies it sets (name, value, maximal age). The long dash of a few messages
  is outside Latin-1 and written \<open>-\<close>.
\<close>

record reply =
  rp_status :: int
  rp_body :: "jsnum json"
  rp_redirect :: "string option"
  rp_cookies :: "(string \<times> string \<times> int) list"

definition json_reply :: "int \<Rightarrow> jsnum json \<Rightarrow> reply" where
  "json_reply st body = \<lparr>rp_status = st, rp_body = body, rp_redirect = None, rp_cookies = []\<rparr>"

definition error_reply :: "int \<Rightarrow> string \<Rightarrow> reply" where
  "error_reply st msg = json_reply st (JObj [(''error'', JStr msg)])"

definition redirect_reply :: "string \<Rightarrow> reply" where
  "redirect_reply url = \<lparr>rp_status = 307, rp_body = JNull, rp_redirect = Some url, rp_cookies = []\<rparr>"

definition jint :: "int \<Rightarrow> jsnum json" where
  "jint n = JNum (Fin (of_int n))"

definition jopt :: "string option \<Rightarrow> jsnum json" where
  "jopt x = (case x of None \<Rightarrow> JNull | Some s \<Rightarrow> JStr s)"

definition session_cookie :: string where
  "session_cookie = ''lelu_session''"

definition week :: int where
  "week = 60 * 60 * 24 * 7"

text \<open>Query parameters of a URL: the first value of a name.\<close>

type_synonym query_params = "(string \<times> string) list"

section \<open>The page guard\<close>

definition protected_paths :: "string list" where
  "protected_paths = [''/dashboard'', ''/audit'', ''/policies'', ''/traces'', ''/api-key'', ''/api/policies'',
     ''/admin'', ''/agents'', ''/nhi'']"

definition is_protected :: "string \<Rightarrow> bool" where
  "is_protected path = list_ex (\<lambda>p. path = p \<or> starts_with (p @ ''/'') path) protected_paths"

datatype guard_result = Next | ToLogin string

text \<open>\<open>middleware(req)\<close>: only the presence of the session cookie counts.\<close>

definition middleware :: "string \<Rightarrow> request \<Rightarrow> guard_result" where
  "middleware path rq =
     (if \<not> is_protected path then Next
      else if \<not> truthy (rq_cookie rq) then ToLogin path
      else Next)"

section \<open>Shared validation\<close>

text \<open>\<open>/^[^\s@]+@[^\s@]+\.[^\s@]{2,}$/\<close>: one at sign, no white space, and a dot after it with at least one
  character before and two after.\<close>

definition email_char :: "char \<Rightarrow> bool" where
  "email_char c = (\<not> is_ws c \<and> c \<noteq> CHR ''@'')"

fun dot_split :: "nat \<Rightarrow> string \<Rightarrow> bool" where
  "dot_split before [] = False"
| "dot_split before (c # s) = ((c = CHR ''.'' \<and> 0 < before \<and> 2 \<le> length s) \<or> dot_split (Suc before) s)"

definition valid_email :: "string \<Rightarrow> bool" where
  "valid_email e =
     (case split_on (CHR ''@'') e of
        [name, domain] \<Rightarrow> name \<noteq> [] \<and> list_all email_char name \<and> list_all email_char domain \<and> dot_split 0 domain
      | _ \<Rightarrow> False)"

definition is_letter :: "char \<Rightarrow> bool" where
  "is_letter c = (let n = of_char c :: nat in (65 \<le> n \<and> n \<le> 90) \<or> (97 \<le> n \<and> n \<le> 122))"

text \<open>\<open>/^[a-zA-Z\s'\-.]{2,80}$/\<close>.\<close>

definition valid_name :: "string \<Rightarrow> bool" where
  "valid_name n =
     (2 \<le> length n \<and> length n \<le> 80
      \<and> list_all (\<lambda>c. is_letter c \<or> is_ws c \<or> c = CHR 0x27 \<or> c = CHR ''-'' \<or> c = CHR ''.'') n)"

text \<open>\<open>safeNextPath\<close> of \<open>platform/ui/lib/oauth.ts\<close>.\<close>

definition safe_next_path :: "string option \<Rightarrow> string" where
  "safe_next_path v =
     (if \<not> truthy v \<or> \<not> starts_with ''/'' (the v) \<or> starts_with ''//'' (the v) then ''/dashboard'' else the v)"

lemma safe_next_path_local: "\<exists>r. safe_next_path v = CHR ''/'' # r \<and> \<not> starts_with ''/'' r"
  by (auto simp: safe_next_path_def starts_with_iff split: if_splits)

text \<open>The page guard keeps API clients out of the policies API. A request to \<open>/api/policies\<close> or a path
  below it that carries no session cookie is sent to the login page whatever bearer key it presents,
  although the routes behind it resolve the acting user from such a key for SDK and curl callers.\<close>

theorem middleware_ignores_api_keys:
  assumes "path = ''/api/policies'' \<or> starts_with ''/api/policies/'' path" "rq_cookie rq = None"
  shows "middleware path rq = ToLogin path"
  using assms by (auto simp: middleware_def is_protected_def protected_paths_def truthy_def)

theorem middleware_ignores_api_keys_witness:
  "middleware ''/api/policies'' \<lparr>rq_auth = Some ''Bearer lelu_sk_p_q'', rq_cookie = None, rq_body = ''{}''\<rparr>
     = ToLogin ''/api/policies''"
  by (rule middleware_ignores_api_keys) simp_all

end
