(* ===== verification/AuthRoutes.thy ===== *)
theory AuthRoutes
  imports Web
begin

text \<open>
  The account routes under \<open>platform/ui/app/api/auth\<close>: registration, e-mail verification, login,
  logout, the session query and the password reset. A route is a program over the database that always
  answers; the random values it draws are arguments. Sending a mail takes an entry of the failure
  schedule and puts the mail into the outbox.
\<close>

definition parsed_body :: "request \<Rightarrow> jsnum json option" where
  "parsed_body rq = parse_json (rq_body rq)"

definition body_str :: "string \<Rightarrow> jsnum json \<Rightarrow> string option" where
  "body_str k body = str_of (member k body)"

text \<open>\<open>send\<close>: nothing happens when no provider is configured.\<close>

definition send_mail :: "bool \<Rightarrow> mail \<Rightarrow> unit app" where
  "send_mail configured m =
     (if \<not> configured then ret ()
      else andthen (may_fail MailError) (\<lambda>_. modify (\<lambda>s. s\<lparr>outbox := outbox s @ [m]\<rparr>)))"

section \<open>Login\<close>

definition dummy_hash :: string where
  "dummy_hash = replicate 64 (CHR ''0'') @ '':'' @ replicate 128 (CHR ''0'')"

definition bad_credentials :: reply where
  "bad_credentials = error_reply 401 ''Invalid email or password''"

definition not_verified_reply :: reply where
  "not_verified_reply = json_reply 403 (JObj
     [(''error'', JStr ''Please verify your email before signing in. Check your inbox for the verification link.''),
      (''code'', JStr ''EMAIL_NOT_VERIFIED'')])"

definition claims_of :: "user \<Rightarrow> claims" where
  "claims_of u = \<lparr>cl_user = us_id u, cl_email = us_email u, cl_name = us_name u, cl_verified = us_verified u\<rparr>"

definition signed_in_reply :: "user \<Rightarrow> string \<Rightarrow> reply" where
  "signed_in_reply u jwt = \<lparr>rp_status = 200,
     rp_body = JObj [(''ok'', JBool True),
       (''user'', JObj [(''id'', JStr (us_id u)), (''name'', JStr (us_name u)), (''email'', JStr (us_email u))])],
     rp_redirect = None, rp_cookies = [(session_cookie, jwt, week)]\<rparr>"

text \<open>The part of the handler inside its \<open>try\<close>.\<close>

definition login_user :: "platform_env \<Rightarrow> string \<Rightarrow> string \<Rightarrow> reply app" where
  "login_user pe email password =
     andthen (find_user_by_email email) (\<lambda>found.
     let stored = (case found of None \<Rightarrow> None | Some u \<Rightarrow> us_password u);
         valid = (if truthy stored then verify_password (pe_scrypt pe) password (the stored)
                  else verify_password (pe_scrypt pe) password dummy_hash)
     in case found of
          None \<Rightarrow> ret bad_credentials
        | Some u \<Rightarrow>
            (if \<not> valid then ret bad_credentials
             else if \<not> us_verified u then ret not_verified_reply
             else
               andthen (try_catch (record_login (pe_now pe) (us_id u)) (\<lambda>_. ret ())) (\<lambda>_.
               case sign_jwt (pe_hmac pe) (pe_secret pe) (pe_now pe) (claims_of u) of
                 None \<Rightarrow> throw ConfigError
               | Some jwt \<Rightarrow> ret (signed_in_reply u jwt))))"

definition login :: "platform_env \<Rightarrow> request \<Rightarrow> reply app" where
  "login pe rq =
     (case parsed_body rq of
        None \<Rightarrow> ret (error_reply 400 ''Invalid request body'')
      | Some body \<Rightarrow>
          (case body_str ''email'' body of
             None \<Rightarrow> ret (error_reply 400 ''Email is required'')
           | Some email \<Rightarrow>
               (if trim email = [] then ret (error_reply 400 ''Email is required'')
                else (case body_str ''password'' body of
                        None \<Rightarrow> ret (error_reply 400 ''Password is required'')
                      | Some password \<Rightarrow>
                          (if password = [] then ret (error_reply 400 ''Password is required'')
                           else try_catch (login_user pe email password)
                                  (\<lambda>_. ret (error_reply 500 ''Login failed. Please try again.'')))))))"

section \<open>Registration\<close>

record draws =
  dr_id :: string
  dr_salt :: string
  dr_token :: string
  dr_link :: string

definition register_account :: "platform_env \<Rightarrow> bool \<Rightarrow> draws \<Rightarrow> string \<Rightarrow> string \<Rightarrow> string \<Rightarrow> reply app" where
  "register_account pe mail_on d name email password =
     (\<lambda>s. case create_user (pe_scrypt pe) (pe_now pe) (dr_id d) (dr_salt d) (trim name) (trim email) password (\<not> mail_on) s of
        (Inl EmailTaken, s') \<Rightarrow> ret (error_reply 409 ''An account with this email already exists'') s'
      | (Inl _, s') \<Rightarrow> ret (error_reply 500 ''Registration failed. Please try again.'') s'
      | (Inr u, s') \<Rightarrow>
          (if mail_on then
             try_catch
               (andthen (create_verification_token (pe_now pe) (dr_token d) (us_id u)) (\<lambda>token.
                andthen (send_mail mail_on (VerifyMail (us_email u) token)) (\<lambda>_.
                ret (json_reply 201 (JObj [(''ok'', JBool True), (''requiresVerification'', JBool True)])))))
               (\<lambda>_. andthen (try_catch (mark_email_verified (us_id u)) (\<lambda>_. ret ())) (\<lambda>_.
                ret (json_reply 201 (JObj [(''ok'', JBool True), (''requiresVerification'', JBool False)]))))
               s'
           else ret (json_reply 201 (JObj [(''ok'', JBool True), (''requiresVerification'', JBool False)])) s'))"

definition register :: "platform_env \<Rightarrow> bool \<Rightarrow> draws \<Rightarrow> request \<Rightarrow> reply app" where
  "register pe mail_on d rq =
     (case parsed_body rq of
        None \<Rightarrow> ret (error_reply 400 ''Invalid request body'')
      | Some body \<Rightarrow>
          (case body_str ''name'' body of
             None \<Rightarrow> ret (error_reply 400 ''Name must be 2-80 characters (letters, spaces, hyphens, apostrophes)'')
           | Some name \<Rightarrow>
               (if \<not> valid_name (trim name)
                then ret (error_reply 400 ''Name must be 2-80 characters (letters, spaces, hyphens, apostrophes)'')
                else (case body_str ''email'' body of
                        None \<Rightarrow> ret (error_reply 400 ''Invalid email address'')
                      | Some email \<Rightarrow>
                          (if \<not> valid_email (trim email) then ret (error_reply 400 ''Invalid email address'')
                           else (case body_str ''password'' body of
                                   None \<Rightarrow> ret (error_reply 400 ''Password must be at least 8 characters'')
                                 | Some password \<Rightarrow>
                                     (if length password < 8 then ret (error_reply 400 ''Password must be at least 8 characters'')
                                      else if 128 < length password then ret (error_reply 400 ''Password too long'')
                                      else register_account pe mail_on d name email password)))))))"

section \<open>Logout, session, verification\<close>

definition logout :: "reply app" where
  "logout = ret \<lparr>rp_status = 200, rp_body = JObj [(''ok'', JBool True)], rp_redirect = None,
     rp_cookies = [(session_cookie, [], 0)]\<rparr>"

definition jmember :: "string \<Rightarrow> jsnum json \<Rightarrow> jsnum json" where
  "jmember k v = nullish (member k v) JNull"

definition me :: "platform_env \<Rightarrow> string option \<Rightarrow> request \<Rightarrow> reply app" where
  "me pe admins rq =
     (case get_current_user (pe_hmac pe) (pe_secret pe) (pe_now pe) (rq_cookie rq) of
        None \<Rightarrow> ret (json_reply 401 (JObj [(''user'', JNull)]))
      | Some session \<Rightarrow>
          ret (json_reply 200 (JObj [(''user'', JObj
            [(''email'', jmember ''email'' session), (''name'', jmember ''name'' session),
             (''userId'', jmember ''userId'' session),
             (''isAdmin'', JBool (is_admin_email admins (str_of (member ''email'' session))))])])))"

definition verify_email :: "platform_env \<Rightarrow> string \<Rightarrow> query_params \<Rightarrow> reply app" where
  "verify_email pe base q =
     (if \<not> truthy (map_of q ''token'') then ret (redirect_reply (base @ ''/login?error=invalid_token''))
      else
        try_catch
          (andthen (consume_verification_token (pe_now pe) (the (map_of q ''token''))) (\<lambda>r.
             case r of
               None \<Rightarrow> ret (redirect_reply (base @ ''/login?error=token_expired''))
             | Some uid \<Rightarrow>
                 andthen (mark_email_verified uid) (\<lambda>_. ret (redirect_reply (base @ ''/login?verified=1'')))))
          (\<lambda>_. ret (redirect_reply (base @ ''/login?error=verification_failed''))))"

section \<open>Password reset and resend\<close>

definition generic_reset_reply :: reply where
  "generic_reset_reply = json_reply 200 (JObj [(''ok'', JBool True),
     (''message'', JStr ''If an account exists for that email, a reset link is on its way.'')])"

definition generic_resend_reply :: reply where
  "generic_resend_reply = json_reply 200 (JObj [(''ok'', JBool True),
     (''message'', JStr ''If an unverified account exists for that email, a new verification link is on its way.'')])"

definition forgot_password :: "platform_env \<Rightarrow> bool \<Rightarrow> draws \<Rightarrow> request \<Rightarrow> reply app" where
  "forgot_password pe mail_on d rq =
     (case parsed_body rq of
        None \<Rightarrow> ret (error_reply 400 ''Invalid request body'')
      | Some body \<Rightarrow>
          (case body_str ''email'' body of
             None \<Rightarrow> ret (error_reply 400 ''Invalid email address'')
           | Some email \<Rightarrow>
               (if \<not> valid_email (trim email) then ret (error_reply 400 ''Invalid email address'')
                else
                  andthen
                    (try_catch
                      (andthen (find_user_by_email (trim email)) (\<lambda>u.
                         case u of
                           None \<Rightarrow> ret ()
                         | Some u \<Rightarrow>
                             andthen (create_password_reset_token (pe_now pe) (dr_token d) (us_id u)) (\<lambda>token.
                             send_mail mail_on (ResetMail (us_email u) token))))
                      (\<lambda>_. ret ()))
                    (\<lambda>_. ret generic_reset_reply))))"

definition resend_verification :: "platform_env \<Rightarrow> bool \<Rightarrow> draws \<Rightarrow> request \<Rightarrow> reply app" where
  "resend_verification pe mail_on d rq =
     (case parsed_body rq of
        None \<Rightarrow> ret (error_reply 400 ''Invalid request body'')
      | Some body \<Rightarrow>
          (case body_str ''email'' body of
             None \<Rightarrow> ret (error_reply 400 ''Invalid email address'')
           | Some email \<Rightarrow>
               (if \<not> valid_email (trim email) then ret (error_reply 400 ''Invalid email address'')
                else
                  andthen
                    (try_catch
                      (andthen (find_user_by_email (trim email)) (\<lambda>u.
                         case u of
                           None \<Rightarrow> ret ()
                         | Some u \<Rightarrow>
                             (if us_verified u then ret ()
                              else
                                andthen (create_verification_token (pe_now pe) (dr_token d) (us_id u)) (\<lambda>token.
                                send_mail mail_on (VerifyMail (us_email u) token)))))
                      (\<lambda>_. ret ()))
                    (\<lambda>_. ret generic_resend_reply))))"

definition reset_password :: "platform_env \<Rightarrow> draws \<Rightarrow> request \<Rightarrow> reply app" where
  "reset_password pe d rq =
     (case parsed_body rq of
        None \<Rightarrow> ret (error_reply 400 ''Invalid request body'')
      | Some body \<Rightarrow>
          (case body_str ''token'' body of
             None \<Rightarrow> ret (error_reply 400 ''Reset token is required'')
           | Some token \<Rightarrow>
               (if token = [] then ret (error_reply 400 ''Reset token is required'')
                else (case body_str ''password'' body of
                        None \<Rightarrow> ret (error_reply 400 ''Password must be at least 8 characters'')
                      | Some password \<Rightarrow>
                          (if length password < 8 then ret (error_reply 400 ''Password must be at least 8 characters'')
                           else if 128 < length password then ret (error_reply 400 ''Password too long'')
                           else
                             try_catch
                               (andthen (consume_password_reset_token (pe_now pe) token) (\<lambda>r.
                                  case r of
                                    None \<Rightarrow> ret (error_reply 400
                                      ''This reset link is invalid or has expired. Please request a new one.'')
                                  | Some uid \<Rightarrow>
                                      andthen (update_user_password (pe_scrypt pe) (dr_salt d) uid password) (\<lambda>_.
                                      ret (json_reply 200 (JObj [(''ok'', JBool True)])))))
                               (\<lambda>_. ret (error_reply 500 ''Password reset failed. Please try again.'')))))))"

end
