(* ===== verification/Http.thy ===== *)
theory Http
  imports Effects Json
begin

text \<open>
  Answers of a remote server and JSON values the way JavaScript code tests them, as the hosted routes,
  the SDK and the MCP server use them, with the rules for looking a member up in an object that is
  built from optional parts. An answer is its status and body; \<open>NoAnswer\<close> is any failure to get one.
\<close>

datatype http_answer = NoAnswer | HttpAnswer int string

definition http_ok :: "int \<Rightarrow> bool" where
  "http_ok status = (200 \<le> status \<and> status \<le> 299)"

text \<open>\<open>url.replace(/\/$/, "")\<close>: an address without one trailing slash.\<close>

definition strip_slash :: "string \<Rightarrow> string" where
  "strip_slash u = (if ends_with ''/'' u then butlast u else u)"

section \<open>JSON values as the code tests them\<close>

fun truthy_value :: "jsnum json \<Rightarrow> bool" where
  "truthy_value JNull = False"
| "truthy_value (JBool b) = b"
| "truthy_value (JNum n) = (n \<noteq> Fin 0)"
| "truthy_value (JStr s) = (s \<noteq> [])"
| "truthy_value (JArr vs) = True"
| "truthy_value (JObj kvs) = True"

definition truthy_json :: "jsnum json option \<Rightarrow> bool" where
  "truthy_json v = (case v of None \<Rightarrow> False | Some x \<Rightarrow> truthy_value x)"

definition is_object :: "jsnum json option \<Rightarrow> bool" where
  "is_object v = (case v of Some (JArr _) \<Rightarrow> True | Some (JObj _) \<Rightarrow> True | _ \<Rightarrow> False)"

definition when_some :: "string \<Rightarrow> jsnum json option \<Rightarrow> (string \<times> jsnum json) list" where
  "when_some k v = (case v of None \<Rightarrow> [] | Some x \<Rightarrow> [(k, x)])"

definition when_truthy :: "string \<Rightarrow> jsnum json option \<Rightarrow> (string \<times> jsnum json) list" where
  "when_truthy k v = (if truthy_json v then when_some k v else [])"

text \<open>\<open>v ?? d\<close> on JSON values, where \<open>null\<close> counts as missing.\<close>

definition nullish_json :: "jsnum json option \<Rightarrow> jsnum json \<Rightarrow> jsnum json" where
  "nullish_json v d = (case v of None \<Rightarrow> d | Some JNull \<Rightarrow> d | Some x \<Rightarrow> x)"

section \<open>Looking members up\<close>

lemma map_of_rev_append: "map_of (rev (xs @ ys)) k = (case map_of (rev ys) k of Some v \<Rightarrow> Some v | None \<Rightarrow> map_of (rev xs) k)"
  by (simp add: map_add_def split: option.splits)

lemma map_of_rev_Cons: "map_of (rev ((a, v) # xs)) k = (case map_of (rev xs) k of Some w \<Rightarrow> Some w | None \<Rightarrow> if k = a then Some v else None)"
  by (auto simp: map_add_def split: option.splits)

lemma when_some_lookup: "map_of (rev (when_some a v)) k = (if k = a then v else None)"
  by (auto simp: when_some_def split: option.splits)

lemma when_truthy_lookup: "map_of (rev (when_truthy a v)) k = (if k = a \<and> truthy_json v then v else None)"
  by (auto simp: when_truthy_def when_some_lookup)

lemmas member_lookup = member_def map_of_rev_append map_of_rev_Cons when_some_lookup when_truthy_lookup

end
