(* ===== verification/Injection.thy ===== *)
theory Injection
  imports JsNumber
begin

text \<open>
  The prompt-injection detector of the hosted fallback (\<open>platform/ui/lib/injection.ts\<close>). A text is
  the list of its UTF-16 code units (\<open>wide\<close>), because the homoglyph table needs more than Latin-1;
  the phrases are ASCII. Lower-casing a code unit is the argument \<open>lowc\<close> (Unicode tables); the
  lemmas only use that it folds ASCII letters and keeps the other ASCII characters
  (\<open>ascii_folding\<close>).
\<close>

type_synonym wide = "nat list"

definition widen :: "string \<Rightarrow> wide" where
  "widen s = map of_char s"

definition wide_lower :: "(nat \<Rightarrow> wide) \<Rightarrow> wide \<Rightarrow> wide" where
  "wide_lower lowc s = concat (map lowc s)"

definition ascii_folding :: "(nat \<Rightarrow> wide) \<Rightarrow> bool" where
  "ascii_folding lowc = (\<forall>c < 128. lowc c = [if 65 \<le> c \<and> c \<le> 90 then c + 32 else c])"

text \<open>The code units of the class \<open>\s\<close>.\<close>

definition wide_ws :: "nat \<Rightarrow> bool" where
  "wide_ws c = ((9 \<le> c \<and> c \<le> 13) \<or> c = 32 \<or> c = 160 \<or> c = 0x1680 \<or> (0x2000 \<le> c \<and> c \<le> 0x200A)
     \<or> c = 0x2028 \<or> c = 0x2029 \<or> c = 0x202F \<or> c = 0x205F \<or> c = 0x3000 \<or> c = 0xFEFF)"

definition exact_patterns :: "string list" where
  "exact_patterns =
     [''ignore previous instructions'', ''ignore all previous'', ''ignore all prior'',
      ''disregard all prior'', ''disregard previous'', ''disregard the above'',
      ''forget your instructions'', ''forget all previous'', ''override your instructions'',
      ''override policy'', ''override all policies'', ''override the above'',
      ''system prompt'', ''new system prompt'', ''your new instructions'', ''from now on you'',
      ''you are now'', ''act as if you'', ''pretend you are'', ''pretend to be'',
      ''simulate being'', ''imagine you are'', ''roleplay as'', ''you are playing'',
      ''jailbreak'', ''do anything now'', ''dan mode'', ''developer mode enabled'',
      ''god mode'', ''unrestricted mode'', ''bypass your'', ''ignore your'',
      ''disregard your'', ''forget you are'', ''without restrictions'', ''no restrictions'',
      ''###instruction'', ''[system]'', ''<|system|>'', ''<|im_start|>system'',
      ''<instructions>'', ''[instructions]'', ''ignore safety'', ''ignore ethics'']"

definition structural_indicators :: "string list" where
  "structural_indicators =
     [''ignore'', ''disregard'', ''forget'', ''override'', ''bypass'', ''pretend'',
      ''roleplay'', ''simulate'', ''act as'', ''from now on'', ''your new'',
      ''new instructions'']"

definition homoglyphs :: "(nat \<times> char) list" where
  "homoglyphs =
     [(0x0456, CHR ''i''), (0x03BF, CHR ''o''), (0x0435, CHR ''e''), (0x0430, CHR ''a''), (0x0441,
      CHR ''c''), (0x0440, CHR ''p''), (0x0445, CHR ''x''), (0x0443, CHR ''y''), (0x0458, CHR ''j''),
      (0x0501, CHR ''d''), (0x0261, CHR ''g''), (0x029C, CHR ''h''), (0x1D0B, CHR ''k''), (0x029F,
      CHR ''l''), (0x1D0D, CHR ''m''), (0x0274, CHR ''n''), (0x01EB, CHR ''q''), (0x0280, CHR ''r''),
      (0xA731, CHR ''s''), (0x1D1B, CHR ''t''), (0x1D20, CHR ''v''), (0x1D21, CHR ''w''), (0x1D22,
      CHR ''z''), (0xFF10, CHR ''0''), (0xFF11, CHR ''1''), (0xFF12, CHR ''2''), (0xFF13, CHR ''3''),
      (0xFF14, CHR ''4'')]"

datatype scan_layer = Exact | Homoglyph | Structural

record injection_result =
  ir_pattern :: string
  ir_source :: string
  ir_method :: scan_layer
  ir_score :: rat

text \<open>\<open>normalizeHomoglyphs\<close>: every listed lookalike becomes its ASCII letter. The pairs of surrogates
  that iterating by code points would join are not in the table.\<close>

definition normalize_unit :: "nat \<Rightarrow> nat" where
  "normalize_unit c = (case map_of homoglyphs c of None \<Rightarrow> c | Some a \<Rightarrow> of_char a)"

definition normalize_homoglyphs :: "wide \<Rightarrow> wide" where
  "normalize_homoglyphs s = map normalize_unit s"

definition first_pattern :: "(nat \<Rightarrow> wide) \<Rightarrow> wide \<Rightarrow> string option" where
  "first_pattern lowc t = find_first (\<lambda>p. contains (widen p) (wide_lower lowc t)) exact_patterns"

text \<open>\<open>scanField\<close>: \<open>None\<close> is \<open>{ detected: false }\<close>.\<close>

definition scan_field :: "(nat \<Rightarrow> wide) \<Rightarrow> wide \<Rightarrow> string \<Rightarrow> injection_result option" where
  "scan_field lowc t source =
     (case first_pattern lowc t of
        Some p \<Rightarrow> Some \<lparr>ir_pattern = p, ir_source = source, ir_method = Exact, ir_score = 1\<rparr>
      | None \<Rightarrow>
          (let normalized = normalize_homoglyphs t
           in if normalized \<noteq> t then
                (case first_pattern lowc normalized of
                   Some p \<Rightarrow> Some \<lparr>ir_pattern = p, ir_source = source, ir_method = Homoglyph, ir_score = fl (95 / 100)\<rparr>
                 | None \<Rightarrow> None)
              else None))"

text \<open>\<open>split(/\s+/).filter(Boolean)\<close>: the maximal runs of other characters.\<close>

fun words_acc :: "wide \<Rightarrow> wide \<Rightarrow> wide list" where
  "words_acc acc [] = (if acc = [] then [] else [rev acc])"
| "words_acc acc (c # s) =
     (if wide_ws c then (if acc = [] then words_acc [] s else rev acc # words_acc [] s)
      else words_acc (c # acc) s)"

definition wide_words :: "wide \<Rightarrow> wide list" where
  "wide_words s = words_acc [] s"

definition window_size :: nat where
  "window_size = 10"

definition window_hits :: "wide \<Rightarrow> string list" where
  "window_hits window = filter (\<lambda>ind. contains (widen ind) window) structural_indicators"

text \<open>The loop over the windows of exactly ten words.\<close>

fun scan_windows :: "wide list \<Rightarrow> injection_result option" where
  "scan_windows [] = None"
| "scan_windows (w # ws) =
     (if window_size \<le> length (w # ws) then
        (let hits = window_hits (join (widen '' '') (take window_size (w # ws)))
         in if 2 \<le> length hits
            then Some \<lparr>ir_pattern = last hits, ir_source = ''combined'', ir_method = Structural,
                       ir_score = min (fl (of_nat (length hits) * fl (3 / 10))) 1\<rparr>
            else scan_windows ws)
      else None)"

definition structural_scan :: "(nat \<Rightarrow> wide) \<Rightarrow> wide \<Rightarrow> injection_result option" where
  "structural_scan lowc t =
     (let words = wide_words (wide_lower lowc t)
      in if length words < 4 then None else scan_windows words)"

text \<open>Any JSON value, as \<open>flatten\<close> sees it; a number carries the text \<open>String\<close> makes of it, an object
  the values of its own members in order.\<close>

datatype field_value =
    FAbsent
  | FNum wide
  | FBool bool
  | FStr wide
  | FArr "field_value list"
  | FObj "field_value list"

fun flatten :: "field_value \<Rightarrow> wide list" where
  "flatten FAbsent = []"
| "flatten (FStr t) = [t]"
| "flatten (FNum t) = [t]"
| "flatten (FBool b) = [widen (if b then ''true'' else ''false'')]"
| "flatten (FArr vs) = concat (map flatten vs)"
| "flatten (FObj vs) = concat (map flatten vs)"

record detect_input =
  di_tool :: field_value
  di_context :: field_value
  di_args :: field_value
  di_resource :: field_value
  di_scope :: field_value

definition input_fields :: "detect_input \<Rightarrow> (string \<times> field_value) list" where
  "input_fields i = [(''action'', di_tool i), (''context'', di_context i), (''args'', di_args i),
     (''resource'', di_resource i), (''scope'', di_scope i)]"

fun scan_parts :: "(nat \<Rightarrow> wide) \<Rightarrow> (string \<times> wide) list \<Rightarrow> injection_result option" where
  "scan_parts lowc [] = None"
| "scan_parts lowc ((source, part) # ps) =
     (case scan_field lowc part source of Some r \<Rightarrow> Some r | None \<Rightarrow> scan_parts lowc ps)"

definition all_parts :: "detect_input \<Rightarrow> (string \<times> wide) list" where
  "all_parts i = concat (map (\<lambda>(source, v). map (Pair source) (flatten v)) (input_fields i))"

definition detect_injection :: "(nat \<Rightarrow> wide) \<Rightarrow> detect_input \<Rightarrow> injection_result option" where
  "detect_injection lowc i =
     (case scan_parts lowc (all_parts i) of
        Some r \<Rightarrow> Some r
      | None \<Rightarrow>
          (if all_parts i \<noteq> [] then structural_scan lowc (join (widen '' '') (map snd (all_parts i)))
           else None))"

section \<open>The layers, one by one\<close>

lemma first_pattern_iff:
  "first_pattern lowc t \<noteq> None \<longleftrightarrow> (\<exists>p \<in> set exact_patterns. contains (widen p) (wide_lower lowc t))"
  by (auto simp: first_pattern_def find_first_None)

lemma first_pattern_Some:
  "first_pattern lowc t = Some p \<Longrightarrow> p \<in> set exact_patterns \<and> contains (widen p) (wide_lower lowc t)"
  by (auto simp: first_pattern_def dest: find_first_in)

lemma scan_field_iff:
  "scan_field lowc t source \<noteq> None \<longleftrightarrow>
     first_pattern lowc t \<noteq> None \<or> first_pattern lowc (normalize_homoglyphs t) \<noteq> None"
  by (auto simp: scan_field_def Let_def split: option.splits)

lemma scan_parts_iff:
  "scan_parts lowc ps \<noteq> None \<longleftrightarrow> (\<exists>(source, t) \<in> set ps. scan_field lowc t source \<noteq> None)"
  by (induction lowc ps rule: scan_parts.induct) (auto split: option.splits)

lemma scan_parts_Some:
  "scan_parts lowc ps = Some r \<Longrightarrow> \<exists>(source, t) \<in> set ps. scan_field lowc t source = Some r"
  by (induction lowc ps rule: scan_parts.induct) (auto split: option.splits)

lemma scan_windows_Some:
  "scan_windows ws = Some r \<Longrightarrow> \<exists>k hits. k + window_size \<le> length ws
     \<and> hits = window_hits (join (widen '' '') (take window_size (drop k ws))) \<and> 2 \<le> length hits
     \<and> r = \<lparr>ir_pattern = last hits, ir_source = ''combined'', ir_method = Structural,
            ir_score = min (fl (of_nat (length hits) * fl (3 / 10))) 1\<rparr>"
proof (induction ws)
  case Nil
  then show ?case by simp
next
  case (Cons w ws)
  let ?hits = "window_hits (join (widen '' '') (take window_size (w # ws)))"
  have len: "window_size \<le> length (w # ws)" using Cons.prems by (auto split: if_splits)
  show ?case
  proof (cases "2 \<le> length ?hits")
    case True
    then show ?thesis using Cons.prems len by (intro exI [of _ 0] exI [of _ ?hits]) (auto simp: Let_def)
  next
    case False
    with Cons len obtain k where "k + window_size \<le> length ws"
      "2 \<le> length (window_hits (join (widen '' '') (take window_size (drop k ws))))"
      "r = \<lparr>ir_pattern = last (window_hits (join (widen '' '') (take window_size (drop k ws)))),
            ir_source = ''combined'', ir_method = Structural,
            ir_score = min (fl (of_nat (length (window_hits (join (widen '' '') (take window_size (drop k ws))))) * fl (3 / 10))) 1\<rparr>"
      by (auto simp: Let_def)
    then show ?thesis by (intro exI [of _ "Suc k"]) auto
  qed
qed

lemma scan_windows_short: "length ws < window_size \<Longrightarrow> scan_windows ws = None"
  by (cases ws) auto

section \<open>Disguised phrases\<close>

lemma wide_lower_append [simp]: "wide_lower lowc (s @ t) = wide_lower lowc s @ wide_lower lowc t"
  by (simp add: wide_lower_def)

lemma normalize_append [simp]:
  "normalize_homoglyphs (s @ t) = normalize_homoglyphs s @ normalize_homoglyphs t"
  by (simp add: normalize_homoglyphs_def)

text \<open>\<open>d\<close> stands for the phrase character \<open>c\<close>: it is \<open>c\<close>, its capital letter or a lookalike of the
  table. A disguised phrase may mix all three.\<close>

definition disguises :: "char \<Rightarrow> nat \<Rightarrow> bool" where
  "disguises c d = (d = of_char c \<or> (97 \<le> (of_char c :: nat) \<and> of_char c \<le> (122 :: nat) \<and> d = of_char c - 32)
     \<or> map_of homoglyphs d = Some c)"

definition disguised :: "string \<Rightarrow> wide \<Rightarrow> bool" where
  "disguised p q = list_all2 disguises p q"

lemma homoglyph_range: "map_of homoglyphs d = Some c \<Longrightarrow> 128 \<le> d \<and> (of_char c :: nat) \<in> {48..57} \<union> {97..122}"
  by (auto simp: homoglyphs_def split: if_splits)

lemma normalize_ascii: "d < 128 \<Longrightarrow> normalize_unit d = d"
  using homoglyph_range [of d] by (force simp: normalize_unit_def split: option.splits)

definition lower_phrase :: "string \<Rightarrow> bool" where
  "lower_phrase p = list_all (\<lambda>c. (of_char c :: nat) < 128 \<and> \<not> (65 \<le> (of_char c :: nat) \<and> of_char c \<le> (90 :: nat))) p"

lemma disguise_undone:
  assumes "ascii_folding lowc" "lower_phrase [c]" "disguises c d"
  shows "lowc (normalize_unit d) = [of_char c]"
proof -
  have c: "(of_char c :: nat) < 128" "\<not> (65 \<le> (of_char c :: nat) \<and> of_char c \<le> (90 :: nat))"
    using assms(2) by (auto simp: lower_phrase_def)
  from assms(3) consider "d = of_char c"
    | "97 \<le> (of_char c :: nat)" "of_char c \<le> (122 :: nat)" "d = of_char c - 32"
    | "map_of homoglyphs d = Some c"
    unfolding disguises_def by blast
  then show ?thesis
  proof cases
    case 1
    then show ?thesis using assms(1) c by (simp add: normalize_ascii ascii_folding_def)
  next
    case 2
    then have "d < 128" "65 \<le> d" "d \<le> 90" "d + 32 = of_char c" by auto
    then show ?thesis using assms(1) by (simp add: normalize_ascii ascii_folding_def)
  next
    case 3
    then have "normalize_unit d = of_char c" by (simp add: normalize_unit_def)
    then show ?thesis using assms(1) c by (simp add: ascii_folding_def)
  qed
qed

lemma disguised_phrase:
  assumes "ascii_folding lowc" "lower_phrase p" "disguised p q"
  shows "wide_lower lowc (normalize_homoglyphs q) = widen p"
  using assms(3,2) unfolding disguised_def
proof (induction rule: list_all2_induct)
  case Nil
  then show ?case by (simp add: wide_lower_def normalize_homoglyphs_def widen_def)
next
  case (Cons c p d q)
  then have "lowc (normalize_unit d) = [of_char c]"
    by (intro disguise_undone [OF assms(1)]) (auto simp: lower_phrase_def)
  with Cons show ?case
    by (simp add: wide_lower_def normalize_homoglyphs_def widen_def lower_phrase_def)
qed

lemma exact_patterns_lower: "p \<in> set exact_patterns \<Longrightarrow> lower_phrase p"
proof -
  have "list_all lower_phrase exact_patterns" by code_simp
  then show "p \<in> set exact_patterns \<Longrightarrow> lower_phrase p" by (simp add: list_all_iff)
qed

lemma all_parts_in:
  "(source, v) \<in> set (input_fields i) \<Longrightarrow> t \<in> set (flatten v) \<Longrightarrow> (source, t) \<in> set (all_parts i)"
  unfolding all_parts_def by force

lemma catches_disguised:
  assumes "ascii_folding lowc" "(source, v) \<in> set (input_fields i)" "before @ q @ behind \<in> set (flatten v)"
    and "p \<in> set exact_patterns" "disguised p q"
  shows "detect_injection lowc i \<noteq> None"
proof -
  let ?t = "before @ q @ behind"
  have "wide_lower lowc (normalize_homoglyphs q) = widen p"
    by (rule disguised_phrase [OF assms(1) exact_patterns_lower [OF assms(4)] assms(5)])
  then have "contains (widen p) (wide_lower lowc (normalize_homoglyphs ?t))"
    unfolding normalize_append wide_lower_append contains_iff by blast
  then have "first_pattern lowc (normalize_homoglyphs ?t) \<noteq> None"
    using assms(4) unfolding first_pattern_iff by auto
  then have "scan_field lowc ?t source \<noteq> None" unfolding scan_field_iff by blast
  then have "scan_parts lowc (all_parts i) \<noteq> None"
    using all_parts_in [OF assms(2,3)] unfolding scan_parts_iff by blast
  then show ?thesis by (auto simp: detect_injection_def)
qed

text \<open>A known injection phrase is caught wherever it hides. If any string, at any depth, of any
  field of the request (tool name, context, arguments, resource, scope) contains one of the phrases,
  in any mixture of lower-case letters, capitals and the listed lookalike characters, with any text
  before and after it, the request is flagged.\<close>

theorem injection_catches_disguised:
  assumes "ascii_folding lowc" "(source, v) \<in> set (input_fields i)" "before @ q @ behind \<in> set (flatten v)"
    and "p \<in> set exact_patterns" "disguised p q"
  shows "detect_injection lowc i \<noteq> None"
  using assms by (rule catches_disguised)

definition demo_fold :: "nat \<Rightarrow> wide" where
  "demo_fold c = [if 65 \<le> c \<and> c \<le> 90 then c + 32 else c]"

text \<open>\<open>"please JailbrE"\<close> followed by a Cyrillic a and \<open>"k now"\<close>, nested in the arguments.\<close>

definition demo_input :: detect_input where
  "demo_input = \<lparr>di_tool = FStr (widen ''read_file''), di_context = FAbsent,
     di_args = FObj [FArr [FStr (widen ''please '' @ (widen ''JailbrE'' @ [0x0430] @ widen ''k'') @ widen '' now'')]],
     di_resource = FAbsent, di_scope = FAbsent\<rparr>"

lemma demo_facts:
  "ascii_folding demo_fold"
  "(''args'', di_args demo_input) \<in> set (input_fields demo_input)"
  "widen ''please '' @ (widen ''JailbrE'' @ [0x0430] @ widen ''k'') @ widen '' now'' \<in> set (flatten (di_args demo_input))"
  "''jailbreak'' \<in> set exact_patterns"
  "disguised ''jailbreak'' (widen ''JailbrE'' @ [0x0430] @ widen ''k'')"
proof -
  show "ascii_folding demo_fold" by (simp add: ascii_folding_def demo_fold_def)
  show "(''args'', di_args demo_input) \<in> set (input_fields demo_input)" by (simp add: input_fields_def)
  show "widen ''please '' @ (widen ''JailbrE'' @ [0x0430] @ widen ''k'') @ widen '' now'' \<in> set (flatten (di_args demo_input))"
    by (simp add: demo_input_def)
  show "''jailbreak'' \<in> set exact_patterns" by (simp add: exact_patterns_def)
  show "disguised ''jailbreak'' (widen ''JailbrE'' @ [0x0430] @ widen ''k'')"
    by (simp add: disguised_def disguises_def widen_def homoglyphs_def)
qed

theorem injection_catches_disguised_witness: "detect_injection demo_fold demo_input \<noteq> None"
  using demo_facts by (rule injection_catches_disguised)

text \<open>What a window score is: 0.3 a hit, in double precision, at most 1.\<close>

lemma structural_scores: "list_all (\<lambda>n. 1 / 2 < fl (of_nat n * fl (3 / 10))) [2..<13]"
  by code_simp

lemma window_hits_le: "length (window_hits w) \<le> 12"
  unfolding window_hits_def by (rule order_trans [OF length_filter_le]) (simp add: structural_indicators_def)

text \<open>The detector flags nothing without evidence, and its score is meaningful. When a request
  is flagged as exact or homoglyph, the reported phrase is one of the list and occurs, after folding
  (and after replacing lookalikes), in a string of the reported field; when it is flagged as
  structural, some window of ten consecutive words holds at least two of the indicator phrases and
  the reported one is among them. The score is above one half and at most 1.\<close>

theorem injection_reports_evidence:
  assumes "detect_injection lowc i = Some r"
  shows "1 / 2 < ir_score r \<and> ir_score r \<le> 1 \<and>
    (case ir_method r of
       Exact \<Rightarrow> ir_pattern r \<in> set exact_patterns
          \<and> (\<exists>t. (ir_source r, t) \<in> set (all_parts i) \<and> contains (widen (ir_pattern r)) (wide_lower lowc t))
     | Homoglyph \<Rightarrow> ir_pattern r \<in> set exact_patterns
          \<and> (\<exists>t. (ir_source r, t) \<in> set (all_parts i)
                 \<and> contains (widen (ir_pattern r)) (wide_lower lowc (normalize_homoglyphs t)))
     | Structural \<Rightarrow> (let ws = wide_words (wide_lower lowc (join (widen '' '') (map snd (all_parts i))))
          in \<exists>k hits. k + 10 \<le> length ws \<and> hits = window_hits (join (widen '' '') (take 10 (drop k ws)))
               \<and> 2 \<le> length hits \<and> ir_pattern r \<in> set hits))"
proof (cases "scan_parts lowc (all_parts i)")
  case (Some r')
  with assms have "scan_parts lowc (all_parts i) = Some r" by (simp add: detect_injection_def)
  from scan_parts_Some [OF this] obtain source t where
    st: "(source, t) \<in> set (all_parts i)" "scan_field lowc t source = Some r" by blast
  have "1 / 2 < fl (95 / 100)" "fl (95 / 100) \<le> 1" by code_simp+
  with st show ?thesis
    by (auto simp: scan_field_def Let_def dest!: first_pattern_Some split: option.splits if_splits)
next
  case None
  with assms have s: "structural_scan lowc (join (widen '' '') (map snd (all_parts i))) = Some r"
    by (auto simp: detect_injection_def split: if_splits)
  let ?ws = "wide_words (wide_lower lowc (join (widen '' '') (map snd (all_parts i))))"
  from s have "scan_windows ?ws = Some r" by (auto simp: structural_scan_def Let_def split: if_splits)
  from scan_windows_Some [OF this] obtain k hits where
    h: "k + window_size \<le> length ?ws" "hits = window_hits (join (widen '' '') (take window_size (drop k ?ws)))"
       "2 \<le> length hits"
    and r: "r = \<lparr>ir_pattern = last hits, ir_source = ''combined'', ir_method = Structural,
            ir_score = min (fl (of_nat (length hits) * fl (3 / 10))) 1\<rparr>"
    by blast
  have "length hits < 13" using window_hits_le unfolding h(2) by (rule le_less_trans) simp
  then have "length hits \<in> set [2..<13]" using h(3) by (simp only: set_upt atLeastLessThan_iff)
  with structural_scores have "1 / 2 < fl (of_nat (length hits) * fl (3 / 10))"
    unfolding list_all_iff by blast
  moreover have "last hits \<in> set hits" using h(3) by (intro last_in_set) auto
  ultimately show ?thesis using h r unfolding window_size_def Let_def by auto
qed

theorem injection_reports_evidence_witness:
  "\<exists>r. detect_injection demo_fold demo_input = Some r \<and> 1 / 2 < ir_score r \<and> ir_score r \<le> 1"
proof -
  have "detect_injection demo_fold demo_input \<noteq> None" using demo_facts by (rule catches_disguised)
  then obtain r where "detect_injection demo_fold demo_input = Some r" by blast
  with injection_reports_evidence [OF this] show ?thesis by blast
qed

text \<open>The structural layer never looks at a short text: with fewer than ten words no window
  exists, so indicators however dense raise nothing, although the guard before the loop and its
  comment announce the check from four words on.\<close>

theorem structural_scan_skips_short_texts:
  assumes "length (wide_words (wide_lower lowc t)) < 10"
  shows "structural_scan lowc t = None"
  using assms by (simp add: structural_scan_def Let_def scan_windows_short window_size_def)

theorem structural_scan_skips_short_texts_witness:
  "structural_scan demo_fold (widen ''ignore bypass override forget pretend'') = None"
  by (rule structural_scan_skips_short_texts)
    (simp add: wide_words_def wide_lower_def widen_def demo_fold_def wide_ws_def)

end
