(* ===== verification/ToolRules.thy ===== *)
theory ToolRules
  imports OrderedRules Json
begin

text \<open>
  The two keyword tables of the platform's authorize routes: \<open>RULES\<close> and \<open>evaluateTool\<close> of
  \<open>platform/ui/app/api/v1/authorize/route.ts\<close>, and \<open>RULES\<close> and \<open>localEvaluate\<close> of
  \<open>platform/ui/app/api/sandbox/authorize/route.ts\<close>. A pattern is a list of words joined by \<open>|\<close> with
  the flag \<open>i\<close>: it matches a tool name that contains one of them in any letter case. Decisions are
  ordered by strictness.
\<close>

datatype decision = Allow | Compute | HumanReview | Deny

fun strictness :: "decision \<Rightarrow> nat" where
  "strictness Allow = 0"
| "strictness Compute = 1"
| "strictness HumanReview = 2"
| "strictness Deny = 3"

lemma strictness_inj: "strictness a = strictness b \<Longrightarrow> a = b"
  by (cases a; cases b) auto

instantiation decision :: linorder
begin

definition less_eq_decision :: "decision \<Rightarrow> decision \<Rightarrow> bool" where
  "less_eq_decision a b = (strictness a \<le> strictness b)"

definition less_decision :: "decision \<Rightarrow> decision \<Rightarrow> bool" where
  "less_decision a b = (strictness a < strictness b)"

instance
  by standard (auto simp: less_eq_decision_def less_decision_def intro: strictness_inj)

end

record tool_rule =
  tr_words :: "string list"
  tr_decision :: decision
  tr_reason :: string
  tr_rule :: string
  tr_safe_tool :: "string option"
  tr_safe_args :: "(string \<times> int json) list option"

record tool_verdict =
  tv_decision :: decision
  tv_reason :: string
  tv_rule :: string
  tv_safe_tool :: "string option"
  tv_safe_args :: "(string \<times> int json) list option"

text \<open>The reasons contain a long dash in one place, which is outside Latin-1 and written \<open>-\<close>.\<close>

definition plain_rule :: "string list \<Rightarrow> decision \<Rightarrow> string \<Rightarrow> string \<Rightarrow> tool_rule" where
  "plain_rule ws d reason name =
     \<lparr>tr_words = ws, tr_decision = d, tr_reason = reason, tr_rule = name, tr_safe_tool = None, tr_safe_args = None\<rparr>"

definition deny_tool_rules :: "tool_rule list" where
  "deny_tool_rules =
     [plain_rule [''delete'', ''drop'', ''truncate'', ''destroy'', ''wipe'', ''purge'', ''erase'', ''bulk_delete'', ''remove_all'']
        Deny ''Destructive operations are blocked by the default safety policy.'' ''deny:destructive-ops'',
      plain_rule [''exec'', ''shell'', ''bash'', ''cmd'', ''spawn'', ''run_code'', ''eval'', ''system_call'', ''subprocess'']
        Deny ''Shell and code execution require explicit policy allowance - denied by default.'' ''deny:shell-execution'',
      plain_rule [''sudo'', ''escalate'', ''override_policy'', ''bypass'', ''disable_audit'']
        Deny ''Privilege escalation attempts are always denied.'' ''deny:privilege-escalation'']"

definition review_tool_rules :: "tool_rule list" where
  "review_tool_rules =
     [plain_rule [''transfer'', ''payment'', ''charge'', ''refund'', ''billing'', ''withdraw'', ''wire'']
        HumanReview ''Financial operations require a human to approve before execution.'' ''review:financial-ops'',
      plain_rule [''send_email'', ''send_message'', ''post_tweet'', ''publish'', ''notify'', ''broadcast'', ''alert'']
        HumanReview ''Outbound communications require human sign-off to prevent misuse.'' ''review:outbound-comms'',
      plain_rule [''update_config'', ''modify_policy'', ''change_permission'', ''set_role'', ''grant_access'']
        HumanReview ''Configuration changes affecting security boundaries require manual review.'' ''review:config-change'']"

definition compute_tool_rules :: "tool_rule list" where
  "compute_tool_rules =
     [\<lparr>tr_words = [''write_file'', ''save_file'', ''overwrite_file'', ''update_file''], tr_decision = Compute,
       tr_reason = ''File writes are redirected to the sandbox environment for safety.'',
       tr_rule = ''compute:sandbox-file-write'', tr_safe_tool = Some ''write_file'',
       tr_safe_args = Some [(''path'', JStr ''/tmp/sandbox/{original}''), (''sandboxed'', JBool True)]\<rparr>,
      \<lparr>tr_words = [''deploy'', ''release'', ''push_to_prod'', ''rollout'', ''go_live''], tr_decision = Compute,
       tr_reason = ''Deployments are redirected to the staging environment for validation.'',
       tr_rule = ''compute:staging-deploy'', tr_safe_tool = Some ''deploy'',
       tr_safe_args = Some [(''environment'', JStr ''staging''), (''sandboxed'', JBool True)]\<rparr>]"

definition allow_tool_rules :: "tool_rule list" where
  "allow_tool_rules =
     [plain_rule [''read'', ''get'', ''fetch'', ''list'', ''search'', ''query'', ''find'', ''view'', ''show'', ''describe'', ''inspect'']
        Allow ''Read-only operations are permitted by the default policy.'' ''allow:read-ops'',
      plain_rule [''create'', ''insert'', ''add'', ''upload'', ''write'', ''save'', ''store'']
        Allow ''Non-destructive write operations are allowed by default.'' ''allow:write-ops'']"

definition live_rules :: "tool_rule list" where
  "live_rules = deny_tool_rules @ review_tool_rules @ compute_tool_rules @ allow_tool_rules"

text \<open>The sandbox lists the alternatives of its first rule in another order and has one rule more.\<close>

definition sandbox_deny_rules :: "tool_rule list" where
  "sandbox_deny_rules =
     plain_rule [''delete'', ''drop'', ''truncate'', ''destroy'', ''wipe'', ''purge'', ''erase'', ''remove_all'', ''bulk_delete'']
        Deny ''Destructive operations are blocked by the default safety policy.'' ''deny:destructive-ops''
     # tl deny_tool_rules"

definition bulk_export_rule :: tool_rule where
  "bulk_export_rule =
     plain_rule [''export'', ''download'', ''dump'', ''extract_all'', ''bulk_read'', ''bulk_export'', ''bulk_fetch'']
        HumanReview ''Bulk data export requires human approval.'' ''review:bulk-data-export''"

definition sandbox_rules :: "tool_rule list" where
  "sandbox_rules = sandbox_deny_rules @ review_tool_rules @ compute_tool_rules @ [bulk_export_rule] @ allow_tool_rules"

definition default_verdict :: tool_verdict where
  "default_verdict =
     \<lparr>tv_decision = Allow, tv_reason = ''No matching deny or review rule found. Operation permitted by default.'',
      tv_rule = ''allow:default-fallthrough'', tv_safe_tool = None, tv_safe_args = None\<rparr>"

definition verdict_of :: "tool_rule \<Rightarrow> tool_verdict" where
  "verdict_of r =
     \<lparr>tv_decision = tr_decision r, tv_reason = tr_reason r, tv_rule = tr_rule r, tv_safe_tool = tr_safe_tool r,
      tv_safe_args = tr_safe_args r\<rparr>"

definition rule_test :: "tool_rule \<Rightarrow> string \<Rightarrow> bool" where
  "rule_test r tool = list_ex (\<lambda>w. contains_ci w tool) (tr_words r)"

fun first_rule :: "tool_rule list \<Rightarrow> string \<Rightarrow> tool_verdict option" where
  "first_rule [] tool = None"
| "first_rule (r # rs) tool = (if rule_test r tool then Some (verdict_of r) else first_rule rs tool)"

definition evaluate_tool :: "string \<Rightarrow> tool_verdict" where
  "evaluate_tool tool = nullish (first_rule live_rules tool) default_verdict"

definition local_evaluate :: "string \<Rightarrow> tool_verdict" where
  "local_evaluate tool = nullish (first_rule sandbox_rules tool) default_verdict"

interpretation tool_rules: ordered_rules first_rule rule_test verdict_of
  by unfold_locales simp_all

interpretation tool_rules2: related_rules first_rule rule_test verdict_of first_rule rule_test verdict_of
  by unfold_locales

section \<open>Lemmas\<close>

lemma rule_test_ci: "rule_test r (ascii_lowers tool) = rule_test r tool"
  by (simp add: rule_test_def contains_ci_lower)

text \<open>A tool name that mentions, in any letter case, one of the words of the deny rules.\<close>

definition dangerous_tool :: "string \<Rightarrow> bool" where
  "dangerous_tool tool =
     list_ex (\<lambda>w. contains_ci w tool)
       [''delete'', ''drop'', ''truncate'', ''destroy'', ''wipe'', ''purge'', ''erase'', ''remove_all'',
        ''exec'', ''shell'', ''bash'', ''cmd'', ''spawn'', ''run_code'', ''eval'', ''system_call'', ''subprocess'',
        ''sudo'', ''escalate'', ''override_policy'', ''bypass'', ''disable_audit'']"

lemma bulk_delete_delete: "contains_ci ''bulk_delete'' tool \<Longrightarrow> contains_ci ''delete'' tool"
proof -
  have "contains ''delete'' ''bulk_delete''" by code_simp
  then show "contains_ci ''bulk_delete'' tool \<Longrightarrow> contains_ci ''delete'' tool"
    unfolding contains_ci_def by (rule contains_trans)
qed

lemma dangerous_live: "(\<exists>r \<in> set deny_tool_rules. rule_test r tool) \<longleftrightarrow> dangerous_tool tool"
  using bulk_delete_delete [of tool]
  by (auto simp: deny_tool_rules_def rule_test_def plain_rule_def dangerous_tool_def)

lemma dangerous_sandbox: "(\<exists>r \<in> set sandbox_deny_rules. rule_test r tool) \<longleftrightarrow> dangerous_tool tool"
  using bulk_delete_delete [of tool]
  by (auto simp: sandbox_deny_rules_def deny_tool_rules_def rule_test_def plain_rule_def dangerous_tool_def)

lemma deny_verdicts:
  "r \<in> set deny_tool_rules \<Longrightarrow> tv_decision (verdict_of r) = Deny"
  "r \<in> set sandbox_deny_rules \<Longrightarrow> tv_decision (verdict_of r) = Deny"
  by (auto simp: deny_tool_rules_def sandbox_deny_rules_def verdict_of_def plain_rule_def)

lemma other_verdicts:
  "r \<in> set (review_tool_rules @ compute_tool_rules @ [bulk_export_rule] @ allow_tool_rules)
     \<Longrightarrow> tv_decision (verdict_of r) \<noteq> Deny"
  by (auto simp: review_tool_rules_def compute_tool_rules_def bulk_export_rule_def allow_tool_rules_def
      verdict_of_def plain_rule_def)

lemma first_rule_append:
  "first_rule (rs @ qs) tool = (case first_rule rs tool of None \<Rightarrow> first_rule qs tool | Some v \<Rightarrow> Some v)"
  by (rule tool_rules.decide_append)

text \<open>The two deny tables decide alike.\<close>

lemma deny_tables_agree: "first_rule sandbox_deny_rules tool = first_rule deny_tool_rules tool"
proof -
  have "rel_option (=) (first_rule sandbox_deny_rules tool) (first_rule deny_tool_rules tool)"
    by (rule tool_rules2.decide_related)
      (auto simp: sandbox_deny_rules_def deny_tool_rules_def rule_test_def plain_rule_def verdict_of_def)
  then show ?thesis by (simp add: option.rel_eq)
qed


section \<open>Properties\<close>

lemma evaluate_tool_deny: "tv_decision (evaluate_tool tool) = Deny \<longleftrightarrow> dangerous_tool tool"
proof (cases "dangerous_tool tool")
  case True
  then obtain r where "r \<in> set deny_tool_rules" "rule_test r tool" using dangerous_live by blast
  from tool_rules.guard_const [OF this, of "\<lambda>v. tv_decision v = Deny"] deny_verdicts(1)
  show ?thesis using True unfolding evaluate_tool_def live_rules_def nullish_def by (metis option.simps(5))
next
  case False
  then have "first_rule live_rules tool = first_rule (review_tool_rules @ compute_tool_rules @ allow_tool_rules) tool"
    unfolding live_rules_def by (intro tool_rules.drop_irrelevant) (simp add: dangerous_live [symmetric])
  moreover have "tv_decision v \<noteq> Deny"
    if "first_rule (review_tool_rules @ compute_tool_rules @ allow_tool_rules) tool = Some v" for v
    using tool_rules.decide_in [OF that] other_verdicts by fastforce
  ultimately show ?thesis using False
    by (auto simp: evaluate_tool_def nullish_def default_verdict_def split: option.splits)
qed

lemma local_evaluate_tables:
  "first_rule sandbox_rules tool =
     (case first_rule (deny_tool_rules @ review_tool_rules @ compute_tool_rules) tool of
        Some v \<Rightarrow> Some v
      | None \<Rightarrow> if rule_test bulk_export_rule tool then Some (verdict_of bulk_export_rule)
                else first_rule allow_tool_rules tool)"
  by (simp add: sandbox_rules_def first_rule_append deny_tables_agree split: option.splits)

lemma evaluate_tool_tables:
  "first_rule live_rules tool =
     (case first_rule (deny_tool_rules @ review_tool_rules @ compute_tool_rules) tool of
        Some v \<Rightarrow> Some v
      | None \<Rightarrow> first_rule allow_tool_rules tool)"
  by (simp add: live_rules_def first_rule_append split: option.splits)

text \<open>The hosted keyword policy denies exactly the dangerous names. A tool is denied if and only
  if its name contains, in any letter case, a word of a destructive, executing or escalating
  operation; the allow rules for reading and writing, which the same name may also match
  (\<open>read_and_delete\<close>), and the permissive default never override that.\<close>

theorem evaluate_tool_denies_exactly_dangerous:
  "tv_decision (evaluate_tool tool) = Deny \<longleftrightarrow> dangerous_tool tool"
  by (rule evaluate_tool_deny)

text \<open>The sandbox and the live table agree on every tool name except for bulk data movement.
  They return the same decision, reason, rule and safe arguments unless the name falls through all
  deny, review and redirect rules and matches the export rule that only the sandbox has; there the
  sandbox asks a human and the live table allows. So the sandbox is never less strict.\<close>

theorem sandbox_agrees_with_live:
  "(local_evaluate tool = evaluate_tool tool
    \<or> (rule_test bulk_export_rule tool \<and> local_evaluate tool = verdict_of bulk_export_rule
       \<and> tv_decision (evaluate_tool tool) = Allow))
   \<and> tv_decision (evaluate_tool tool) \<le> tv_decision (local_evaluate tool)"
proof -
  have allow: "tv_decision v = Allow" if "first_rule allow_tool_rules tool = Some v" for v
    using tool_rules.decide_in [OF that] by (auto simp: allow_tool_rules_def plain_rule_def verdict_of_def)
  have rank: "tv_decision (verdict_of bulk_export_rule) = HumanReview"
    by (simp add: verdict_of_def bulk_export_rule_def plain_rule_def)
  show ?thesis
    using allow rank
    by (auto simp: local_evaluate_def evaluate_tool_def local_evaluate_tables evaluate_tool_tables nullish_def
        default_verdict_def less_eq_decision_def split: option.splits)
qed

end
