(* ===== verification/AuthorizeRoute.thy ===== *)
theory AuthorizeRoute
  imports AuthRoutes Http Injection ToolRules
begin

text \<open>
  The hosted authorization routes: \<open>platform/ui/app/api/v1/authorize/route.ts\<close> (a cloud key, checked
  against its quota and then decided by the engine; a sandbox key, decided locally) and
  \<open>platform/ui/app/api/sandbox/authorize/route.ts\<close> (no key; the engine if it answers, else the local
  rules). The engine is an argument, a function from the request body to its answer; every request to it
  is kept in \<open>engine_log\<close>. The random identifier, the latency, the time stamp and the digest of a JSON
  value are arguments too.
\<close>

record gateway =
  gw_platform :: platform_env
  gw_month :: int
  gw_engine_url :: "string option"
  gw_engine_key :: "string option"
  gw_engine :: "string \<Rightarrow> jsnum json \<Rightarrow> http_answer"
  gw_lower :: "nat \<Rightarrow> wide"
  gw_num_text :: "jsnum \<Rightarrow> wide"
  gw_digest :: "jsnum json \<Rightarrow> string"
  gw_request_id :: string
  gw_latency :: int
  gw_stamp :: string

section \<open>JSON values as the code tests them\<close>

text \<open>The own members of an object after \<open>JSON.parse\<close>: one per name, in the order of their first
  occurrence (names that are array indices, which come first, are taken like the others).\<close>

fun first_names :: "string list \<Rightarrow> string list \<Rightarrow> string list" where
  "first_names seen [] = []"
| "first_names seen (k # ks) = (if k \<in> set seen then first_names seen ks else k # first_names (k # seen) ks)"

definition own_members :: "(string \<times> 'v) list \<Rightarrow> (string \<times> 'v) list" where
  "own_members kvs = map (\<lambda>k. (k, the (map_of (rev kvs) k))) (first_names [] (map fst kvs))"

fun field_of :: "(jsnum \<Rightarrow> wide) \<Rightarrow> jsnum json \<Rightarrow> field_value"
  and fields_of :: "(jsnum \<Rightarrow> wide) \<Rightarrow> jsnum json list \<Rightarrow> field_value list"
  and members_of :: "(jsnum \<Rightarrow> wide) \<Rightarrow> (string \<times> jsnum json) list \<Rightarrow> (string \<times> field_value) list" where
  "field_of nt JNull = FAbsent"
| "field_of nt (JBool b) = FBool b"
| "field_of nt (JNum n) = FNum (nt n)"
| "field_of nt (JStr s) = FStr (widen s)"
| "field_of nt (JArr vs) = FArr (fields_of nt vs)"
| "field_of nt (JObj kvs) = FObj (map snd (own_members (members_of nt kvs)))"
| "fields_of nt [] = []"
| "fields_of nt (v # vs) = field_of nt v # fields_of nt vs"
| "members_of nt [] = []"
| "members_of nt ((k, v) # kvs) = (k, field_of nt v) # members_of nt kvs"

definition optional_field :: "gateway \<Rightarrow> jsnum json option \<Rightarrow> field_value" where
  "optional_field gw v = (case v of None \<Rightarrow> FAbsent | Some x \<Rightarrow> field_of (gw_num_text gw) x)"

section \<open>Checks on the request\<close>

definition sandbox_prefix :: string where
  "sandbox_prefix = ''lelu_sk_sandbox_''"

definition bad_confidence :: "jsnum json option \<Rightarrow> bool" where
  "bad_confidence v =
     (case v of None \<Rightarrow> False | Some (JNum n) \<Rightarrow> num_less n 0 \<or> num_greater n 1 | Some _ \<Rightarrow> True)"

text \<open>The tool name of an acceptable body, or the reply that refuses it.\<close>

definition checked_tool :: "jsnum json \<Rightarrow> reply + string" where
  "checked_tool body =
     (case body_str ''tool'' body of
        None \<Rightarrow> Inl (error_reply 400 (CHR 0x27 # ''tool'' @ CHR 0x27 # '' is required and must be a non-empty string.''))
      | Some tool \<Rightarrow>
          (if trim tool = []
           then Inl (error_reply 400 (CHR 0x27 # ''tool'' @ CHR 0x27 # '' is required and must be a non-empty string.''))
           else if 128 < length tool
           then Inl (error_reply 400 (CHR 0x27 # ''tool'' @ CHR 0x27 # '' must be 128 characters or less.''))
           else if bad_confidence (member ''confidence'' body)
           then Inl (error_reply 400 (CHR 0x27 # ''confidence'' @ CHR 0x27 # '' must be a number between 0 and 1.''))
           else Inr tool))"

section \<open>Deciding\<close>

record auth_result =
  ar_decision :: decision
  ar_reason :: string
  ar_rule :: string
  ar_safe_tool :: "jsnum json option"
  ar_safe_args :: "jsnum json option"
  ar_confidence :: jsnum
  ar_signal :: "jsnum json option"
  ar_risk :: "jsnum json option"
  ar_quota :: "quota_status option"

fun decision_name :: "decision \<Rightarrow> string" where
  "decision_name Allow = ''allow''"
| "decision_name Deny = ''deny''"
| "decision_name HumanReview = ''human_review''"
| "decision_name Compute = ''compute''"

fun decision_mapped :: "decision \<Rightarrow> string" where
  "decision_mapped Allow = ''allowed''"
| "decision_mapped Deny = ''denied''"
| "decision_mapped Compute = ''compute''"
| "decision_mapped HumanReview = ''human_review''"

definition injection_reason :: "injection_result \<Rightarrow> string" where
  "injection_reason r =
     ''prompt injection detected in '' @ ir_source r @ '': '' @ CHR 0x22 # ir_pattern r @ [CHR 0x22]"

definition sandbox_confidence :: "decision \<Rightarrow> rat" where
  "sandbox_confidence d =
     (case d of Allow \<Rightarrow> 95 / 100 | Compute \<Rightarrow> 85 / 100 | HumanReview \<Rightarrow> 7 / 10 | Deny \<Rightarrow> 3 / 10)"

definition local_result :: "tool_verdict \<Rightarrow> auth_result" where
  "local_result v = \<lparr>ar_decision = tv_decision v, ar_reason = tv_reason v, ar_rule = tv_rule v,
     ar_safe_tool = map_option JStr (tv_safe_tool v), ar_safe_args = map_option (\<lambda>kvs. reread (JObj kvs)) (tv_safe_args v),
     ar_confidence = Fin (sandbox_confidence (tv_decision v)), ar_signal = None, ar_risk = None, ar_quota = None\<rparr>"

definition injection_verdict :: "injection_result \<Rightarrow> tool_verdict" where
  "injection_verdict r = \<lparr>tv_decision = Deny, tv_reason = injection_reason r, tv_rule = ''deny:prompt-injection'',
     tv_safe_tool = None, tv_safe_args = None\<rparr>"

definition sandbox_decide :: "gateway \<Rightarrow> jsnum json \<Rightarrow> string \<Rightarrow> auth_result" where
  "sandbox_decide gw body tool =
     local_result
       (case detect_injection (gw_lower gw)
               \<lparr>di_tool = FStr (widen (trim tool)), di_context = optional_field gw (member ''context'' body),
                di_args = optional_field gw (member ''args'' body), di_resource = FAbsent, di_scope = FAbsent\<rparr> of
          Some r \<Rightarrow> injection_verdict r
        | None \<Rightarrow> evaluate_tool (trim tool))"

text \<open>The first test that holds decides. \<open>reason\<close> is a text whenever the engine sends it.\<close>

definition engine_choice :: "jsnum json \<Rightarrow> decision" where
  "engine_choice d =
     (if truthy_json (member ''compute'' d) then Compute
      else if truthy_json (member ''requires_human_review'' d) then HumanReview
      else if truthy_json (member ''allowed'' d) then Allow
      else Deny)"

definition engine_result :: "quota_status \<Rightarrow> jsnum json \<Rightarrow> auth_result" where
  "engine_result q d = \<lparr>ar_decision = engine_choice d, ar_reason = nullish (str_of (member ''reason'' d)) [],
     ar_rule = ''engine'', ar_safe_tool = member ''safe_tool'' d, ar_safe_args = member ''safe_args'' d,
     ar_confidence = (case member ''confidence_used'' d of Some (JNum n) \<Rightarrow> n | _ \<Rightarrow> Fin 0),
     ar_signal = member ''provider_signal_present'' d, ar_risk = member ''risk_score'' d, ar_quota = Some q\<rparr>"

section \<open>Asking the engine\<close>

text \<open>The configured address without one trailing slash.\<close>

definition engine_base :: "gateway \<Rightarrow> string" where
  "engine_base gw = strip_slash (nullish (gw_engine_url gw) ''http://localhost:8080'')"

definition ask_engine :: "gateway \<Rightarrow> string \<Rightarrow> jsnum json \<Rightarrow> http_answer app" where
  "ask_engine gw path body =
     (let url = engine_base gw @ path
      in andthen (modify (\<lambda>s. s\<lparr>engine_log := engine_log s @
             [(url, if truthy (gw_engine_key gw) then gw_engine_key gw else None, body)]\<rparr>)) (\<lambda>_.
         ret (gw_engine gw url body)))"

definition context_text :: "jsnum json \<Rightarrow> string option" where
  "context_text body = (case body_str ''context'' body of Some c \<Rightarrow> if c = [] then None else Some c | None \<Rightarrow> None)"

definition object_args :: "jsnum json \<Rightarrow> jsnum json option" where
  "object_args body = (if is_object (member ''args'' body) then member ''args'' body else None)"

definition given_number :: "jsnum json option \<Rightarrow> jsnum json option" where
  "given_number v = (case v of Some (JNum n) \<Rightarrow> Some (JNum n) | _ \<Rightarrow> None)"

definition engine_request :: "string \<Rightarrow> jsnum json \<Rightarrow> string \<Rightarrow> jsnum json" where
  "engine_request uid body tool =
     JObj ([(''actor'', JStr ''cloud_customer''), (''action'', JStr (trim tool)),
            (''acting_for'', JStr uid), (''tenant_id'', JStr uid)]
           @ when_some ''confidence'' (given_number (member ''confidence'' body))
           @ when_some ''resource'' (map_option (\<lambda>c. JObj [(''context'', JStr c)]) (context_text body))
           @ when_some ''args'' (object_args body))"

definition quota_reply :: "quota_status \<Rightarrow> reply" where
  "quota_reply q = json_reply 429 (JObj
     [(''error'', JStr (''Monthly quota exceeded ('' @ show_nat (q_used q) @ ''/'' @ show_nat (q_limit q) @ '' on the ''
         @ q_plan q @ '' plan). Self-host for no limit, or open a discussion at https://github.com/lelu-ai/lelu/discussions to have it raised.'')),
      (''plan'', JStr (q_plan q)), (''used'', jint (int (q_used q))), (''limit'', jint (int (q_limit q)))])"

definition engine_outcome :: "quota_status \<Rightarrow> http_answer \<Rightarrow> reply + auth_result" where
  "engine_outcome q answer =
     (case answer of
        NoAnswer \<Rightarrow> Inl (error_reply 503 ''The authorization engine is temporarily unavailable. Please retry.'')
      | HttpAnswer status text \<Rightarrow>
          (let unexpected = Inl (error_reply 502 ''The authorization engine returned an unexpected response.'')
           in case parse_json text of
                None \<Rightarrow> unexpected
              | Some d \<Rightarrow> if http_ok status \<and> truthy_value d then Inr (engine_result q d) else unexpected))"

definition live_decide :: "gateway \<Rightarrow> string \<Rightarrow> jsnum json \<Rightarrow> string \<Rightarrow> (reply + auth_result) app" where
  "live_decide gw uid body tool =
     andthen (check_quota (gw_month gw) uid) (\<lambda>q.
     if \<not> q_allowed q then ret (Inl (quota_reply q))
     else
       andthen (ask_engine gw ''/v1/agent/authorize'' (engine_request uid body tool)) (\<lambda>answer.
       ret (engine_outcome q answer)))"

section \<open>The route for keys\<close>

text \<open>An infinite confidence does not fit its column, as ten does not.\<close>

definition confidence_column :: "jsnum \<Rightarrow> rat" where
  "confidence_column n = (case n of Fin r \<Rightarrow> r | _ \<Rightarrow> 10)"

definition input_hash :: "gateway \<Rightarrow> jsnum json \<Rightarrow> string \<Rightarrow> string" where
  "input_hash gw body tool =
     gw_digest gw (JObj ((''tool'', JStr (trim tool)) # when_some ''context'' (member ''context'' body)
                          @ when_some ''args'' (member ''args'' body)))"

definition output_hash :: "gateway \<Rightarrow> auth_result \<Rightarrow> string" where
  "output_hash gw r =
     gw_digest gw (JObj [(''requestId'', JStr (gw_request_id gw)), (''decision'', JStr (decision_mapped (ar_decision r))),
                         (''reason'', JStr (ar_reason r))])"

definition mode_of :: "(string \<times> string) option \<Rightarrow> string" where
  "mode_of who = (if who = None then ''sandbox'' else ''live'')"

definition audit_of :: "gateway \<Rightarrow> (string \<times> string) option \<Rightarrow> jsnum json \<Rightarrow> string \<Rightarrow> auth_result \<Rightarrow> audit_input" where
  "audit_of gw who body tool r = \<lparr>ai_trace = gw_request_id gw, ai_user = map_option fst who, ai_key = map_option snd who,
     ai_actor = (case who of None \<Rightarrow> ''sandbox'' | Some (uid, kid) \<Rightarrow> kid), ai_action = trim tool,
     ai_decision = decision_mapped (ar_decision r), ai_reason = ar_reason r, ai_rule = ar_rule r, ai_policy = None,
     ai_confidence = confidence_column (ar_confidence r), ai_latency = gw_latency gw, ai_mode = mode_of who,
     ai_input_hash = Some (input_hash gw body tool), ai_output_hash = Some (output_hash gw r), ai_digest = None\<rparr>"

definition decision_reply :: "gateway \<Rightarrow> (string \<times> string) option \<Rightarrow> jsnum json \<Rightarrow> string \<Rightarrow> auth_result \<Rightarrow> reply" where
  "decision_reply gw who body tool r = json_reply 200 (JObj
     ([(''requestId'', JStr (gw_request_id gw)), (''tool'', JStr (trim tool))]
      @ when_some ''context'' (map_option JStr (context_text body))
      @ when_some ''args'' (object_args body)
      @ [(''decision'', JStr (decision_name (ar_decision r))), (''reason'', JStr (ar_reason r)), (''rule'', JStr (ar_rule r))]
      @ when_truthy ''safeTool'' (ar_safe_tool r)
      @ when_truthy ''safeArgs'' (ar_safe_args r)
      @ when_some ''providerSignalPresent'' (ar_signal r)
      @ when_some ''riskScore'' (ar_risk r)
      @ when_some ''quota'' (map_option (\<lambda>q. JObj [(''plan'', JStr (q_plan q)), (''used'', jint (int (q_used q))),
            (''limit'', jint (int (q_limit q)))]) (ar_quota r))
      @ [(''latencyMs'', jint (gw_latency gw)), (''mode'', JStr (mode_of who))]
      @ when_some ''keyId'' (case who of Some (uid, kid) \<Rightarrow> if kid = [] then None else Some (JStr kid) | None \<Rightarrow> None)
      @ [(''timestamp'', JStr (gw_stamp gw)), (''inputHash'', JStr (input_hash gw body tool)),
         (''outputHash'', JStr (output_hash gw r))]))"

text \<open>The answer does not wait for the log entry, which never fails the request.\<close>

definition conclude :: "gateway \<Rightarrow> (string \<times> string) option \<Rightarrow> jsnum json \<Rightarrow> string \<Rightarrow> auth_result \<Rightarrow> reply app" where
  "conclude gw who body tool r =
     andthen (log_audit_event (pe_now (gw_platform gw)) (audit_of gw who body tool r)) (\<lambda>_.
     ret (decision_reply gw who body tool r))"

definition authorize_as :: "gateway \<Rightarrow> (string \<times> string) option \<Rightarrow> request \<Rightarrow> reply app" where
  "authorize_as gw who rq =
     (case parsed_body rq of
        None \<Rightarrow> ret (error_reply 400 ''Invalid JSON body.'')
      | Some body \<Rightarrow>
          (case checked_tool body of
             Inl refusal \<Rightarrow> ret refusal
           | Inr tool \<Rightarrow>
               (case who of
                  None \<Rightarrow> conclude gw who body tool (sandbox_decide gw body tool)
                | Some (uid, kid) \<Rightarrow>
                    andthen (live_decide gw uid body tool) (\<lambda>r.
                      case r of Inl refusal \<Rightarrow> ret refusal | Inr result \<Rightarrow> conclude gw who body tool result))))"

definition authorize :: "gateway \<Rightarrow> request \<Rightarrow> reply app" where
  "authorize gw rq =
     (case bearer rq of
        None \<Rightarrow> ret (error_reply 401 ''Missing or invalid Authorization header. Use: Bearer <api_key>'')
      | Some key \<Rightarrow>
          (if starts_with sandbox_prefix key then authorize_as gw None rq
           else
             andthen (validate_api_key (pe_sha256 (gw_platform gw)) (pe_now (gw_platform gw)) key) (\<lambda>r.
               case r of
                 None \<Rightarrow> ret (error_reply 401 ''Invalid or revoked API key.'')
               | Some who \<Rightarrow> authorize_as gw (Some who) rq)))"

section \<open>The public sandbox route\<close>

text \<open>\<open>...d\<close> in an object literal.\<close>

definition spread :: "jsnum json \<Rightarrow> (string \<times> jsnum json) list" where
  "spread d =
     (case d of
        JObj kvs \<Rightarrow> kvs
      | JArr vs \<Rightarrow> zip (map show_nat [0..<length vs]) vs
      | JStr s \<Rightarrow> zip (map show_nat [0..<length s]) (map (\<lambda>c. JStr [c]) s)
      | _ \<Rightarrow> [])"

definition nonempty_object :: "jsnum json \<Rightarrow> bool" where
  "nonempty_object v = (case v of JObj kvs \<Rightarrow> kvs \<noteq> [] | JArr vs \<Rightarrow> vs \<noteq> [] | _ \<Rightarrow> False)"

definition call_engine :: "gateway \<Rightarrow> string \<Rightarrow> string option \<Rightarrow> jsnum json option \<Rightarrow> jsnum json option app" where
  "call_engine gw tool context args =
     andthen (ask_engine gw ''/v1/authorize'' (JObj
        ([(''tool'', JStr tool)] @ when_some ''context'' (if truthy context then map_option JStr context else None)
         @ when_some ''args'' (case args of Some a \<Rightarrow> if nonempty_object a then Some a else None | None \<Rightarrow> None)))) (\<lambda>answer.
     ret (case answer of
            NoAnswer \<Rightarrow> None
          | HttpAnswer status text \<Rightarrow> if http_ok status then parse_json text else None))"

definition sandbox_reply :: "gateway \<Rightarrow> jsnum json \<Rightarrow> string \<Rightarrow> tool_verdict \<Rightarrow> reply" where
  "sandbox_reply gw body tool v = json_reply 200 (JObj
     ([(''requestId'', JStr (gw_request_id gw)), (''tool'', JStr tool)]
      @ when_some ''context'' (map_option JStr (context_text body))
      @ when_some ''args'' (object_args body)
      @ [(''decision'', JStr (decision_name (tv_decision v))), (''reason'', JStr (tv_reason v)), (''rule'', JStr (tv_rule v))]
      @ when_truthy ''safeTool'' (map_option JStr (tv_safe_tool v))
      @ when_some ''safeArgs'' (map_option (\<lambda>kvs. reread (JObj kvs)) (tv_safe_args v))
      @ [(''latencyMs'', jint (gw_latency gw)), (''mode'', JStr ''sandbox''), (''engineUsed'', JBool False)]))"

definition sandbox_local :: "gateway \<Rightarrow> jsnum json \<Rightarrow> string \<Rightarrow> tool_verdict" where
  "sandbox_local gw body tool =
     (case detect_injection (gw_lower gw)
             \<lparr>di_tool = FStr (widen tool), di_context = optional_field gw (map_option JStr (body_str ''context'' body)),
              di_args = optional_field gw (object_args body),
              di_resource = optional_field gw (if is_object (member ''resource'' body) then member ''resource'' body else None),
              di_scope = FAbsent\<rparr> of
        Some r \<Rightarrow> injection_verdict r
      | None \<Rightarrow> local_evaluate tool)"

definition sandbox_authorize :: "gateway \<Rightarrow> request \<Rightarrow> reply app" where
  "sandbox_authorize gw rq =
     (case parsed_body rq of
        None \<Rightarrow> ret (error_reply 400 ''Invalid JSON body'')
      | Some body \<Rightarrow>
          (case body_str ''tool'' body of
             None \<Rightarrow> ret (error_reply 400 ''tool is required'')
           | Some tool \<Rightarrow>
               (if trim tool = [] then ret (error_reply 400 ''tool is required'')
                else if 128 < length tool then ret (error_reply 400 ''tool name too long (max 128 chars)'')
                else
                  andthen (call_engine gw (trim tool) (body_str ''context'' body) (object_args body)) (\<lambda>r.
                  ret (case r of
                         Some d \<Rightarrow> json_reply 200 (JObj (spread d @ [(''mode'', JStr ''sandbox''), (''engineUsed'', JBool True)]))
                       | None \<Rightarrow> sandbox_reply gw body (trim tool) (sandbox_local gw body (trim tool)))))))"

end
