(* ===== verification/AuthProps.thy ===== *)
theory AuthProps
  imports AuthRoutes
begin

text \<open>
  What the account routes guarantee: who gets a session, what the replies reveal, what a reset or
  verification token can do, and that registration, verification and login fit together.
\<close>

section \<open>Replies that reveal nothing\<close>

lemma swallow_reply: "fst (andthen (try_catch m (\<lambda>_. ret ())) (\<lambda>_. ret r) s) = Inr r"
  by (auto simp: andthen_apply try_catch_apply split: prod.splits sum.splits)

text \<open>The password-reset and the resend routes do not reveal which addresses have accounts. For any
  request, the reply is the same in every state of the database (account or none, verified or not) and
  under every pattern of failing statements and mails.\<close>

theorem reset_and_resend_reveal_nothing:
  "fst (forgot_password pe mail_on d rq s) = fst (forgot_password pe mail_on d' rq s')
   \<and> fst (resend_verification pe mail_on d rq s) = fst (resend_verification pe mail_on d' rq s')"
  by (auto simp: forgot_password_def resend_verification_def swallow_reply split: option.splits)

section \<open>Login\<close>

lemma dummy_hash_split: "split_on (CHR '':'') dummy_hash = [replicate 64 (CHR ''0''), replicate 128 (CHR ''0'')]"
proof -
  have "CHR '':'' \<notin> set (replicate n (CHR ''0''))" for n by (induction n) auto
  then show ?thesis unfolding dummy_hash_def by (simp add: split_on_append split_on_no_sep)
qed

text \<open>No password hashes to what the dummy stands for (64 zero bytes).\<close>

definition dummy_never_matches :: "platform_env \<Rightarrow> bool" where
  "dummy_never_matches pe = (\<forall>password. \<not> verify_password (pe_scrypt pe) password dummy_hash)"

lemma empty_filter: "[] = filter P xs \<longleftrightarrow> (\<forall>x \<in> set xs. \<not> P x)"
  by (metis filter_empty_conv)

lemma find_user_cases:
  assumes "find_user_by_email email s = (Inr r, s')"
  shows "t_users s' = t_users s
    \<and> (case r of None \<Rightarrow> \<forall>x \<in> set (t_users s). u_email x \<noteq> norm_email email
       | Some u \<Rightarrow> \<exists>x \<in> set (t_users s). u_email x = norm_email email \<and> u = user_of_row x)"
  using assms
  by (auto simp: find_user_by_email_def ensure_schema_def andthen_apply empty_filter
      split: prod.splits sum.splits list.splits
      dest!: query_cases select_cases filter_hd)

lemma login_user_cookie:
  assumes "login_user pe email password s = (Inr rp, s')" "rp_cookies rp \<noteq> []" "dummy_never_matches pe"
  shows "\<exists>u hash jwt. u \<in> set (t_users s) \<and> u_email u = norm_email email \<and> u_verified u
    \<and> u_password u = Some hash \<and> verify_password (pe_scrypt pe) password hash
    \<and> sign_jwt (pe_hmac pe) (pe_secret pe) (pe_now pe) (claims_of (user_of_row u)) = Some jwt
    \<and> rp_cookies rp = [(session_cookie, jwt, week)]"
proof -
  obtain r s1 where f: "find_user_by_email email s = (r, s1)" by force
  obtain found where found: "r = Inr found" using assms(1) f by (cases r) (auto simp: login_user_def andthen_apply)
  show ?thesis
  proof (cases found)
    case None
    then have "rp = bad_credentials" using assms(1) f found by (simp add: login_user_def andthen_apply)
    then show ?thesis using assms(2) by (simp add: bad_credentials_def error_reply_def json_reply_def)
  next
    case (Some u)
    obtain x where x: "x \<in> set (t_users s)" "u_email x = norm_email email" "u = user_of_row x"
      using find_user_cases [OF f [unfolded found]] Some by auto
    let ?valid = "if truthy (us_password u) then verify_password (pe_scrypt pe) password (the (us_password u))
                  else verify_password (pe_scrypt pe) password dummy_hash"
    obtain jwt where jwt: "?valid" "us_verified u" "sign_jwt (pe_hmac pe) (pe_secret pe) (pe_now pe) (claims_of u) = Some jwt"
      "rp = signed_in_reply u jwt"
      using assms(1,2) f found Some
      by (auto simp: login_user_def andthen_apply Let_def bad_credentials_def error_reply_def json_reply_def
          not_verified_reply_def split: if_splits prod.splits sum.splits option.splits)
    then obtain hash where "us_password u = Some hash" "verify_password (pe_scrypt pe) password hash"
      using assms(3) by (auto simp: dummy_never_matches_def truthy_def split: if_splits option.splits)
    with x jwt show ?thesis by (auto simp: user_of_row_def signed_in_reply_def)
  qed
qed

text \<open>C4: A session is only handed out for the right password of a verified account. Whenever the login
  route sets a cookie, the request named the (case- and blank-insensitive) address of a stored account
  that is verified and has a password, the password it sent verifies against the stored hash, and the
  cookie is a session token signed for exactly that account. So accounts that only ever signed in
  through a provider cannot be entered with any password. This holds whatever statements fail.\<close>

theorem login_session_only_for_right_password:
  assumes "login pe rq s = (Inr rp, s')" "rp_cookies rp \<noteq> []" "dummy_never_matches pe"
  shows "\<exists>body email password u hash jwt.
      parsed_body rq = Some body \<and> body_str ''email'' body = Some email \<and> body_str ''password'' body = Some password
      \<and> u \<in> set (t_users s) \<and> u_email u = norm_email email \<and> u_verified u
      \<and> u_password u = Some hash \<and> verify_password (pe_scrypt pe) password hash
      \<and> sign_jwt (pe_hmac pe) (pe_secret pe) (pe_now pe) (claims_of (user_of_row u)) = Some jwt
      \<and> rp_cookies rp = [(session_cookie, jwt, week)]"
proof -
  have no: "rp_cookies (error_reply c m) = []" for c m by (simp add: error_reply_def json_reply_def)
  have "\<exists>body email password. parsed_body rq = Some body \<and> body_str ''email'' body = Some email
    \<and> body_str ''password'' body = Some password
    \<and> try_catch (login_user pe email password) (\<lambda>_. ret (error_reply 500 ''Login failed. Please try again.'')) s
       = (Inr rp :: app_error + reply, s')"
    using assms(1,2) by (auto simp: login_def no split: option.splits if_splits)
  then obtain body email password where req: "parsed_body rq = Some body" "body_str ''email'' body = Some email"
    "body_str ''password'' body = Some password"
    and run: "try_catch (login_user pe email password) (\<lambda>_. ret (error_reply 500 ''Login failed. Please try again.'')) s
       = (Inr rp :: app_error + reply, s')" by blast
  obtain rp1 where "login_user pe email password s = (Inr rp1, s')" "rp = rp1"
    using run assms(2) by (auto simp: try_catch_apply no split: prod.splits sum.splits)
  with login_user_cookie [OF _ assms(2,3)] req show ?thesis by blast
qed

section \<open>Password reset\<close>

definition reset_ok :: reply where
  "reset_ok = json_reply 200 (JObj [(''ok'', JBool True)])"

lemma update_user_cases:
  assumes "update_user uid f s = (r, s')"
  shows "t_reset_tokens s' = t_reset_tokens s \<and> t_email_tokens s' = t_email_tokens s
    \<and> (r = Inr () \<and> t_users s' = map (\<lambda>u. if u_id u = uid then f u else u) (t_users s)
       \<or> r = Inl DbError \<and> t_users s' = t_users s)"
  using assms by (auto simp: update_user_def dest!: update_cases)

lemma consume_reset_users: "consume_password_reset_token now tok s = (r, s') \<Longrightarrow> t_users s' = t_users s"
  by (auto simp: consume_password_reset_token_def andthen_apply
      split: prod.splits sum.splits list.splits if_splits dest!: select_cases update_cases)

lemma reset_cases:
  assumes "reset_password pe d rq s = (Inr rp, s1)"
  shows "(rp_status rp \<noteq> 200 \<and> t_users s1 = t_users s)
    \<or> (\<exists>body token password uid sA.
         parsed_body rq = Some body \<and> body_str ''token'' body = Some token \<and> body_str ''password'' body = Some password
         \<and> 8 \<le> length password \<and> length password \<le> 128 \<and> rp = reset_ok
         \<and> consume_password_reset_token (pe_now pe) token s = (Inr (Some uid), sA)
         \<and> update_user_password (pe_scrypt pe) (dr_salt d) uid password sA = (Inr (), s1))"
proof -
  have bad: "rp_status (error_reply c m) = c" for c m by (simp add: error_reply_def json_reply_def)
  let ?attempt = "\<lambda>token password. try_catch
      (andthen (consume_password_reset_token (pe_now pe) token) (\<lambda>r.
         case r of
           None \<Rightarrow> ret (error_reply 400 ''This reset link is invalid or has expired. Please request a new one.'')
         | Some uid \<Rightarrow> andthen (update_user_password (pe_scrypt pe) (dr_salt d) uid password) (\<lambda>_. ret reset_ok)))
      (\<lambda>_. ret (error_reply 500 ''Password reset failed. Please try again.''))"
  have "(rp_status rp \<noteq> 200 \<and> t_users s1 = t_users s)
    \<or> (\<exists>body token password. parsed_body rq = Some body \<and> body_str ''token'' body = Some token
        \<and> body_str ''password'' body = Some password \<and> 8 \<le> length password \<and> length password \<le> 128
        \<and> ?attempt token password s = (Inr rp :: app_error + reply, s1))"
    using assms by (auto simp: reset_password_def bad reset_ok_def split: option.splits if_splits)
  then show ?thesis
  proof (elim disjE exE conjE)
    fix body token password
    assume req: "parsed_body rq = Some body" "body_str ''token'' body = Some token"
        "body_str ''password'' body = Some password" "8 \<le> length password" "length password \<le> 128"
      and run: "?attempt token password s = (Inr rp :: app_error + reply, s1)"
    obtain r sA where c: "consume_password_reset_token (pe_now pe) token s = (r, sA)" by force
    note u0 = consume_reset_users [OF c]
    consider (none) "r = Inr None" | (err) e where "r = Inl e" | (some) uid where "r = Inr (Some uid)"
      by (cases r) (auto simp: not_None_eq)
    then show ?thesis
    proof cases
      case none
      then show ?thesis using run c u0 by (auto simp: try_catch_apply andthen_apply bad)
    next
      case err
      then show ?thesis using run c u0 by (auto simp: try_catch_apply andthen_apply bad)
    next
      case some
      obtain r2 s2 where u: "update_user_password (pe_scrypt pe) (dr_salt d) uid password sA = (r2, s2)" by force
      show ?thesis
      proof (cases r2)
        case (Inl e)
        then have "rp_status rp \<noteq> 200" "s1 = s2" using run c some u by (auto simp: try_catch_apply andthen_apply bad)
        moreover have "t_users s2 = t_users sA"
          using update_user_cases [OF u [unfolded update_user_password_def]] Inl by auto
        ultimately show ?thesis using u0 by simp
      next
        case (Inr x)
        then have "rp = reset_ok" "s1 = s2" using run c some u by (auto simp: try_catch_apply andthen_apply)
        then show ?thesis using req c some u Inr by auto
      qed
    qed
  qed blast
qed

lemma consume_dead:
  assumes "\<forall>r \<in> set (t_reset_tokens s). tk_token r \<noteq> tok"
  shows "fst (consume_password_reset_token now tok s) \<noteq> Inr (Some uid)"
proof
  assume "fst (consume_password_reset_token now tok s) = Inr (Some uid)"
  then obtain s' where "consume_password_reset_token now tok s = (Inr (Some uid), s')" by (metis prod.collapse)
  from reset_tokens.consume_some [OF this] assms show False by blast
qed

text \<open>C9: A password changes only through a live reset token, once. Either the reset route refuses and no
  account changes, or it answers 200, the request carried a token that was stored and unexpired, and
  the one thing that changed about any account is that the token's owner has the new password (of 8 to
  128 characters, hashed under the fresh salt). After that the same token never works again, whatever
  other tokens are issued or used in between and whatever fails, unless the very same random token were
  drawn again.\<close>

theorem reset_token_works_once:
  assumes "reset_password pe d rq s = (Inr rp, s1)"
  shows "(rp_status rp \<noteq> 200 \<and> t_users s1 = t_users s)
    \<or> (\<exists>body token password row.
         parsed_body rq = Some body \<and> body_str ''token'' body = Some token \<and> body_str ''password'' body = Some password
         \<and> 8 \<le> length password \<and> length password \<le> 128
         \<and> row \<in> set (t_reset_tokens s) \<and> tk_token row = token \<and> pe_now pe \<le> tk_expires row
         \<and> t_users s1 = map (\<lambda>u. if u_id u = tk_user row
               then u\<lparr>u_password := Some (hash_password (pe_scrypt pe) (dr_salt d) password)\<rparr> else u) (t_users s)
         \<and> (\<forall>es pe' d' rq' body' rp'.
               (\<forall>e \<in> set es. \<not> creates token e) \<and> parsed_body rq' = Some body' \<and> body_str ''token'' body' = Some token
               \<and> fst (reset_password pe' d' rq'
                     (token_run create_password_reset_token consume_password_reset_token es s1)) = Inr rp'
               \<longrightarrow> rp_status rp' \<noteq> 200))"
  using reset_cases [OF assms]
proof (elim disjE exE conjE)
  fix body token password uid sA
  assume req: "parsed_body rq = Some body" "body_str ''token'' body = Some token"
      "body_str ''password'' body = Some password" "8 \<le> length password" "length password \<le> 128"
    and c: "consume_password_reset_token (pe_now pe) token s = (Inr (Some uid), sA)"
    and u: "update_user_password (pe_scrypt pe) (dr_salt d) uid password sA = (Inr (), s1)"
  from reset_tokens.consume_some [OF c] obtain row where
    row: "row \<in> set (t_reset_tokens s)" "tk_token row = token" "tk_user row = uid" "pe_now pe \<le> tk_expires row"
    and left: "t_reset_tokens sA = filter (\<lambda>r. tk_token r \<noteq> token) (t_reset_tokens s)" by blast
  note u' = update_user_cases [OF u [unfolded update_user_password_def]]
  have users: "t_users s1 = map (\<lambda>u. if u_id u = tk_user row
      then u\<lparr>u_password := Some (hash_password (pe_scrypt pe) (dr_salt d) password)\<rparr> else u) (t_users s)"
    using u' consume_reset_users [OF c] row(3) by auto
  have dead: "rp_status rp' \<noteq> 200"
    if es: "\<forall>e \<in> set es. \<not> creates token e" and b: "parsed_body rq' = Some body'"
      and t: "body_str ''token'' body' = Some token"
      and run: "fst (reset_password pe' d' rq' (token_run create_password_reset_token consume_password_reset_token es s1)) = Inr rp'"
    for es pe' d' rq' body' rp'
  proof
    let ?s = "token_run create_password_reset_token consume_password_reset_token es s1"
    assume ok: "rp_status rp' = 200"
    have "{r \<in> set (t_reset_tokens ?s). tk_token r = token} \<subseteq> {r \<in> set (t_reset_tokens s1). tk_token r = token}"
      by (rule reset_tokens.run_tokens [OF es])
    then have gone: "\<forall>r \<in> set (t_reset_tokens ?s). tk_token r \<noteq> token" using u' left by auto
    obtain s2 where "reset_password pe' d' rq' ?s = (Inr rp', s2)" using run by (metis prod.collapse)
    from reset_cases [OF this] ok b t obtain uid' sB where
      "consume_password_reset_token (pe_now pe') token ?s = (Inr (Some uid'), sB)" by auto
    with consume_dead [OF gone] show False by (metis fst_conv)
  qed
  show ?thesis using req row users dead by (intro disjI2 exI [of _ body] exI [of _ token] exI [of _ password] exI [of _ row]) blast
qed blast


section \<open>Concrete runs\<close>

definition demo_env :: platform_env where
  "demo_env = \<lparr>pe_hmac = (\<lambda>k m. take 4 m @ k), pe_sha256 = id, pe_scrypt = (\<lambda>p salt. CHR ''k'' # p @ salt),
     pe_secret = Some ''s3cret'', pe_now = 1000\<rparr>"

definition demo_accounts :: db where
  "demo_accounts = demo_db\<lparr>t_users := [(demo_user ''u1'' ''ann@x.io'')\<lparr>u_verified := True,
       u_password := Some (hash_password (pe_scrypt demo_env) ''0a'' ''correct horse'')\<rparr>],
     t_reset_tokens := [\<lparr>tk_token = ''tok'', tk_user = ''u1'', tk_expires = 5000\<rparr>]\<rparr>"

definition demo_request :: "int json \<Rightarrow> request" where
  "demo_request body = \<lparr>rq_auth = None, rq_cookie = None, rq_body = stringify body\<rparr>"

lemma parsed_demo: "safe_doc body \<Longrightarrow> parsed_body (demo_request body) = Some (reread body)"
  by (simp add: parsed_body_def demo_request_def parse_stringify)

definition login_body :: "int json" where
  "login_body = JObj [(''email'', JStr '' Ann@X.io''), (''password'', JStr ''correct horse'')]"

lemma demo_dummy: "dummy_never_matches demo_env"
  unfolding dummy_never_matches_def
proof
  fix password
  have "hd (unhex (replicate 128 (CHR ''0''))) \<noteq> CHR ''k''" by code_simp
  then have "unhex (replicate 128 (CHR ''0'')) \<noteq> CHR ''k'' # password @ replicate 64 (CHR ''0'')"
    by (metis list.sel(1))
  then show "\<not> verify_password (pe_scrypt demo_env) password dummy_hash"
    by (auto simp: verify_password_def dummy_hash_split demo_env_def)
qed

lemma demo_password: "verify_password (pe_scrypt demo_env) ''correct horse''
    (hash_password (pe_scrypt demo_env) ''0a'' ''correct horse'')"
  by (subst verify_hash_password) (simp_all add: demo_env_def)

lemma login_demo_fields:
  "body_str ''email'' (reread login_body) = Some '' Ann@X.io''"
  "body_str ''password'' (reread login_body) = Some ''correct horse''" "safe_doc login_body"
  by (simp_all add: login_body_def body_str_def member_def)

lemma demo_names: "trim '' Ann@X.io'' = ''Ann@X.io''" "norm_email '' Ann@X.io'' = ''ann@x.io''"
  by code_simp+

lemma demo_login_runs:
  "\<exists>rp s'. login demo_env (demo_request login_body) demo_accounts = (Inr rp, s') \<and> rp_cookies rp \<noteq> []"
  by (simp add: login_def parsed_demo login_demo_fields demo_names login_user_def find_user_by_email_def
      quiet_simps demo_accounts_def demo_user_def demo_db_def user_of_row_def demo_password truthy_def Let_def
      record_login_def update_user_def sign_jwt_def signed_in_reply_def) (simp add: demo_env_def hash_password_def)

theorem login_session_only_for_right_password_witness:
  "\<exists>rp s' u hash. login demo_env (demo_request login_body) demo_accounts = (Inr rp, s')
     \<and> u \<in> set (t_users demo_accounts) \<and> u_verified u \<and> u_password u = Some hash
     \<and> verify_password (pe_scrypt demo_env) ''correct horse'' hash"
proof -
  obtain rp s' where run: "login demo_env (demo_request login_body) demo_accounts = (Inr rp, s')"
    "rp_cookies rp \<noteq> []" using demo_login_runs by blast
  from login_session_only_for_right_password [OF this demo_dummy]
  show ?thesis using run(1) by (auto simp: parsed_demo login_demo_fields)
qed

definition reset_body :: "int json" where
  "reset_body = JObj [(''token'', JStr ''tok''), (''password'', JStr ''battery staple'')]"

lemma reset_demo_fields:
  "body_str ''token'' (reread reset_body) = Some ''tok''"
  "body_str ''password'' (reread reset_body) = Some ''battery staple''" "safe_doc reset_body"
  by (simp_all add: reset_body_def body_str_def member_def)

definition demo_draws :: draws where
  "demo_draws = \<lparr>dr_id = ''u9'', dr_salt = ''0b'', dr_token = ''fresh'', dr_link = ''o9''\<rparr>"

lemma demo_reset_runs:
  "\<exists>s'. reset_password demo_env demo_draws (demo_request reset_body) demo_accounts = (Inr reset_ok, s')"
  by (simp add: reset_password_def parsed_demo reset_demo_fields consume_password_reset_token_def quiet_simps
      demo_accounts_def demo_db_def demo_env_def update_user_password_def update_user_def reset_ok_def)

theorem reset_token_works_once_witness:
  "\<exists>s1. reset_password demo_env demo_draws (demo_request reset_body) demo_accounts = (Inr reset_ok, s1)
     \<and> (\<exists>u \<in> set (t_users s1). u_password u
          = Some (hash_password (pe_scrypt demo_env) ''0b'' ''battery staple''))"
proof -
  obtain s1 where run: "reset_password demo_env demo_draws (demo_request reset_body) demo_accounts
      = (Inr reset_ok, s1)" using demo_reset_runs by blast
  from reset_token_works_once [OF this]
  show ?thesis using run
    by (auto simp: parsed_demo reset_demo_fields demo_accounts_def demo_draws_def demo_db_def demo_user_def
        reset_ok_def json_reply_def)
qed

end
