(* ===== verification/AccountFlow.thy ===== *)
theory AccountFlow
  imports AuthProps
begin

text \<open>
  Sessions over time, and how registration, the verification mail and login fit together on a database
  whose statements succeed.
\<close>

section \<open>Sessions\<close>

lemma session_user_signed:
  assumes "sign_jwt (pe_hmac pe) (pe_secret pe) t0 c = Some token" "\<bar>seconds t0\<bar> < 2 ^ 53 - session_ttl"
    "rq_cookie rq = Some token"
  shows "session_user pe rq = (if seconds t0 + session_ttl < seconds (pe_now pe) then None else Some (cl_user c))"
proof -
  have "token \<noteq> []" using assms(1) by (auto simp: sign_jwt_def Let_def split: if_splits)
  then show ?thesis
    using verify_sign_jwt [OF assms(1,2), of "pe_now pe"] assms(3)
    by (simp add: session_user_def get_current_user_def truthy_def payload_doc_def member_def)
qed

text \<open>C33: A session stands for the account it was signed for, for a week. The cookie that login sets
  resolves to exactly that account until seven days after it was issued (to the second), and to nobody
  after that, on every later request that carries it and no bearer key.\<close>

theorem session_lasts_a_week:
  assumes "sign_jwt (pe_hmac pe) (pe_secret pe) t0 c = Some token" "\<bar>seconds t0\<bar> < 2 ^ 53 - session_ttl"
    "rq_cookie rq = Some token" "rq_auth rq = None"
  shows "resolve_user_id pe rq s =
    (Inr (if seconds (pe_now pe) \<le> seconds t0 + 604800 then Some (cl_user c) else None), s)"
  using session_user_signed [OF assms(1-3)] assms(4)
  by (auto simp: resolve_user_id_def bearer_def session_ttl_def)

theorem session_lasts_a_week_witness:
  "\<exists>token. sign_jwt (pe_hmac demo_env) (Some ''s3cret'') 0
       \<lparr>cl_user = ''u1'', cl_email = ''ann@x.io'', cl_name = ''Ann'', cl_verified = True\<rparr> = Some token
     \<and> resolve_user_id (demo_env\<lparr>pe_now := 604800999\<rparr>) \<lparr>rq_auth = None, rq_cookie = Some token, rq_body = []\<rparr> demo_db
        = (Inr (Some ''u1''), demo_db)
     \<and> resolve_user_id (demo_env\<lparr>pe_now := 604801000\<rparr>) \<lparr>rq_auth = None, rq_cookie = Some token, rq_body = []\<rparr> demo_db
        = (Inr None, demo_db)"
proof -
  let ?c = "\<lparr>cl_user = ''u1'', cl_email = ''ann@x.io'', cl_name = ''Ann'', cl_verified = True\<rparr>"
  have "pe_secret demo_env = Some ''s3cret''" by (simp add: demo_env_def)
  moreover obtain token where t: "sign_jwt (pe_hmac demo_env) (Some ''s3cret'') 0 ?c = Some token"
    by (simp add: sign_jwt_def truthy_def Let_def)
  ultimately have
    "resolve_user_id (demo_env\<lparr>pe_now := n\<rparr>) \<lparr>rq_auth = None, rq_cookie = Some token, rq_body = []\<rparr> demo_db
      = (Inr (if seconds n \<le> 604800 then Some ''u1'' else None), demo_db)" for n
    by (subst session_lasts_a_week [where c = ?c and token = token and ?t0.0 = 0])
      (simp_all add: seconds_def session_ttl_def)
  then show ?thesis using t by (simp add: seconds_def)
qed

section \<open>From registration to the first session\<close>

text \<open>A request that asks for a new account, on a database that can take it.\<close>

definition signup_ok :: "platform_env \<Rightarrow> draws \<Rightarrow> request \<Rightarrow> string \<Rightarrow> string \<Rightarrow> string \<Rightarrow> db \<Rightarrow> bool" where
  "signup_ok pe d rq name email password s =
     (faults s = [] \<and> dr_id d \<notin> u_id ` set (t_users s) \<and> norm_email email \<notin> u_email ` set (t_users s)
      \<and> dr_token d \<notin> tk_token ` set (t_email_tokens s) \<and> dr_token d \<noteq> []
      \<and> dr_salt d \<noteq> [] \<and> CHR '':'' \<notin> set (dr_salt d) \<and> pe_scrypt pe password (dr_salt d) \<noteq> []
      \<and> (case parsed_body rq of None \<Rightarrow> False | Some body \<Rightarrow>
           body_str ''name'' body = Some name \<and> body_str ''email'' body = Some email
           \<and> body_str ''password'' body = Some password)
      \<and> valid_name (trim name) \<and> valid_email (trim email) \<and> 8 \<le> length password \<and> length password \<le> 128)"

definition login_asks :: "request \<Rightarrow> string \<Rightarrow> string \<Rightarrow> bool" where
  "login_asks rq email password =
     (case parsed_body rq of None \<Rightarrow> False | Some body \<Rightarrow>
        body_str ''password'' body = Some password \<and> password \<noteq> []
        \<and> (case body_str ''email'' body of None \<Rightarrow> False
           | Some e \<Rightarrow> trim e \<noteq> [] \<and> norm_email e = norm_email email))"

lemma norm_email_trim [simp]: "norm_email (trim e) = norm_email e"
  by (simp add: norm_email_def trim_to_lower)

definition account_row :: "platform_env \<Rightarrow> draws \<Rightarrow> string \<Rightarrow> string \<Rightarrow> string \<Rightarrow> bool \<Rightarrow> user_row" where
  "account_row pe d name email password verified =
     \<lparr>u_id = dr_id d, u_name = trim name, u_email = norm_email email,
      u_password = Some (hash_password (pe_scrypt pe) (dr_salt d) password), u_verified = verified,
      u_created = pe_now pe, u_last_login = None, u_plan = ''free'', u_plan_updated = None, u_stripe = None\<rparr>"

lemma register_quiet:
  assumes "signup_ok pe d rq name email password s"
  shows "register pe True d rq s =
    (Inr (json_reply 201 (JObj [(''ok'', JBool True), (''requiresVerification'', JBool True)])),
     s\<lparr>t_users := t_users s @ [account_row pe d name email password False],
       t_email_tokens := filter (\<lambda>t. tk_user t \<noteq> dr_id d) (t_email_tokens s)
         @ [\<lparr>tk_token = dr_token d, tk_user = dr_id d, tk_expires = pe_now pe + verification_ttl\<rparr>],
       outbox := outbox s @ [VerifyMail (norm_email email) (dr_token d)]\<rparr>)"
proof -
  have q: "faults s = []" and no: "filter (\<lambda>u. u_email u = norm_email email) (t_users s) = []"
    using assms by (auto simp: signup_ok_def filter_empty_conv) (metis image_eqI)
  have ids: "dr_id d \<notin> u_id ` set (t_users s)" "norm_email email \<notin> u_email ` set (t_users s)"
    "dr_token d \<notin> tk_token ` set (t_email_tokens s)" using assms by (simp_all add: signup_ok_def)
  then have tk: "dr_token d \<notin> tk_token ` {t \<in> set (t_email_tokens s). tk_user t \<noteq> dr_id d}" by auto
  have create: "create_user (pe_scrypt pe) (pe_now pe) (dr_id d) (dr_salt d) (trim name) (trim email) password False s
    = (Inr \<lparr>us_id = dr_id d, us_name = trim name, us_email = norm_email email,
         us_password = Some (hash_password (pe_scrypt pe) (dr_salt d) password), us_verified = False, us_created = pe_now pe\<rparr>,
       s\<lparr>t_users := t_users s @ [account_row pe d name email password False]\<rparr>)"
    using q no ids(1,2)
    by (simp add: create_user_def quiet_simps Let_def insert_user_def new_user_row_def account_row_def)
  have "register pe True d rq s = register_account pe True d name email password s"
    using assms by (auto simp: signup_ok_def register_def split: option.splits)
  then show ?thesis
    using q tk create
    by (simp add: register_account_def create_verification_token_def insert_email_token_def quiet_simps
        send_mail_def may_fail_quiet user_exists_def account_row_def)
qed

lemma login_quiet:
  assumes "login_asks lr email password" "faults s = []"
    and u: "filter (\<lambda>u. u_email u = norm_email email) (t_users s) = [account_row pe0 d name email password v]"
    and h: "verify_password (pe_scrypt pe) password (hash_password (pe_scrypt pe0) (dr_salt d) password)"
    and sec: "truthy (pe_secret pe)"
  shows "\<exists>jwt. fst (login pe lr s) = Inr (if v then signed_in_reply (user_of_row (account_row pe0 d name email password v)) jwt
            else not_verified_reply)
     \<and> (v \<longrightarrow> sign_jwt (pe_hmac pe) (pe_secret pe) (pe_now pe)
            (claims_of (user_of_row (account_row pe0 d name email password v))) = Some jwt)"
proof -
  obtain body e where req: "parsed_body lr = Some body" "body_str ''password'' body = Some password" "password \<noteq> []"
    "body_str ''email'' body = Some e" "trim e \<noteq> []" "norm_email e = norm_email email"
    using assms(1) by (auto simp: login_asks_def split: option.splits)
  obtain a b where "hash_password (pe_scrypt pe0) (dr_salt d) password = a # b"
    by (cases "hash_password (pe_scrypt pe0) (dr_salt d) password") (auto simp: hash_password_def)
  moreover have "\<exists>jwt. sign_jwt (pe_hmac pe) (pe_secret pe) (pe_now pe) c = Some jwt" for c
    using sec by (simp add: sign_jwt_def Let_def)
  then obtain jwt where "sign_jwt (pe_hmac pe) (pe_secret pe) (pe_now pe)
      (claims_of (user_of_row (account_row pe0 d name email password v))) = Some jwt" by blast
  ultimately show ?thesis
    using req assms(2) u h
    by (auto simp: login_def login_user_def find_user_by_email_def quiet_simps truthy_def Let_def user_of_row_def
        record_login_def update_user_def account_row_def)
qed

lemma only_account:
  assumes "norm_email email \<notin> u_email ` set us"
  shows "filter (\<lambda>u. u_email u = norm_email email) (us @ [account_row pe d name email password v])
    = [account_row pe d name email password v]"
  using assms by (auto simp: filter_empty_conv account_row_def) (metis image_eqI)

lemma verify_email_quiet:
  assumes q: "faults s = []" and d: "dr_id d \<notin> u_id ` set us" "dr_token d \<noteq> []"
    and tok: "dr_token d \<notin> tk_token ` set ts" "pe_now pe2 \<le> pe_now pe + verification_ttl"
    and s: "t_users s = us @ [account_row pe d name email password False]"
      "t_email_tokens s = ts @ [\<lparr>tk_token = dr_token d, tk_user = dr_id d, tk_expires = pe_now pe + verification_ttl\<rparr>]"
  shows "verify_email pe2 base [(''token'', dr_token d)] s =
    (Inr (redirect_reply (base @ ''/login?verified=1'')),
     s\<lparr>t_users := us @ [account_row pe d name email password True], t_email_tokens := ts\<rparr>)"
proof -
  have no: "filter (\<lambda>t. tk_token t = dr_token d) ts = []" "filter (\<lambda>t. tk_token t \<noteq> dr_token d) ts = ts"
    using tok(1) by (auto simp: filter_empty_conv filter_id_conv) (metis image_eqI)+
  have same: "map (\<lambda>u. if u_id u = dr_id d then u\<lparr>u_verified := True\<rparr> else u) us = us"
    using d(1) by (intro map_idI) (metis image_eqI)
  show ?thesis
    using q d(2) no tok(2) s same
    by (simp add: verify_email_def truthy_def consume_verification_token_def quiet_simps mark_email_verified_def
        update_user_def account_row_def)
qed

text \<open>C27: A new account works from start to end. When nothing fails and nobody has the address yet, a valid
  registration answers 201 and one verification mail goes to the normalized address; until the link is
  used the right password is answered with \<open>EMAIL_NOT_VERIFIED\<close> and no session; using the link within a
  day verifies the account, and from then on the same password, with the address in any case and with
  blanks around it, opens a session signed for exactly the new account.\<close>

theorem signup_verify_login:
  assumes ok: "signup_ok pe d rq name email password s" and early: "login_asks lr email password"
    and time: "t \<le> pe_now pe + verification_ttl" and sec: "truthy (pe_secret pe)"
  shows "\<exists>s1 s2 u jwt.
    register pe True d rq s = (Inr (json_reply 201 (JObj [(''ok'', JBool True), (''requiresVerification'', JBool True)])), s1)
    \<and> outbox s1 = outbox s @ [VerifyMail (norm_email email) (dr_token d)]
    \<and> fst (login pe lr s1) = Inr not_verified_reply
    \<and> verify_email (pe\<lparr>pe_now := t\<rparr>) base [(''token'', dr_token d)] s1
        = (Inr (redirect_reply (base @ ''/login?verified=1'')), s2)
    \<and> fst (login (pe\<lparr>pe_now := t\<rparr>) lr s2) = Inr (signed_in_reply u jwt)
    \<and> us_id u = dr_id d \<and> us_email u = norm_email email
    \<and> sign_jwt (pe_hmac pe) (pe_secret pe) t (claims_of u) = Some jwt"
proof -
  obtain s1 where reg: "register pe True d rq s
      = (Inr (json_reply 201 (JObj [(''ok'', JBool True), (''requiresVerification'', JBool True)])), s1)"
    and s1: "faults s1 = []" "t_users s1 = t_users s @ [account_row pe d name email password False]"
      "t_email_tokens s1 = filter (\<lambda>t. tk_user t \<noteq> dr_id d) (t_email_tokens s)
         @ [\<lparr>tk_token = dr_token d, tk_user = dr_id d, tk_expires = pe_now pe + verification_ttl\<rparr>]"
      "outbox s1 = outbox s @ [VerifyMail (norm_email email) (dr_token d)]"
    using register_quiet [OF ok] ok by (simp add: signup_ok_def)
  have fresh: "dr_id d \<notin> u_id ` set (t_users s)" "norm_email email \<notin> u_email ` set (t_users s)" "dr_token d \<noteq> []"
    "dr_token d \<notin> tk_token ` set (filter (\<lambda>t. tk_user t \<noteq> dr_id d) (t_email_tokens s))"
    using ok by (auto simp: signup_ok_def)
  have h: "verify_password (pe_scrypt pe) password (hash_password (pe_scrypt pe) (dr_salt d) password)"
    using ok by (subst verify_hash_password) (auto simp: signup_ok_def)
  have l1: "fst (login pe lr s1) = Inr not_verified_reply"
    using login_quiet [OF early s1(1) _ h sec, of name False] only_account [OF fresh(2), of pe d name password False]
    unfolding s1(2) by auto
  let ?pe = "pe\<lparr>pe_now := t\<rparr>"
  obtain s2 where ver: "verify_email ?pe base [(''token'', dr_token d)] s1
      = (Inr (redirect_reply (base @ ''/login?verified=1'')), s2)"
    and s2: "faults s2 = []" "t_users s2 = t_users s @ [account_row pe d name email password True]"
    using verify_email_quiet [OF s1(1) fresh(1,3,4) _ s1(2,3), of ?pe base] time s1(1) by simp
  have "filter (\<lambda>u. u_email u = norm_email email) (t_users s2) = [account_row pe d name email password True]"
    using only_account [OF fresh(2)] s2(2) by simp
  from login_quiet [OF early s2(1) this, of ?pe] h sec obtain jwt where
    "fst (login ?pe lr s2) = Inr (signed_in_reply (user_of_row (account_row pe d name email password True)) jwt)"
    "sign_jwt (pe_hmac pe) (pe_secret pe) t (claims_of (user_of_row (account_row pe d name email password True))) = Some jwt"
    by auto
  then show ?thesis using reg s1(4) l1 ver
    by (intro exI [of _ s1] exI [of _ s2] exI conjI) (auto simp: user_of_row_def account_row_def)
qed

definition signup_body :: "int json" where
  "signup_body = JObj [(''name'', JStr ''Cy Doe''), (''email'', JStr ''Cy@x.io''), (''password'', JStr ''long enough'')]"

lemma signup_demo_fields:
  "body_str ''name'' (reread signup_body) = Some ''Cy Doe''" "body_str ''email'' (reread signup_body) = Some ''Cy@x.io''"
  "body_str ''password'' (reread signup_body) = Some ''long enough''" "safe_doc signup_body"
  by (simp_all add: signup_body_def body_str_def member_def)

lemma signup_demo_valid: "valid_name (trim ''Cy Doe'')" "valid_email (trim ''Cy@x.io'')" "trim ''Cy@x.io'' \<noteq> []"
  "norm_email ''Cy@x.io'' = ''cy@x.io''"
  by code_simp+

theorem signup_verify_login_witness:
  "\<exists>s1 s2 u jwt. register demo_env True demo_draws (demo_request signup_body) demo_accounts
        = (Inr (json_reply 201 (JObj [(''ok'', JBool True), (''requiresVerification'', JBool True)])), s1)
      \<and> verify_email (demo_env\<lparr>pe_now := 2000\<rparr>) ''https://lelu'' [(''token'', ''fresh'')] s1
        = (Inr (redirect_reply ''https://lelu/login?verified=1''), s2)
      \<and> fst (login (demo_env\<lparr>pe_now := 2000\<rparr>) (demo_request signup_body) s2) = Inr (signed_in_reply u jwt)
      \<and> us_id u = ''u9''"
proof -
  have ok: "signup_ok demo_env demo_draws (demo_request signup_body) ''Cy Doe'' ''Cy@x.io'' ''long enough'' demo_accounts"
    by (simp add: signup_ok_def parsed_demo signup_demo_fields signup_demo_valid)
      (simp add: demo_accounts_def demo_db_def demo_user_def demo_env_def demo_draws_def)
  have asks: "login_asks (demo_request signup_body) ''Cy@x.io'' ''long enough''"
    by (simp add: login_asks_def parsed_demo signup_demo_fields signup_demo_valid)
  show ?thesis
    using signup_verify_login [OF ok asks, of 2000 "''https://lelu''"]
    by (auto simp: demo_env_def verification_ttl_def truthy_def demo_draws_def)
qed

end
