(* ===== verification/AuthorizeProps.thy ===== *)
theory AuthorizeProps
  imports AuthorizeRoute AccountFlow
begin

text \<open>
  What the hosted authorization routes guarantee: an allow for a cloud key is the engine's own, the
  engine is asked at most once and only for a live key within its quota, the quota holds over any
  sequence of calls, every decision is logged, and the sandbox never allows an attack it detects.
\<close>

section \<open>The parts\<close>

definition plan_of :: "string \<Rightarrow> db \<Rightarrow> string" where
  "plan_of uid s = (case find_first (\<lambda>u. u_id u = uid) (t_users s) of None \<Rightarrow> ''free'' | Some u \<Rightarrow> u_plan u)"

text \<open>What every step of the route before the log entry leaves alone.\<close>

definition same_rows :: "db \<Rightarrow> db \<Rightarrow> bool" where
  "same_rows s s' = (t_audit s' = t_audit s \<and> t_users s' = t_users s \<and> (faults s = [] \<longrightarrow> faults s' = []))"

lemma faults_tick [simp]: "faults (tick s) = tl (faults s)"
  by (simp add: tick_def)

lemma same_rowsD:
  "same_rows s s' \<Longrightarrow> monthly_usage m uid s' = monthly_usage m uid s"
  "same_rows s s' \<Longrightarrow> plan_of uid s' = plan_of uid s"
  "same_rows s s' \<Longrightarrow> user_exists uid s' = user_exists uid s"
  by (simp_all add: same_rows_def monthly_usage_def plan_of_def user_exists_def)

lemma check_quota_cases:
  assumes "check_quota m uid s = (r, s')"
  shows "same_rows s s' \<and> engine_log s' = engine_log s
    \<and> (r = Inl DbError \<or> (\<exists>q. r = Inr q \<and> q_used q = monthly_usage m uid s \<and> q_limit q = limit_for_plan (plan_of uid s)
         \<and> q_plan q = plan_of uid s \<and> q_allowed q = (q_used q < q_limit q)))"
  using assms
  by (auto simp: check_quota_def get_user_plan_def get_monthly_usage_def ensure_schema_def andthen_apply Let_def
      monthly_usage_def plan_of_def same_rows_def split: prod.splits sum.splits dest!: query_cases select_cases)

lemma validate_frame:
  assumes "validate_api_key sha now key s = (r, s')"
  shows "same_rows s s' \<and> engine_log s' = engine_log s"
  using assms
  by (auto simp: validate_api_key_def andthen_apply same_rows_def
      split: prod.splits sum.splits list.splits if_splits option.splits dest!: select_cases update_cases)

text \<open>The request a live call sends.\<close>

definition live_request :: "gateway \<Rightarrow> string \<Rightarrow> jsnum json \<Rightarrow> string \<Rightarrow> string \<times> string option \<times> jsnum json" where
  "live_request gw uid body tool = (engine_base gw @ ''/v1/agent/authorize'',
     if truthy (gw_engine_key gw) then gw_engine_key gw else None, engine_request uid body tool)"

definition engine_says :: "gateway \<Rightarrow> string \<Rightarrow> jsnum json \<Rightarrow> string \<Rightarrow> jsnum json \<Rightarrow> bool" where
  "engine_says gw uid body tool d =
     (case gw_engine gw (engine_base gw @ ''/v1/agent/authorize'') (engine_request uid body tool) of
        NoAnswer \<Rightarrow> False
      | HttpAnswer status text \<Rightarrow> http_ok status \<and> parse_json text = Some d)"

lemma ask_live: "ask_engine gw ''/v1/agent/authorize'' (engine_request uid body tool) s =
    (Inr (gw_engine gw (engine_base gw @ ''/v1/agent/authorize'') (engine_request uid body tool)),
     s\<lparr>engine_log := engine_log s @ [live_request gw uid body tool]\<rparr>)"
  by (simp add: ask_engine_def live_request_def Let_def)

lemma engine_outcome_cases:
  obtains (refused) c m where "engine_outcome q a = Inl (error_reply c m)" "c \<noteq> 200"
  | (answered) d status tx where "engine_outcome q a = Inr (engine_result q d)" "a = HttpAnswer status tx" "http_ok status"
      "parse_json tx = Some d" "truthy_value d"
proof (cases "\<exists>status tx d. a = HttpAnswer status tx \<and> http_ok status \<and> parse_json tx = Some d \<and> truthy_value d")
  case True
  then obtain status tx d where "a = HttpAnswer status tx" "http_ok status" "parse_json tx = Some d" "truthy_value d"
    by blast
  then show thesis by (intro that(2)) (simp_all add: engine_outcome_def)
next
  case False
  then have "(\<exists>m. engine_outcome q a = Inl (error_reply 503 m)) \<or> (\<exists>m. engine_outcome q a = Inl (error_reply 502 m))"
    by (auto simp: engine_outcome_def Let_def split: http_answer.split option.split)
  then show thesis
  proof (elim disjE exE)
    fix m assume "engine_outcome q a = Inl (error_reply 503 m)"
    then show thesis by (rule that(1)) simp
  next
    fix m assume "engine_outcome q a = Inl (error_reply 502 m)"
    then show thesis by (rule that(1)) simp
  qed
qed

lemma live_decide_cases:
  assumes "live_decide gw uid body tool s = (r, s')"
  shows "same_rows s s'
    \<and> (r = Inl DbError \<and> engine_log s' = engine_log s
       \<or> (\<exists>q. r = Inr (Inl (quota_reply q)) \<and> engine_log s' = engine_log s)
       \<or> monthly_usage (gw_month gw) uid s < limit_for_plan (plan_of uid s)
         \<and> engine_log s' = engine_log s @ [live_request gw uid body tool]
         \<and> ((\<exists>c m. r = Inr (Inl (error_reply c m)) \<and> c \<noteq> 200)
            \<or> (\<exists>q d. r = Inr (Inr (engine_result q d)) \<and> engine_says gw uid body tool d)))"
proof -
  obtain r0 s0 where q: "check_quota (gw_month gw) uid s = (r0, s0)" by force
  note frame = check_quota_cases [OF q]
  consider (err) e where "r0 = Inl e" | (full) q0 where "r0 = Inr q0" "\<not> q_allowed q0"
    | (free) q0 where "r0 = Inr q0" "q_allowed q0" by (cases r0) auto
  then show ?thesis
  proof cases
    case err
    then show ?thesis using assms frame q by (auto simp: live_decide_def andthen_apply)
  next
    case full
    then have "r = Inr (Inl (quota_reply q0)) \<and> s' = s0"
      using assms by (simp add: live_decide_def andthen_apply q)
    then show ?thesis using frame by blast
  next
    case free
    let ?a = "gw_engine gw (engine_base gw @ ''/v1/agent/authorize'') (engine_request uid body tool)"
    have run: "r = Inr (engine_outcome q0 ?a)" "s' = s0\<lparr>engine_log := engine_log s0 @ [live_request gw uid body tool]\<rparr>"
      using assms free by (simp_all add: live_decide_def andthen_apply q ask_live)
    have "same_rows s s'" "engine_log s' = engine_log s @ [live_request gw uid body tool]"
      using frame by (simp_all add: run same_rows_def)
    moreover have "monthly_usage (gw_month gw) uid s < limit_for_plan (plan_of uid s)" using free frame by auto
    moreover have "(\<exists>c m. r = Inr (Inl (error_reply c m)) \<and> c \<noteq> 200)
        \<or> (\<exists>q d. r = Inr (Inr (engine_result q d)) \<and> engine_says gw uid body tool d)"
      by (cases rule: engine_outcome_cases [of q0 ?a]) (auto simp: run engine_says_def)
    ultimately show ?thesis by blast
  qed
qed

text \<open>Why an entry can be missing from the log.\<close>

definition unloggable :: "audit_input \<Rightarrow> db \<Rightarrow> bool" where
  "unloggable i s =
     (faults s \<noteq> [] \<or> \<not> numeric3 (ai_confidence i) < 10
      \<or> ai_decision i \<notin> {''allowed'', ''denied'', ''human_review'', ''compute''}
      \<or> (case ai_user i of None \<Rightarrow> False | Some uid \<Rightarrow> \<not> user_exists uid s))"

lemma insert_audit_cases:
  assumes "insert_audit (audit_row_of i now) s = (r, s')" "numeric3 (ai_confidence i) < 10"
  shows "t_users s' = t_users s \<and> engine_log s' = engine_log s
    \<and> (t_audit s' = t_audit s \<and> unloggable i s \<or> (\<exists>n. t_audit s' = t_audit s @ [(audit_row_of i now)\<lparr>a_id := n\<rparr>]))"
proof -
  obtain r0 s0 where q: "query s = (r0, s0)" by force
  have quiet: "r0 = Inr () \<or> faults s \<noteq> []" using query_quiet [of s] q by (cases "faults s = []") auto
  show ?thesis
    using assms quiet query_cases [OF q]
    by (auto simp: insert_audit_def andthen_apply q unloggable_def audit_row_of_def user_exists_def
        split: prod.splits sum.splits if_splits option.splits)
qed

lemma log_cases:
  assumes "log_audit_event now i s = (r, s')"
  shows "r = Inr () \<and> t_users s' = t_users s \<and> engine_log s' = engine_log s
    \<and> (t_audit s' = t_audit s \<and> unloggable i s \<or> (\<exists>n. t_audit s' = t_audit s @ [(audit_row_of i now)\<lparr>a_id := n\<rparr>]))"
proof -
  obtain r0 s0 where e: "ensure_schema s = (r0, s0)" by force
  obtain r1 s1 where i: "insert_audit (audit_row_of i now) s0 = (r1, s1)" by force
  have s0: "s0 = tick s" using query_cases [OF e [unfolded ensure_schema_def]] by simp
  note f = query_cases [OF e [unfolded ensure_schema_def]] insert_audit_cases [OF i]
  have quiet: "r0 = Inr () \<or> unloggable i s"
    using ensure_quiet [of s] e by (cases "faults s = []") (auto simp: unloggable_def)
  have later: "unloggable i (tick s) \<Longrightarrow> unloggable i s" "\<not> numeric3 (ai_confidence i) < 10 \<Longrightarrow> unloggable i s"
    by (cases "faults s") (auto simp: unloggable_def split: option.splits)
  show ?thesis
    using assms f i quiet later unfolding s0
    by (auto simp: log_audit_event_def try_catch_apply andthen_apply e s0 split: sum.splits if_splits)
qed

text \<open>The entry of this decision has been added to the log, or it could not be.\<close>

definition logged :: "gateway \<Rightarrow> (string \<times> string) option \<Rightarrow> jsnum json \<Rightarrow> string \<Rightarrow> auth_result \<Rightarrow> db \<Rightarrow> db \<Rightarrow> bool" where
  "logged gw who body tool r s s' =
     (t_audit s' = t_audit s \<and> unloggable (audit_of gw who body tool r) s
      \<or> (\<exists>n. t_audit s' = t_audit s @ [(audit_row_of (audit_of gw who body tool r) (pe_now (gw_platform gw)))\<lparr>a_id := n\<rparr>]))"

lemma logged_later: "same_rows s s1 \<Longrightarrow> logged gw who body tool r s1 s' \<Longrightarrow> logged gw who body tool r s s'"
  by (auto simp: logged_def same_rows_def unloggable_def user_exists_def split: option.splits)

lemma conclude_cases:
  assumes "conclude gw who body tool r s = (x, s')"
  shows "x = Inr (decision_reply gw who body tool r) \<and> t_users s' = t_users s \<and> engine_log s' = engine_log s
    \<and> logged gw who body tool r s s'"
proof -
  obtain r1 s1 where l: "log_audit_event (pe_now (gw_platform gw)) (audit_of gw who body tool r) s = (r1, s1)" by force
  show ?thesis using assms log_cases [OF l] by (auto simp: conclude_def andthen_apply l logged_def)
qed

section \<open>The route for keys\<close>

definition refused :: "app_error + reply \<Rightarrow> bool" where
  "refused r = (r = Inl DbError \<or> (\<exists>rp. r = Inr rp \<and> rp_status rp \<noteq> 200))"

definition live_call :: "gateway \<Rightarrow> request \<Rightarrow> db \<Rightarrow> key_row \<Rightarrow> jsnum json \<Rightarrow> string \<Rightarrow> bool" where
  "live_call gw rq s k body tool =
     (\<exists>key. bearer rq = Some key \<and> \<not> starts_with sandbox_prefix key \<and> k \<in> set (t_keys s)
      \<and> live_key (pe_sha256 (gw_platform gw)) (pe_now (gw_platform gw)) key k
      \<and> parsed_body rq = Some body \<and> checked_tool body = Inr tool
      \<and> monthly_usage (gw_month gw) (k_user k) s < limit_for_plan (plan_of (k_user k) s))"

lemma error_reply_status [simp]: "rp_status (error_reply c m) = c"
  by (simp add: error_reply_def json_reply_def)

lemma quota_reply_status [simp]: "rp_status (quota_reply q) = 429"
  by (simp add: quota_reply_def json_reply_def)

lemma checked_tool_refuses: "checked_tool body = Inl rp \<Longrightarrow> rp_status rp = 400"
  by (auto simp: checked_tool_def split: option.splits if_splits)

lemma authorize_as_cases:
  assumes "authorize_as gw who rq s = (r, s')"
  shows "t_users s' = t_users s
    \<and> (refused r \<and> engine_log s' = engine_log s \<and> t_audit s' = t_audit s
       \<or> (\<exists>body tool. parsed_body rq = Some body \<and> checked_tool body = Inr tool
          \<and> (case who of
               None \<Rightarrow> engine_log s' = engine_log s \<and> r = Inr (decision_reply gw None body tool (sandbox_decide gw body tool))
                 \<and> logged gw None body tool (sandbox_decide gw body tool) s s'
             | Some (uid, kid) \<Rightarrow>
                 monthly_usage (gw_month gw) uid s < limit_for_plan (plan_of uid s)
                 \<and> engine_log s' = engine_log s @ [live_request gw uid body tool]
                 \<and> (refused r \<and> t_audit s' = t_audit s
                    \<or> (\<exists>q d. engine_says gw uid body tool d
                         \<and> r = Inr (decision_reply gw who body tool (engine_result q d))
                         \<and> logged gw who body tool (engine_result q d) s s')))))"
proof (cases "parsed_body rq")
  case None
  then show ?thesis using assms by (auto simp: authorize_as_def refused_def)
next
  case (Some body)
  show ?thesis
  proof (cases "checked_tool body")
    case (Inl rp)
    then show ?thesis using assms Some checked_tool_refuses [OF Inl] by (auto simp: authorize_as_def refused_def)
  next
    case (Inr tool)
    show ?thesis
    proof (cases who)
      case None
      then have "conclude gw None body tool (sandbox_decide gw body tool) s = (r, s')"
        using assms Some Inr by (simp add: authorize_as_def)
      from conclude_cases [OF this] Some Inr None show ?thesis by auto
    next
      case w: (Some p)
      obtain uid kid where p: "p = (uid, kid)" by force
      obtain x s1 where d: "live_decide gw uid body tool s = (x, s1)" by force
      note live = live_decide_cases [OF d]
      show ?thesis
      proof (cases "\<exists>res. x = Inr (Inr res)")
        case True
        then obtain res where x: "x = Inr (Inr res)" by blast
        then have run: "conclude gw who body tool res s1 = (r, s')"
          using assms Some Inr w p by (simp add: authorize_as_def andthen_apply d)
        obtain q dd where res: "res = engine_result q dd" "engine_says gw uid body tool dd"
          and frame: "engine_log s1 = engine_log s @ [live_request gw uid body tool]"
          "monthly_usage (gw_month gw) uid s < limit_for_plan (plan_of uid s)" "same_rows s s1"
          using live x by auto
        have us: "t_users s1 = t_users s" using frame(3) by (simp add: same_rows_def)
        note c = conclude_cases [OF run]
        have "logged gw who body tool (engine_result q dd) s s'"
          using c logged_later [OF frame(3)] res(1) by blast
        then show ?thesis using c frame(1,2) res us Some Inr w p by auto
      next
        case False
        then have "r = (case x of Inl e \<Rightarrow> Inl e | Inr y \<Rightarrow> Inr (projl y))" "s' = s1"
          using assms Some Inr w p by (auto simp: authorize_as_def andthen_apply d split: sum.splits)
        with live Some Inr w p False show ?thesis by (auto simp: same_rows_def refused_def)
      qed
    qed
  qed
qed

lemma authorize_cases:
  assumes "authorize gw rq s = (r, s')"
  obtains (refusal) "t_users s' = t_users s" "refused r" "engine_log s' = engine_log s" "t_audit s' = t_audit s"
  | (sandbox) key body tool where "t_users s' = t_users s" "bearer rq = Some key" "starts_with sandbox_prefix key"
      "parsed_body rq = Some body" "checked_tool body = Inr tool" "engine_log s' = engine_log s"
      "r = Inr (decision_reply gw None body tool (sandbox_decide gw body tool))"
      "logged gw None body tool (sandbox_decide gw body tool) s s'"
  | (live) k body tool where "t_users s' = t_users s" "live_call gw rq s k body tool"
      "engine_log s' = engine_log s @ [live_request gw (k_user k) body tool]"
      "refused r \<and> t_audit s' = t_audit s
       \<or> (\<exists>q d. engine_says gw (k_user k) body tool d
            \<and> r = Inr (decision_reply gw (Some (k_user k, k_id k)) body tool (engine_result q d))
            \<and> logged gw (Some (k_user k, k_id k)) body tool (engine_result q d) s s')"
proof (cases "bearer rq")
  case None
  then show thesis using assms by (intro refusal) (auto simp: authorize_def refused_def)
next
  case (Some key)
  show thesis
  proof (cases "starts_with sandbox_prefix key")
    case True
    then have "authorize_as gw None rq s = (r, s')" using assms Some by (simp add: authorize_def)
    from authorize_as_cases [OF this] Some True show thesis using refusal sandbox by auto
  next
    case False
    obtain v s1 where v: "validate_api_key (pe_sha256 (gw_platform gw)) (pe_now (gw_platform gw)) key s = (v, s1)" by force
    note frame = validate_frame [OF v]
    consider (bad) "refused r" "s' = s1"
      | (ok) k where "k \<in> set (t_keys s)" "live_key (pe_sha256 (gw_platform gw)) (pe_now (gw_platform gw)) key k"
          "authorize_as gw (Some (k_user k, k_id k)) rq s1 = (r, s')"
      using validate_cases [OF v] assms Some False by (auto simp: authorize_def andthen_apply v refused_def)
    then show thesis
    proof cases
      case bad
      then show thesis using frame by (intro refusal) (auto simp: same_rows_def)
    next
      case ok
      let ?who = "Some (k_user k, k_id k)"
      have rows: "t_users s1 = t_users s" "t_audit s1 = t_audit s" "engine_log s1 = engine_log s"
        "monthly_usage (gw_month gw) (k_user k) s1 = monthly_usage (gw_month gw) (k_user k) s"
        "plan_of (k_user k) s1 = plan_of (k_user k) s"
        using frame same_rowsD [of s s1] by (simp_all add: same_rows_def)
      have ss: "same_rows s s1" using frame by simp
      note as = authorize_as_cases [OF ok(3), unfolded rows option.case prod.case]
      consider (r) "refused r" "engine_log s' = engine_log s" "t_audit s' = t_audit s"
        | (a) body tool where "parsed_body rq = Some body" "checked_tool body = Inr tool"
            "monthly_usage (gw_month gw) (k_user k) s < limit_for_plan (plan_of (k_user k) s)"
            "engine_log s' = engine_log s @ [live_request gw (k_user k) body tool]"
            "refused r \<and> t_audit s' = t_audit s
             \<or> (\<exists>q d. engine_says gw (k_user k) body tool d
                  \<and> r = Inr (decision_reply gw ?who body tool (engine_result q d))
                  \<and> logged gw ?who body tool (engine_result q d) s s')"
        using as logged_later [OF ss] by blast
      then show thesis
      proof cases
        case r
        then show thesis using refusal as by blast
      next
        case a
        have "live_call gw rq s k body tool" using a(1-3) ok(1,2) Some False by (auto simp: live_call_def)
        then show thesis using live a(4,5) as by blast
      qed
    qed
  qed
qed

section \<open>Reading the reply\<close>

lemma decision_reply_members:
  "member ''decision'' (rp_body (decision_reply gw who body tool r)) = Some (JStr (decision_name (ar_decision r)))"
  "member ''mode'' (rp_body (decision_reply gw who body tool r)) = Some (JStr (mode_of who))"
  "rp_status (decision_reply gw who body tool r) = 200"
  unfolding decision_reply_def json_reply_def by (simp_all add: member_lookup del: rev.simps(2) rev_append append.simps)

lemma decision_name_inj: "decision_name d = decision_name d' \<longleftrightarrow> d = d'"
  by (cases d; cases d') simp_all

text \<open>C1: For a cloud key, an allow is the engine's own and nothing else. When the route answers a live
  request with \<open>allow\<close>, the presented key is stored, neither revoked nor expired, its owner still has
  quota this month, exactly one request went to the engine, naming the owner as tenant and the requested
  tool, and the engine answered it with success, with \<open>allowed\<close> and with neither \<open>compute\<close> nor
  \<open>requires_human_review\<close>. No failing statement, missing engine or malformed answer turns into an
  allow.\<close>

theorem live_allow_is_the_engines:
  assumes "authorize gw rq s = (Inr rp, s')" "member ''mode'' (rp_body rp) = Some (JStr ''live'')"
    "member ''decision'' (rp_body rp) = Some (JStr ''allow'')" "rp_status rp = 200"
  shows "\<exists>k body tool d. live_call gw rq s k body tool
    \<and> engine_log s' = engine_log s @ [live_request gw (k_user k) body tool]
    \<and> engine_says gw (k_user k) body tool d
    \<and> truthy_json (member ''allowed'' d) \<and> \<not> truthy_json (member ''compute'' d)
    \<and> \<not> truthy_json (member ''requires_human_review'' d)"
  using assms(1)
proof (cases rule: authorize_cases)
  case refusal
  then show ?thesis using assms(4) by (simp add: refused_def)
next
  case sandbox
  then show ?thesis using assms(2) by (simp add: decision_reply_members mode_of_def)
next
  case (live k body tool)
  then obtain q d where q: "engine_says gw (k_user k) body tool d"
    "rp = decision_reply gw (Some (k_user k, k_id k)) body tool (engine_result q d)"
    using assms(4) by (auto simp: refused_def)
  then have "decision_name (engine_choice d) = decision_name Allow"
    using assms(3) by (simp add: decision_reply_members engine_result_def)
  then have "engine_choice d = Allow" by (simp only: decision_name_inj)
  then show ?thesis using live q(1) by (auto simp: engine_choice_def split: if_splits)
qed

text \<open>The engine is only asked for live calls. Whatever request arrives and whatever fails, either
  nothing is sent to the engine (so in particular for sandbox keys, unknown, revoked or expired keys,
  refused bodies and exhausted quotas), or exactly one request is sent, for a stored live key of an
  account that is within its quota.\<close>

theorem engine_asked_once_for_live_calls:
  assumes "authorize gw rq s = (r, s')"
  shows "engine_log s' = engine_log s
    \<or> (\<exists>k body tool. live_call gw rq s k body tool
         \<and> engine_log s' = engine_log s @ [live_request gw (k_user k) body tool])"
  using assms by (cases rule: authorize_cases) auto

section \<open>Quota\<close>

definition month_call :: "int \<Rightarrow> gateway \<times> request \<Rightarrow> db \<Rightarrow> db" where
  "month_call m = (\<lambda>(gw, rq) s. snd (authorize (gw\<lparr>gw_month := m\<rparr>) rq s))"

lemma usage_append:
  "t_audit s' = t_audit s @ [a] \<Longrightarrow>
     monthly_usage m uid s' \<le> Suc (monthly_usage m uid s)
     \<and> (a_user a \<noteq> Some uid \<or> a_mode a \<noteq> ''live'' \<longrightarrow> monthly_usage m uid s' = monthly_usage m uid s)"
  by (simp add: monthly_usage_def)

lemma month_call_usage:
  "monthly_usage m uid (month_call m c s) \<le> max (monthly_usage m uid s) (limit_for_plan (plan_of uid s))
   \<and> plan_of uid (month_call m c s) = plan_of uid s"
proof -
  obtain gw rq where c: "c = (gw, rq)" by force
  let ?gw = "gw\<lparr>gw_month := m\<rparr>"
  obtain r s' where run: "authorize ?gw rq s = (r, s')" by force
  have s': "month_call m c s = s'" by (simp add: month_call_def c run)
  have "monthly_usage m uid s' \<le> max (monthly_usage m uid s) (limit_for_plan (plan_of uid s)) \<and> plan_of uid s' = plan_of uid s"
    using run
  proof (cases rule: authorize_cases)
    case refusal
    then show ?thesis by (simp add: monthly_usage_def plan_of_def)
  next
    case (sandbox key body tool)
    then have "monthly_usage m uid s' = monthly_usage m uid s"
      by (auto simp: logged_def monthly_usage_def audit_row_of_def audit_of_def mode_of_def)
    then show ?thesis using sandbox(1) by (simp add: plan_of_def)
  next
    case (live k body tool)
    have plan: "plan_of uid s' = plan_of uid s" using live(1) by (simp add: plan_of_def)
    show ?thesis
    proof (cases "t_audit s' = t_audit s")
      case True
      then show ?thesis using plan by (simp add: monthly_usage_def)
    next
      case False
      then obtain a where a: "t_audit s' = t_audit s @ [a]" "a_user a = Some (k_user k)"
        using live(4) by (auto simp: logged_def audit_row_of_def audit_of_def)
      have "monthly_usage m uid s' \<le> max (monthly_usage m uid s) (limit_for_plan (plan_of uid s))"
      proof (cases "k_user k = uid")
        case True
        then have "monthly_usage m uid s < limit_for_plan (plan_of uid s)" using live(2) by (auto simp: live_call_def)
        with usage_append [OF a(1), of m uid] show ?thesis by simp
      next
        case False
        with usage_append [OF a(1), of m uid] a(2) show ?thesis by simp
      qed
      then show ?thesis using plan by simp
    qed
  qed
  then show ?thesis by (simp only: s')
qed


section \<open>The log\<close>

lemma logged_entry:
  assumes "logged gw who body tool res s s'"
  shows "t_audit s' = t_audit s \<and> unloggable (audit_of gw who body tool res) s
    \<or> (\<exists>a. t_audit s' = t_audit s @ [a] \<and> a_user a = map_option fst who \<and> a_key a = map_option snd who
         \<and> a_action a = trim tool \<and> a_decision a = decision_mapped (ar_decision res)
         \<and> a_rule a = ar_rule res \<and> a_mode a = mode_of who)"
  using assms unfolding logged_def by (auto simp: audit_row_of_def audit_of_def)

text \<open>Every decision leaves its trace. An answer other than 200 adds nothing to the audit log; an
  answer of 200 is the decision of one result and exactly one entry for it is appended, with the
  decision, its rule, the tool, the account and key (or the sandbox) and the mode, unless a statement
  fails, the account has been deleted in between or the engine reports a confidence that does not fit.\<close>

theorem every_decision_is_logged:
  assumes "authorize gw rq s = (Inr rp, s')"
  shows "if rp_status rp \<noteq> 200 then t_audit s' = t_audit s
    else \<exists>who body tool res. rp = decision_reply gw who body tool res
      \<and> (t_audit s' = t_audit s \<and> unloggable (audit_of gw who body tool res) s
         \<or> (\<exists>a. t_audit s' = t_audit s @ [a] \<and> a_user a = map_option fst who \<and> a_key a = map_option snd who
              \<and> a_action a = trim tool \<and> a_decision a = decision_mapped (ar_decision res)
              \<and> a_rule a = ar_rule res \<and> a_mode a = mode_of who))"
  using assms
proof (cases rule: authorize_cases)
  case refusal
  then show ?thesis by (auto simp: refused_def)
next
  case (sandbox key body tool)
  then have q: "rp = decision_reply gw None body tool (sandbox_decide gw body tool)" by simp
  then have "rp_status rp = 200" by (simp add: decision_reply_members)
  then show ?thesis using q logged_entry [OF sandbox(8)] by (simp only: if_False simp_thms) blast
next
  case (live k body tool)
  show ?thesis
  proof (cases "rp_status rp = 200")
    case False
    then show ?thesis using live(4) by (auto simp: decision_reply_members)
  next
    case True
    then obtain q d where q: "rp = decision_reply gw (Some (k_user k, k_id k)) body tool (engine_result q d)"
      and l: "logged gw (Some (k_user k, k_id k)) body tool (engine_result q d) s s'"
      using live(4) by (auto simp: refused_def)
    show ?thesis
      using True q logged_entry [OF l] by (simp only: if_False simp_thms) blast
  qed
qed

section \<open>The sandbox\<close>

lemma ask_engine_public:
  "ask_engine gw path b s = (Inr (gw_engine gw (engine_base gw @ path) b),
     s\<lparr>engine_log := engine_log s @ [(engine_base gw @ path, if truthy (gw_engine_key gw) then gw_engine_key gw else None, b)]\<rparr>)"
  by (simp add: ask_engine_def Let_def)

text \<open>The sandbox never lets a detected attack pass, and otherwise follows its table. When the engine
  does not answer, the public sandbox route answers a well-formed request with \<open>deny\<close> if the detector
  finds something in any field of the request, and else with the verdict of the local rules.\<close>

theorem sandbox_falls_back_to_detector_and_rules:
  assumes down: "\<And>url b. gw_engine gw url b = NoAnswer"
    and body: "parsed_body rq = Some body" "body_str ''tool'' body = Some tool" "trim tool \<noteq> []" "length tool \<le> 128"
  shows "\<exists>rp. fst (sandbox_authorize gw rq s) = Inr rp \<and> rp_status rp = 200
    \<and> member ''engineUsed'' (rp_body rp) = Some (JBool False)
    \<and> member ''decision'' (rp_body rp) = Some (JStr (decision_name
        (if detect_injection (gw_lower gw)
             \<lparr>di_tool = FStr (widen (trim tool)), di_context = optional_field gw (map_option JStr (body_str ''context'' body)),
              di_args = optional_field gw (object_args body),
              di_resource = optional_field gw (if is_object (member ''resource'' body) then member ''resource'' body else None),
              di_scope = FAbsent\<rparr> \<noteq> None
         then Deny else tv_decision (local_evaluate (trim tool)))))"
proof -
  have m: "member ''engineUsed'' (rp_body (sandbox_reply gw b t v)) = Some (JBool False)"
    "member ''decision'' (rp_body (sandbox_reply gw b t v)) = Some (JStr (decision_name (tv_decision v)))"
    "rp_status (sandbox_reply gw b t v) = 200" for b t v
    unfolding sandbox_reply_def json_reply_def
    by (simp_all add: member_lookup del: rev.simps(2) rev_append append.simps)
  have "fst (sandbox_authorize gw rq s) = Inr (sandbox_reply gw body (trim tool) (sandbox_local gw body (trim tool)))"
    using body by (simp add: sandbox_authorize_def call_engine_def andthen_apply ask_engine_public down)
  then show ?thesis
    by (auto simp: m sandbox_local_def injection_verdict_def split: option.splits)
qed

text \<open>With a running engine the public sandbox answers without a decision. The engine's endpoint for
  people, which the route asks, answers with \<open>allowed\<close>, \<open>reason\<close> and \<open>trace_id\<close> and no \<open>decision\<close>
  member; the route passes that on as its own answer.\<close>

theorem sandbox_engine_answer_has_no_decision:
  assumes up: "\<And>b. gw_engine gw (engine_base gw @ ''/v1/authorize'') b = HttpAnswer 200 answer"
    and answer: "parse_json answer = Some (JObj kvs)" "''decision'' \<notin> fst ` set kvs"
    and body: "parsed_body rq = Some body" "body_str ''tool'' body = Some tool" "trim tool \<noteq> []" "length tool \<le> 128"
  shows "\<exists>rp. fst (sandbox_authorize gw rq s) = Inr rp \<and> rp_status rp = 200
    \<and> member ''engineUsed'' (rp_body rp) = Some (JBool True) \<and> member ''decision'' (rp_body rp) = None"
proof -
  have "map_of (rev kvs) ''decision'' = None" using answer(2) by (simp add: map_of_eq_None_iff)
  then show ?thesis
    using body answer(1)
    by (simp add: sandbox_authorize_def call_engine_def andthen_apply ask_engine_public up http_ok_def spread_def
        json_reply_def member_def map_add_def)
qed

section \<open>Concrete runs\<close>

definition engine_yes :: "int json" where
  "engine_yes = JObj [(''allowed'', JBool True), (''reason'', JStr ''ok'')]"

definition demo_gateway :: "http_answer \<Rightarrow> gateway" where
  "demo_gateway answer = \<lparr>gw_platform = demo_env, gw_month = 0, gw_engine_url = None, gw_engine_key = None,
     gw_engine = (\<lambda>url b. answer), gw_lower = demo_fold, gw_num_text = (\<lambda>n. []), gw_digest = (\<lambda>v. ''d''),
     gw_request_id = ''req_1'', gw_latency = 5, gw_stamp = ''2024-01-01T00:00:00.000Z''\<rparr>"

definition keyed_db :: db where
  "keyed_db = demo_db\<lparr>t_keys := [\<lparr>k_id = ''k1'', k_user = ''u1'', k_name = ''ci'', k_prefix = ''p'', k_hash = ''lelu_sk_p_q'',
     k_created = 0, k_last_used = None, k_expires = None, k_revoked = False, k_revoked_at = None\<rparr>]\<rparr>"

definition tool_body :: "int json" where
  "tool_body = JObj [(''tool'', JStr ''read_file'')]"

definition keyed_request :: request where
  "keyed_request = \<lparr>rq_auth = Some ''Bearer lelu_sk_p_q'', rq_cookie = None, rq_body = stringify tool_body\<rparr>"

lemma keyed_facts:
  "parsed_body keyed_request = Some (reread tool_body)" "body_str ''tool'' (reread tool_body) = Some ''read_file''"
  "trim ''read_file'' = ''read_file''" "bearer keyed_request = Some ''lelu_sk_p_q''"
  "checked_tool (reread tool_body) = Inr ''read_file''"
proof -
  show t: "trim ''read_file'' = ''read_file''" by code_simp
  show "parsed_body keyed_request = Some (reread tool_body)"
    using parse_stringify [of tool_body] by (simp add: parsed_body_def keyed_request_def) (simp add: tool_body_def)
  show b: "body_str ''tool'' (reread tool_body) = Some ''read_file''"
    by (simp add: tool_body_def body_str_def member_def)
  have "trim (drop 7 ''Bearer lelu_sk_p_q'') = ''lelu_sk_p_q''" "starts_with ''Bearer '' ''Bearer lelu_sk_p_q''" by code_simp+
  then show "bearer keyed_request = Some ''lelu_sk_p_q''" by (simp add: bearer_def keyed_request_def)
  have "bad_confidence (member ''confidence'' (reread tool_body)) = False"
    by (simp add: tool_body_def member_def bad_confidence_def)
  then show "checked_tool (reread tool_body) = Inr ''read_file''"
    using t b by (simp add: checked_tool_def)
qed

lemma engine_yes_parses: "parse_json (stringify engine_yes) = Some (reread engine_yes)"
  by (rule parse_stringify) (simp add: engine_yes_def)

lemma demo_live_runs:
  "\<exists>rp s'. authorize (demo_gateway (HttpAnswer 200 (stringify engine_yes))) keyed_request keyed_db = (Inr rp, s')
     \<and> rp_status rp = 200 \<and> member ''mode'' (rp_body rp) = Some (JStr ''live'')
     \<and> member ''decision'' (rp_body rp) = Some (JStr ''allow'')"
proof -
  let ?gw = "demo_gateway (HttpAnswer 200 (stringify engine_yes))"
  have key: "\<not> starts_with sandbox_prefix ''lelu_sk_p_q''" by (simp add: sandbox_prefix_def starts_with_def)
  have choice: "engine_choice (reread engine_yes) = Allow" "truthy_value (reread engine_yes)"
    by (simp_all add: engine_choice_def engine_yes_def member_def truthy_json_def)
  obtain s1 where v: "validate_api_key (pe_sha256 demo_env) (pe_now demo_env) ''lelu_sk_p_q'' keyed_db
      = (Inr (Some (''u1'', ''k1'')), s1)" and s1: "faults s1 = []" "t_users s1 = t_users keyed_db" "t_audit s1 = []"
    by (simp add: validate_api_key_def quiet_simps keyed_db_def demo_db_def demo_env_def)
  obtain q where q: "check_quota 0 ''u1'' s1 = (Inr q, s1)" "q_allowed q"
    using s1 by (simp add: check_quota_def get_user_plan_def get_monthly_usage_def quiet_simps Let_def monthly_usage_def
        limit_for_plan_def)
  have "live_decide ?gw ''u1'' (reread tool_body) ''read_file'' s1
     = (Inr (Inr (engine_result q (reread engine_yes))),
        s1\<lparr>engine_log := engine_log s1 @ [live_request ?gw ''u1'' (reread tool_body) ''read_file'']\<rparr>)"
    using q choice by (simp add: live_decide_def andthen_apply demo_gateway_def ask_engine_public engine_outcome_def
        engine_yes_parses http_ok_def live_request_def Let_def)
  then have "fst (authorize_as ?gw (Some (''u1'', ''k1'')) keyed_request s1)
      = Inr (decision_reply ?gw (Some (''u1'', ''k1'')) (reread tool_body) ''read_file'' (engine_result q (reread engine_yes)))"
    by (simp add: authorize_as_def keyed_facts andthen_apply conclude_def log_audit_never_fails
        split: prod.split sum.split) (metis fst_conv log_audit_never_fails Inl_Inr_False)
  moreover have "authorize ?gw keyed_request keyed_db = authorize_as ?gw (Some (''u1'', ''k1'')) keyed_request s1"
    using v key by (simp add: authorize_def keyed_facts andthen_apply demo_gateway_def)
  ultimately obtain s' where "authorize ?gw keyed_request keyed_db
      = (Inr (decision_reply ?gw (Some (''u1'', ''k1'')) (reread tool_body) ''read_file'' (engine_result q (reread engine_yes))), s')"
    by (metis prod.collapse)
  then show ?thesis
    using choice by (auto simp: decision_reply_members mode_of_def engine_result_def)
qed

theorem live_allow_is_the_engines_witness:
  "engine_log (snd (authorize (demo_gateway (HttpAnswer 200 (stringify engine_yes))) keyed_request keyed_db)) =
     [live_request (demo_gateway (HttpAnswer 200 (stringify engine_yes))) ''u1'' (reread tool_body) ''read_file'']"
proof -
  let ?gw = "demo_gateway (HttpAnswer 200 (stringify engine_yes))"
  obtain rp s' where run: "authorize ?gw keyed_request keyed_db = (Inr rp, s')" "rp_status rp = 200"
    "member ''mode'' (rp_body rp) = Some (JStr ''live'')" "member ''decision'' (rp_body rp) = Some (JStr ''allow'')"
    using demo_live_runs by blast
  from live_allow_is_the_engines [OF run(1,3,4,2)] obtain k body tool where
    "live_call ?gw keyed_request keyed_db k body tool"
    "engine_log s' = engine_log keyed_db @ [live_request ?gw (k_user k) body tool]" by blast
  moreover from this(1) have "k_user k = ''u1''" "body = reread tool_body" "tool = ''read_file''"
    by (auto simp: live_call_def keyed_facts keyed_db_def)
  ultimately show ?thesis using run(1) by (simp add: keyed_db_def demo_db_def)
qed

theorem engine_asked_once_for_live_calls_witness:
  "\<exists>r s'. authorize (demo_gateway NoAnswer) keyed_request keyed_db = (r, s')
     \<and> (engine_log s' = engine_log keyed_db
        \<or> engine_log s' = engine_log keyed_db @ [live_request (demo_gateway NoAnswer) ''u1'' (reread tool_body) ''read_file''])"
proof -
  obtain r s' where run: "authorize (demo_gateway NoAnswer) keyed_request keyed_db = (r, s')" by force
  from engine_asked_once_for_live_calls [OF this] run show ?thesis
    by (auto simp: live_call_def keyed_facts keyed_db_def)
qed

theorem every_decision_is_logged_witness:
  "\<exists>rp s'. authorize (demo_gateway (HttpAnswer 200 (stringify engine_yes))) keyed_request keyed_db = (Inr rp, s')
     \<and> length (t_audit s') \<le> 1"
proof -
  obtain rp s' where run: "authorize (demo_gateway (HttpAnswer 200 (stringify engine_yes))) keyed_request keyed_db = (Inr rp, s')"
    "rp_status rp = 200" using demo_live_runs by blast
  have "t_audit keyed_db = []" by (simp add: keyed_db_def demo_db_def)
  then show ?thesis using every_decision_is_logged [OF run(1)] run by auto
qed

theorem sandbox_falls_back_witness:
  "\<exists>rp. fst (sandbox_authorize (demo_gateway NoAnswer) keyed_request demo_db) = Inr rp
     \<and> member ''engineUsed'' (rp_body rp) = Some (JBool False)"
  using sandbox_falls_back_to_detector_and_rules [of "demo_gateway NoAnswer" keyed_request "reread tool_body" "''read_file''" demo_db]
  by (auto simp: keyed_facts demo_gateway_def)

definition human_answer :: "int json" where
  "human_answer = JObj [(''allowed'', JBool False), (''reason'', JStr ''no matching policy''), (''trace_id'', JStr ''t1'')]"

lemma human_answer_parses: "parse_json (stringify human_answer) = Some (reread human_answer)"
  by (rule parse_stringify) (simp add: human_answer_def)

theorem sandbox_engine_answer_has_no_decision_witness:
  "\<exists>rp. fst (sandbox_authorize (demo_gateway (HttpAnswer 200 (stringify human_answer))) keyed_request demo_db) = Inr rp
     \<and> rp_status rp = 200 \<and> member ''decision'' (rp_body rp) = None"
proof -
  have "\<exists>kvs. reread human_answer = JObj kvs \<and> ''decision'' \<notin> fst ` set kvs" by (simp add: human_answer_def)
  then obtain kvs where kvs: "reread human_answer = JObj kvs" "''decision'' \<notin> fst ` set kvs" by blast
  have up: "gw_engine (demo_gateway (HttpAnswer 200 (stringify human_answer))) u b = HttpAnswer 200 (stringify human_answer)"
    for u b by (simp add: demo_gateway_def)
  show ?thesis
    using sandbox_engine_answer_has_no_decision [OF up human_answer_parses [unfolded kvs(1)] kvs(2) keyed_facts(1,2)]
    by (auto simp: keyed_facts)
qed

end
