(* ===== verification/SdkNet.thy ===== *)
theory SdkNet
  imports Http Jwt ToolRules
begin

text \<open>
  The network side of the TypeScript SDK (\<open>sdk/typescript/src/client.ts\<close>): the client object, its
  request helpers and the encoding of path and query parts. The remote server is the script of answers
  \<open>nt_answers\<close>, each with the time it takes; every request is kept in \<open>nt_sent\<close>. A call that takes
  longer than its limit is aborted. When the script has run out the server is unreachable.
\<close>

datatype http_body = NoBody | JsonBody "jsnum json" | TextBody string

record http_request =
  hr_method :: string
  hr_url :: string
  hr_headers :: "(string \<times> string) list"
  hr_body :: http_body

record net =
  nt_now :: int
  nt_answers :: "(nat \<times> http_answer) list"
  nt_jitter :: "nat list"
  nt_sent :: "http_request list"

text \<open>What a call can throw: \<open>AuthEngineError\<close>, a failed or aborted fetch, a body that is not JSON,
  reading a member of \<open>null\<close>, a request the schemas reject, a review without handle.\<close>

datatype sdk_error =
    EngineError "jsnum json" int "jsnum json"
  | NetworkError
  | BadJson
  | NullMember
  | Invalid
  | NoReviewId

type_synonym 'a sdk = "(net, sdk_error, 'a) prog"

record client =
  c_base :: string
  c_timeout :: int
  c_key :: "string option"

section \<open>Path and query encoding\<close>

definition upper_hex_digit :: "nat \<Rightarrow> char" where
  "upper_hex_digit d = (if d < 10 then char_of (48 + d) else char_of (55 + d))"

definition percent :: "char \<Rightarrow> string" where
  "percent b = [CHR 0x25, upper_hex_digit (of_char b div 16), upper_hex_digit (of_char b mod 16)]"

definition unreserved :: "char \<Rightarrow> bool" where
  "unreserved c =
     (let n = of_char c :: nat
      in (48 \<le> n \<and> n \<le> 57) \<or> (65 \<le> n \<and> n \<le> 90) \<or> (97 \<le> n \<and> n \<le> 122)
         \<or> c \<in> {CHR ''-'', CHR ''_'', CHR ''.'', CHR ''!'', CHR ''~'', CHR ''*'', CHR 0x27, CHR ''('', CHR '')''})"

text \<open>\<open>encodeURIComponent\<close>.\<close>

definition encode_component :: "string \<Rightarrow> string" where
  "encode_component s = concat (map (\<lambda>b. if unreserved b then [b] else percent b) (utf8 s))"

text \<open>The serializer of \<open>URLSearchParams\<close>.\<close>

definition form_char :: "char \<Rightarrow> bool" where
  "form_char c =
     (let n = of_char c :: nat
      in (48 \<le> n \<and> n \<le> 57) \<or> (65 \<le> n \<and> n \<le> 90) \<or> (97 \<le> n \<and> n \<le> 122)
         \<or> c \<in> {CHR ''-'', CHR ''_'', CHR ''.'', CHR ''*''})"

definition form_encode :: "string \<Rightarrow> string" where
  "form_encode s = concat (map (\<lambda>b. if b = CHR '' '' then ''+'' else if form_char b then [b] else percent b) (utf8 s))"

definition search_params :: "(string \<times> string) list \<Rightarrow> string" where
  "search_params kvs = join ''&'' (map (\<lambda>(k, v). form_encode k @ ''='' @ form_encode v) kvs)"

text \<open>A query only when there are parameters.\<close>

definition with_query :: "string \<Rightarrow> (string \<times> string) list \<Rightarrow> string" where
  "with_query path kvs = (if kvs = [] then path else path @ ''?'' @ search_params kvs)"

section \<open>Requests\<close>

definition headers :: "client \<Rightarrow> string \<Rightarrow> (string \<times> string) list" where
  "headers c content_type =
     (''Content-Type'', content_type)
     # (if truthy (c_key c) then [(''Authorization'', ''Bearer '' @ the (c_key c))] else [])"

text \<open>\<open>fetch\<close> under an abort timer of \<open>limit\<close> milliseconds.\<close>

definition fetch :: "int \<Rightarrow> http_request \<Rightarrow> (int \<times> string) sdk" where
  "fetch limit r =
     (\<lambda>s. let s1 = s\<lparr>nt_sent := nt_sent s @ [r]\<rparr>
          in case nt_answers s of
               [] \<Rightarrow> (Inl NetworkError, s1)
             | (d, a) # rest \<Rightarrow>
                 (if limit < int d then (Inl NetworkError, s1\<lparr>nt_now := nt_now s + max 0 limit, nt_answers := rest\<rparr>)
                  else
                    (let s2 = s1\<lparr>nt_now := nt_now s + int d, nt_answers := rest\<rparr>
                     in case a of NoAnswer \<Rightarrow> (Inl NetworkError, s2) | HttpAnswer status body \<Rightarrow> (Inr (status, body), s2))))"

definition parse_response :: "int \<times> string \<Rightarrow> jsnum json sdk" where
  "parse_response res =
     (case parse_json (snd res) of
        None \<Rightarrow> throw BadJson
      | Some json \<Rightarrow>
          (if http_ok (fst res) then ret json
           else if json = JNull then throw NullMember
           else throw (EngineError (nullish_json (member ''error'' json) (JStr ''engine error'')) (fst res) json)))"

definition call_json :: "client \<Rightarrow> http_request \<Rightarrow> jsnum json sdk" where
  "call_json c r = andthen (fetch (c_timeout c) r) parse_response"

definition post :: "client \<Rightarrow> string \<Rightarrow> jsnum json \<Rightarrow> jsnum json sdk" where
  "post c path body = call_json c
     \<lparr>hr_method = ''POST'', hr_url = c_base c @ path, hr_headers = headers c ''application/json'', hr_body = JsonBody body\<rparr>"

definition delete :: "client \<Rightarrow> string \<Rightarrow> jsnum json sdk" where
  "delete c path = call_json c
     \<lparr>hr_method = ''DELETE'', hr_url = c_base c @ path, hr_headers = headers c ''application/json'', hr_body = NoBody\<rparr>"

definition get :: "client \<Rightarrow> string \<Rightarrow> jsnum json sdk" where
  "get c path = call_json c
     \<lparr>hr_method = ''GET'', hr_url = c_base c @ path, hr_headers = headers c ''application/json'', hr_body = NoBody\<rparr>"

text \<open>Reading a member of what a call returned throws on \<open>null\<close>.\<close>

definition members :: "jsnum json \<Rightarrow> jsnum json sdk" where
  "members d = (if d = JNull then throw NullMember else ret d)"

section \<open>The constructor\<close>

record client_config =
  cc_base :: "string option"
  cc_timeout :: "int option"
  cc_key :: "string option"

text \<open>\<open>new LeluClient(cfg)\<close>: \<open>env_base\<close> is \<open>LELU_BASE_URL\<close>, \<open>local\<close> what \<open>discoverLocalEngine\<close>
  found (address and key).\<close>

definition new_client :: "string option \<Rightarrow> string option \<times> string option \<Rightarrow> client_config \<Rightarrow> client" where
  "new_client env_base found cfg =
     (let base = (case cc_base cfg of None \<Rightarrow> env_base | Some b \<Rightarrow> Some b);
          (base2, key2) =
            (if base = None \<and> truthy (fst found)
             then (fst found, case cc_key cfg of None \<Rightarrow> snd found | Some k \<Rightarrow> Some k)
             else (base, cc_key cfg))
      in \<lparr>c_base = strip_slash (nullish base2 ''http://localhost:8080''), c_timeout = nullish (cc_timeout cfg) 5000,
          c_key = key2\<rparr>)"

end
