(* ===== verification/SdkClient.thy ===== *)
theory SdkClient
  imports SdkNet
begin

text \<open>
  Authorization and the review queue of the SDK client (\<open>sdk/typescript/src/client.ts\<close>), with the
  request schemas of \<open>types.ts\<close>. Requests are records, so only the checks of the schemas that a value
  of the declared type can fail are left. The members of an engine answer are read without checks, as
  the casts do: any JSON value or \<open>undefined\<close> (\<open>None\<close>). The tracing wrapper only observes.
\<close>

section \<open>Requests and their schemas\<close>

record confidence_signal =
  sg_provider :: string
  sg_logprobs :: "rat list option"
  sg_probs :: "rat list option"
  sg_entropy :: "rat option"
  sg_entropy_max :: "rat option"

record agent_context =
  cx_signal :: "confidence_signal option"
  cx_confidence :: "rat option"
  cx_acting_for :: "string option"
  cx_scope :: "string option"

record authorize_request =
  az_tool :: string
  az_actor :: "string option"
  az_context :: "agent_context option"
  az_args :: "(string \<times> jsnum json) list option"

definition signal_ok :: "confidence_signal \<Rightarrow> bool" where
  "signal_ok sg = (sg_provider sg \<in> {''openai'', ''bedrock'', ''local''})"

definition confidence_ok :: "rat option \<Rightarrow> bool" where
  "confidence_ok c = (case c of None \<Rightarrow> True | Some x \<Rightarrow> 0 \<le> x \<and> x \<le> 1)"

definition context_ok :: "agent_context \<Rightarrow> bool" where
  "context_ok cx = ((case cx_signal cx of None \<Rightarrow> True | Some sg \<Rightarrow> signal_ok sg) \<and> confidence_ok (cx_confidence cx))"

definition authorize_request_ok :: "authorize_request \<Rightarrow> bool" where
  "authorize_request_ok r =
     (1 \<le> length (az_tool r) \<and> length (az_tool r) \<le> 128
      \<and> (case az_context r of None \<Rightarrow> True | Some cx \<Rightarrow> context_ok cx))"

record agent_auth_request =
  aa_actor :: string
  aa_action :: string
  aa_resource :: "(string \<times> string) list option"
  aa_context :: agent_context

definition agent_auth_request_ok :: "agent_auth_request \<Rightarrow> bool" where
  "agent_auth_request_ok r = (aa_actor r \<noteq> [] \<and> aa_action r \<noteq> [] \<and> context_ok (aa_context r))"

definition check :: "bool \<Rightarrow> unit sdk" where
  "check ok = (if ok then ret () else throw Invalid)"

section \<open>Authorization\<close>

definition jnum :: "rat \<Rightarrow> jsnum json" where
  "jnum r = JNum (Fin r)"

definition signal_doc :: "confidence_signal \<Rightarrow> jsnum json" where
  "signal_doc sg = JObj ((''provider'', JStr (sg_provider sg))
     # when_some ''token_logprobs'' (map_option (\<lambda>xs. JArr (map jnum xs)) (sg_logprobs sg))
     @ when_some ''token_probabilities'' (map_option (\<lambda>xs. JArr (map jnum xs)) (sg_probs sg))
     @ when_some ''entropy'' (map_option jnum (sg_entropy sg))
     @ when_some ''entropy_max'' (map_option jnum (sg_entropy_max sg)))"

definition nonempty :: "string option \<Rightarrow> jsnum json option" where
  "nonempty x = (if truthy x then map_option JStr x else None)"

text \<open>The body of both the authorize and the redeem call.\<close>

definition authorize_doc :: "authorize_request \<Rightarrow> jsnum json" where
  "authorize_doc r =
     (let cx = az_context r
      in JObj ((''action'', JStr (az_tool r))
           # when_some ''actor'' (nonempty (az_actor r))
           @ when_some ''confidence_signal'' (map_option signal_doc (Option.bind cx cx_signal))
           @ when_some ''confidence'' (map_option jnum (Option.bind cx cx_confidence))
           @ when_some ''acting_for'' (nonempty (Option.bind cx cx_acting_for))
           @ when_some ''scope'' (nonempty (Option.bind cx cx_scope))
           @ when_some ''args'' (map_option JObj (az_args r))))"

definition authorize_body :: "authorize_request \<Rightarrow> jsnum json sdk" where
  "authorize_body r = andthen (check (authorize_request_ok r)) (\<lambda>_. ret (authorize_doc r))"

record auth_decision =
  ad_request_id :: "jsnum json option"
  ad_tool :: string
  ad_decision :: decision
  ad_reason :: "jsnum json option"
  ad_rule :: string
  ad_latency :: int
  ad_mode :: string
  ad_stamp :: string
  ad_allowed :: "jsnum json option"
  ad_computed :: bool
  ad_safe_tool :: "jsnum json option"
  ad_safe_args :: "jsnum json option"
  ad_downgraded :: "jsnum json option"
  ad_effective :: "jsnum json option"
  ad_review_id :: "jsnum json option"
  ad_input_hash :: "jsnum json option"
  ad_output_hash :: "jsnum json option"
  ad_digest :: "jsnum json option"

text \<open>The first test that holds decides; nothing that holds is a denial.\<close>

definition decision_of :: "jsnum json \<Rightarrow> decision" where
  "decision_of d =
     (if truthy_json (member ''compute'' d) then Compute
      else if truthy_json (member ''requires_human_review'' d) then HumanReview
      else if truthy_json (member ''allowed'' d) then Allow
      else Deny)"

definition auth_decision_of :: "string \<Rightarrow> string \<Rightarrow> jsnum json \<Rightarrow> auth_decision" where
  "auth_decision_of stamp tool d = \<lparr>
     ad_request_id = member ''trace_id'' d, ad_tool = tool, ad_decision = decision_of d, ad_reason = member ''reason'' d,
     ad_rule = [], ad_latency = 0, ad_mode = ''live'', ad_stamp = stamp, ad_allowed = member ''allowed'' d,
     ad_computed = truthy_json (member ''compute'' d), ad_safe_tool = member ''safe_tool'' d,
     ad_safe_args = member ''safe_args'' d, ad_downgraded = member ''downgraded_scope'' d,
     ad_effective = member ''effective_scope'' d, ad_review_id = member ''review_id'' d,
     ad_input_hash = member ''input_hash'' d, ad_output_hash = member ''output_hash'' d,
     ad_digest = member ''policy_digest'' d\<rparr>"

definition client_authorize :: "client \<Rightarrow> string \<Rightarrow> authorize_request \<Rightarrow> auth_decision sdk" where
  "client_authorize c stamp r =
     andthen (check (authorize_request_ok r)) (\<lambda>_.
     andthen (authorize_body r) (\<lambda>body.
     andthen (post c ''/v1/agent/authorize'' body) (\<lambda>d.
     andthen (members d) (\<lambda>d.
     ret (auth_decision_of stamp (az_tool r) d)))))"

record agent_decision = auth_decision +
  gd_review :: bool
  gd_confidence :: rat
  gd_trace :: "jsnum json option"

definition agent_decision_of :: "agent_auth_request \<Rightarrow> auth_decision \<Rightarrow> agent_decision" where
  "agent_decision_of r d = auth_decision.extend d
     \<lparr>gd_review = (ad_decision d = HumanReview), gd_confidence = nullish (cx_confidence (aa_context r)) 0,
      gd_trace = ad_request_id d\<rparr>"

definition client_agent_authorize :: "client \<Rightarrow> string \<Rightarrow> agent_auth_request \<Rightarrow> agent_decision sdk" where
  "client_agent_authorize c stamp r =
     andthen (check (agent_auth_request_ok r)) (\<lambda>_.
     andthen (client_authorize c stamp \<lparr>az_tool = aa_action r, az_actor = Some (aa_actor r), az_context = Some (aa_context r),
                az_args = None\<rparr>) (\<lambda>d.
     ret (agent_decision_of r d)))"

section \<open>Signals\<close>

text \<open>\<open>signalFrom\<close>: what a provider response carries; nothing is made up when it carries none.\<close>

definition signal_from_openai :: "rat list option \<Rightarrow> confidence_signal option" where
  "signal_from_openai tokens =
     (case tokens of None \<Rightarrow> None | Some ts \<Rightarrow>
        if ts = [] then None
        else Some \<lparr>sg_provider = ''openai'', sg_logprobs = Some ts, sg_probs = None, sg_entropy = None, sg_entropy_max = None\<rparr>)"

definition signal_from_anthropic :: "'r \<Rightarrow> confidence_signal option" where
  "signal_from_anthropic response = None"

definition signal_from_bedrock :: "rat list option \<Rightarrow> rat list option \<Rightarrow> confidence_signal option" where
  "signal_from_bedrock logprobs likelihoods =
     (case (case logprobs of Some xs \<Rightarrow> Some xs | None \<Rightarrow> likelihoods) of None \<Rightarrow> None | Some ts \<Rightarrow>
        if ts = [] then None
        else Some \<lparr>sg_provider = ''bedrock'', sg_logprobs = Some ts, sg_probs = None, sg_entropy = None, sg_entropy_max = None\<rparr>)"

definition signal_from_local :: "rat list option \<Rightarrow> rat option \<Rightarrow> rat option \<Rightarrow> confidence_signal option" where
  "signal_from_local probs entropy entropy_max =
     (if (case probs of None \<Rightarrow> False | Some ps \<Rightarrow> ps \<noteq> []) then
        Some \<lparr>sg_provider = ''local'', sg_logprobs = None, sg_probs = probs, sg_entropy = None, sg_entropy_max = None\<rparr>
      else case entropy of
        None \<Rightarrow> None
      | Some e \<Rightarrow> Some \<lparr>sg_provider = ''local'', sg_logprobs = None, sg_probs = None, sg_entropy = Some e,
                       sg_entropy_max = entropy_max\<rparr>)"

text \<open>\<open>confidenceFrom\<close>: \<open>ex\<close> is the exponential function (an argument), every sum and quotient is
  rounded.\<close>

definition mean :: "rat list \<Rightarrow> rat" where
  "mean xs = fl (fold (\<lambda>x a. fl (a + x)) xs 0 / of_nat (length xs))"

definition confidence_from :: "(rat \<Rightarrow> rat) \<Rightarrow> rat list option \<Rightarrow> rat option" where
  "confidence_from ex tokens =
     (case tokens of None \<Rightarrow> None | Some ts \<Rightarrow> if ts = [] then None else Some (max 0 (min 1 (ex (mean ts)))))"

definition confidence_from_bedrock :: "(rat \<Rightarrow> rat) \<Rightarrow> rat list option \<Rightarrow> rat list option \<Rightarrow> rat option" where
  "confidence_from_bedrock ex logprobs likelihoods =
     confidence_from ex (case logprobs of Some xs \<Rightarrow> Some xs | None \<Rightarrow> likelihoods)"

end
