(* ===== verification/SdkIdentity.thy ===== *)
theory SdkIdentity
  imports SdkClient
begin

text \<open>
  Tokens, delegation, the credential vault, registered agents, OAuth clients and non-human identities
  in the SDK client (\<open>sdk/typescript/src/client.ts\<close>, request types of \<open>types.ts\<close>). Most calls post
  or get one document and rename its members; a \<open>view\<close> is the object they return, where a member the
  answer lacks is \<open>undefined\<close> (\<open>None\<close>). Calling \<open>map\<close> on a member that is no array throws, like reading
  a member of \<open>null\<close>.
\<close>

type_synonym view = "(string \<times> jsnum json option) list"

definition view :: "(string \<times> string) list \<Rightarrow> jsnum json \<Rightarrow> view" where
  "view names d = map (\<lambda>(mine, theirs). (mine, member theirs d)) names"

definition strings :: "string list \<Rightarrow> jsnum json" where
  "strings xs = JArr (map JStr xs)"

text \<open>\<open>d => rename(d)\<close> over an array; \<open>null\<close> members throw.\<close>

fun views :: "(string \<times> string) list \<Rightarrow> jsnum json list \<Rightarrow> view list sdk" where
  "views names [] = ret []"
| "views names (d # ds) = andthen (members d) (\<lambda>d. andthen (views names ds) (\<lambda>vs. ret (view names d # vs)))"

definition map_views :: "(string \<times> string) list \<Rightarrow> jsnum json option \<Rightarrow> view list sdk" where
  "map_views names v = (case v of Some (JArr ds) \<Rightarrow> views names ds | _ \<Rightarrow> throw NullMember)"

text \<open>One document for another: post or get it, then rename its members.\<close>

definition renamed :: "(string \<times> string) list \<Rightarrow> jsnum json sdk \<Rightarrow> view sdk" where
  "renamed names m = andthen m (\<lambda>d. andthen (members d) (\<lambda>d. ret (view names d)))"

text \<open>\<open>new Date(x * 1000)\<close> where the engine sent a number, \<open>null\<close>, a truth value or nothing; the
  conversion of a text, an array or an object in its place is left unevaluated.\<close>

datatype date = At int | InvalidDate | DateOf "jsnum json"

definition date_at :: "rat \<Rightarrow> date" where
  "date_at s =
     (let ms = fl (s * 1000)
      in if \<bar>ms\<bar> \<le> 8640000000000000 then At (if ms < 0 then - \<lfloor>- ms\<rfloor> else \<lfloor>ms\<rfloor>) else InvalidDate)"

definition date_of_seconds :: "jsnum json option \<Rightarrow> date" where
  "date_of_seconds v =
     (case v of
        None \<Rightarrow> InvalidDate
      | Some (JNum (Fin s)) \<Rightarrow> date_at s
      | Some (JNum _) \<Rightarrow> InvalidDate
      | Some JNull \<Rightarrow> At 0
      | Some (JBool b) \<Rightarrow> At (if b then 1000 else 0)
      | Some d \<Rightarrow> DateOf d)"

section \<open>Tokens and delegation\<close>

record mint_request =
  mn_scope :: string
  mn_acting_for :: "string option"
  mn_ttl :: "int option"

definition ttl_ok :: "int option \<Rightarrow> bool" where
  "ttl_ok t = (case t of None \<Rightarrow> True | Some n \<Rightarrow> 0 < n)"

definition mint_request_ok :: "mint_request \<Rightarrow> bool" where
  "mint_request_ok r = (mn_scope r \<noteq> [] \<and> ttl_ok (mn_ttl r))"

record token_grant =
  tg_token :: "jsnum json option"
  tg_id :: "jsnum json option"
  tg_expires :: date

definition jwhole :: "int \<Rightarrow> jsnum json" where
  "jwhole n = JNum (Fin (of_int n))"

definition mint_doc :: "mint_request \<Rightarrow> jsnum json" where
  "mint_doc r = JObj ((''scope'', JStr (mn_scope r))
     # when_some ''acting_for'' (map_option JStr (mn_acting_for r))
     @ [(''ttl_seconds'', jwhole (nullish (mn_ttl r) 60))])"

definition grant_of :: "jsnum json \<Rightarrow> token_grant" where
  "grant_of d = \<lparr>tg_token = member ''token'' d, tg_id = member ''token_id'' d,
                 tg_expires = date_of_seconds (member ''expires_at'' d)\<rparr>"

definition mint_token :: "client \<Rightarrow> mint_request \<Rightarrow> token_grant sdk" where
  "mint_token c r =
     andthen (check (mint_request_ok r)) (\<lambda>_.
     andthen (post c ''/v1/tokens/mint'' (mint_doc r)) (\<lambda>d.
     andthen (members d) (\<lambda>d. ret (grant_of d))))"

definition revoke_token :: "client \<Rightarrow> string \<Rightarrow> view sdk" where
  "revoke_token c i = renamed [(''success'', ''success'')] (delete c (''/v1/tokens/'' @ encode_component i))"

record delegate_request =
  dg_delegator :: string
  dg_delegatee :: string
  dg_scoped_to :: "string list option"
  dg_ttl :: "int option"
  dg_confidence :: "rat option"
  dg_acting_for :: "string option"
  dg_tenant :: "string option"

definition delegate_request_ok :: "delegate_request \<Rightarrow> bool" where
  "delegate_request_ok r =
     (dg_delegator r \<noteq> [] \<and> dg_delegatee r \<noteq> [] \<and> [] \<notin> set (nullish (dg_scoped_to r) [])
      \<and> ttl_ok (dg_ttl r) \<and> confidence_ok (dg_confidence r))"

definition delegate_doc :: "delegate_request \<Rightarrow> jsnum json" where
  "delegate_doc r = JObj [
     (''delegator'', JStr (dg_delegator r)), (''delegatee'', JStr (dg_delegatee r)),
     (''scoped_to'', strings (nullish (dg_scoped_to r) [])), (''ttl_seconds'', jwhole (nullish (dg_ttl r) 60)),
     (''confidence'', jnum (nullish (dg_confidence r) 0)), (''acting_for'', JStr (nullish (dg_acting_for r) [])),
     (''tenant_id'', JStr (nullish (dg_tenant r) []))]"

record delegation = token_grant +
  dl_rest :: view

definition delegation_of :: "jsnum json \<Rightarrow> delegation" where
  "delegation_of d = token_grant.extend (grant_of d)
     \<lparr>dl_rest = view [(''delegator'', ''delegator''), (''delegatee'', ''delegatee''),
                (''grantedScopes'', ''granted_scopes''), (''traceId'', ''trace_id'')] d\<rparr>"

definition delegate_scope :: "client \<Rightarrow> delegate_request \<Rightarrow> delegation sdk" where
  "delegate_scope c r =
     andthen (check (delegate_request_ok r)) (\<lambda>_.
     andthen (post c ''/v1/agent/delegate'' (delegate_doc r)) (\<lambda>d.
     andthen (members d) (\<lambda>d. ret (delegation_of d))))"

section \<open>Credential vault\<close>

record vault_request =
  vr_agent :: string
  vr_user :: string
  vr_provider :: string
  vr_access :: string
  vr_refresh :: "string option"
  vr_scopes :: "string list option"
  vr_expires_in :: "rat option"

definition vault_doc :: "vault_request \<Rightarrow> jsnum json" where
  "vault_doc r = JObj ([(''agent_id'', JStr (vr_agent r)), (''user_id'', JStr (vr_user r)),
       (''provider'', JStr (vr_provider r)), (''access_token'', JStr (vr_access r))]
     @ when_some ''refresh_token'' (nonempty (vr_refresh r))
     @ (if nullish (vr_scopes r) [] \<noteq> [] then [(''scopes'', strings (nullish (vr_scopes r) []))] else [])
     @ (if nullish (vr_expires_in r) 0 \<noteq> 0 then [(''expires_in'', jnum (nullish (vr_expires_in r) 0))] else []))"

definition vault_store :: "client \<Rightarrow> vault_request \<Rightarrow> view sdk" where
  "vault_store c r = renamed
     [(''id'', ''id''), (''agentId'', ''agent_id''), (''userId'', ''user_id''), (''provider'', ''provider''),
      (''scopes'', ''scopes''), (''expiresAt'', ''expires_at''), (''createdAt'', ''created_at'')]
     (post c ''/v1/vault/store'' (vault_doc r))"

definition vault_params :: "string \<Rightarrow> string \<Rightarrow> string \<Rightarrow> (string \<times> string) list" where
  "vault_params agent user provider = [(''agent_id'', agent), (''user_id'', user), (''provider'', provider)]"

definition vault_get_token :: "client \<Rightarrow> string \<Rightarrow> string \<Rightarrow> string \<Rightarrow> view sdk" where
  "vault_get_token c agent user provider = renamed
     [(''agentId'', ''agent_id''), (''userId'', ''user_id''), (''provider'', ''provider''),
      (''accessToken'', ''access_token''), (''scopes'', ''scopes''), (''expiresAt'', ''expires_at''),
      (''refreshed'', ''refreshed'')]
     (get c (with_query ''/v1/vault/token'' (vault_params agent user provider)))"

definition vault_revoke :: "client \<Rightarrow> string \<Rightarrow> string \<Rightarrow> string \<Rightarrow> jsnum json sdk" where
  "vault_revoke c agent user provider = delete c (with_query ''/v1/vault/credential'' (vault_params agent user provider))"

definition vault_list :: "client \<Rightarrow> string \<Rightarrow> view list sdk" where
  "vault_list c agent =
     andthen (get c (''/v1/vault/list?agent_id='' @ encode_component agent)) (\<lambda>d.
     andthen (members d) (\<lambda>d.
     map_views
       [(''id'', ''id''), (''agentId'', ''agent_id''), (''userId'', ''user_id''), (''provider'', ''provider''),
        (''scopes'', ''scopes''), (''expiresAt'', ''expires_at''), (''expired'', ''expired''),
        (''createdAt'', ''created_at''), (''updatedAt'', ''updated_at'')]
       (Some (nullish_json (member ''credentials'' d) (JArr [])))))"

definition vault_providers :: "client \<Rightarrow> jsnum json sdk" where
  "vault_providers c =
     andthen (get c ''/v1/vault/providers'') (\<lambda>d.
     andthen (members d) (\<lambda>d. ret (nullish_json (member ''providers'' d) (JArr []))))"

section \<open>Registered agents\<close>

text \<open>\<open>toRegisteredAgent\<close>.\<close>

definition agent_names :: "(string \<times> string) list" where
  "agent_names =
     [(''id'', ''id''), (''tenantId'', ''tenant_id''), (''name'', ''name''), (''description'', ''description''),
      (''agentType'', ''agent_type''), (''ownerEmail'', ''owner_email''), (''status'', ''status''),
      (''scopes'', ''scopes''), (''metadata'', ''metadata''), (''createdAt'', ''created_at''),
      (''updatedAt'', ''updated_at'')]"

record register_request =
  rr_name :: string
  rr_description :: "string option"
  rr_agent_type :: "string option"
  rr_owner :: "string option"
  rr_scopes :: "string list option"
  rr_metadata :: "(string \<times> jsnum json) list option"

definition register_doc :: "register_request \<Rightarrow> jsnum json" where
  "register_doc r = JObj ((''name'', JStr (rr_name r))
     # when_some ''description'' (map_option JStr (rr_description r))
     @ when_some ''agent_type'' (map_option JStr (rr_agent_type r))
     @ when_some ''owner_email'' (map_option JStr (rr_owner r))
     @ when_some ''scopes'' (map_option strings (rr_scopes r))
     @ when_some ''metadata'' (map_option JObj (rr_metadata r)))"

definition register_agent :: "client \<Rightarrow> register_request \<Rightarrow> view sdk" where
  "register_agent c r = renamed agent_names (post c ''/v1/agents'' (register_doc r))"

text \<open>An optional tenant as the only query parameter.\<close>

definition for_tenant :: "string \<Rightarrow> string option \<Rightarrow> string" where
  "for_tenant path tenant = (if truthy tenant then path @ ''?tenant_id='' @ encode_component (the tenant) else path)"

definition client_list_agents :: "client \<Rightarrow> string option \<Rightarrow> (view list \<times> jsnum json option) sdk" where
  "client_list_agents c tenant =
     andthen (get c (for_tenant ''/v1/agents'' tenant)) (\<lambda>d.
     andthen (members d) (\<lambda>d.
     andthen (map_views agent_names (member ''agents'' d)) (\<lambda>vs. ret (vs, member ''count'' d))))"

definition agent_path :: "string \<Rightarrow> string \<Rightarrow> string" where
  "agent_path i suffix = ''/v1/agents/'' @ encode_component i @ suffix"

definition client_get_agent :: "client \<Rightarrow> string \<Rightarrow> view sdk" where
  "client_get_agent c i = renamed agent_names (get c (agent_path i []))"

definition status_names :: "(string \<times> string) list" where
  "status_names = [(''agentId'', ''agent_id''), (''status'', ''status'')]"

definition client_revoke_agent :: "client \<Rightarrow> string \<Rightarrow> view sdk" where
  "client_revoke_agent c i = renamed status_names (delete c (agent_path i []))"

definition suspend_agent :: "client \<Rightarrow> string \<Rightarrow> view sdk" where
  "suspend_agent c i = renamed status_names (post c (agent_path i ''/suspend'') (JObj []))"

definition issue_agent_token :: "client \<Rightarrow> string \<Rightarrow> view sdk" where
  "issue_agent_token c i = renamed
     [(''token'', ''token''), (''agentId'', ''agent_id''), (''scopes'', ''scopes''), (''expiresAt'', ''expires_at''),
      (''issuedAt'', ''issued_at'')]
     (post c (agent_path i ''/token'') (JObj []))"

section \<open>OAuth clients\<close>

record oauth_request =
  or_name :: "string option"
  or_redirects :: "string list option"
  or_grants :: "string list option"
  or_scope :: "string option"
  or_auth :: "string option"

definition oauth_doc :: "oauth_request \<Rightarrow> jsnum json" where
  "oauth_doc r = JObj (when_some ''client_name'' (map_option JStr (or_name r))
     @ when_some ''redirect_uris'' (map_option strings (or_redirects r))
     @ when_some ''grant_types'' (map_option strings (or_grants r))
     @ when_some ''scope'' (map_option JStr (or_scope r))
     @ when_some ''token_endpoint_auth_method'' (map_option JStr (or_auth r)))"

definition register_oauth_client :: "client \<Rightarrow> oauth_request \<Rightarrow> view sdk" where
  "register_oauth_client c r = renamed
     [(''clientId'', ''client_id''), (''clientSecret'', ''client_secret''), (''clientName'', ''client_name''),
      (''redirectUris'', ''redirect_uris''), (''grantTypes'', ''grant_types''), (''scope'', ''scope''),
      (''tokenEndpointAuthMethod'', ''token_endpoint_auth_method''), (''clientIdIssuedAt'', ''client_id_issued_at'')]
     (post c ''/oauth/clients'' (oauth_doc r))"

section \<open>Non-human identities\<close>

text \<open>A view one of whose members is an array that defaults to the empty one.\<close>

definition or_empty :: "string \<Rightarrow> view \<Rightarrow> view" where
  "or_empty k v = map (\<lambda>(n, x). if n = k then (n, Some (nullish_json x (JArr []))) else (n, x)) v"

definition list_nhi :: "client \<Rightarrow> string option \<Rightarrow> view sdk" where
  "list_nhi c tenant = andthen (renamed [(''nhis'', ''nhis''), (''count'', ''count'')]
     (get c (for_tenant ''/v1/nhi/inventory'' tenant))) (\<lambda>v. ret (or_empty ''nhis'' v))"

definition get_nhi :: "client \<Rightarrow> string \<Rightarrow> jsnum json sdk" where
  "get_nhi c i = get c (''/v1/nhi/inventory/'' @ encode_component i)"

text \<open>\<open>show\<close> prints a number as \<open>String\<close> does.\<close>

definition get_top_risks :: "(rat \<Rightarrow> string) \<Rightarrow> client \<Rightarrow> string option \<Rightarrow> rat option \<Rightarrow> view sdk" where
  "get_top_risks show_num c tenant limit = andthen (renamed [(''topRisks'', ''top_risks''), (''count'', ''count'')]
     (get c (with_query ''/v1/nhi/risks''
        ((if truthy tenant then [(''tenant_id'', the tenant)] else [])
         @ (if nullish limit 0 \<noteq> 0 then [(''limit'', show_num (nullish limit 0))] else [])))))
     (\<lambda>v. ret (or_empty ''topRisks'' v))"

definition trigger_nhi_scan :: "client \<Rightarrow> string option \<Rightarrow> view sdk" where
  "trigger_nhi_scan c tenant = andthen (renamed
     [(''tenantId'', ''tenant_id''), (''scannedAt'', ''scanned_at''), (''totalNhis'', ''total_nhis''),
      (''byType'', ''by_type''), (''byStatus'', ''by_status''), (''byRiskLevel'', ''by_risk_level''),
      (''topRisks'', ''top_risks''), (''findingCounts'', ''finding_counts'')]
     (post c (for_tenant ''/v1/nhi/scan'' tenant) (JObj []))) (\<lambda>v. ret (or_empty ''topRisks'' v))"

definition get_nhi_stats :: "client \<Rightarrow> string option \<Rightarrow> view sdk" where
  "get_nhi_stats c tenant = renamed
     [(''tenantId'', ''tenant_id''), (''totalNhis'', ''total_nhis''), (''byType'', ''by_type''),
      (''byStatus'', ''by_status''), (''byRiskLevel'', ''by_risk_level''), (''generatedAt'', ''generated_at'')]
     (get c (for_tenant ''/v1/nhi/stats'' tenant))"

end
