(* ===== verification/SdkAdmin.thy ===== *)
theory SdkAdmin
  imports SdkIdentity
begin

text \<open>
  The administrative calls of the SDK client: health, the engine's policy, the audit log and the stored
  policies of the hosted platform, behavioural analytics (\<open>sdk/typescript/src/client.ts\<close>). A call that
  has its own timer and \<open>fetch\<close> in the source is \<open>call_json\<close>, the text it shares with the helpers.
  \<open>show_num\<close> prints a number as \<open>String\<close> does.
\<close>

section \<open>Health, shadow mode, fallback\<close>

definition get_request :: "client \<Rightarrow> string \<Rightarrow> http_request" where
  "get_request c path =
     \<lparr>hr_method = ''GET'', hr_url = c_base c @ path, hr_headers = headers c ''application/json'', hr_body = NoBody\<rparr>"

definition is_healthy :: "client \<Rightarrow> bool sdk" where
  "is_healthy c =
     try_catch (andthen (fetch (c_timeout c) (get_request c ''/healthz'')) (\<lambda>res. ret (http_ok (fst res)))) (\<lambda>e. ret False)"

definition get_shadow_summary :: "(rat \<Rightarrow> string) \<Rightarrow> client \<Rightarrow> rat option \<Rightarrow> jsnum json sdk" where
  "get_shadow_summary show_num c window =
     get c (''/v1/shadow/summary?window_minutes='' @ show_num (nullish window 60))"

definition get_fallback_status :: "client \<Rightarrow> jsnum json sdk" where
  "get_fallback_status c = get c ''/v1/fallback/status''"

section \<open>Engine policy\<close>

definition simulator_replay :: "client \<Rightarrow> jsnum json \<Rightarrow> jsnum json sdk" where
  "simulator_replay c request = post c ''/v1/simulator/replay'' request"

definition get_engine_policy :: "client \<Rightarrow> jsnum json sdk" where
  "get_engine_policy c = get c ''/v1/policy''"

definition validate_policy :: "client \<Rightarrow> string \<Rightarrow> jsnum json sdk" where
  "validate_policy c policy = call_json c
     \<lparr>hr_method = ''POST'', hr_url = c_base c @ ''/v1/policy/validate'', hr_headers = headers c ''application/x-yaml'',
      hr_body = TextBody policy\<rparr>"

definition put_engine_policy :: "client \<Rightarrow> string \<Rightarrow> string option \<Rightarrow> jsnum json sdk" where
  "put_engine_policy c policy if_match = call_json c
     \<lparr>hr_method = ''PUT'', hr_url = c_base c @ ''/v1/policy'',
      hr_headers = headers c ''application/x-yaml'' @ (if truthy if_match then [(''If-Match'', the if_match)] else []),
      hr_body = TextBody policy\<rparr>"

section \<open>Audit log\<close>

record audit_request =
  aq_limit :: "rat option"
  aq_cursor :: "rat option"
  aq_actor :: "string option"
  aq_action :: "string option"
  aq_decision :: "string option"
  aq_trace :: "string option"
  aq_from :: "string option"
  aq_to :: "string option"

definition param :: "string \<Rightarrow> string option \<Rightarrow> (string \<times> string) list" where
  "param k v = (if truthy v then [(k, the v)] else [])"

definition num_param :: "(rat \<Rightarrow> string) \<Rightarrow> string \<Rightarrow> rat option \<Rightarrow> (string \<times> string) list" where
  "num_param show_num k v = (case v of None \<Rightarrow> [] | Some n \<Rightarrow> [(k, show_num n)])"

definition audit_params :: "(rat \<Rightarrow> string) \<Rightarrow> audit_request \<Rightarrow> (string \<times> string) list" where
  "audit_params show_num r =
     num_param show_num ''limit'' (aq_limit r) @ num_param show_num ''cursor'' (aq_cursor r)
     @ param ''actor'' (aq_actor r) @ param ''action'' (aq_action r) @ param ''decision'' (aq_decision r)
     @ param ''trace_id'' (aq_trace r) @ param ''from'' (aq_from r) @ param ''to'' (aq_to r)"

text \<open>\<open>x || []\<close> for a member of a view.\<close>

definition or_array :: "string \<Rightarrow> view \<Rightarrow> view" where
  "or_array k v = map (\<lambda>(n, x). if n = k \<and> \<not> truthy_json x then (n, Some (JArr [])) else (n, x)) v"

definition client_list_audit_events :: "(rat \<Rightarrow> string) \<Rightarrow> client \<Rightarrow> audit_request \<Rightarrow> view sdk" where
  "client_list_audit_events show_num c r =
     andthen (renamed [(''events'', ''events''), (''count'', ''count''), (''limit'', ''limit''), (''cursor'', ''cursor''),
                       (''nextCursor'', ''next_cursor'')]
       (call_json c (get_request c (with_query ''/api/v1/audit'' (audit_params show_num r)))))
     (\<lambda>v. ret (or_array ''events'' v))"

section \<open>Stored policies\<close>

definition client_list_policies :: "client \<Rightarrow> view sdk" where
  "client_list_policies c =
     andthen (renamed [(''policies'', ''policies''), (''count'', ''count'')] (call_json c (get_request c ''/api/policies'')))
     (\<lambda>v. ret (or_array ''policies'' v))"

definition policy_member :: "jsnum json sdk \<Rightarrow> jsnum json option sdk" where
  "policy_member m = andthen m (\<lambda>d. andthen (members d) (\<lambda>d. ret (member ''policy'' d)))"

definition client_get_policy :: "client \<Rightarrow> string \<Rightarrow> jsnum json option sdk" where
  "client_get_policy c i = policy_member (call_json c (get_request c (''/api/policies/'' @ encode_component i)))"

record upsert_request =
  up_name :: string
  up_description :: "string option"
  up_rules :: "jsnum json list"
  up_active :: "bool option"

definition upsert_doc :: "upsert_request \<Rightarrow> jsnum json" where
  "upsert_doc r = JObj [(''name'', JStr (up_name r)), (''description'', JStr (nullish (up_description r) [])),
     (''rules'', JArr (up_rules r)), (''isActive'', JBool (nullish (up_active r) True))]"

definition client_upsert_policy :: "client \<Rightarrow> upsert_request \<Rightarrow> jsnum json option sdk" where
  "client_upsert_policy c r = policy_member (post c ''/api/policies'' (upsert_doc r))"

definition client_delete_policy :: "client \<Rightarrow> string \<Rightarrow> jsnum json sdk" where
  "client_delete_policy c i = call_json c
     \<lparr>hr_method = ''DELETE'', hr_url = c_base c @ ''/api/policies/'' @ encode_component i,
      hr_headers = headers c ''application/json'', hr_body = NoBody\<rparr>"

section \<open>Analytics\<close>

definition analytics_path :: "string \<Rightarrow> string \<Rightarrow> string \<Rightarrow> string" where
  "analytics_path kind i suffix = ''/v1/analytics/'' @ kind @ ''/'' @ encode_component i @ suffix"

definition get_agent_reputation :: "client \<Rightarrow> string \<Rightarrow> jsnum json sdk" where
  "get_agent_reputation c i = get c (analytics_path ''reputation'' i [])"

text \<open>A number that is not zero.\<close>

definition nonzero_param :: "(rat \<Rightarrow> string) \<Rightarrow> string \<Rightarrow> rat option \<Rightarrow> (string \<times> string) list" where
  "nonzero_param show_num k v = (if nullish v 0 \<noteq> 0 then [(k, show_num (nullish v 0))] else [])"

definition list_agent_reputations ::
  "(rat \<Rightarrow> string) \<Rightarrow> client \<Rightarrow> string \<Rightarrow> rat option \<Rightarrow> rat option \<Rightarrow> jsnum json sdk" where
  "list_agent_reputations show_num c sort_by limit threshold =
     get c (with_query ''/v1/analytics/reputation''
       ((''sort'', sort_by) # nonzero_param show_num ''limit'' limit @ nonzero_param show_num ''threshold'' threshold))"

text \<open>\<open>since\<close> is the ISO text of the given date.\<close>

definition get_agent_anomalies :: "client \<Rightarrow> string \<Rightarrow> string option \<Rightarrow> jsnum json sdk" where
  "get_agent_anomalies c i since =
     get c (with_query (analytics_path ''anomalies'' i []) (case since of None \<Rightarrow> [] | Some t \<Rightarrow> [(''since'', t)]))"

definition get_agent_baseline :: "client \<Rightarrow> string \<Rightarrow> jsnum json sdk" where
  "get_agent_baseline c i = get c (analytics_path ''baseline'' i [])"

definition refresh_agent_baseline :: "client \<Rightarrow> string \<Rightarrow> jsnum json sdk" where
  "refresh_agent_baseline c i = post c (analytics_path ''baseline'' i ''/refresh'') (JObj [])"

definition get_alerts :: "client \<Rightarrow> string option \<Rightarrow> jsnum json sdk" where
  "get_alerts c agent = get c (with_query ''/v1/analytics/alerts'' (param ''agent_id'' agent))"

definition acknowledge_alert :: "client \<Rightarrow> string \<Rightarrow> string \<Rightarrow> jsnum json sdk" where
  "acknowledge_alert c i by_whom =
     post c (analytics_path ''alerts'' i ''/acknowledge'') (JObj [(''acknowledged_by'', JStr by_whom)])"

definition resolve_alert :: "client \<Rightarrow> string \<Rightarrow> jsnum json sdk" where
  "resolve_alert c i = post c (analytics_path ''alerts'' i ''/resolve'') (JObj [])"

end
