(* ===== verification/McpServer.thy ===== *)
theory McpServer
  imports SdkAdmin
begin

text \<open>
  The MCP server (\<open>sdk/mcp/src/server.ts\<close>): the six tools it offers to an agent, each one call to the
  engine, and the HTTP/SSE listener in front of them. The protocol library is not modelled: it checks the
  arguments of a tool against its schema (a record and the checks a value of its type can fail) and turns
  a posted message into the tool call \<open>dispatch\<close> says. Requests and answers are those of the SDK's
  network model. \<open>print\<close> arguments print JSON as \<open>JSON.stringify\<close> does.
\<close>

section \<open>Calling the engine\<close>

record mcp_config =
  mc_base :: string
  mc_key :: "string option"
  mc_timeout :: int

record mcp_options =
  mo_engine :: "string option"
  mo_key :: "string option"
  mo_timeout :: "int option"

definition mcp_config_of :: "mcp_options \<Rightarrow> string option \<Rightarrow> string option \<Rightarrow> mcp_config" where
  "mcp_config_of opts env_url env_key =
     \<lparr>mc_base = strip_slash (nullish (mo_engine opts) (nullish env_url ''http://localhost:8082'')),
      mc_key = (case mo_key opts of None \<Rightarrow> env_key | Some k \<Rightarrow> Some k),
      mc_timeout = nullish (mo_timeout opts) 10000\<rparr>"

definition mcp_request :: "mcp_config \<Rightarrow> string \<Rightarrow> string \<Rightarrow> http_body \<Rightarrow> http_request" where
  "mcp_request cfg verb path body =
     \<lparr>hr_method = verb, hr_url = mc_base cfg @ path,
      hr_headers = (''Content-Type'', ''application/json'')
        # (if truthy (mc_key cfg) then [(''Authorization'', ''Bearer '' @ the (mc_key cfg))] else []),
      hr_body = body\<rparr>"

datatype mcp_error = McpNet sdk_error | McpThrown string | BadArguments | BadDate

type_synonym 'a mcp = "(net, mcp_error, 'a) prog"

definition lift_net :: "'a sdk \<Rightarrow> 'a mcp" where
  "lift_net m = try_catch m (\<lambda>e. throw (McpNet e))"

text \<open>The printed form of the \<open>error\<close> member, or of the whole body when it has none.\<close>

definition mcp_error_text :: "(jsnum json \<Rightarrow> string) \<Rightarrow> (jsnum json \<Rightarrow> string) \<Rightarrow> int \<Rightarrow> jsnum json \<Rightarrow> string" where
  "mcp_error_text show_text show_json status d =
     ''Lelu Engine error '' @ show_int status @ '': '' @
     (case member ''error'' d of None \<Rightarrow> show_json d | Some JNull \<Rightarrow> show_json d | Some v \<Rightarrow> show_text v)"

definition mcp_call ::
  "(jsnum json \<Rightarrow> string) \<Rightarrow> (jsnum json \<Rightarrow> string) \<Rightarrow> mcp_config \<Rightarrow> string \<Rightarrow> string \<Rightarrow> http_body \<Rightarrow> jsnum json mcp" where
  "mcp_call show_text show_json cfg verb path body =
     andthen (lift_net (fetch (mc_timeout cfg) (mcp_request cfg verb path body))) (\<lambda>res.
       case parse_json (snd res) of
         None \<Rightarrow> throw (McpNet BadJson)
       | Some d \<Rightarrow>
           (if http_ok (fst res) then ret d
            else if d = JNull then throw (McpNet NullMember)
            else throw (McpThrown (mcp_error_text show_text show_json (fst res) d))))"

section \<open>Decisions\<close>

definition agent_decision_status :: "jsnum json \<Rightarrow> string" where
  "agent_decision_status d =
     (if truthy_json (member ''requires_human_review'' d) then ''REQUIRES_HUMAN_REVIEW''
      else if truthy_json (member ''compute'' d) then ''COMPUTE''
      else if truthy_json (member ''allowed'' d) then ''ALLOWED''
      else ''DENIED'')"

definition format_agent_decision :: "jsnum json \<Rightarrow> jsnum json" where
  "format_agent_decision d = JObj ((''status'', JStr (agent_decision_status d))
     # when_some ''allowed'' (member ''allowed'' d)
     @ when_some ''requires_human_review'' (member ''requires_human_review'' d)
     @ when_some ''reason'' (member ''reason'' d)
     @ when_truthy ''review_id'' (member ''review_id'' d)
     @ (if truthy_json (member ''compute'' d)
        then (''compute'', JBool True) # when_some ''safe_tool'' (member ''safe_tool'' d)
             @ [(''safe_args'', nullish_json (member ''safe_args'' d) (JObj []))]
        else [])
     @ when_some ''trace_id'' (member ''trace_id'' d)
     @ when_some ''confidence_used'' (member ''confidence_used'' d)
     @ [(''provider_signal_present'', nullish_json (member ''provider_signal_present'' d) (JBool False))]
     @ when_truthy ''downgraded_scope'' (member ''downgraded_scope'' d))"

section \<open>Tools\<close>

record mcp_authorize =
  ma_actor :: string
  ma_action :: string
  ma_resource :: "string option"
  ma_acting_for :: "string option"
  ma_scope :: "string option"
  ma_confidence :: "rat option"

datatype mcp_tool =
    AgentAuthorizeTool mcp_authorize
  | GetReviewTool string
  | HumanAuthorizeTool string string "string option"
  | MintTool string "string option" "int option"
  | RevokeTool string
  | HealthTool

definition mcp_check :: "bool \<Rightarrow> unit mcp" where
  "mcp_check ok = (if ok then ret () else throw BadArguments)"

text \<open>What the tool reads from its answer; members of \<open>null\<close> throw.\<close>

definition answer_doc :: "jsnum json mcp \<Rightarrow> (jsnum json \<Rightarrow> jsnum json) \<Rightarrow> jsnum json mcp" where
  "answer_doc m f = andthen m (\<lambda>d. if d = JNull then throw (McpNet NullMember) else ret (f d))"

definition resource_doc :: "string option \<Rightarrow> (string \<times> jsnum json) list" where
  "resource_doc r = (if truthy r then [(''resource'', JObj [(''id'', JStr (the r))])] else [])"

definition mcp_authorize_doc :: "mcp_authorize \<Rightarrow> jsnum json" where
  "mcp_authorize_doc a = JObj ([(''actor'', JStr (ma_actor a)), (''action'', JStr (ma_action a))]
     @ resource_doc (ma_resource a)
     @ when_some ''acting_for'' (map_option JStr (ma_acting_for a))
     @ when_some ''scope'' (map_option JStr (ma_scope a))
     @ when_some ''confidence'' (map_option jnum (ma_confidence a)))"

definition keep :: "string list \<Rightarrow> jsnum json \<Rightarrow> (string \<times> jsnum json) list" where
  "keep ks d = concat (map (\<lambda>k. when_some k (member k d)) ks)"

definition keep_truthy :: "string list \<Rightarrow> jsnum json \<Rightarrow> (string \<times> jsnum json) list" where
  "keep_truthy ks d = concat (map (\<lambda>k. when_truthy k (member k d)) ks)"

definition review_doc :: "jsnum json \<Rightarrow> jsnum json" where
  "review_doc d = JObj (when_some ''review_id'' (member ''id'' d)
     @ keep [''status'', ''actor'', ''action'', ''reason'', ''enqueued_at''] d
     @ keep_truthy [''resolved_at'', ''resolved_by'', ''resolution_note''] d)"

text \<open>\<open>iso_text\<close> prints a time as \<open>toISOString\<close>; an invalid date throws. \<open>other_date\<close> converts what is no
  number, truth value or \<open>null\<close>.\<close>

definition minted_doc :: "(int \<Rightarrow> string) \<Rightarrow> (jsnum json \<Rightarrow> int option) \<Rightarrow> jsnum json \<Rightarrow> jsnum json option" where
  "minted_doc iso_text other_date d =
     map_option (\<lambda>t. JObj (keep [''token'', ''token_id''] d @ [(''expires_at'', JStr (iso_text t))]))
       (case date_of_seconds (member ''expires_at'' d) of
          At t \<Rightarrow> Some t | InvalidDate \<Rightarrow> None | DateOf v \<Rightarrow> other_date v)"

definition health_doc :: "jsnum json \<Rightarrow> jsnum json" where
  "health_doc d = JObj ((''healthy'', JBool (member ''status'' d = Some (JStr ''ok''))) # keep [''status'', ''version''] d)"

text \<open>The language's printing and date conversions as one argument.\<close>

record printers =
  pr_text :: "jsnum json \<Rightarrow> string"
  pr_json :: "jsnum json \<Rightarrow> string"
  pr_iso :: "int \<Rightarrow> string"
  pr_date :: "jsnum json \<Rightarrow> int option"

fun run_tool :: "printers \<Rightarrow> mcp_config \<Rightarrow> mcp_tool \<Rightarrow> jsnum json mcp" where
  "run_tool pr cfg (AgentAuthorizeTool a) =
     andthen (mcp_check (confidence_ok (ma_confidence a))) (\<lambda>_.
     answer_doc (mcp_call (pr_text pr) (pr_json pr) cfg ''POST'' ''/v1/agent/authorize'' (JsonBody (mcp_authorize_doc a)))
       format_agent_decision)"
| "run_tool pr cfg (GetReviewTool i) =
     answer_doc (mcp_call (pr_text pr) (pr_json pr) cfg ''GET'' (''/v1/queue/'' @ encode_component i) NoBody) review_doc"
| "run_tool pr cfg (HumanAuthorizeTool user act resource) =
     answer_doc (mcp_call (pr_text pr) (pr_json pr) cfg ''POST'' ''/v1/authorize''
         (JsonBody (JObj ([(''user_id'', JStr user), (''action'', JStr act)] @ resource_doc resource))))
       (\<lambda>d. JObj (keep [''allowed'', ''reason'', ''trace_id''] d))"
| "run_tool pr cfg (MintTool scope acting ttl) =
     andthen (mcp_check (let t = nullish ttl 60 in 1 \<le> t \<and> t \<le> 3600)) (\<lambda>_.
     andthen (mcp_call (pr_text pr) (pr_json pr) cfg ''POST'' ''/v1/tokens/mint''
         (JsonBody (JObj ((''scope'', JStr scope) # when_some ''acting_for'' (map_option JStr acting)
            @ [(''ttl_seconds'', jwhole (nullish ttl 60))])))) (\<lambda>d.
       if d = JNull then throw (McpNet NullMember)
       else case minted_doc (pr_iso pr) (pr_date pr) d of None \<Rightarrow> throw BadDate | Some r \<Rightarrow> ret r))"
| "run_tool pr cfg (RevokeTool i) =
     answer_doc (mcp_call (pr_text pr) (pr_json pr) cfg ''DELETE'' (''/v1/tokens/'' @ encode_component i) NoBody)
       (\<lambda>d. JObj (keep [''success''] d))"
| "run_tool pr cfg HealthTool =
     answer_doc (mcp_call (pr_text pr) (pr_json pr) cfg ''GET'' ''/healthz'' NoBody) health_doc"

section \<open>The HTTP listener\<close>

record mcp_http =
  mh_verb :: string
  mh_url :: string
  mh_authorization :: "string option"
  mh_token :: "string option"
  mh_body :: string

text \<open>The live sessions, what a broken request did to the process, and the network.\<close>

record mcp_state =
  ms_sessions :: "string list"
  ms_alive :: bool
  ms_net :: net

datatype mcp_reply = Status int | SessionOpened string | Accepted | Crashed

text \<open>\<open>runHttp\<close> refuses to listen without a token of at least 16 characters.\<close>

definition listen_token :: "string option \<Rightarrow> string option" where
  "listen_token env =
     (let t = trim (nullish env []) in if t = [] then None else if length t < 16 then None else Some t)"

definition presented_token :: "mcp_http \<Rightarrow> string" where
  "presented_token rq =
     (case mh_authorization rq of
        Some h \<Rightarrow> if starts_with ''Bearer '' h then trim (drop 7 h)
                   else (case mh_token rq of None \<Rightarrow> [] | Some t \<Rightarrow> trim t)
      | None \<Rightarrow> (case mh_token rq of None \<Rightarrow> [] | Some t \<Rightarrow> trim t))"

text \<open>\<open>digest\<close> is SHA-256 of the bytes.\<close>

definition safe_equal :: "(string \<Rightarrow> string) \<Rightarrow> string \<Rightarrow> string \<Rightarrow> bool" where
  "safe_equal digest a b = (digest (utf8 a) = digest (utf8 b))"

definition authorized :: "(string \<Rightarrow> string) \<Rightarrow> string \<Rightarrow> mcp_http \<Rightarrow> bool" where
  "authorized digest secret rq = (presented_token rq \<noteq> [] \<and> safe_equal digest (presented_token rq) secret)"

text \<open>The decoding of a query string: a plus is a blank, a percent sign without two digits stays.\<close>

fun form_decode :: "string \<Rightarrow> string" where
  "form_decode [] = []"
| "form_decode (c # s) =
     (if c = CHR 0x25 then
        (case s of
           a # b # r \<Rightarrow> (case (hex_val a, hex_val b) of
                          (Some h, Some l) \<Rightarrow> char_of (16 * h + l) # form_decode r
                        | _ \<Rightarrow> c # form_decode s)
         | _ \<Rightarrow> c # form_decode s)
      else (if c = CHR ''+'' then CHR '' '' else c) # form_decode s)"

definition split_pair :: "string \<Rightarrow> string \<times> string" where
  "split_pair s =
     (let k = takeWhile (\<lambda>c. c \<noteq> CHR ''='') s
      in (from_utf8 (form_decode k), from_utf8 (form_decode (drop (Suc (length k)) s))))"

definition query_get :: "string \<Rightarrow> string \<Rightarrow> string option" where
  "query_get url key =
     (let no_hash = takeWhile (\<lambda>c. c \<noteq> CHR ''#'') url;
          query = drop 1 (dropWhile (\<lambda>c. c \<noteq> CHR ''?'') no_hash)
      in map_option snd (find_first (\<lambda>p. fst p = key)
           (map split_pair (filter (\<lambda>p. p \<noteq> []) (split_on (CHR ''&'') query)))))"

text \<open>Names every object has from its prototype: looking one of them up among the sessions gives something
  that is no transport, and calling a method of it throws in an asynchronous handler.\<close>

definition inherited :: "string list" where
  "inherited = [''constructor'', ''__proto__'', ''hasOwnProperty'', ''isPrototypeOf'', ''propertyIsEnumerable'',
     ''toLocaleString'', ''toString'', ''valueOf'', ''__defineGetter__'', ''__defineSetter__'', ''__lookupGetter__'',
     ''__lookupSetter__'']"

text \<open>A posted message, with the status it is answered with before its tool runs; what the tool throws goes to
  the agent.\<close>

definition mcp_message ::
  "(string \<Rightarrow> mcp_tool option) \<Rightarrow> printers \<Rightarrow> mcp_config \<Rightarrow> mcp_http \<Rightarrow> mcp_state \<Rightarrow> mcp_reply \<times> mcp_state" where
  "mcp_message dispatch pr cfg rq s =
     (let sid = nullish (query_get (mh_url rq) ''sessionId'') []
      in if sid \<in> set (ms_sessions s)
         then (Accepted, case dispatch (mh_body rq) of
                 None \<Rightarrow> s
               | Some tool \<Rightarrow> s\<lparr>ms_net := snd (run_tool pr cfg tool (ms_net s))\<rparr>)
         else if sid \<in> set inherited then (Crashed, s\<lparr>ms_alive := False\<rparr>)
         else (Status 404, s))"

text \<open>One request; \<open>fresh\<close> is the id of a new session.\<close>

definition mcp_handle ::
  "(string \<Rightarrow> string) \<Rightarrow> (string \<Rightarrow> mcp_tool option) \<Rightarrow> printers \<Rightarrow> mcp_config \<Rightarrow> string \<Rightarrow> string \<Rightarrow> mcp_http \<Rightarrow> mcp_state
    \<Rightarrow> mcp_reply \<times> mcp_state" where
  "mcp_handle digest dispatch pr cfg secret fresh rq s =
     (if mh_verb rq = ''OPTIONS'' then (Status 204, s)
      else if mh_url rq = ''/healthz'' \<and> mh_verb rq = ''GET'' then (Status 200, s)
      else if \<not> authorized digest secret rq then (Status 401, s)
      else if mh_url rq = ''/sse'' \<and> mh_verb rq = ''GET''
      then (SessionOpened fresh, s\<lparr>ms_sessions := fresh # ms_sessions s\<rparr>)
      else if starts_with ''/messages'' (mh_url rq) \<and> mh_verb rq = ''POST'' then mcp_message dispatch pr cfg rq s
      else (Status 404, s))"

section \<open>Histories\<close>

datatype mcp_event = Request mcp_http | Close string

inductive mcp_step ::
  "(string \<Rightarrow> string) \<Rightarrow> (string \<Rightarrow> mcp_tool option) \<Rightarrow> printers \<Rightarrow> mcp_config \<Rightarrow> string \<Rightarrow> mcp_state \<Rightarrow> mcp_event \<Rightarrow> mcp_state \<Rightarrow> bool"
  for digest dispatch pr cfg secret where
  request: "\<lbrakk>ms_alive s; fresh \<notin> set (ms_sessions s); mcp_handle digest dispatch pr cfg secret fresh rq s = (reply, s')\<rbrakk>
     \<Longrightarrow> mcp_step digest dispatch pr cfg secret s (Request rq) s'"
| close: "\<lbrakk>ms_alive s; sid \<in> set (ms_sessions s)\<rbrakk>
     \<Longrightarrow> mcp_step digest dispatch pr cfg secret s (Close sid) (s\<lparr>ms_sessions := remove1 sid (ms_sessions s)\<rparr>)"

inductive_cases request_stepE: "mcp_step digest dispatch pr cfg secret s (Request rq) s'"
inductive_cases close_stepE: "mcp_step digest dispatch pr cfg secret s (Close sid) s'"

inductive mcp_history ::
  "(string \<Rightarrow> string) \<Rightarrow> (string \<Rightarrow> mcp_tool option) \<Rightarrow> printers \<Rightarrow> mcp_config \<Rightarrow> string \<Rightarrow> net \<Rightarrow> mcp_event list \<Rightarrow> mcp_state \<Rightarrow> bool"
  for digest dispatch pr cfg secret net0 where
  start: "mcp_history digest dispatch pr cfg secret net0 [] \<lparr>ms_sessions = [], ms_alive = True, ms_net = net0\<rparr>"
| step: "\<lbrakk>mcp_history digest dispatch pr cfg secret net0 evs s; mcp_step digest dispatch pr cfg secret s ev s'\<rbrakk>
     \<Longrightarrow> mcp_history digest dispatch pr cfg secret net0 (evs @ [ev]) s'"

end
