(* ===== verification/SdkReview.thy ===== *)
theory SdkReview
  imports SdkClient
begin

text \<open>
  The human-review queue of the SDK client: waiting for a decision and redeeming it
  (\<open>waitForApproval\<close>, \<open>redeemReview\<close>, \<open>waitAndRedeem\<close> of \<open>client.ts\<close>). The waiting loop is a
  function of the state; every turn that goes on has used up one answer of the server's script. A caller's
  own abort signal is one more way in which a fetch can fail.
\<close>

datatype review = ById string | ByDecision auth_decision

text \<open>A review handle is a text whenever the engine sends one.\<close>

definition review_id_of :: "review \<Rightarrow> string sdk" where
  "review_id_of r =
     (case r of
        ById i \<Rightarrow> ret i
      | ByDecision d \<Rightarrow>
          (if \<not> truthy_json (ad_review_id d) then throw NoReviewId
           else ret (nullish (str_of (ad_review_id d)) [])))"

definition queue_path :: "string \<Rightarrow> string \<Rightarrow> string" where
  "queue_path i suffix = ''/v1/queue/'' @ encode_component i @ suffix"

definition list_queue :: "client \<Rightarrow> jsnum json sdk" where
  "list_queue c = get c ''/v1/queue/pending''"

definition get_queue_item :: "client \<Rightarrow> string \<Rightarrow> jsnum json sdk" where
  "get_queue_item c i = get c (queue_path i [])"

definition redeem_review :: "client \<Rightarrow> review \<Rightarrow> authorize_request \<Rightarrow> jsnum json sdk" where
  "redeem_review c review r =
     andthen (review_id_of review) (\<lambda>i.
     andthen (authorize_body r) (\<lambda>body.
     post c (queue_path i ''/redeem'') body))"

definition resolve_doc :: "string \<Rightarrow> string \<Rightarrow> jsnum json" where
  "resolve_doc by_whom note_text = JObj [(''resolved_by'', JStr by_whom), (''note'', JStr note_text)]"

definition approve_queue_item :: "client \<Rightarrow> string \<Rightarrow> string \<Rightarrow> string option \<Rightarrow> jsnum json sdk" where
  "approve_queue_item c i by_whom note_text = post c (queue_path i ''/approve'') (resolve_doc by_whom (nullish note_text []))"

definition deny_queue_item :: "client \<Rightarrow> string \<Rightarrow> string \<Rightarrow> string option \<Rightarrow> jsnum json sdk" where
  "deny_queue_item c i by_whom note_text = post c (queue_path i ''/deny'') (resolve_doc by_whom (nullish note_text []))"

section \<open>Waiting\<close>

definition poll_request :: "client \<Rightarrow> string \<Rightarrow> int \<Rightarrow> http_request" where
  "poll_request c i poll_ms =
     \<lparr>hr_method = ''GET'', hr_url = c_base c @ queue_path i ''/wait?'' @ search_params [(''timeout_ms'', show_int poll_ms)],
      hr_headers = headers c ''application/json'', hr_body = NoBody\<rparr>"

definition status_of :: "jsnum json \<Rightarrow> string option" where
  "status_of item = str_of (member ''status'' item)"

text \<open>\<open>Math.floor(Math.random() * 2000)\<close>.\<close>

definition jitter :: "net \<Rightarrow> int" where
  "jitter s = (case nt_jitter s of [] \<Rightarrow> 0 | j # js \<Rightarrow> int (j mod 2000))"

text \<open>One long poll: its answer, or what it throws.\<close>

definition poll :: "client \<Rightarrow> string \<Rightarrow> int \<Rightarrow> int \<Rightarrow> jsnum json sdk" where
  "poll c i deadline hard =
     (\<lambda>s. andthen (fetch (hard - nt_now s) (poll_request c i (min (deadline - nt_now s + jitter s) 30000)))
            (\<lambda>res. andthen (parse_response res) members) (s\<lparr>nt_jitter := tl (nt_jitter s)\<rparr>))"

lemma fetch_uses_answer: "fetch l r s = (Inr x, s') \<Longrightarrow> length (nt_answers s') < length (nt_answers s)"
  by (auto simp: fetch_def Let_def split: list.splits if_splits http_answer.splits)

lemma parse_response_state: "parse_response res s = (x, s') \<Longrightarrow> s' = s"
  by (auto simp: parse_response_def split: option.splits if_splits)

lemma members_state: "members d s = (x, s') \<Longrightarrow> s' = s"
  by (auto simp: members_def split: if_splits)

lemma poll_uses_answer: "poll c i deadline hard s = (Inr x, s') \<Longrightarrow> length (nt_answers s') < length (nt_answers s)"
  by (auto simp: poll_def andthen_apply split: prod.splits sum.splits
      dest!: fetch_uses_answer parse_response_state members_state)

function wait_loop :: "client \<Rightarrow> string \<Rightarrow> int \<Rightarrow> int \<Rightarrow> jsnum json sdk" where
  "wait_loop c i deadline hard s =
     (if deadline - nt_now s \<le> 0 then get c (queue_path i []) s
      else case poll c i deadline hard s of
             (Inl e, s1) \<Rightarrow> (Inl e, s1)
           | (Inr item, s1) \<Rightarrow>
               (if status_of item \<noteq> Some ''pending'' then (Inr item, s1) else wait_loop c i deadline hard s1))"
  by pat_completeness auto
termination
  by (relation "measure (\<lambda>(c, i, deadline, hard, s). length (nt_answers s))") (auto dest: poll_uses_answer [OF sym])

declare wait_loop.simps [simp del]

definition wait_for_approval :: "client \<Rightarrow> string \<Rightarrow> int option \<Rightarrow> jsnum json sdk" where
  "wait_for_approval c i timeout =
     (\<lambda>s. let total = nullish timeout 30000 in wait_loop c i (nt_now s + total) (nt_now s + total + 5000) s)"

definition refusal :: "string \<Rightarrow> string \<Rightarrow> jsnum json" where
  "refusal i reason = JObj [(''allowed'', JBool False), (''reason'', JStr reason), (''reviewId'', JStr i)]"

definition wait_and_redeem :: "client \<Rightarrow> review \<Rightarrow> authorize_request \<Rightarrow> int option \<Rightarrow> jsnum json sdk" where
  "wait_and_redeem c review r timeout =
     andthen (review_id_of review) (\<lambda>i.
     andthen (wait_for_approval c i timeout) (\<lambda>item.
     andthen (members item) (\<lambda>item.
       if status_of item = Some ''pending''
       then ret (refusal i (''still pending after '' @ show_int (nullish timeout 30000) @ ''ms''))
       else if status_of item \<noteq> Some ''approved''
       then ret (refusal i (''review was '' @ nullish (status_of item) ''undefined''))
       else redeem_review c (ById i) r)))"

text \<open>\<open>scanToolResult\<close>, with the optional actor, action and resource.\<close>

definition scan_tool_result ::
  "client \<Rightarrow> string \<Rightarrow> string option \<Rightarrow> string option \<Rightarrow> (string \<times> string) list option \<Rightarrow> jsnum json sdk" where
  "scan_tool_result c output actor action resource =
     post c ''/v1/scan/output'' (JObj ((''output'', JStr output)
       # when_some ''actor'' (map_option JStr actor) @ when_some ''action'' (map_option JStr action)
       @ when_some ''resource'' (map_option (\<lambda>kvs. JObj (map (\<lambda>(k, v). (k, JStr v)) kvs)) resource)))"

section \<open>Frames\<close>

lemma fetch_frame:
  assumes "fetch l r s = (x, s')"
  shows "nt_sent s' = nt_sent s @ [r] \<and> nt_now s \<le> nt_now s' \<and> nt_now s' \<le> nt_now s + max 0 l"
  using assms by (auto simp: fetch_def Let_def split: list.splits if_splits http_answer.splits)

lemma call_frame:
  assumes "call_json c r s = (x, s')"
  shows "nt_sent s' = nt_sent s @ [r] \<and> nt_now s \<le> nt_now s' \<and> nt_now s' \<le> nt_now s + max 0 (c_timeout c)"
proof -
  obtain y s1 where f: "fetch (c_timeout c) r s = (y, s1)" by force
  show ?thesis using assms fetch_frame [OF f]
    by (auto simp: call_json_def andthen_apply f split: sum.splits dest!: parse_response_state)
qed

lemma poll_frame:
  assumes "poll c i deadline hard s = (x, s')"
  shows "(\<exists>ms. nt_sent s' = nt_sent s @ [poll_request c i ms]) \<and> nt_now s \<le> nt_now s'
    \<and> nt_now s' \<le> nt_now s + max 0 (hard - nt_now s)"
proof -
  let ?r = "poll_request c i (min (deadline - nt_now s + jitter s) 30000)"
  obtain y s1 where f: "fetch (hard - nt_now s) ?r (s\<lparr>nt_jitter := tl (nt_jitter s)\<rparr>) = (y, s1)" by force
  have "s' = s1"
    using assms by (auto simp: poll_def andthen_apply f split: sum.splits prod.splits
        dest!: parse_response_state members_state)
  then show ?thesis using fetch_frame [OF f] by auto
qed

end
