(* ===== verification/SdkProps.thy ===== *)
theory SdkProps
  imports SdkReview
begin

text \<open>
  What the SDK client guarantees: a decision is the engine's answer to exactly the request that was made,
  confidence is never made up, waiting for a human ends in time, and an approval is only good for the
  request it is redeemed with.
\<close>

section \<open>Authorization\<close>

definition post_request :: "client \<Rightarrow> string \<Rightarrow> jsnum json \<Rightarrow> http_request" where
  "post_request c path body =
     \<lparr>hr_method = ''POST'', hr_url = c_base c @ path, hr_headers = headers c ''application/json'', hr_body = JsonBody body\<rparr>"

lemma post_call: "post c path body = call_json c (post_request c path body)"
  by (simp add: post_def post_request_def)

text \<open>The next answer of the server is a success with this JSON body.\<close>

definition answers_with :: "net \<Rightarrow> jsnum json \<Rightarrow> bool" where
  "answers_with s d = (\<exists>dur status body rest. nt_answers s = (dur, HttpAnswer status body) # rest
     \<and> http_ok status \<and> parse_json body = Some d)"

lemma call_Inr:
  assumes "call_json c r s = (Inr d, s')"
  shows "answers_with s d \<and> nt_sent s' = nt_sent s @ [r]"
proof -
  obtain y s1 where f: "fetch (c_timeout c) r s = (y, s1)" by force
  obtain res where y: "y = Inr res" and p: "parse_response res s1 = (Inr d, s')"
    using assms by (cases y) (auto simp: call_json_def andthen_apply f)
  have "http_ok (fst res) \<and> parse_json (snd res) = Some d"
    using p by (auto simp: parse_response_def split: option.splits if_splits)
  moreover have "\<exists>dur rest. nt_answers s = (dur, HttpAnswer (fst res) (snd res)) # rest"
    using f y by (auto simp: fetch_def Let_def split: list.splits if_splits http_answer.splits)
  ultimately show ?thesis using call_frame [OF assms] by (auto simp: answers_with_def)
qed

lemma authorize_Inr:
  assumes "client_authorize c stamp r s = (Inr d, s')"
  shows "authorize_request_ok r
    \<and> nt_sent s' = nt_sent s @ [post_request c ''/v1/agent/authorize'' (authorize_doc r)]
    \<and> (\<exists>doc. answers_with s doc \<and> d = auth_decision_of stamp (az_tool r) doc)"
proof -
  have ok: "authorize_request_ok r"
    using assms by (auto simp: client_authorize_def check_def split: if_splits)
  obtain y s1 where p: "post c ''/v1/agent/authorize'' (authorize_doc r) s = (y, s1)" by force
  have "\<exists>doc. y = Inr doc \<and> s' = s1 \<and> d = auth_decision_of stamp (az_tool r) doc"
    using assms ok
    by (auto simp: client_authorize_def authorize_body_def check_def andthen_apply p members_def
        split: sum.splits if_splits)
  then obtain doc where "y = Inr doc" "s' = s1" "d = auth_decision_of stamp (az_tool r) doc" by blast
  moreover from this have "call_json c (post_request c ''/v1/agent/authorize'' (authorize_doc r)) s = (Inr doc, s1)"
    using p by (simp add: post_call)
  ultimately show ?thesis using call_Inr [of c _ s doc s1] ok by auto
qed


text \<open>Confidence is never made up. The body of an authorize or redeem call has a \<open>confidence_signal\<close>
  only if the caller gave a signal and a \<open>confidence\<close> only if the caller gave a number, and then it is the
  caller's; a signal built from a provider response carries exactly the token values of the response,
  and a response without them gives none.\<close>

theorem confidence_is_only_the_callers:
  "member ''confidence'' (authorize_doc r) = map_option jnum (Option.bind (az_context r) cx_confidence)
   \<and> member ''confidence_signal'' (authorize_doc r) = map_option signal_doc (Option.bind (az_context r) cx_signal)
   \<and> (case signal_from_openai tokens of
        None \<Rightarrow> tokens = None \<or> tokens = Some []
      | Some sg \<Rightarrow> signal_ok sg \<and> member ''token_logprobs'' (signal_doc sg) = map_option (\<lambda>xs. JArr (map jnum xs)) tokens
          \<and> member ''token_probabilities'' (signal_doc sg) = None)
   \<and> signal_from_anthropic x = None"
  by (auto simp: authorize_doc_def Let_def signal_from_openai_def signal_from_anthropic_def signal_doc_def
      signal_ok_def member_lookup simp del: rev.simps(2) rev_append append.simps split: option.splits)

section \<open>Waiting\<close>

lemma get_frame:
  assumes "get c path s = (x, s')"
  shows "(\<exists>r. nt_sent s' = nt_sent s @ [r] \<and> hr_method r = ''GET'' \<and> hr_url r = c_base c @ path)
    \<and> nt_now s \<le> nt_now s' \<and> nt_now s' \<le> nt_now s + max 0 (c_timeout c)"
  using assms unfolding get_def by (auto dest!: call_frame)

lemma wait_loop_frame:
  "wait_loop c i deadline hard s = (x, s') \<Longrightarrow>
     (\<exists>rs. nt_sent s' = nt_sent s @ rs \<and> (\<forall>r \<in> set rs. hr_method r = ''GET''))
     \<and> nt_now s \<le> nt_now s' \<and> nt_now s' \<le> max (nt_now s) hard + max 0 (c_timeout c)
     \<and> (\<forall>item. x = Inr item \<longrightarrow> status_of item \<noteq> Some ''pending'' \<or> deadline \<le> nt_now s')"
proof (induction c i deadline hard s arbitrary: x s' rule: wait_loop.induct)
  case (1 c i deadline hard s)
  note eq = "1.prems" [unfolded wait_loop.simps [of c i deadline hard s]]
  show ?case
  proof (cases "deadline - nt_now s \<le> 0")
    case True
    then have "get c (queue_path i []) s = (x, s')" using eq by simp
    from get_frame [OF this] True show ?thesis by (auto intro!: exI)
  next
    case False
    obtain y s1 where p: "poll c i deadline hard s = (y, s1)" by force
    obtain r where r: "nt_sent s1 = nt_sent s @ [r]" "hr_method r = ''GET''"
      and now: "nt_now s \<le> nt_now s1" "nt_now s1 \<le> nt_now s + max 0 (hard - nt_now s)"
      using poll_frame [OF p] by (auto simp: poll_request_def)
    show ?thesis
    proof (cases "\<exists>item. y = Inr item \<and> status_of item = Some ''pending''")
      case False
      then have "s' = s1 \<and> x = y" using eq p \<open>\<not> deadline - nt_now s \<le> 0\<close> by (auto split: sum.splits if_splits)
      then show ?thesis using r now False by (auto intro!: exI [of _ "[r]"])
    next
      case True
      then obtain item where item: "y = Inr item" "status_of item = Some ''pending''" by blast
      then have "wait_loop c i deadline hard s1 = (x, s')" using eq p False by simp
      from "1.IH" [OF False p [symmetric] item(1) _ this] item(2)
      have ih: "(\<exists>rs. nt_sent s' = nt_sent s1 @ rs \<and> (\<forall>r \<in> set rs. hr_method r = ''GET''))
         \<and> nt_now s1 \<le> nt_now s' \<and> nt_now s' \<le> max (nt_now s1) hard + max 0 (c_timeout c)
         \<and> (\<forall>item. x = Inr item \<longrightarrow> status_of item \<noteq> Some ''pending'' \<or> deadline \<le> nt_now s')"
        by simp
      then obtain rs where rs: "nt_sent s' = nt_sent s @ [r] @ rs" "\<forall>q \<in> set rs. hr_method q = ''GET''"
        using r(1) by auto
      then have "\<exists>qs. nt_sent s' = nt_sent s @ qs \<and> (\<forall>q \<in> set qs. hr_method q = ''GET'')"
        using r(2) by (intro exI [of _ "[r] @ rs"]) auto
      then show ?thesis using ih now by auto
    qed
  qed
qed


section \<open>Redeeming\<close>

lemma redeem_Inr:
  assumes "redeem_review c (ById i) r s = (Inr res, s')"
  shows "answers_with s res \<and> nt_sent s' = nt_sent s @ [post_request c (queue_path i ''/redeem'') (authorize_doc r)]"
proof -
  have "call_json c (post_request c (queue_path i ''/redeem'') (authorize_doc r)) s = (Inr res, s')"
    using assms by (auto simp: redeem_review_def review_id_of_def authorize_body_def check_def post_call andthen_apply
        split: if_splits)
  then show ?thesis by (rule call_Inr)
qed

lemma wait_and_redeem_cases:
  assumes "wait_and_redeem c review r timeout s = (Inr res, s')"
  obtains (refused) i why where "res = refusal i why"
  | (redeemed) i item s1 where "review_id_of review s = (Inr i, s)" "wait_for_approval c i timeout s = (Inr item, s1)"
      "status_of item = Some ''approved''" "redeem_review c (ById i) r s1 = (Inr res, s')"
proof -
  obtain i where i: "review_id_of review s = (Inr i, s)"
    using assms by (cases review) (auto simp: wait_and_redeem_def review_id_of_def split: if_splits)
  obtain x s1 where w: "wait_for_approval c i timeout s = (x, s1)" by force
  obtain item where item: "x = Inr item" "item \<noteq> JNull"
    using assms by (cases x) (auto simp: wait_and_redeem_def andthen_apply i w members_def split: if_splits)
  have run: "(if status_of item = Some ''pending''
       then ret (refusal i (''still pending after '' @ show_int (nullish timeout 30000) @ ''ms''))
       else if status_of item \<noteq> Some ''approved''
       then ret (refusal i (''review was '' @ nullish (status_of item) ''undefined''))
       else redeem_review c (ById i) r) s1 = (Inr res, s')"
    using assms by (simp add: wait_and_redeem_def andthen_apply i w item members_def)
  show thesis
  proof (cases "status_of item = Some ''approved''")
    case True
    then show thesis using redeemed i w item(1) run by simp
  next
    case False
    then show thesis using refused run by (auto split: if_splits)
  qed
qed

text \<open>C5: An approval is only good for the request it is redeemed with. If waiting and redeeming answers
  \<open>allowed\<close>, the engine reported the review as approved, the last thing the client sent was a redeem
  call for that review whose body is the body of this very request (the one \<open>authorize\<close> sends for it),
  everything before it only read the queue, and \<open>allowed\<close> is the engine's own answer to that call.\<close>

theorem redeem_binds_the_request:
  assumes "wait_and_redeem c review r timeout s = (Inr res, s')" "truthy_json (member ''allowed'' res)"
  shows "\<exists>i item s1 reads. review_id_of review s = (Inr i, s)
    \<and> wait_for_approval c i timeout s = (Inr item, s1) \<and> status_of item = Some ''approved''
    \<and> nt_sent s' = nt_sent s @ reads @ [post_request c (queue_path i ''/redeem'') (authorize_doc r)]
    \<and> (\<forall>q \<in> set reads. hr_method q = ''GET'') \<and> answers_with s1 res"
  using assms(1)
proof (cases rule: wait_and_redeem_cases)
  case refused
  then show ?thesis using assms(2) by (simp add: refusal_def member_def truthy_json_def)
next
  case (redeemed i item s1)
  from redeemed(2) have w: "wait_loop c i (nt_now s + nullish timeout 30000) (nt_now s + nullish timeout 30000 + 5000) s
      = (Inr item, s1)" by (simp add: wait_for_approval_def Let_def)
  from wait_loop_frame [OF w] obtain reads where "nt_sent s1 = nt_sent s @ reads" "\<forall>q \<in> set reads. hr_method q = ''GET''"
    by blast
  then show ?thesis using redeemed redeem_Inr [OF redeemed(4)] by auto
qed

text \<open>A poll that times out on the server throws. The engine answers a long poll whose item is still
  pending with status 408; the client then throws an engine error, from \<open>waitForApproval\<close> and from
  \<open>waitAndRedeem\<close>, whose contract is to return a refusal in that case.\<close>

theorem timeout_while_pending_throws:
  assumes "nt_answers s = (d, HttpAnswer 408 body) # rest" "parse_json body = Some (JObj kvs)"
    "0 < nullish timeout 30000" "int d \<le> nullish timeout 30000 + 5000"
  shows "\<exists>m. fst (wait_and_redeem c (ById i) r timeout s) = Inl (EngineError m 408 (JObj kvs))"
proof -
  have "\<exists>m s1. poll c i (nt_now s + nullish timeout 30000) (nt_now s + nullish timeout 30000 + 5000) s
      = (Inl (EngineError m 408 (JObj kvs)), s1)"
    using assms by (simp add: poll_def andthen_apply fetch_def Let_def parse_response_def http_ok_def)
  then obtain m s1 where "poll c i (nt_now s + nullish timeout 30000) (nt_now s + nullish timeout 30000 + 5000) s
      = (Inl (EngineError m 408 (JObj kvs)), s1)" by blast
  then have "wait_for_approval c i timeout s = (Inl (EngineError m 408 (JObj kvs)), s1)"
    using assms(3) by (simp add: wait_for_approval_def Let_def wait_loop.simps)
  then show ?thesis by (simp add: wait_and_redeem_def review_id_of_def andthen_apply)
qed

section \<open>Path parts\<close>

fun percent_decode :: "string \<Rightarrow> string" where
  "percent_decode [] = []"
| "percent_decode (c # s) =
     (if c = CHR 0x25 then
        (case s of
           a # b # r \<Rightarrow> (case (hex_val a, hex_val b) of
                          (Some h, Some l) \<Rightarrow> char_of (16 * h + l) # percent_decode r | _ \<Rightarrow> [])
         | _ \<Rightarrow> [])
      else c # percent_decode s)"

lemma hex_val_upper: "d < 16 \<Longrightarrow> hex_val (upper_hex_digit d) = Some d"
  by (auto simp: hex_val_def upper_hex_digit_def Let_def)

lemma unreserved_upper: "d < 16 \<Longrightarrow> unreserved (upper_hex_digit d)"
  by (auto simp: unreserved_def upper_hex_digit_def Let_def)

lemma reserved_marks: "\<not> unreserved (CHR 0x25)" "\<not> unreserved (CHR ''/'')" "\<not> unreserved (CHR ''?'')"
  "\<not> unreserved (CHR ''#'')" "\<not> unreserved (CHR ''&'')" "\<not> unreserved (CHR '' '')"
  by (simp_all add: unreserved_def)

lemma decode_encode_bytes:
  "percent_decode (concat (map (\<lambda>b. if unreserved b then [b] else percent b) bs)) = bs"
proof (induction bs)
  case (Cons b bs)
  have "(of_char b :: nat) div 16 < 16" by simp
  with Cons reserved_marks(1) show ?case by (auto simp: percent_def hex_val_upper)
qed simp

lemma encode_chars: "\<forall>c \<in> set (encode_component s). unreserved c \<or> c = CHR 0x25"
  by (auto simp: encode_component_def percent_def unreserved_upper split: if_splits)

text \<open>Identifiers cannot break out of their place in a path. What the client inserts into a queue path for an
  identifier decodes back to exactly that identifier (so two identifiers never share a path), and it contains no
  slash, question mark, number sign, ampersand or blank, whatever the identifier is.\<close>

theorem encoded_parts_are_faithful_and_confined:
  "queue_path i suffix = ''/v1/queue/'' @ encode_component i @ suffix
   \<and> (queue_path i suffix = queue_path j suffix \<longleftrightarrow> i = j)
   \<and> from_utf8 (percent_decode (encode_component i)) = i
   \<and> set (encode_component i) \<inter> {CHR ''/'', CHR ''?'', CHR ''#'', CHR ''&'', CHR '' ''} = {}"
proof -
  have rt: "from_utf8 (percent_decode (encode_component k)) = k" for k
    by (simp add: encode_component_def decode_encode_bytes from_utf8_utf8)
  then have "encode_component i = encode_component j \<longleftrightarrow> i = j" by metis
  moreover have "set (encode_component i) \<inter> {CHR ''/'', CHR ''?'', CHR ''#'', CHR ''&'', CHR '' ''} = {}"
    using encode_chars [of i] reserved_marks by auto
  ultimately show ?thesis using rt by (simp add: queue_path_def)
qed

section \<open>Concrete runs\<close>

definition demo_client :: client where
  "demo_client = \<lparr>c_base = ''http://engine'', c_timeout = 5000, c_key = Some ''key''\<rparr>"

definition script :: "(nat \<times> http_answer) list \<Rightarrow> net" where
  "script as = \<lparr>nt_now = 0, nt_answers = as, nt_jitter = [], nt_sent = []\<rparr>"

definition yes_doc :: "int json" where
  "yes_doc = JObj [(''allowed'', JBool True)]"

definition item_doc :: "string \<Rightarrow> int json" where
  "item_doc status = JObj [(''id'', JStr ''r1''), (''status'', JStr status)]"

definition demo_tool :: authorize_request where
  "demo_tool = \<lparr>az_tool = ''refund'', az_actor = None, az_context = None, az_args = None\<rparr>"

lemma demo_docs:
  "parse_json (stringify yes_doc) = Some (reread yes_doc)" "parse_json (stringify (item_doc st)) = Some (reread (item_doc st))"
  "reread yes_doc \<noteq> JNull" "truthy_json (member ''allowed'' (reread yes_doc))"
  "status_of (reread (item_doc st)) = Some st" "reread (item_doc st) \<noteq> JNull" "authorize_request_ok demo_tool"
proof -
  show "parse_json (stringify yes_doc) = Some (reread yes_doc)" by (rule parse_stringify) (simp add: yes_doc_def)
  show "parse_json (stringify (item_doc st)) = Some (reread (item_doc st))" by (rule parse_stringify) (simp add: item_doc_def)
qed (simp_all add: yes_doc_def item_doc_def member_def truthy_json_def status_of_def authorize_request_ok_def demo_tool_def)

lemma demo_post:
  "post demo_client path body (s\<lparr>nt_answers := [(2, HttpAnswer 200 (stringify yes_doc))]\<rparr>)
    = (Inr (reread yes_doc), s\<lparr>nt_now := nt_now s + 2, nt_answers := [],
        nt_sent := nt_sent s @ [post_request demo_client path body]\<rparr>)"
  by (simp add: post_call call_json_def andthen_apply fetch_def Let_def parse_response_def http_ok_def demo_docs demo_client_def)



lemma demo_redeem_runs:
  "\<exists>s'. wait_and_redeem demo_client (ById ''r1'') demo_tool None
     (script [(400, HttpAnswer 200 (stringify (item_doc ''approved''))), (2, HttpAnswer 200 (stringify yes_doc))])
     = (Inr (reread yes_doc), s')"
proof -
  let ?rest = "[(2, HttpAnswer 200 (stringify yes_doc))]"
  obtain s1 where "poll demo_client ''r1'' 30000 35000 (script ((400, HttpAnswer 200 (stringify (item_doc ''approved''))) # ?rest))
      = (Inr (reread (item_doc ''approved'')), s1\<lparr>nt_answers := ?rest\<rparr>)"
    by (simp add: poll_def fetch_def Let_def andthen_apply parse_response_def http_ok_def demo_docs members_def script_def
        net.splits)
  then have "wait_for_approval demo_client ''r1'' None (script ((400, HttpAnswer 200 (stringify (item_doc ''approved''))) # ?rest))
      = (Inr (reread (item_doc ''approved'')), s1\<lparr>nt_answers := ?rest\<rparr>)"
    by (simp add: wait_for_approval_def Let_def wait_loop.simps demo_docs nullish_def script_def)
  then show ?thesis
    by (simp add: wait_and_redeem_def review_id_of_def andthen_apply members_def demo_docs redeem_review_def
        authorize_body_def check_def demo_post)
qed

theorem redeem_binds_the_request_witness:
  "\<exists>s' reads. wait_and_redeem demo_client (ById ''r1'') demo_tool None
      (script [(400, HttpAnswer 200 (stringify (item_doc ''approved''))), (2, HttpAnswer 200 (stringify yes_doc))])
      = (Inr (reread yes_doc), s')
     \<and> nt_sent s' = reads @ [post_request demo_client (queue_path ''r1'' ''/redeem'') (authorize_doc demo_tool)]"
proof -
  obtain s' where run: "wait_and_redeem demo_client (ById ''r1'') demo_tool None
      (script [(400, HttpAnswer 200 (stringify (item_doc ''approved''))), (2, HttpAnswer 200 (stringify yes_doc))])
      = (Inr (reread yes_doc), s')" using demo_redeem_runs by blast
  from redeem_binds_the_request [OF this demo_docs(4)] obtain i reads where
    "review_id_of (ById ''r1'') (script [(400, HttpAnswer 200 (stringify (item_doc ''approved''))), (2, HttpAnswer 200 (stringify yes_doc))])
      = (Inr i, script [(400, HttpAnswer 200 (stringify (item_doc ''approved''))), (2, HttpAnswer 200 (stringify yes_doc))])"
    "nt_sent s' = [] @ reads @ [post_request demo_client (queue_path i ''/redeem'') (authorize_doc demo_tool)]"
    by (auto simp: script_def)
  then show ?thesis using run by (auto simp: review_id_of_def)
qed

theorem timeout_while_pending_throws_witness:
  "\<exists>m d. fst (wait_and_redeem demo_client (ById ''r1'') demo_tool None
      (script [(30000, HttpAnswer 408 (stringify (item_doc ''pending'')))])) = Inl (EngineError m 408 d)"
proof -
  let ?s = "script [(30000, HttpAnswer 408 (stringify (item_doc ''pending'')))]"
  obtain kvs where kvs: "reread (item_doc ''pending'') = JObj kvs" by (simp add: item_doc_def)
  have "nt_answers ?s = (30000, HttpAnswer 408 (stringify (item_doc ''pending''))) # []" by (simp add: script_def)
  from timeout_while_pending_throws [OF this demo_docs(2) [of "''pending''", unfolded kvs], of None demo_client "''r1''" demo_tool]
  show ?thesis by (auto simp: nullish_def)
qed

end
