(* ===== verification/SdkGates.thy ===== *)
theory SdkGates
  imports SdkProps
begin

text \<open>
  The tool gates of the TypeScript SDK: the Express middleware, the Vercel AI tool, the LangChain tool
  and the LangGraph node (\<open>sdk/typescript/src/express\<close>, \<open>vercel\<close>, \<open>langchain\<close>, \<open>langgraph\<close>). The
  state is the network the client talks on and the application's own state, which only the wrapped
  tool changes. Every gate asks the client, then finishes with the answer; the locale \<open>tool_gate\<close> is
  what a finish promises, and what follows for the whole gate is proved once inside it.
\<close>

record 'w world =
  w_net :: net
  w_app :: 'w

datatype gate_error = ClientError sdk_error | Thrown string

type_synonym ('w, 'a) app = "('w, gate_error, 'a) prog"

text \<open>\<open>Result\<close> of the awaited client call, as the \<open>try\<close> around it sees it.\<close>

type_synonym answer = "sdk_error + agent_decision"

definition gated :: "agent_decision sdk \<Rightarrow> (answer \<Rightarrow> ('w, 'r) app) \<Rightarrow> ('w world, gate_error, 'r) prog" where
  "gated ask finish =
     (\<lambda>w. let (a, n) = ask (w_net w); (r, app) = finish a (w_app w) in (r, w\<lparr>w_net := n, w_app := app\<rparr>))"

definition gate_request :: "string \<Rightarrow> string \<Rightarrow> rat option \<Rightarrow> string option \<Rightarrow> agent_auth_request" where
  "gate_request actor action confidence acting_for =
     \<lparr>aa_actor = actor, aa_action = action, aa_resource = None,
      aa_context = \<lparr>cx_signal = None, cx_confidence = confidence, cx_acting_for = acting_for, cx_scope = None\<rparr>\<rparr>"

section \<open>Texts of the answers\<close>

text \<open>What a template literal prints for a member of the answer; \<open>show\<close> prints numbers, arrays and
  objects.\<close>

definition print :: "(jsnum json \<Rightarrow> string) \<Rightarrow> jsnum json option \<Rightarrow> string" where
  "print show v =
     (case v of
        None \<Rightarrow> ''undefined''
      | Some (JStr s) \<Rightarrow> s
      | Some JNull \<Rightarrow> ''null''
      | Some (JBool b) \<Rightarrow> if b then ''true'' else ''false''
      | Some d \<Rightarrow> show d)"

definition quoted :: "string \<Rightarrow> string" where
  "quoted s = [CHR 0x27] @ s @ [CHR 0x27]"

definition dquoted :: "string \<Rightarrow> string" where
  "dquoted s = [CHR 0x22] @ s @ [CHR 0x22]"

definition safe_suffix :: "(jsnum json \<Rightarrow> string) \<Rightarrow> agent_decision \<Rightarrow> string" where
  "safe_suffix show d = (if truthy_json (ad_safe_tool d) then '' ('' @ print show (ad_safe_tool d) @ '')'' else [])"

section \<open>Express\<close>

record express_options =
  eo_actor_header :: "string option"
  eo_confidence :: "rat option"

text \<open>\<open>Called d\<close>: the request went to the next handler with the decision attached.\<close>

datatype express_result = Called agent_decision | Answered int "jsnum json"

definition express_forbidden :: "string \<Rightarrow> string \<Rightarrow> agent_decision \<Rightarrow> jsnum json" where
  "express_forbidden actor action d = JObj ((''error'', JStr ''forbidden'')
     # when_some ''decision'' (ad_allowed d)
     @ [(''reason'', nullish_json (ad_reason d) (JStr ''denied by policy''))]
     @ when_some ''downgradedScope'' (ad_downgraded d)
     @ [(''computed'', JBool (ad_computed d))]
     @ when_some ''safeTool'' (ad_safe_tool d)
     @ [(''actor'', JStr actor), (''action'', JStr action)])"

text \<open>\<open>err_text\<close> is the message of the error; \<open>next\<close> runs the downstream handlers (it never throws, the
  framework catches for it).\<close>

definition express_finish ::
  "(sdk_error \<Rightarrow> string) \<Rightarrow> string \<Rightarrow> string \<Rightarrow> ('w \<Rightarrow> 'w) \<Rightarrow> answer \<Rightarrow> ('w, express_result) app" where
  "express_finish err_text actor action nxt a =
     (case a of
        Inl e \<Rightarrow> ret (Answered 503 (JObj [(''error'', JStr ''lelu_unavailable''), (''message'', JStr (err_text e))]))
      | Inr d \<Rightarrow>
          (if truthy_json (ad_allowed d) \<and> \<not> truthy_json (ad_downgraded d) \<and> \<not> ad_computed d
           then andthen (modify nxt) (\<lambda>_. ret (Called d))
           else ret (Answered 403 (express_forbidden actor action d))))"

text \<open>The client of a middleware that was given none: options, then environment, then the local default.\<close>

definition express_config :: "string option \<Rightarrow> string option \<Rightarrow> string option \<Rightarrow> string option \<Rightarrow> client_config" where
  "express_config base key env_base env_key =
     \<lparr>cc_base = Some (nullish base (nullish env_base ''http://localhost:8080'')), cc_timeout = None,
      cc_key = (case key of None \<Rightarrow> env_key | Some k \<Rightarrow> Some k)\<rparr>"

definition express_actor :: "express_options \<Rightarrow> (string \<Rightarrow> string option) \<Rightarrow> string" where
  "express_actor opts hdrs = nullish (hdrs (nullish (eo_actor_header opts) ''x-actor'')) ''anonymous''"

definition express_authorize ::
  "(sdk_error \<Rightarrow> string) \<Rightarrow> client \<Rightarrow> string \<Rightarrow> string \<Rightarrow> express_options \<Rightarrow> (string \<Rightarrow> string option) \<Rightarrow> ('w \<Rightarrow> 'w)
    \<Rightarrow> ('w world, gate_error, express_result) prog" where
  "express_authorize err_text c stamp action opts hdrs nxt =
     (let actor = express_actor opts hdrs
      in gated (client_agent_authorize c stamp (gate_request actor action (eo_confidence opts) None))
           (express_finish err_text actor action nxt))"

section \<open>Vercel AI\<close>

datatype 'a confidence_option = NoConfidence | Fixed rat | FromArgs "'a \<Rightarrow> rat"

fun resolve_confidence :: "'a confidence_option \<Rightarrow> 'a \<Rightarrow> rat option" where
  "resolve_confidence NoConfidence x = None"
| "resolve_confidence (Fixed r) x = Some r"
| "resolve_confidence (FromArgs f) x = Some (f x)"

record denied =
  de_reason :: string
  de_review :: bool
  de_downgraded :: "jsnum json option"

definition plain_denial :: "string \<Rightarrow> denied" where
  "plain_denial reason = \<lparr>de_reason = reason, de_review = False, de_downgraded = None\<rparr>"

definition vercel_finish ::
  "(sdk_error \<Rightarrow> string) \<Rightarrow> (jsnum json \<Rightarrow> string) \<Rightarrow> string \<Rightarrow> string \<Rightarrow> ('w, 'r) app option \<Rightarrow> answer
    \<Rightarrow> ('w, denied + 'r) app" where
  "vercel_finish err_text show actor action execute a =
     (case a of
        Inl e \<Rightarrow> ret (Inl (plain_denial (''Lelu authorization check failed: '' @ err_text e)))
      | Inr d \<Rightarrow>
          let because = ''Reason: '' @ print show (ad_reason d) @ ''.'';
              subject = ''Action '' @ quoted action @ '' for agent '' @ quoted actor @ '' ''
          in if gd_review d
             then ret (Inl \<lparr>de_reason = subject @ ''is queued for human review. '' @ because, de_review = True,
                            de_downgraded = None\<rparr>)
             else if ad_downgraded d \<noteq> None
             then ret (Inl \<lparr>de_reason = subject @ ''was downgraded to '' @ quoted (print show (ad_downgraded d))
                              @ '' scope. '' @ because @ '' The original tool was not run.'',
                            de_review = False, de_downgraded = ad_downgraded d\<rparr>)
             else if ad_computed d
             then ret (Inl (plain_denial (subject @ ''was redirected to a safe alternative'' @ safe_suffix show d
                              @ ''. '' @ because @ '' The original tool was not run.'')))
             else if \<not> truthy_json (ad_allowed d)
             then ret (Inl (plain_denial (''Action '' @ quoted action @ '' was denied for agent '' @ quoted actor @ ''. '' @ because)))
             else case execute of
                    None \<Rightarrow> throw (Thrown (''[Lelu] secureTool: the wrapped tool '' @ quoted action @ '' has no execute function.''))
                  | Some run \<Rightarrow> andthen run (\<lambda>r. ret (Inr r)))"

definition vercel_execute ::
  "(sdk_error \<Rightarrow> string) \<Rightarrow> (jsnum json \<Rightarrow> string) \<Rightarrow> client \<Rightarrow> string \<Rightarrow> string \<Rightarrow> string \<Rightarrow> 'a confidence_option
    \<Rightarrow> string option \<Rightarrow> ('a \<Rightarrow> ('w, 'r) app) option \<Rightarrow> 'a \<Rightarrow> ('w world, gate_error, denied + 'r) prog" where
  "vercel_execute err_text show c stamp actor action confidence acting_for execute x =
     gated (client_agent_authorize c stamp (gate_request actor action (resolve_confidence confidence x) acting_for))
       (vercel_finish err_text show actor action (map_option (\<lambda>f. f x) execute))"

section \<open>LangChain\<close>

record secure_tool_options =
  so_name :: string
  so_actor :: string
  so_permission :: string
  so_confidence :: "rat option"
  so_acting_for :: "string option"
  so_throw :: bool

record tool_result =
  tr_allowed :: bool
  tr_output :: string
  tr_review :: bool
  tr_review_id :: "jsnum json option"
  tr_reason :: "jsnum json option"

definition blocked_result :: "string \<Rightarrow> jsnum json option \<Rightarrow> tool_result" where
  "blocked_result msg reason =
     \<lparr>tr_allowed = False, tr_output = msg, tr_review = False, tr_review_id = None, tr_reason = reason\<rparr>"

definition langchain_finish ::
  "(sdk_error \<Rightarrow> string) \<Rightarrow> (jsnum json \<Rightarrow> string) \<Rightarrow> secure_tool_options \<Rightarrow> ('w, string) app \<Rightarrow> answer
    \<Rightarrow> ('w, tool_result) app" where
  "langchain_finish err_text show opts func a =
     (case a of
        Inl e \<Rightarrow>
          let msg = ''[Lelu] Authorization check failed for '' @ dquoted (so_name opts) @ '': '' @ err_text e
          in if so_throw opts then throw (Thrown msg) else ret (blocked_result msg (Some (JStr (err_text e))))
      | Inr d \<Rightarrow>
          let because = ''Reason: '' @ print show (ad_reason d) @ ''. '';
              subject = ''[Lelu] Action '' @ dquoted (so_name opts) @ '' ''
          in if gd_review d
             then ret \<lparr>tr_allowed = False,
                        tr_output = subject @ ''is queued for human review. '' @ because
                          @ ''Please wait for approval before proceeding.'',
                        tr_review = True, tr_review_id = ad_review_id d, tr_reason = ad_reason d\<rparr>
             else if truthy_json (ad_downgraded d)
             then ret (blocked_result (subject @ ''was downgraded to '' @ quoted (print show (ad_downgraded d))
                          @ '' scope. '' @ because @ ''The original tool was not run.'') (ad_reason d))
             else if ad_computed d
             then ret (blocked_result (subject @ ''was redirected to a safe alternative'' @ safe_suffix show d
                          @ ''. '' @ because @ ''The original tool was not run.'') (ad_reason d))
             else if \<not> truthy_json (ad_allowed d)
             then ret (blocked_result (subject @ ''was denied. '' @ because @ ''Downgraded scope: ''
                          @ print show (Some (nullish_json (ad_downgraded d) (JStr ''none''))) @ ''.'') (ad_reason d))
             else andthen func (\<lambda>out. ret
                    \<lparr>tr_allowed = True, tr_output = out, tr_review = False, tr_review_id = None,
                     tr_reason = ad_reason d\<rparr>))"

definition check_and_call ::
  "(sdk_error \<Rightarrow> string) \<Rightarrow> (jsnum json \<Rightarrow> string) \<Rightarrow> client \<Rightarrow> string \<Rightarrow> secure_tool_options \<Rightarrow> (string \<Rightarrow> ('w, string) app)
    \<Rightarrow> string \<Rightarrow> ('w world, gate_error, tool_result) prog" where
  "check_and_call err_text show c stamp opts func input =
     gated (client_agent_authorize c stamp
              (gate_request (so_actor opts) (so_permission opts) (so_confidence opts) (Some (nullish (so_acting_for opts) []))))
       (langchain_finish err_text show opts (func input))"

definition invoke ::
  "(sdk_error \<Rightarrow> string) \<Rightarrow> (jsnum json \<Rightarrow> string) \<Rightarrow> client \<Rightarrow> string \<Rightarrow> secure_tool_options \<Rightarrow> (string \<Rightarrow> ('w, string) app)
    \<Rightarrow> string \<Rightarrow> ('w world, gate_error, string) prog" where
  "invoke err_text show c stamp opts func input =
     andthen (check_and_call err_text show c stamp opts func input) (\<lambda>r.
       if tr_allowed r then ret (tr_output r)
       else if so_throw opts
       then throw (Thrown (''[Lelu] Tool '' @ dquoted (so_name opts) @ '' denied: '' @ print show (tr_reason r)))
       else ret (tr_output r))"

section \<open>LangGraph\<close>

type_synonym graph_state = "string \<Rightarrow> jsnum json option"

record node_options =
  no_actor :: string
  no_action :: string
  no_confidence_key :: string
  no_acting_for_key :: "string option"
  no_default_confidence :: "rat option"
  no_throw :: bool

text \<open>What the schema makes of the two values read from the state: a confidence that is no number and an
  \<open>actingFor\<close> that is no text are rejected.\<close>

definition node_confidence :: "node_options \<Rightarrow> graph_state \<Rightarrow> sdk_error + rat option" where
  "node_confidence opts st =
     (case st (no_confidence_key opts) of
        None \<Rightarrow> Inr (no_default_confidence opts)
      | Some JNull \<Rightarrow> Inr (no_default_confidence opts)
      | Some (JNum (Fin r)) \<Rightarrow> Inr (Some r)
      | Some _ \<Rightarrow> Inl Invalid)"

definition node_acting_for :: "node_options \<Rightarrow> graph_state \<Rightarrow> sdk_error + string option" where
  "node_acting_for opts st =
     (let v = (if truthy (no_acting_for_key opts) then st (the (no_acting_for_key opts)) else None)
      in if \<not> truthy_json v then Inr None
         else case str_of v of None \<Rightarrow> Inl Invalid | Some s \<Rightarrow> Inr (Some s))"

definition node_ask :: "client \<Rightarrow> string \<Rightarrow> node_options \<Rightarrow> graph_state \<Rightarrow> agent_decision sdk" where
  "node_ask c stamp opts st =
     (case node_confidence opts st of
        Inl e \<Rightarrow> throw e
      | Inr confidence \<Rightarrow>
          case node_acting_for opts st of
            Inl e \<Rightarrow> throw e
          | Inr acting_for \<Rightarrow>
              client_agent_authorize c stamp (gate_request (no_actor opts) (no_action opts) confidence acting_for))"

definition denied_state :: "bool \<Rightarrow> jsnum json option \<Rightarrow> graph_state" where
  "denied_state pending reason =
     [''leluDenied'' \<mapsto> JBool True, ''leluPendingReview'' \<mapsto> JBool pending](''leluReason'' := reason)"

definition node_finish ::
  "(jsnum json \<Rightarrow> string) \<Rightarrow> node_options \<Rightarrow> ('w, graph_state) app \<Rightarrow> answer \<Rightarrow> ('w, graph_state) app" where
  "node_finish show opts fn a =
     (case a of
        Inl e \<Rightarrow> throw (ClientError e)
      | Inr d \<Rightarrow>
          let because = '': '' @ print show (ad_reason d);
              subject = ''action '' @ quoted (no_action opts) @ '' for actor '' @ quoted (no_actor opts);
              deny = (\<lambda>msg. if no_throw opts then throw (Thrown msg) else ret (denied_state False (ad_reason d)))
          in if gd_review d
             then ret ((denied_state True (ad_reason d))(''leluReviewId'' := ad_review_id d))
             else if \<not> truthy_json (ad_allowed d) then deny (''Lelu denied '' @ subject @ because)
             else if truthy_json (ad_downgraded d) \<or> ad_computed d
             then deny (if truthy_json (ad_downgraded d)
                        then ''Lelu downgraded '' @ subject @ '' to '' @ quoted (print show (ad_downgraded d)) @ '' scope'' @ because
                        else ''Lelu redirected '' @ subject @ '' to a safe alternative'' @ safe_suffix show d @ because)
             else andthen fn (\<lambda>result. ret (result(''leluDenied'' \<mapsto> JBool False))))"

definition secure_node ::
  "(jsnum json \<Rightarrow> string) \<Rightarrow> client \<Rightarrow> string \<Rightarrow> node_options \<Rightarrow> (graph_state \<Rightarrow> ('w, graph_state) app) \<Rightarrow> graph_state
    \<Rightarrow> ('w world, gate_error, graph_state) prog" where
  "secure_node show c stamp opts fn st = gated (node_ask c stamp opts st) (node_finish show opts (fn st))"

definition was_denied :: "graph_state \<Rightarrow> bool" where
  "was_denied st = truthy_json (st ''leluDenied'')"

definition pending_review :: "graph_state \<Rightarrow> bool" where
  "pending_review st = truthy_json (st ''leluPendingReview'')"

definition denial_reason :: "(jsnum json \<Rightarrow> string) \<Rightarrow> graph_state \<Rightarrow> string" where
  "denial_reason show st = print show (Some (nullish_json (st ''leluReason'') (JStr [])))"

definition node_review_id :: "graph_state \<Rightarrow> jsnum json option" where
  "node_review_id st = st ''leluReviewId''"

end
