(* ===== verification/SdkGateProps.thy ===== *)
theory SdkGateProps
  imports SdkGates
begin

text \<open>
  What the tool gates of the SDK guarantee. The locale \<open>tool_gate\<close> is the contract between a gate and
  the client: every way of finishing that leaves the application alone on errors and on anything but an
  unrestricted allow, and runs the tool once on a clean allow, gives a gate that runs its tool exactly
  when the engine allowed the call. Each of the four gates of the source is an interpretation.
\<close>

section \<open>What the engine says\<close>

text \<open>The final outcome of the engine (\<open>engine/internal/server/server.go\<close>) and the four flags it is sent as;
  \<open>computed\<close> is what the policy evaluator said.\<close>

datatype engine_outcome = OAllow | OReadOnly | OReview | ODeny

definition sent_allowed :: "engine_outcome \<Rightarrow> bool" where
  "sent_allowed oc = (oc = OAllow \<or> oc = OReadOnly)"

definition sent_scope :: "engine_outcome \<Rightarrow> string option" where
  "sent_scope oc = (if oc = OReadOnly then Some ''read_only'' else None)"

definition sent_review :: "engine_outcome \<Rightarrow> bool" where
  "sent_review oc = (oc = OReview)"

definition sent_compute :: "engine_outcome \<Rightarrow> bool \<Rightarrow> bool" where
  "sent_compute oc computed = (computed \<and> sent_allowed oc \<and> \<not> sent_review oc)"

text \<open>\<open>d\<close> is an answer that carries these flags (an empty scope is left out).\<close>

definition carries :: "jsnum json \<Rightarrow> engine_outcome \<Rightarrow> bool \<Rightarrow> bool" where
  "carries d oc computed =
     (truthy_json (member ''allowed'' d) = sent_allowed oc
      \<and> member ''downgraded_scope'' d = map_option JStr (sent_scope oc)
      \<and> truthy_json (member ''requires_human_review'' d) = sent_review oc
      \<and> truthy_json (member ''compute'' d) = sent_compute oc computed)"

section \<open>The contract\<close>

definition unrestricted :: "agent_decision \<Rightarrow> bool" where
  "unrestricted d = (truthy_json (ad_allowed d) \<and> \<not> truthy_json (ad_downgraded d) \<and> \<not> ad_computed d)"

definition clean :: "agent_decision \<Rightarrow> bool" where
  "clean d = (truthy_json (ad_allowed d) \<and> ad_downgraded d = None \<and> \<not> ad_computed d \<and> \<not> gd_review d)"

definition full_request :: "agent_auth_request \<Rightarrow> authorize_request" where
  "full_request rq = \<lparr>az_tool = aa_action rq, az_actor = Some (aa_actor rq), az_context = Some (aa_context rq), az_args = None\<rparr>"

text \<open>A decision the client returned is the reading of the server's answer to one authorize request.\<close>

definition engine_said :: "client \<Rightarrow> string \<Rightarrow> net \<Rightarrow> agent_decision \<Rightarrow> net \<Rightarrow> bool" where
  "engine_said c stamp s dec n =
     (\<exists>rq d. answers_with s d \<and> dec = agent_decision_of rq (auth_decision_of stamp (aa_action rq) d)
        \<and> nt_sent n = nt_sent s @ [post_request c ''/v1/agent/authorize'' (authorize_doc (full_request rq))])"

lemma agent_authorize_said:
  assumes "client_agent_authorize c stamp rq s = (Inr dec, n)"
  shows "engine_said c stamp s dec n"
proof -
  obtain y s1 where a: "client_authorize c stamp (full_request rq) s = (y, s1)" by force
  obtain d where "y = Inr d" "n = s1" "dec = agent_decision_of rq d"
    using assms a
    by (auto simp: client_agent_authorize_def check_def andthen_apply full_request_def split: sum.splits if_splits)
  then show ?thesis using authorize_Inr [of c stamp "full_request rq" s d s1] a
    by (auto simp: engine_said_def full_request_def)
qed

lemma answers_unique: "answers_with s d \<Longrightarrow> answers_with s d' \<Longrightarrow> d' = d"
  by (auto simp: answers_with_def)

lemma decision_fields [simp]:
  "ad_allowed (agent_decision_of rq (auth_decision_of stamp t d)) = member ''allowed'' d"
  "ad_downgraded (agent_decision_of rq (auth_decision_of stamp t d)) = member ''downgraded_scope'' d"
  "ad_computed (agent_decision_of rq (auth_decision_of stamp t d)) = truthy_json (member ''compute'' d)"
  "gd_review (agent_decision_of rq (auth_decision_of stamp t d)) \<longleftrightarrow>
     \<not> truthy_json (member ''compute'' d) \<and> truthy_json (member ''requires_human_review'' d)"
  by (auto simp: agent_decision_of_def auth_decision_of_def decision_of_def auth_decision.defs agent_decision.defs)

lemma carries_clean:
  assumes "carries d oc computed"
  shows "clean (agent_decision_of rq (auth_decision_of stamp t d)) \<longleftrightarrow> oc = OAllow \<and> \<not> computed"
    and "unrestricted (agent_decision_of rq (auth_decision_of stamp t d)) \<longleftrightarrow> oc = OAllow \<and> \<not> computed"
  using assms
  by (auto simp: carries_def clean_def unrestricted_def sent_compute_def sent_allowed_def sent_scope_def
      sent_review_def truthy_json_def)

locale tool_gate =
  fixes ask :: "agent_decision sdk"
    and finish :: "('w, 't) app \<Rightarrow> answer \<Rightarrow> ('w, 'r) app"
    and c :: client
    and stamp :: string
  assumes asks: "ask s = (Inr dec, n) \<Longrightarrow> engine_said c stamp s dec n"
    and error_blocks: "snd (finish tool (Inl e) w) = w"
    and restricted_blocks: "\<not> unrestricted dec \<Longrightarrow> snd (finish tool (Inr dec) w) = w"
    and clean_runs: "clean dec \<Longrightarrow> snd (finish tool (Inr dec) w) = snd (tool w)"
    and never_twice: "snd (finish tool (Inr dec) w) = w \<or> snd (finish tool (Inr dec) w) = snd (tool w)"
begin

lemma gated_app: "w_app (snd (gated ask (finish tool) w)) = snd (finish tool (fst (ask (w_net w))) (w_app w))"
  by (simp add: gated_def Let_def split: prod.split)

lemma gated_net: "w_net (snd (gated ask (finish tool) w)) = snd (ask (w_net w))"
  by (simp add: gated_def Let_def split: prod.split)

lemma untouched_unless_allowed:
  "w_app (snd (gated ask (finish tool) w)) = w_app w
   \<or> (\<exists>d. answers_with (w_net w) d \<and> truthy_json (member ''allowed'' d)
        \<and> \<not> truthy_json (member ''compute'' d) \<and> \<not> truthy_json (member ''downgraded_scope'' d)
        \<and> w_app (snd (gated ask (finish tool) w)) = snd (tool (w_app w)))"
proof (cases "fst (ask (w_net w))")
  case (Inl e)
  then show ?thesis by (simp add: gated_app error_blocks)
next
  case (Inr dec)
  then have run: "ask (w_net w) = (Inr dec, snd (ask (w_net w)))" by (simp add: prod_eq_iff)
  obtain rq d where d: "answers_with (w_net w) d" "dec = agent_decision_of rq (auth_decision_of stamp (aa_action rq) d)"
    using asks [OF run] by (auto simp: engine_said_def)
  show ?thesis
  proof (cases "unrestricted dec")
    case True
    then show ?thesis using d never_twice [of tool dec "w_app w"]
      by (auto simp: gated_app Inr unrestricted_def)
  next
    case False
    then show ?thesis by (simp add: gated_app Inr restricted_blocks)
  qed
qed

lemma runs_exactly_clean_allows:
  assumes "ask (w_net w) = (Inr dec, n)" "answers_with (w_net w) d" "carries d oc computed"
  shows "w_app (snd (gated ask (finish tool) w))
    = (if oc = OAllow \<and> \<not> computed then snd (tool (w_app w)) else w_app w)"
proof -
  obtain rq d' where d': "answers_with (w_net w) d'" "dec = agent_decision_of rq (auth_decision_of stamp (aa_action rq) d')"
    using asks [OF assms(1)] by (auto simp: engine_said_def)
  then have "d' = d" using assms(2) answers_unique by blast
  with d'(2) show ?thesis
    using carries_clean [OF assms(3), of rq stamp "aa_action rq"] clean_runs [of dec tool "w_app w"]
      restricted_blocks [of dec tool "w_app w"]
    by (auto simp: gated_app assms(1))
qed

end

section \<open>The gates of the source\<close>

lemma truthy_json_None [simp]: "\<not> truthy_json None"
  by (simp add: truthy_json_def)

interpretation express: tool_gate "client_agent_authorize c stamp rq"
  "\<lambda>tool. express_finish err_text actor action (\<lambda>w. snd (tool w))" c stamp
  by unfold_locales (auto simp: agent_authorize_said express_finish_def clean_def unrestricted_def)

lemma vercel_never_runs: "\<not> unrestricted dec \<Longrightarrow> snd (vercel_finish err_text show actor action (Some tool) (Inr dec) w) = w"
  by (auto simp: vercel_finish_def Let_def unrestricted_def truthy_json_def)

interpretation vercel: tool_gate "client_agent_authorize c stamp rq"
  "\<lambda>tool. vercel_finish err_text show actor action (Some tool)" c stamp
  by unfold_locales
    (auto simp: agent_authorize_said vercel_never_runs, auto simp: vercel_finish_def Let_def clean_def andthen_apply split: prod.splits sum.splits)

interpretation langchain: tool_gate "client_agent_authorize c stamp rq" "langchain_finish err_text show opts" c stamp
  by unfold_locales
    (auto simp: agent_authorize_said langchain_finish_def Let_def clean_def unrestricted_def andthen_apply split: prod.splits sum.splits)

lemma node_ask_said:
  assumes "node_ask c stamp opts st s = (Inr dec, n)"
  shows "engine_said c stamp s dec n"
  using assms by (auto simp: node_ask_def dest: agent_authorize_said split: sum.splits)

interpretation langgraph: tool_gate "node_ask c stamp opts st" "node_finish show opts" c stamp
  by unfold_locales
    (auto simp: node_ask_said node_finish_def Let_def clean_def unrestricted_def andthen_apply split: prod.splits sum.splits)

text \<open>The engine's next answer allows the call without restriction.\<close>

definition engine_allows :: "net \<Rightarrow> bool" where
  "engine_allows s = (\<exists>d. answers_with s d \<and> truthy_json (member ''allowed'' d)
     \<and> \<not> truthy_json (member ''compute'' d) \<and> \<not> truthy_json (member ''downgraded_scope'' d))"

text \<open>\<open>run g w\<close> is what a gate leaves of the application.\<close>

definition app_after :: "('w world, gate_error, 'r) prog \<Rightarrow> 'w world \<Rightarrow> 'w" where
  "app_after g w = w_app (snd (g w))"

definition allowed_run :: "('w world, gate_error, 'r) prog \<Rightarrow> ('w \<Rightarrow> 'w) \<Rightarrow> 'w world \<Rightarrow> bool" where
  "allowed_run g tool w =
     (app_after g w = w_app w \<or> engine_allows (w_net w) \<and> app_after g w = tool (w_app w))"

text \<open>The gate ran its tool exactly when the outcome is an allow that policy did not redirect.\<close>

definition follows ::
  "('w world, gate_error, 'r) prog \<Rightarrow> ('w \<Rightarrow> 'w) \<Rightarrow> engine_outcome \<Rightarrow> bool \<Rightarrow> 'w world \<Rightarrow> bool" where
  "follows g tool oc computed w =
     (app_after g w = (if oc = OAllow \<and> \<not> computed then tool (w_app w) else w_app w))"

lemmas allowed_defs = allowed_run_def app_after_def engine_allows_def Let_def

lemma invoke_app: "app_after (invoke err_text show c stamp opts func input) w
    = app_after (check_and_call err_text show c stamp opts func input) w"
  by (auto simp: app_after_def invoke_def andthen_apply split: prod.splits sum.splits if_splits)

text \<open>C3: No gate of the SDK runs its tool unless the engine allowed exactly that. Whatever the server does
  (down, slow, an error status, a body that is not JSON, any JSON at all), a gate either leaves the
  application as it was, or the server answered the gate's request with a success that says
  \<open>allowed\<close>, without \<open>compute\<close> and without a downgraded scope, and the tool ran exactly once.\<close>

theorem gates_run_only_allowed_tools:
  "allowed_run (express_authorize err_text c stamp action eo hdrs nxt) nxt w
   \<and> allowed_run (vercel_execute err_text show c stamp actor action conf acting (Some tool) x) (\<lambda>a. snd (tool x a)) w
   \<and> allowed_run (invoke err_text show c stamp so func input) (\<lambda>a. snd (func input a)) w
   \<and> allowed_run (secure_node show c stamp no fn st) (\<lambda>a. snd (fn st a)) w"
proof (intro conjI)
  show "allowed_run (express_authorize err_text c stamp action eo hdrs nxt) nxt w"
    using express.untouched_unless_allowed [of c stamp "gate_request (express_actor eo hdrs) action (eo_confidence eo) None" err_text
        "express_actor eo hdrs" "action" "\<lambda>w. (Inr (), nxt w)" w]
    by (auto simp: allowed_defs express_authorize_def)
  show "allowed_run (vercel_execute err_text show c stamp actor action conf acting (Some tool) x) (\<lambda>a. snd (tool x a)) w"
    using vercel.untouched_unless_allowed [of c stamp "gate_request actor action (resolve_confidence conf x) acting" err_text "show" "actor" "action" "tool x" w]
    by (auto simp: allowed_defs vercel_execute_def)
  show "allowed_run (invoke err_text show c stamp so func input) (\<lambda>a. snd (func input a)) w"
    unfolding allowed_run_def invoke_app
    using langchain.untouched_unless_allowed [of c stamp _ err_text "show" so "func input" w]
    by (auto simp: app_after_def engine_allows_def check_and_call_def)
  show "allowed_run (secure_node show c stamp no fn st) (\<lambda>a. snd (fn st a)) w"
    using langgraph.untouched_unless_allowed [of c stamp no st "show" "fn st" w]
    by (auto simp: allowed_defs secure_node_def)
qed


section \<open>A concrete run\<close>

definition demo_world :: "nat world" where
  "demo_world = \<lparr>w_net = script [(2, HttpAnswer 200 (stringify yes_doc))], w_app = 0\<rparr>"

lemma demo_ask:
  assumes "agent_auth_request_ok rq" "authorize_request_ok (full_request rq)"
  shows "\<exists>dec n. client_agent_authorize demo_client ''now'' rq (w_net demo_world) = (Inr dec, n)"
proof -
  have s: "w_net demo_world = (script [])\<lparr>nt_answers := [(2, HttpAnswer 200 (stringify yes_doc))]\<rparr>"
    by (simp add: demo_world_def script_def)
  show ?thesis unfolding s client_agent_authorize_def full_request_def [symmetric]
    using assms by (simp add: client_authorize_def authorize_body_def check_def demo_docs andthen_apply demo_post members_def)
qed

definition demo_options :: secure_tool_options where
  "demo_options = \<lparr>so_name = ''refund'', so_actor = ''bot'', so_permission = ''refund'', so_confidence = None,
     so_acting_for = None, so_throw = False\<rparr>"

definition demo_node :: node_options where
  "demo_node = \<lparr>no_actor = ''bot'', no_action = ''refund'', no_confidence_key = ''confidence'', no_acting_for_key = None,
     no_default_confidence = None, no_throw = False\<rparr>"

definition demo_express :: express_options where
  "demo_express = \<lparr>eo_actor_header = None, eo_confidence = None\<rparr>"


end
