(* ===== verification/McpProps.thy ===== *)
theory McpProps
  imports McpServer SdkGateProps
begin

text \<open>
  What the MCP server guarantees: nothing reaches the engine without the token, a message makes at most
  one engine request, and no tool can resolve a review.
\<close>

section \<open>Requests of a tool\<close>

text \<open>The engine endpoints the tools use.\<close>

definition tool_target :: "string \<Rightarrow> string \<Rightarrow> bool" where
  "tool_target verb path =
     ((verb = ''POST'' \<and> path \<in> {''/v1/agent/authorize'', ''/v1/authorize'', ''/v1/tokens/mint''})
      \<or> (verb = ''GET'' \<and> (path = ''/healthz'' \<or> (\<exists>i. path = ''/v1/queue/'' @ encode_component i)))
      \<or> (verb = ''DELETE'' \<and> (\<exists>i. path = ''/v1/tokens/'' @ encode_component i)))"

definition tool_requests :: "mcp_config \<Rightarrow> http_request list \<Rightarrow> bool" where
  "tool_requests cfg rs =
     list_all (\<lambda>r. \<exists>verb path body. r = mcp_request cfg verb path body \<and> tool_target verb path) rs"

text \<open>At most one request, to one of the endpoints.\<close>

definition asks_once :: "mcp_config \<Rightarrow> 'a mcp \<Rightarrow> bool" where
  "asks_once cfg m =
     (\<forall>s. \<exists>rs. nt_sent (snd (m s)) = nt_sent s @ rs \<and> length rs \<le> 1 \<and> tool_requests cfg rs)"

definition silent :: "'a mcp \<Rightarrow> bool" where
  "silent m = (\<forall>s. snd (m s) = s)"

lemma mcp_call_asks:
  assumes "tool_target verb path"
  shows "asks_once cfg (mcp_call show_text show_json cfg verb path body)"
  unfolding asks_once_def
proof
  fix s
  let ?r = "mcp_request cfg verb path body"
  obtain y s1 where f: "fetch (mc_timeout cfg) ?r s = (y, s1)" by force
  have "snd (mcp_call show_text show_json cfg verb path body s) = s1"
    by (auto simp: mcp_call_def lift_net_def andthen_apply try_catch_apply f split: sum.splits option.splits)
  then show "\<exists>rs. nt_sent (snd (mcp_call show_text show_json cfg verb path body s)) = nt_sent s @ rs
      \<and> length rs \<le> 1 \<and> tool_requests cfg rs"
    using fetch_frame [OF f] assms by (auto simp: tool_requests_def)
qed

lemma asks_then_silent:
  assumes "asks_once cfg m" "\<And>x. silent (f x)"
  shows "asks_once cfg (andthen m f)"
proof -
  have "snd (andthen m f s) = snd (m s)" for s
    using assms(2) by (auto simp: silent_def andthen_def split: prod.splits sum.splits)
  with assms(1) show ?thesis by (simp add: asks_once_def)
qed

lemma check_then_asks:
  assumes "asks_once cfg (f ())"
  shows "asks_once cfg (andthen (mcp_check ok) f)"
  using assms by (auto simp: mcp_check_def asks_once_def andthen_apply tool_requests_def)

lemma silent_answers: "silent (if b then throw e else ret x)" "silent (case v of None \<Rightarrow> throw e | Some r \<Rightarrow> ret r)"
  "silent (if b then throw e else case v of None \<Rightarrow> throw e' | Some r \<Rightarrow> ret r)"
  by (auto simp: silent_def split: option.split)

lemma run_tool_asks: "asks_once cfg (run_tool pr cfg tool)"
  by (cases tool)
    (auto simp: answer_doc_def tool_target_def intro!: check_then_asks asks_then_silent mcp_call_asks silent_answers)

section \<open>Histories\<close>

definition opens :: "(string \<Rightarrow> string) \<Rightarrow> string \<Rightarrow> mcp_event \<Rightarrow> bool" where
  "opens digest secret ev =
     (case ev of Request rq \<Rightarrow> authorized digest secret rq \<and> mh_verb rq = ''GET'' \<and> mh_url rq = ''/sse'' | Close sid \<Rightarrow> False)"

definition posts :: "(string \<Rightarrow> string) \<Rightarrow> string \<Rightarrow> mcp_event \<Rightarrow> bool" where
  "posts digest secret ev =
     (case ev of Request rq \<Rightarrow> authorized digest secret rq \<and> mh_verb rq = ''POST'' \<and> starts_with ''/messages'' (mh_url rq)
      | Close sid \<Rightarrow> False)"

definition guarded_state ::
  "(string \<Rightarrow> string) \<Rightarrow> string \<Rightarrow> mcp_config \<Rightarrow> net \<Rightarrow> mcp_event list \<Rightarrow> mcp_state \<Rightarrow> bool" where
  "guarded_state digest secret cfg net0 evs s =
     (length (ms_sessions s) \<le> length (filter (opens digest secret) evs)
      \<and> (\<exists>rs. nt_sent (ms_net s) = nt_sent net0 @ rs \<and> length rs \<le> length (filter (posts digest secret) evs)
           \<and> tool_requests cfg rs)
      \<and> (filter (opens digest secret) evs = [] \<longrightarrow> ms_net s = net0))"

lemma message_cases:
  assumes "mcp_message dispatch pr cfg rq s = (reply, s')"
  obtains "ms_sessions s' = ms_sessions s" "ms_net s' = ms_net s"
  | tool where "ms_sessions s \<noteq> []" "ms_sessions s' = ms_sessions s" "ms_net s' = snd (run_tool pr cfg tool (ms_net s))"
proof (cases "nullish (query_get (mh_url rq) ''sessionId'') [] \<in> set (ms_sessions s)")
  case True
  then have "ms_sessions s \<noteq> []" by auto
  show thesis
  proof (cases "dispatch (mh_body rq)")
    case None
    then show thesis using assms True by (intro that(1)) (auto simp: mcp_message_def)
  next
    case (Some tool)
    then show thesis using assms True \<open>ms_sessions s \<noteq> []\<close> by (intro that(2) [of tool]) (auto simp: mcp_message_def)
  qed
next
  case False
  then show thesis using assms by (intro that(1)) (auto simp: mcp_message_def Let_def split: if_splits)
qed

lemma handle_cases:
  assumes "mcp_handle digest dispatch pr cfg secret fresh rq s = (reply, s')"
  obtains "ms_sessions s' = ms_sessions s" "ms_net s' = ms_net s"
  | "opens digest secret (Request rq)" "ms_sessions s' = fresh # ms_sessions s" "ms_net s' = ms_net s"
  | tool where "posts digest secret (Request rq)" "ms_sessions s \<noteq> []" "ms_sessions s' = ms_sessions s"
      "ms_net s' = snd (run_tool pr cfg tool (ms_net s))"
proof -
  consider (same) "s' = s" | (opened) "opens digest secret (Request rq)" "s' = s\<lparr>ms_sessions := fresh # ms_sessions s\<rparr>"
    | (message) "posts digest secret (Request rq)" "mcp_message dispatch pr cfg rq s = (reply, s')"
    using assms by (auto simp: mcp_handle_def opens_def posts_def split: if_splits)
  then show thesis
  proof cases
    case message
    from message(2) show thesis by (cases rule: message_cases) (use that message(1) in blast)+
  qed (use that in auto)
qed

lemma guarded_start: "guarded_state digest secret cfg net0 [] \<lparr>ms_sessions = [], ms_alive = True, ms_net = net0\<rparr>"
  by (simp add: guarded_state_def tool_requests_def)

lemma guarded_request:
  assumes g: "guarded_state digest secret cfg net0 evs s"
    and h: "mcp_handle digest dispatch pr cfg secret fresh rq s = (reply, s')"
  shows "guarded_state digest secret cfg net0 (evs @ [Request rq]) s'"
  using h
proof (cases rule: handle_cases)
  case 1
  with g show ?thesis by (fastforce simp: guarded_state_def)
next
  case 2
  with g show ?thesis by (fastforce simp: guarded_state_def)
next
  case (3 tool)
  obtain rs where rs: "nt_sent (ms_net s) = nt_sent net0 @ rs" "length rs \<le> length (filter (posts digest secret) evs)"
    "tool_requests cfg rs"
    using g by (auto simp: guarded_state_def)
  have "length (ms_sessions s) \<le> length (filter (opens digest secret) evs)" using g by (simp add: guarded_state_def)
  then have opened: "filter (opens digest secret) evs \<noteq> []" using 3(2) by (cases "ms_sessions s") auto
  obtain more where "nt_sent (ms_net s') = nt_sent (ms_net s) @ more" "length more \<le> 1" "tool_requests cfg more"
    using run_tool_asks [of cfg pr tool] 3(4) by (auto simp: asks_once_def)
  with rs have "nt_sent (ms_net s') = nt_sent net0 @ (rs @ more)" "tool_requests cfg (rs @ more)"
    "length (rs @ more) \<le> length (filter (posts digest secret) (evs @ [Request rq]))"
    using 3(1) by (auto simp: tool_requests_def)
  then show ?thesis using g 3(3) opened unfolding guarded_state_def by auto
qed

text \<open>C12: Nobody reaches the engine through the MCP server without its token. In every history of requests and
  disconnects, whatever tokens, URLs and bodies are sent: there are never more sessions than authorized
  requests opened; there are never more engine requests than authorized messages were posted, and none
  before a session was opened; and each engine request is one of the six tools', so none can approve or
  deny a review.\<close>

theorem mcp_engine_needs_the_token:
  assumes "mcp_history digest dispatch pr cfg secret net0 evs s"
  shows "guarded_state digest secret cfg net0 evs s"
  using assms
proof (induction rule: mcp_history.induct)
  case start
  show ?case by (rule guarded_start)
next
  case (step evs s ev s')
  from step.hyps(2) show ?case
  proof cases
    case (request fresh rq reply)
    then show ?thesis using guarded_request [OF step.IH] by simp
  next
    case (close sid)
    then show ?thesis using step.IH by (auto simp: guarded_state_def opens_def posts_def length_remove1)
  qed
qed

section \<open>A concrete history\<close>

definition demo_mcp :: mcp_config where
  "demo_mcp = \<lparr>mc_base = ''http://engine'', mc_key = Some ''key'', mc_timeout = 10000\<rparr>"

definition demo_printers :: printers where
  "demo_printers = \<lparr>pr_text = \<lambda>_. [], pr_json = \<lambda>_. [], pr_iso = \<lambda>_. [], pr_date = \<lambda>_. None\<rparr>"

definition demo_http :: "string \<Rightarrow> string \<Rightarrow> mcp_http" where
  "demo_http verb url = \<lparr>mh_verb = verb, mh_url = url, mh_authorization = Some ''Bearer 0123456789abcdef'', mh_token = None,
     mh_body = []\<rparr>"

lemma demo_authorized: "authorized (\<lambda>x. x) ''0123456789abcdef'' (demo_http verb url)"
  by (simp add: authorized_def presented_token_def demo_http_def starts_with_def trim_def trim_start_def trim_end_def
      is_ws_def safe_equal_def)

lemma demo_query: "query_get ''/messages?sessionId=s1'' ''sessionId'' = Some ''s1''"
  by (simp add: query_get_def split_pair_def)

theorem mcp_engine_needs_the_token_witness:
  "\<exists>s. mcp_history (\<lambda>x. x) (\<lambda>_. Some HealthTool) demo_printers demo_mcp ''0123456789abcdef'' (script [])
       [Request (demo_http ''GET'' ''/sse''), Request (demo_http ''POST'' ''/messages?sessionId=s1'')] s
     \<and> length (nt_sent (ms_net s)) = 1
     \<and> guarded_state (\<lambda>x. x) ''0123456789abcdef'' demo_mcp (script [])
       [Request (demo_http ''GET'' ''/sse''), Request (demo_http ''POST'' ''/messages?sessionId=s1'')] s"
proof -
  let ?h = "mcp_history (\<lambda>x. x) (\<lambda>_. Some HealthTool) demo_printers demo_mcp ''0123456789abcdef'' (script [])"
  let ?s0 = "\<lparr>ms_sessions = [], ms_alive = True, ms_net = script []\<rparr>"
  let ?s1 = "?s0\<lparr>ms_sessions := [''s1'']\<rparr>"
  let ?s2 = "?s1\<lparr>ms_net := snd (run_tool demo_printers demo_mcp HealthTool (script []))\<rparr>"
  have "?h ([] @ [Request (demo_http ''GET'' ''/sse'')]) ?s1"
    by (rule mcp_history.step [OF mcp_history.start], rule mcp_step.request [where fresh = "''s1''"])
      (use demo_authorized [of "''GET''" "''/sse''"] in \<open>simp_all add: mcp_handle_def\<close>, simp_all add: demo_http_def)
  moreover have "mcp_step (\<lambda>x. x) (\<lambda>_. Some HealthTool) demo_printers demo_mcp ''0123456789abcdef'' ?s1
      (Request (demo_http ''POST'' ''/messages?sessionId=s1'')) ?s2"
    by (rule mcp_step.request [where fresh = "''s2''" and reply = Accepted])
      (use demo_authorized [of "''POST''" "''/messages?sessionId=s1''"] in
        \<open>simp_all add: mcp_handle_def mcp_message_def nullish_def demo_query starts_with_def demo_http_def\<close>)
  ultimately have "?h (([] @ [Request (demo_http ''GET'' ''/sse'')]) @ [Request (demo_http ''POST'' ''/messages?sessionId=s1'')]) ?s2"
    by (rule mcp_history.step)
  then have run: "?h [Request (demo_http ''GET'' ''/sse''), Request (demo_http ''POST'' ''/messages?sessionId=s1'')] ?s2"
    by simp
  have "length (nt_sent (ms_net ?s2)) = 1"
    by (simp add: answer_doc_def mcp_call_def lift_net_def try_catch_apply andthen_apply fetch_def script_def Let_def)
  with run mcp_engine_needs_the_token [OF run] show ?thesis by blast
qed

text \<open>A message for a session named like an inherited property of the session table ends the process, for
  every client that has the token.\<close>

lemma mcp_inherited_name_stops_the_server:
  assumes "authorized digest secret rq" "mh_verb rq = ''POST''" "mh_url rq = ''/messages?sessionId=constructor''"
    "''constructor'' \<notin> set (ms_sessions s)" "mcp_handle digest dispatch pr cfg secret fresh rq s = (reply, s')"
  shows "reply = Crashed \<and> \<not> mcp_step digest dispatch pr cfg secret s' ev s''"
proof -
  have q: "query_get ''/messages?sessionId=constructor'' ''sessionId'' = Some ''constructor''"
    by (simp add: query_get_def split_pair_def)
  have "(reply, s') = (Crashed, s\<lparr>ms_alive := False\<rparr>)"
    using assms by (simp add: mcp_handle_def mcp_message_def q nullish_def starts_with_def inherited_def)
  then show ?thesis by (auto elim: mcp_step.cases)
qed

end
