(* ===== verification/AnswerTypes.thy ===== *)
theory AnswerTypes
  imports AuthorizeProps McpProps
begin

text \<open>
  The contracts between the components about the answers they exchange: the type the SDK declares for a
  decision (\<open>AuthDecision\<close> in \<open>sdk/typescript/src/types.ts\<close>) against what the hosted route sends, and the
  three readers of an engine answer (hosted route, SDK client, MCP server) against each other.
\<close>

section \<open>The declared type of a decision\<close>

datatype jtype = TText | TNumber | TBool | TOneOf "string list"

fun has_type :: "jtype \<Rightarrow> jsnum json \<Rightarrow> bool" where
  "has_type TText v = (case v of JStr s \<Rightarrow> True | _ \<Rightarrow> False)"
| "has_type TNumber v = (case v of JNum n \<Rightarrow> True | _ \<Rightarrow> False)"
| "has_type TBool v = (case v of JBool b \<Rightarrow> True | _ \<Rightarrow> False)"
| "has_type (TOneOf names) v = (case v of JStr s \<Rightarrow> s \<in> set names | _ \<Rightarrow> False)"

definition declared :: "(string \<times> jtype) list \<Rightarrow> jsnum json \<Rightarrow> bool" where
  "declared ms d = list_all (\<lambda>(k, t). case member k d of None \<Rightarrow> False | Some v \<Rightarrow> has_type t v) ms"

text \<open>The members \<open>AuthDecision\<close> requires, in its order: first those of the platform, then the two the SDK
  adds to an engine answer.\<close>

definition decision_fields_declared :: "(string \<times> jtype) list" where
  "decision_fields_declared =
     [(''requestId'', TText), (''tool'', TText),
      (''decision'', TOneOf [''allow'', ''deny'', ''human_review'', ''compute'']), (''reason'', TText), (''rule'', TText),
      (''latencyMs'', TNumber), (''mode'', TOneOf [''live'', ''sandbox'']), (''timestamp'', TText)]"

definition shorthand_fields_declared :: "(string \<times> jtype) list" where
  "shorthand_fields_declared = [(''allowed'', TBool), (''computed'', TBool)]"

lemma decision_reply_typed:
  "declared decision_fields_declared (rp_body (decision_reply gw who body tool r))
   \<and> member ''allowed'' (rp_body (decision_reply gw who body tool r)) = None
   \<and> member ''computed'' (rp_body (decision_reply gw who body tool r)) = None"
  unfolding decision_reply_def json_reply_def
  by (cases "ar_decision r")
    (simp_all add: declared_def decision_fields_declared_def member_lookup jint_def mode_of_def
      split: option.split del: rev.simps(2) rev_append append.simps)

text \<open>Every answer of the hosted route has the type the SDK declares for a decision, up to two members.
  Whatever request arrives and whatever the engine answers, a 200 reply has each member that
  \<open>AuthDecision\<close> requires of the platform, with its type, the decision and the mode from the declared
  names; the shorthands \<open>allowed\<close> and \<open>computed\<close>, which the type requires as well, are never sent.\<close>

theorem hosted_answer_has_the_declared_type:
  assumes "authorize gw rq s = (Inr rp, s')" "rp_status rp = 200"
  shows "declared decision_fields_declared (rp_body rp) \<and> \<not> declared shorthand_fields_declared (rp_body rp)"
proof -
  have "\<exists>who body tool r. rp = decision_reply gw who body tool r"
    using assms(1) by (cases rule: authorize_cases) (use assms(2) in \<open>auto simp: refused_def\<close>)
  then show ?thesis using decision_reply_typed by (auto simp: declared_def shorthand_fields_declared_def)
qed

theorem hosted_answer_has_the_declared_type_witness:
  "\<exists>rp s'. authorize (demo_gateway (HttpAnswer 200 (stringify engine_yes))) keyed_request keyed_db = (Inr rp, s')
     \<and> declared decision_fields_declared (rp_body rp)"
proof -
  obtain rp s' where run: "authorize (demo_gateway (HttpAnswer 200 (stringify engine_yes))) keyed_request keyed_db = (Inr rp, s')"
    "rp_status rp = 200" using demo_live_runs by blast
  from hosted_answer_has_the_declared_type [OF run] show ?thesis using run by blast
qed

section \<open>Three readers of one answer\<close>

text \<open>The hosted route, the SDK client and the MCP server read an engine answer alike. For an answer that
  carries an outcome of the engine, the route and the client make the same decision of it and the status
  an agent is told is the same decision's name: a redirect is \<open>compute\<close> for all three, a review a review,
  a denial a denial, and \<open>allow\<close> is what remains of an allow and also of a read-only downgrade, which none
  of the three names shows.\<close>

theorem engine_answers_are_read_alike:
  assumes "carries d oc computed"
  shows "engine_choice d = decision_of d
    \<and> agent_decision_status d =
        (case decision_of d of Allow \<Rightarrow> ''ALLOWED'' | Deny \<Rightarrow> ''DENIED'' | HumanReview \<Rightarrow> ''REQUIRES_HUMAN_REVIEW''
         | Compute \<Rightarrow> ''COMPUTE'')
    \<and> decision_of d =
        (case oc of OReview \<Rightarrow> HumanReview | ODeny \<Rightarrow> Deny | _ \<Rightarrow> if computed then Compute else Allow)"
  using assms
  by (cases oc)
    (auto simp: carries_def engine_choice_def decision_of_def agent_decision_status_def sent_allowed_def sent_review_def
      sent_compute_def)

theorem engine_answers_are_read_alike_witness:
  "engine_choice (reread yes_doc) = Allow \<and> agent_decision_status (reread yes_doc) = ''ALLOWED''"
proof -
  have "carries (reread yes_doc) OAllow False"
    by (simp add: carries_def yes_doc_def member_def truthy_json_def sent_allowed_def sent_scope_def sent_review_def
        sent_compute_def)
  from engine_answers_are_read_alike [OF this] show ?thesis by simp
qed

end
