(* ===== verification/SdkSession.thy ===== *)
theory SdkSession
  imports SdkAdmin SdkReview
begin

text \<open>
  The SDK client as a whole: its public calls as one datatype, a session of calls on one client (a
  call that throws leaves what it sent), and what holds of every request any of them sends.
\<close>

datatype (plugins only: size) client_call =
    Authorize string authorize_request
  | AgentAuthorize string agent_auth_request
  | MintToken mint_request
  | RevokeToken string
  | DelegateScope delegate_request
  | IsHealthy
  | ShadowSummary "rat option"
  | ListQueue
  | GetQueueItem string
  | RedeemReview review authorize_request
  | WaitAndRedeem review authorize_request "int option"
  | ApproveItem string string "string option"
  | DenyItem string string "string option"
  | WaitForApproval string "int option"
  | ScanOutput string "string option" "string option" "(string \<times> string) list option"
  | SimulatorReplay "jsnum json"
  | GetEnginePolicy
  | ValidatePolicy string
  | PutEnginePolicy string "string option"
  | FallbackStatus
  | ListAuditEvents audit_request
  | ListPolicies
  | GetPolicy string
  | UpsertPolicy upsert_request
  | DeletePolicy string
  | AgentReputation string
  | ListReputations string "rat option" "rat option"
  | AgentAnomalies string "string option"
  | AgentBaseline string
  | RefreshBaseline string
  | GetAlerts "string option"
  | AcknowledgeAlert string string
  | ResolveAlert string
  | VaultStore vault_request
  | VaultGetToken string string string
  | VaultRevoke string string string
  | VaultList string
  | VaultProviders
  | RegisterAgent register_request
  | ListAgents "string option"
  | GetAgent string
  | RevokeAgent string
  | SuspendAgent string
  | IssueAgentToken string
  | RegisterOAuthClient oauth_request
  | ListNHI "string option"
  | GetNHI string
  | TopRisks "string option" "rat option"
  | NHIScan "string option"
  | NHIStats "string option"

definition quiet :: "'a sdk \<Rightarrow> unit sdk" where
  "quiet m = andthen m (\<lambda>_. ret ())"

fun run_call :: "(rat \<Rightarrow> string) \<Rightarrow> client \<Rightarrow> client_call \<Rightarrow> unit sdk" where
  "run_call show_num c (Authorize a b) = quiet (client_authorize c a b)"
| "run_call show_num c (AgentAuthorize a b) = quiet (client_agent_authorize c a b)"
| "run_call show_num c (MintToken a) = quiet (mint_token c a)"
| "run_call show_num c (RevokeToken a) = quiet (revoke_token c a)"
| "run_call show_num c (DelegateScope a) = quiet (delegate_scope c a)"
| "run_call show_num c IsHealthy = quiet (is_healthy c)"
| "run_call show_num c (ShadowSummary a) = quiet (get_shadow_summary show_num c a)"
| "run_call show_num c ListQueue = quiet (list_queue c)"
| "run_call show_num c (GetQueueItem a) = quiet (get_queue_item c a)"
| "run_call show_num c (RedeemReview a b) = quiet (redeem_review c a b)"
| "run_call show_num c (WaitAndRedeem a b d) = quiet (wait_and_redeem c a b d)"
| "run_call show_num c (ApproveItem a b d) = quiet (approve_queue_item c a b d)"
| "run_call show_num c (DenyItem a b d) = quiet (deny_queue_item c a b d)"
| "run_call show_num c (WaitForApproval a b) = quiet (wait_for_approval c a b)"
| "run_call show_num c (ScanOutput a b d e) = quiet (scan_tool_result c a b d e)"
| "run_call show_num c (SimulatorReplay a) = quiet (simulator_replay c a)"
| "run_call show_num c GetEnginePolicy = quiet (get_engine_policy c)"
| "run_call show_num c (ValidatePolicy a) = quiet (validate_policy c a)"
| "run_call show_num c (PutEnginePolicy a b) = quiet (put_engine_policy c a b)"
| "run_call show_num c FallbackStatus = quiet (get_fallback_status c)"
| "run_call show_num c (ListAuditEvents a) = quiet (client_list_audit_events show_num c a)"
| "run_call show_num c ListPolicies = quiet (client_list_policies c)"
| "run_call show_num c (GetPolicy a) = quiet (client_get_policy c a)"
| "run_call show_num c (UpsertPolicy a) = quiet (client_upsert_policy c a)"
| "run_call show_num c (DeletePolicy a) = quiet (client_delete_policy c a)"
| "run_call show_num c (AgentReputation a) = quiet (get_agent_reputation c a)"
| "run_call show_num c (ListReputations a b d) = quiet (list_agent_reputations show_num c a b d)"
| "run_call show_num c (AgentAnomalies a b) = quiet (get_agent_anomalies c a b)"
| "run_call show_num c (AgentBaseline a) = quiet (get_agent_baseline c a)"
| "run_call show_num c (RefreshBaseline a) = quiet (refresh_agent_baseline c a)"
| "run_call show_num c (GetAlerts a) = quiet (get_alerts c a)"
| "run_call show_num c (AcknowledgeAlert a b) = quiet (acknowledge_alert c a b)"
| "run_call show_num c (ResolveAlert a) = quiet (resolve_alert c a)"
| "run_call show_num c (VaultStore a) = quiet (vault_store c a)"
| "run_call show_num c (VaultGetToken a b d) = quiet (vault_get_token c a b d)"
| "run_call show_num c (VaultRevoke a b d) = quiet (vault_revoke c a b d)"
| "run_call show_num c (VaultList a) = quiet (vault_list c a)"
| "run_call show_num c VaultProviders = quiet (vault_providers c)"
| "run_call show_num c (RegisterAgent a) = quiet (register_agent c a)"
| "run_call show_num c (ListAgents a) = quiet (client_list_agents c a)"
| "run_call show_num c (GetAgent a) = quiet (client_get_agent c a)"
| "run_call show_num c (RevokeAgent a) = quiet (client_revoke_agent c a)"
| "run_call show_num c (SuspendAgent a) = quiet (suspend_agent c a)"
| "run_call show_num c (IssueAgentToken a) = quiet (issue_agent_token c a)"
| "run_call show_num c (RegisterOAuthClient a) = quiet (register_oauth_client c a)"
| "run_call show_num c (ListNHI a) = quiet (list_nhi c a)"
| "run_call show_num c (GetNHI a) = quiet (get_nhi c a)"
| "run_call show_num c (TopRisks a b) = quiet (get_top_risks show_num c a b)"
| "run_call show_num c (NHIScan a) = quiet (trigger_nhi_scan c a)"
| "run_call show_num c (NHIStats a) = quiet (get_nhi_stats c a)"

fun run_session :: "(rat \<Rightarrow> string) \<Rightarrow> client \<Rightarrow> client_call list \<Rightarrow> net \<Rightarrow> net" where
  "run_session show_num c [] s = s"
| "run_session show_num c (op # ops) s = run_session show_num c ops (snd (run_call show_num c op s))"

section \<open>Every request is the client's own\<close>

text \<open>To the configured address, with the configured key and no other credential.\<close>

definition own_request :: "client \<Rightarrow> http_request \<Rightarrow> bool" where
  "own_request c r =
     (starts_with (c_base c @ ''/'') (hr_url r)
      \<and> map snd (filter (\<lambda>(k, v). k = ''Authorization'') (hr_headers r))
          = (if truthy (c_key c) then [''Bearer '' @ the (c_key c)] else []))"

definition sent_own :: "client \<Rightarrow> http_request list \<Rightarrow> net \<Rightarrow> bool" where
  "sent_own c before s = (\<exists>rs. nt_sent s = before @ rs \<and> list_all (own_request c) rs)"

lemma own_headers: "map snd (filter (\<lambda>(k, v). k = ''Authorization'') (headers c ct))
    = (if truthy (c_key c) then [''Bearer '' @ the (c_key c)] else [])"
  by (simp add: headers_def)

lemma starts_with_base: "starts_with (b @ p) (b @ q) = starts_with p q"
  by (simp add: starts_with_def)

lemma own_fetch: "own_request c r \<Longrightarrow> preserves (sent_own c before) (fetch l r)"
  by (auto simp: preserves_def sent_own_def fetch_frame [OF surjective_pairing])

lemma own_parse [pres]: "preserves I (parse_response res)"
  by (simp add: preserves_def parse_response_state [OF surjective_pairing])

lemma own_members [pres]: "preserves I (members d)"
  by (simp add: preserves_def members_state [OF surjective_pairing])

lemma own_check [pres]: "preserves I (check ok)"
  by (auto simp: check_def intro: pres)

lemma own_call: "own_request c r \<Longrightarrow> preserves (sent_own c before) (call_json c r)"
  unfolding call_json_def by (intro pres own_fetch)

lemma own_post [pres]: "starts_with ''/'' path \<Longrightarrow> preserves (sent_own c before) (post c path body)"
  unfolding post_def by (rule own_call) (simp add: own_request_def starts_with_base own_headers)

lemma own_get [pres]: "starts_with ''/'' path \<Longrightarrow> preserves (sent_own c before) (get c path)"
  unfolding get_def by (rule own_call) (simp add: own_request_def starts_with_base own_headers)

lemma own_delete [pres]: "starts_with ''/'' path \<Longrightarrow> preserves (sent_own c before) (delete c path)"
  unfolding delete_def by (rule own_call) (simp add: own_request_def starts_with_base own_headers)

lemma own_views [pres]: "preserves I (views names ds)"
proof (induction ds)
  case Nil
  show ?case unfolding views.simps by (intro pres)
next
  case (Cons d ds)
  then show ?case unfolding views.simps by (intro pres)
qed

lemma own_map_views [pres]: "preserves I (map_views names v)"
proof (cases v)
  case (Some d)
  then show ?thesis by (cases d) (simp_all add: map_views_def pres own_views)
qed (simp add: map_views_def pres)

lemma own_renamed [pres]: "preserves I m \<Longrightarrow> preserves I (renamed names m)"
  unfolding renamed_def by (intro pres)

lemma own_policy_member [pres]: "preserves I m \<Longrightarrow> preserves I (policy_member m)"
  unfolding policy_member_def by (intro pres)

lemma own_quiet [pres]: "preserves I m \<Longrightarrow> preserves I (quiet m)"
  unfolding quiet_def by (intro pres)

lemma own_request_at: "starts_with ''/'' path \<Longrightarrow> map snd (filter (\<lambda>(k, v). k = ''Authorization'') hs) =
    (if truthy (c_key c) then [''Bearer '' @ the (c_key c)] else [])
    \<Longrightarrow> own_request c \<lparr>hr_method = m, hr_url = c_base c @ path, hr_headers = hs, hr_body = b\<rparr>"
  by (simp add: own_request_def starts_with_base)

lemma rooted [simp]: "starts_with ''/'' (CHR ''/'' # path)"
  by (simp add: starts_with_def)

lemma rooted_query [simp]: "starts_with ''/'' (with_query (CHR ''/'' # path) kvs)"
  by (simp add: with_query_def)

lemma rooted_tenant [simp]: "starts_with ''/'' (for_tenant (CHR ''/'' # path) tenant)"
  by (simp add: for_tenant_def)

lemmas rooted_paths = queue_path_def agent_path_def analytics_path_def

lemma own_poll: "preserves (sent_own c before) (poll c i deadline hard)"
proof -
  have "own_request c (poll_request c i ms)" for ms
    unfolding poll_request_def by (rule own_request_at) (simp_all add: own_headers rooted_paths)
  moreover have "\<exists>ms. nt_sent (snd (poll c i deadline hard s)) = nt_sent s @ [poll_request c i ms]" for s
    using poll_frame [OF surjective_pairing] by blast
  ultimately show ?thesis
    unfolding preserves_def sent_own_def by (metis append.assoc list_all_append list.pred_inject)
qed

lemma own_wait_loop: "preserves (sent_own c before) (wait_loop c i deadline hard)"
proof -
  have "sent_own c before s \<Longrightarrow> sent_own c before (snd (wait_loop c i deadline hard s))" for s
  proof (induction c i deadline hard s rule: wait_loop.induct)
    case (1 c i deadline hard s)
    have final: "sent_own c before (snd (get c (queue_path i []) s))"
      using 1(2) own_get [of "queue_path i []" c before] by (simp add: preserves_def rooted_paths)
    obtain y s1 where p: "poll c i deadline hard s = (y, s1)" by force
    have "sent_own c before s1" using preservesD [OF own_poll 1(2) p] .
    then show ?case using 1(1) final p by (subst wait_loop.simps) (auto split: sum.split)
  qed
  then show ?thesis by (simp add: preserves_def)
qed

lemmas call_defs = client_authorize_def client_agent_authorize_def authorize_body_def mint_token_def revoke_token_def
  delegate_scope_def is_healthy_def get_shadow_summary_def list_queue_def get_queue_item_def redeem_review_def
  review_id_of_def wait_and_redeem_def approve_queue_item_def deny_queue_item_def scan_tool_result_def
  simulator_replay_def get_engine_policy_def validate_policy_def put_engine_policy_def get_fallback_status_def
  client_list_audit_events_def client_list_policies_def client_get_policy_def client_upsert_policy_def
  client_delete_policy_def get_agent_reputation_def list_agent_reputations_def get_agent_anomalies_def
  get_agent_baseline_def refresh_agent_baseline_def get_alerts_def acknowledge_alert_def resolve_alert_def
  vault_store_def vault_get_token_def vault_revoke_def vault_list_def vault_providers_def register_agent_def
  client_list_agents_def client_get_agent_def client_revoke_agent_def suspend_agent_def issue_agent_token_def
  register_oauth_client_def list_nhi_def get_nhi_def get_top_risks_def trigger_nhi_scan_def get_nhi_stats_def

lemma own_wait [pres]: "preserves (sent_own c before) (wait_for_approval c i timeout)"
  using own_wait_loop by (auto simp: preserves_def wait_for_approval_def Let_def)

lemma preserves_case_review [pres]:
  "(\<And>i. r = ById i \<Longrightarrow> preserves I (f i)) \<Longrightarrow> (\<And>d. r = ByDecision d \<Longrightarrow> preserves I (g d))
    \<Longrightarrow> preserves I (case r of ById i \<Rightarrow> f i | ByDecision d \<Rightarrow> g d)"
  by (cases r) auto

lemma own_run_call: "preserves (sent_own c before) (run_call show_num c op)"
  by (cases op; hypsubst; unfold run_call.simps call_defs;
      (intro pres own_call own_fetch own_request_at; simp add: rooted_paths own_headers get_request_def own_request_at))

text \<open>A client talks to its own server only. Whatever calls are made on a client, in whatever order,
  with whatever identifiers and answers, and whether they return or throw, each request it sends goes to a
  path below its configured address and carries its key as the only credential, or none when it has no
  key; nothing it sent before is lost.\<close>

theorem client_talks_to_its_server_only:
  "\<exists>rs. nt_sent (run_session show_num c ops s) = nt_sent s @ rs \<and> list_all (own_request c) rs"
proof -
  have "sent_own c before s \<Longrightarrow> sent_own c before (run_session show_num c ops s)" for before
    using own_run_call by (induction ops arbitrary: s) (auto simp: preserves_def)
  from this [of "nt_sent s"] show ?thesis by (auto simp: sent_own_def)
qed

end
