(* ===== verification/LeluHandler.thy ===== *)
theory LeluHandler
  imports SdkSession
begin

text \<open>
  The shared instance of the SDK (\<open>sdk/typescript/src/lelu.ts\<close>): the default actor, the routes
  \<open>auth.handler\<close> serves and its error answers, with the Express mount of
  \<open>express/index.ts\<close> (\<open>toNodeHandler\<close>). A request is its verb, the path of its parsed address
  (still percent-encoded) and its body; requests arrive as JSON, so the schemas of \<open>types.ts\<close> are
  read off JSON values here. A number beyond the doubles is rejected by \<open>z.number()\<close>. The words of a
  runtime error are the argument \<open>words\<close>.
\<close>

section \<open>Requests read from JSON\<close>

text \<open>An optional member: absent is fine, present must pass \<open>f\<close>.\<close>

definition optional_member :: "(jsnum json \<Rightarrow> 'a option) \<Rightarrow> string \<Rightarrow> jsnum json \<Rightarrow> 'a option option" where
  "optional_member f k d = (case member k d of None \<Rightarrow> Some None | Some v \<Rightarrow> map_option Some (f v))"

fun text_value :: "jsnum json \<Rightarrow> string option" where
  "text_value (JStr s) = Some s"
| "text_value _ = None"

fun number_value :: "jsnum json \<Rightarrow> rat option" where
  "number_value (JNum (Fin r)) = Some r"
| "number_value _ = None"

fun numbers_value :: "jsnum json \<Rightarrow> rat list option" where
  "numbers_value (JArr vs) = those (map number_value vs)"
| "numbers_value _ = None"

fun members_value :: "jsnum json \<Rightarrow> (string \<times> jsnum json) list option" where
  "members_value (JObj kvs) = Some kvs"
| "members_value _ = None"

definition signal_value :: "jsnum json \<Rightarrow> confidence_signal option" where
  "signal_value d =
     (case (members_value d, member ''provider'' d, optional_member numbers_value ''tokenLogProbs'' d,
            optional_member numbers_value ''tokenProbabilities'' d, optional_member number_value ''entropy'' d,
            optional_member number_value ''entropyMax'' d) of
        (Some _, Some (JStr p), Some lps, Some ps, Some e, Some em) \<Rightarrow>
          Some \<lparr>sg_provider = p, sg_logprobs = lps, sg_probs = ps, sg_entropy = e, sg_entropy_max = em\<rparr>
      | _ \<Rightarrow> None)"

definition context_value :: "jsnum json \<Rightarrow> agent_context option" where
  "context_value d =
     (case (members_value d, optional_member signal_value ''signal'' d, optional_member number_value ''confidence'' d,
            optional_member text_value ''actingFor'' d, optional_member text_value ''scope'' d) of
        (Some _, Some sg, Some cf, Some af, Some sc) \<Rightarrow>
          Some \<lparr>cx_signal = sg, cx_confidence = cf, cx_acting_for = af, cx_scope = sc\<rparr>
      | _ \<Rightarrow> None)"

text \<open>The shape of \<open>AuthorizeRequestSchema\<close>; the checks on the values are \<open>authorize_request_ok\<close>.\<close>

definition authorize_value :: "jsnum json \<Rightarrow> authorize_request option" where
  "authorize_value d =
     (case (members_value d, member ''tool'' d, optional_member text_value ''actor'' d,
            optional_member context_value ''context'' d, optional_member members_value ''args'' d) of
        (Some _, Some (JStr t), Some a, Some cx, Some args) \<Rightarrow>
          Some \<lparr>az_tool = t, az_actor = a, az_context = cx, az_args = args\<rparr>
      | _ \<Rightarrow> None)"

section \<open>The instance\<close>

record instance_options = client_config +
  io_actor :: "string option"
  io_base_path :: "string option"

record lelu_instance =
  li_api :: client
  li_actor :: "string option"
  li_base_path :: string

text \<open>Trailing slashes of a path, and slashes at both ends.\<close>

definition drop_trailing :: "string \<Rightarrow> string" where
  "drop_trailing s = rev (dropWhile (\<lambda>c. c = CHR ''/'') (rev s))"

definition trim_slashes :: "string \<Rightarrow> string" where
  "trim_slashes s = drop_trailing (dropWhile (\<lambda>c. c = CHR ''/'') s)"

definition lelu :: "string option \<Rightarrow> string option \<times> string option \<Rightarrow> instance_options \<Rightarrow> lelu_instance" where
  "lelu env_base found opts = \<lparr>
     li_api = new_client env_base found (client_config.truncate opts),
     li_actor = io_actor opts,
     li_base_path = drop_trailing (nullish (io_base_path opts) ''/api/lelu'')\<rparr>"

text \<open>\<open>{ ...req, ...(req.actor === undefined && actor !== undefined ? { actor } : {}) }\<close>\<close>

definition with_actor :: "string option \<Rightarrow> authorize_request \<Rightarrow> authorize_request" where
  "with_actor actor r = (case az_actor r of None \<Rightarrow> r\<lparr>az_actor := actor\<rparr> | Some _ \<Rightarrow> r)"

definition instance_authorize :: "lelu_instance \<Rightarrow> string \<Rightarrow> authorize_request \<Rightarrow> auth_decision sdk" where
  "instance_authorize auth stamp r = client_authorize (li_api auth) stamp (with_actor (li_actor auth) r)"

text \<open>The same on a body as it arrives: \<open>null\<close> has no member \<open>actor\<close>, and what the schemas
  reject is thrown.\<close>

definition authorize_sent :: "lelu_instance \<Rightarrow> string \<Rightarrow> jsnum json \<Rightarrow> auth_decision sdk" where
  "authorize_sent auth stamp body =
     andthen (members body) (\<lambda>body.
     case authorize_value body of None \<Rightarrow> throw Invalid | Some r \<Rightarrow> instance_authorize auth stamp r)"

section \<open>Answers\<close>

record web_request =
  wr_method :: string
  wr_path :: string
  wr_body :: "string option"

record web_response =
  ws_status :: int
  ws_body :: "jsnum json"

fun decision_word :: "decision \<Rightarrow> string" where
  "decision_word Allow = ''allow''"
| "decision_word Deny = ''deny''"
| "decision_word HumanReview = ''human_review''"
| "decision_word Compute = ''compute''"

text \<open>A decision as \<open>JSON.stringify\<close> prints it: undefined members are left out.\<close>

definition decision_json :: "auth_decision \<Rightarrow> jsnum json" where
  "decision_json d = JObj
     (when_some ''requestId'' (ad_request_id d)
      @ [(''tool'', JStr (ad_tool d)), (''decision'', JStr (decision_word (ad_decision d)))]
      @ when_some ''reason'' (ad_reason d)
      @ [(''rule'', JStr (ad_rule d)), (''latencyMs'', jnum (of_int (ad_latency d))), (''mode'', JStr (ad_mode d)),
         (''timestamp'', JStr (ad_stamp d))]
      @ when_some ''allowed'' (ad_allowed d) @ [(''computed'', JBool (ad_computed d))]
      @ when_some ''safeTool'' (ad_safe_tool d) @ when_some ''safeArgs'' (ad_safe_args d)
      @ when_some ''downgradedScope'' (ad_downgraded d) @ when_some ''effectiveScope'' (ad_effective d)
      @ when_some ''reviewId'' (ad_review_id d) @ when_some ''inputHash'' (ad_input_hash d)
      @ when_some ''outputHash'' (ad_output_hash d) @ when_some ''policyDigest'' (ad_digest d))"

definition answer :: "int \<Rightarrow> jsnum json \<Rightarrow> web_response" where
  "answer status body = \<lparr>ws_status = status, ws_body = body\<rparr>"

definition not_found :: web_response where
  "not_found = answer 404 (JObj [(''error'', JStr ''not_found'')])"

section \<open>Routes\<close>

definition segments :: "string \<Rightarrow> string \<Rightarrow> string list" where
  "segments base_path pathname =
     (let rest = trim_slashes (drop (length base_path) pathname) in if rest = [] then [] else split_on CHR ''/'' rest)"

text \<open>\<open>method.toUpperCase()\<close> on the letters of a verb.\<close>

definition upper_letter :: "char \<Rightarrow> char" where
  "upper_letter c = (let n = of_char c :: nat in if 97 \<le> n \<and> n \<le> 122 then char_of (n - 32) else c)"

definition request_json :: "web_request \<Rightarrow> jsnum json option" where
  "request_json r = Option.bind (wr_body r) parse_json"

text \<open>Approving and denying with what the body names, of whatever type.\<close>

definition resolve_item :: "client \<Rightarrow> string \<Rightarrow> string \<Rightarrow> jsnum json \<Rightarrow> jsnum json \<Rightarrow> jsnum json sdk" where
  "resolve_item c verb i by_whom note_value =
     post c (queue_path i (''/'' @ verb)) (JObj [(''resolved_by'', by_whom), (''note'', note_value)])"

definition route :: "lelu_instance \<Rightarrow> string \<Rightarrow> web_request \<Rightarrow> web_response sdk" where
  "route auth stamp r =
     (let base_path = li_base_path auth; path = wr_path r; api = li_api auth;
          segs = segments base_path path; verb = map upper_letter (wr_method r)
      in if path \<noteq> base_path \<and> \<not> starts_with (base_path @ ''/'') path then ret not_found
         else if verb = ''POST'' \<and> segs = [''authorize'']
         then (case request_json r of
                 None \<Rightarrow> throw BadJson
               | Some body \<Rightarrow> andthen (authorize_sent auth stamp body) (\<lambda>d. ret (answer 200 (decision_json d))))
         else if verb = ''GET'' \<and> segs = [''queue''] then andthen (list_queue api) (\<lambda>d. ret (answer 200 d))
         else if verb = ''POST'' \<and> length segs = 3 \<and> hd segs = ''queue''
         then andthen (members (nullish (request_json r) (JObj []))) (\<lambda>body.
              let by_whom = nullish_json (member ''resolvedBy'' body) (JStr ''handler'');
                  note_value = nullish_json (member ''note'' body) (JStr [])
              in if segs ! 2 \<in> {''approve'', ''deny''}
                 then andthen (resolve_item api (segs ! 2) (segs ! 1) by_whom note_value) (\<lambda>d. ret (answer 200 d))
                 else ret not_found)
         else if verb = ''GET'' \<and> segs = [''ok'']
         then andthen (is_healthy api) (\<lambda>ok. ret (answer 200 (JObj [(''ok'', JBool ok)])))
         else ret not_found)"

definition error_status :: "sdk_error \<Rightarrow> int" where
  "error_status e = (case e of EngineError m status details \<Rightarrow> status | NoReviewId \<Rightarrow> 502 | _ \<Rightarrow> 500)"

text \<open>\<open>err.message\<close>: the constructor of an error makes a text of what it is given.\<close>

definition error_message :: "(jsnum \<Rightarrow> string) \<Rightarrow> (sdk_error \<Rightarrow> string) \<Rightarrow> sdk_error \<Rightarrow> string" where
  "error_message print words e = (case e of EngineError m status details \<Rightarrow> js_string print m | _ \<Rightarrow> words e)"

definition error_answer :: "(jsnum \<Rightarrow> string) \<Rightarrow> (sdk_error \<Rightarrow> string) \<Rightarrow> sdk_error \<Rightarrow> web_response" where
  "error_answer print words e = answer (error_status e)
     (JObj ((''error'', JStr (error_message print words e))
            # (case e of EngineError m status details \<Rightarrow> [(''details'', details)] | _ \<Rightarrow> [])))"

definition lelu_handler ::
  "(jsnum \<Rightarrow> string) \<Rightarrow> (sdk_error \<Rightarrow> string) \<Rightarrow> lelu_instance \<Rightarrow> string \<Rightarrow> web_request \<Rightarrow> (net, sdk_error, web_response) prog" where
  "lelu_handler print words auth stamp r = try_catch (route auth stamp r) (\<lambda>e. ret (error_answer print words e))"

section \<open>The Express mount\<close>

text \<open>\<open>req.body\<close> is set by a body parser; without one the body is read in chunks. A header is a
  text or a list of texts.\<close>

datatype node_body = Parsed "jsnum json" | Chunks "string list"

datatype header_value = OneValue string | ManyValues "string list" | NoValue

record node_request =
  nr_method :: string
  nr_protocol :: "string option"
  nr_host :: "string option"
  nr_url :: string
  nr_headers :: "(string \<times> header_value) list"
  nr_body :: node_body

definition forwarded_url :: "node_request \<Rightarrow> string" where
  "forwarded_url r =
     (if truthy (nr_protocol r) then the (nr_protocol r) else ''http'') @ ''://'' @ nullish (nr_host r) ''localhost'' @ nr_url r"

fun forwarded_headers :: "(string \<times> header_value) list \<Rightarrow> (string \<times> string) list" where
  "forwarded_headers [] = []"
| "forwarded_headers ((k, OneValue v) # hs) = (k, v) # forwarded_headers hs"
| "forwarded_headers ((k, ManyValues vs) # hs) = (k, join '', '' vs) # forwarded_headers hs"
| "forwarded_headers ((k, NoValue) # hs) = forwarded_headers hs"

text \<open>The text sent on: nothing for \<open>GET\<close> and \<open>HEAD\<close>, else a parsed text as it is, another
  parsed value printed again, or the chunks put together.\<close>

definition forwarded_body :: "(jsnum json \<Rightarrow> string) \<Rightarrow> node_request \<Rightarrow> string option" where
  "forwarded_body show_json r =
     (if nr_method r \<in> {''GET'', ''HEAD''} then None
      else case nr_body r of
             Parsed (JStr s) \<Rightarrow> Some s
           | Parsed v \<Rightarrow> Some (show_json v)
           | Chunks cs \<Rightarrow> if cs = [] then None else Some (concat cs))"

text \<open>The path of an address without dot segments: up to the query or fragment.\<close>

definition url_path :: "string \<Rightarrow> string" where
  "url_path u = takeWhile (\<lambda>c. c \<notin> {CHR ''?'', CHR ''#''}) u"

definition node_handler ::
  "(jsnum json \<Rightarrow> string) \<Rightarrow> (jsnum \<Rightarrow> string) \<Rightarrow> (sdk_error \<Rightarrow> string) \<Rightarrow> lelu_instance \<Rightarrow> string \<Rightarrow> node_request
    \<Rightarrow> (net, sdk_error, web_response) prog" where
  "node_handler show_json print words auth stamp r = lelu_handler print words auth stamp
     \<lparr>wr_method = nr_method r, wr_path = url_path (nr_url r), wr_body = forwarded_body show_json r\<rparr>"

end
