(* ===== verification/LeluHandlerProps.thy ===== *)
theory LeluHandlerProps
  imports LeluHandler SdkProps
begin

text \<open>
  What the handler of the shared instance promises: which requests of the engine it gives access to, whose
  name an authorization is asked in, what a caller sees when the engine refuses or is away, and that the
  Express mount adds nothing to it.
\<close>

section \<open>At most one request\<close>

named_theorems one_request

definition silent :: "'a sdk \<Rightarrow> bool" where
  "silent m = (\<forall>s. nt_sent (snd (m s)) = nt_sent s)"

definition sends :: "(http_request \<Rightarrow> bool) \<Rightarrow> 'a sdk \<Rightarrow> bool" where
  "sends P m = (\<forall>s. nt_sent (snd (m s)) = nt_sent s \<or> (\<exists>r. P r \<and> nt_sent (snd (m s)) = nt_sent s @ [r]))"

lemma silent_ret [one_request]: "silent (ret x)"
  by (simp add: silent_def)

lemma silent_throw [one_request]: "silent (throw e)"
  by (simp add: silent_def)

lemma silent_members [one_request]: "silent (members d)"
  by (simp add: silent_def members_def)

lemma silent_check [one_request]: "silent (check ok)"
  by (simp add: silent_def check_def)

lemma silent_andthen [one_request]: "silent m \<Longrightarrow> (\<And>x. silent (f x)) \<Longrightarrow> silent (andthen m f)"
  by (auto simp: silent_def andthen_apply split: prod.split sum.split) (metis snd_conv)+

lemma silent_sends: "silent m \<Longrightarrow> sends P m"
  by (simp add: silent_def sends_def)

lemma sends_then_silent: "sends P m \<Longrightarrow> (\<And>x. silent (f x)) \<Longrightarrow> sends P (andthen m f)"
  unfolding sends_def silent_def andthen_apply by (auto split: prod.split sum.split) (metis snd_conv)+

lemma silent_then_sends: "silent m \<Longrightarrow> (\<And>x. sends P (f x)) \<Longrightarrow> sends P (andthen m f)"
  unfolding sends_def silent_def andthen_apply by (auto split: prod.split sum.split) (metis snd_conv)+

lemma sends_try: "sends P m \<Longrightarrow> (\<And>e. silent (h e)) \<Longrightarrow> sends P (try_catch m h)"
  unfolding sends_def silent_def try_catch_apply by (auto split: prod.split sum.split) (metis snd_conv)+

lemma sends_call: "P r \<Longrightarrow> sends P (call_json c r)"
  by (auto simp: sends_def call_frame [OF surjective_pairing])

lemma sends_fetch: "P r \<Longrightarrow> sends P (fetch l r)"
  by (auto simp: sends_def fetch_frame [OF surjective_pairing])

section \<open>What the handler opens\<close>

text \<open>The engine's requests that are behind the four routes.\<close>

definition behind_handler :: "client \<Rightarrow> http_request \<Rightarrow> bool" where
  "behind_handler c r =
     (own_request c r
      \<and> ((hr_method r = ''POST'' \<and> hr_url r = c_base c @ ''/v1/agent/authorize'')
         \<or> (hr_method r = ''GET'' \<and> hr_url r = c_base c @ ''/v1/queue/pending'')
         \<or> (hr_method r = ''POST'' \<and> (\<exists>i. hr_url r = c_base c @ queue_path i ''/approve'' \<or> hr_url r = c_base c @ queue_path i ''/deny''))
         \<or> (hr_method r = ''GET'' \<and> hr_url r = c_base c @ ''/healthz'')))"

lemma sends_authorize: "sends (behind_handler c) (client_authorize c stamp r)"
  unfolding client_authorize_def authorize_body_def post_def
  by (intro silent_then_sends sends_then_silent sends_call one_request)
     (simp add: behind_handler_def own_request_at own_headers)

lemma sends_authorize_sent: "sends (behind_handler (li_api auth)) (authorize_sent auth stamp body)"
  unfolding authorize_sent_def instance_authorize_def
  by (intro silent_then_sends one_request) (auto split: option.split intro: silent_sends one_request sends_authorize)

lemma sends_list: "sends (behind_handler c) (list_queue c)"
  unfolding list_queue_def get_def by (rule sends_call) (simp add: behind_handler_def own_request_at own_headers)

lemma sends_resolve: "verb \<in> {''approve'', ''deny''} \<Longrightarrow> sends (behind_handler c) (resolve_item c verb i w n)"
  unfolding resolve_item_def post_def
  by (rule sends_call) (auto simp: behind_handler_def own_request_at own_headers rooted_paths)

lemma sends_health: "sends (behind_handler c) (is_healthy c)"
  unfolding is_healthy_def get_request_def
  by (intro sends_try sends_then_silent sends_fetch one_request) (simp add: behind_handler_def own_request_at own_headers)

lemma sends_if: "(b \<Longrightarrow> sends P m) \<Longrightarrow> (\<not> b \<Longrightarrow> sends P n) \<Longrightarrow> sends P (if b then m else n)"
  by simp

lemma sends_json_case: "sends P m \<Longrightarrow> (\<And>y. sends P (f y)) \<Longrightarrow> sends P (case x of None \<Rightarrow> m | Some y \<Rightarrow> f y)"
  by (cases x) auto

lemma sends_route: "sends (behind_handler (li_api auth)) (route auth stamp r)"
  unfolding route_def Let_def
  by (intro sends_if sends_json_case sends_then_silent sends_authorize_sent sends_list sends_health
      silent_then_sends sends_resolve) (auto intro!: silent_sends one_request)

text \<open>C23: The handler opens four doors of the engine and no other. Whatever a caller sends and whatever the engine
  answers, the handler returns an answer, and it sends the engine nothing or one request with the instance's own
  address and key, which authorizes an action, lists the queue, approves or denies an item, or asks for the engine's
  health.\<close>

theorem handler_opens_four_doors:
  "\<exists>rp s'. lelu_handler print words auth stamp r s = (Inr rp, s')
    \<and> (nt_sent s' = nt_sent s \<or> (\<exists>q. behind_handler (li_api auth) q \<and> nt_sent s' = nt_sent s @ [q]))"
proof -
  obtain rp s' where run: "lelu_handler print words auth stamp r s = (Inr rp, s')"
    by (cases "route auth stamp r s"; cases "fst (route auth stamp r s)")
       (auto simp: lelu_handler_def try_catch_apply)
  have "sends (behind_handler (li_api auth)) (lelu_handler print words auth stamp r)"
    unfolding lelu_handler_def by (intro sends_try sends_route one_request)
  then have "nt_sent s' = nt_sent s \<or> (\<exists>q. behind_handler (li_api auth) q \<and> nt_sent s' = nt_sent s @ [q])"
    using run unfolding sends_def by (metis snd_conv)
  with run show ?thesis by blast
qed

section \<open>The actor\<close>

lemma post_sent: "nt_sent (snd (post c path body s)) = nt_sent s @
    [\<lparr>hr_method = ''POST'', hr_url = c_base c @ path, hr_headers = headers c ''application/json'', hr_body = JsonBody body\<rparr>]"
  by (simp add: post_def call_frame [OF surjective_pairing])

lemma sent_then_silent: "(\<And>x. silent (f x)) \<Longrightarrow> nt_sent (snd (andthen m f s)) = nt_sent (snd (m s))"
  by (auto simp: silent_def andthen_apply split: prod.split sum.split)

lemma authorize_sends:
  assumes "authorize_request_ok r"
  shows "nt_sent (snd (client_authorize c stamp r s)) = nt_sent s @
    [\<lparr>hr_method = ''POST'', hr_url = c_base c @ ''/v1/agent/authorize'', hr_headers = headers c ''application/json'',
      hr_body = JsonBody (authorize_doc r)\<rparr>]"
proof -
  have "client_authorize c stamp r = andthen (post c ''/v1/agent/authorize'' (authorize_doc r))
      (\<lambda>d. andthen (members d) (\<lambda>d. ret (auth_decision_of stamp (az_tool r) d)))"
    using assms by (simp only: client_authorize_def authorize_body_def check_def if_True andthen_ret)
  then show ?thesis by (simp add: sent_then_silent one_request post_sent)
qed

lemma with_actor_ok: "authorize_request_ok (with_actor a r) = authorize_request_ok r"
  by (simp add: with_actor_def authorize_request_ok_def split: option.split)

lemma authorize_actor: "member ''actor'' (authorize_doc r) = nonempty (az_actor r)"
  by (simp add: authorize_doc_def Let_def member_lookup split: option.split del: rev.simps(2) rev_append append.simps)

lemma authorize_action: "member ''action'' (authorize_doc r) = Some (JStr (az_tool r))"
  by (simp add: authorize_doc_def Let_def member_lookup split: option.split del: rev.simps(2) rev_append append.simps)

text \<open>The instance's actor fills a gap and never replaces a name. An accepted authorization is one request for the
  tool that was asked; it names the actor of the request when that is a text other than the empty one, the instance's
  default actor when the request has none, and nobody when the request's actor is the empty text.\<close>

theorem default_actor_fills_gaps:
  assumes "authorize_request_ok r"
  shows "\<exists>q d. nt_sent (snd (instance_authorize auth stamp r s)) = nt_sent s @ [q] \<and> hr_body q = JsonBody d
    \<and> member ''action'' d = Some (JStr (az_tool r))
    \<and> member ''actor'' d = (case az_actor r of None \<Rightarrow> nonempty (li_actor auth) | Some a \<Rightarrow> if a = [] then None else Some (JStr a))"
proof -
  let ?r = "with_actor (li_actor auth) r"
  have sent: "nt_sent (snd (instance_authorize auth stamp r s)) = nt_sent s @
    [\<lparr>hr_method = ''POST'', hr_url = c_base (li_api auth) @ ''/v1/agent/authorize'',
      hr_headers = headers (li_api auth) ''application/json'', hr_body = JsonBody (authorize_doc ?r)\<rparr>]"
    using assms by (simp add: instance_authorize_def authorize_sends with_actor_ok)
  have "member ''action'' (authorize_doc ?r) = Some (JStr (az_tool r))"
    by (simp add: authorize_action with_actor_def split: option.split)
  moreover have "member ''actor'' (authorize_doc ?r)
      = (case az_actor r of None \<Rightarrow> nonempty (li_actor auth) | Some a \<Rightarrow> if a = [] then None else Some (JStr a))"
    by (simp add: authorize_actor with_actor_def nonempty_def truthy_def split: option.split)
  ultimately show ?thesis by (simp add: sent)
qed

section \<open>Errors\<close>

text \<open>A body that authorizes: the schema accepts it.\<close>

definition authorizes :: "web_request \<Rightarrow> authorize_request \<Rightarrow> bool" where
  "authorizes r q = (\<exists>d. request_json r = Some d \<and> d \<noteq> JNull \<and> authorize_value d = Some q \<and> authorize_request_ok q)"

definition handler_path :: "lelu_instance \<Rightarrow> string list \<Rightarrow> string" where
  "handler_path auth segs = li_base_path auth @ ''/'' @ join ''/'' segs"

lemma drop_trailing_last: "xs \<noteq> [] \<Longrightarrow> last xs \<noteq> CHR ''/'' \<Longrightarrow> drop_trailing xs = xs"
  by (cases xs rule: rev_cases) (auto simp: drop_trailing_def)

lemma join_last:
  assumes "segs \<noteq> []" "\<forall>w \<in> set segs. CHR ''/'' \<notin> set w" "last segs \<noteq> []"
  shows "last (join ''/'' segs) \<noteq> CHR ''/'' \<and> join ''/'' segs \<noteq> []"
  using assms
proof (induction segs rule: induct_list012)
  case (2 x)
  then show ?case by simp (metis last_in_set)
next
  case (3 x y zs)
  then show ?case by auto
qed simp

lemma segments_of_path:
  assumes "segs \<noteq> []" "\<forall>w \<in> set segs. CHR ''/'' \<notin> set w" "hd segs \<noteq> []" "last segs \<noteq> []"
  shows "segments (li_base_path auth) (handler_path auth segs) = segs"
proof -
  let ?j = "join ''/'' segs"
  have h: "?j \<noteq> [] \<and> hd ?j \<noteq> CHR ''/''" using assms
    by (cases segs; cases "tl segs"; cases "hd segs") auto
  have l: "last ?j \<noteq> CHR ''/'' \<and> ?j \<noteq> []" by (rule join_last) (use assms in auto)
  have "trim_slashes (CHR ''/'' # ?j) = ?j"
    using h l by (cases ?j) (auto simp: trim_slashes_def drop_trailing_last)
  moreover have "split_on CHR ''/'' ?j = segs" using assms(1,2)
    by (induction segs rule: induct_list012) (auto simp: split_on_no_sep split_on_append)
  ultimately show ?thesis using h by (simp add: segments_def handler_path_def Let_def)
qed

lemma route_below_base: "starts_with (li_base_path auth @ ''/'') (handler_path auth segs)"
  by (simp add: handler_path_def starts_with_iff)

lemma upper_verbs: "map upper_letter ''GET'' = ''GET''" "map upper_letter ''POST'' = ''POST''"
  by (simp_all add: upper_letter_def Let_def)

text \<open>The five routes on paths that reach them.\<close>

lemma route_authorize:
  assumes "wr_method r = ''POST''" "wr_path r = handler_path auth [''authorize'']" "authorizes r q"
  shows "route auth stamp r = andthen (instance_authorize auth stamp q) (\<lambda>d. ret (answer 200 (decision_json d)))"
  using assms(3) unfolding authorizes_def route_def Let_def assms(1,2) upper_verbs
  by (auto simp: segments_of_path route_below_base authorize_sent_def members_def)

lemma route_queue:
  assumes "wr_method r = ''GET''" "wr_path r = handler_path auth [''queue'']"
  shows "route auth stamp r = andthen (list_queue (li_api auth)) (\<lambda>d. ret (answer 200 d))"
  unfolding route_def Let_def assms upper_verbs by (simp add: segments_of_path route_below_base)

lemma route_ok:
  assumes "wr_method r = ''GET''" "wr_path r = handler_path auth [''ok'']"
  shows "route auth stamp r = andthen (is_healthy (li_api auth)) (\<lambda>ok. ret (answer 200 (JObj [(''ok'', JBool ok)])))"
  unfolding route_def Let_def assms upper_verbs by (simp add: segments_of_path route_below_base)

definition resolve_body :: "web_request \<Rightarrow> jsnum json \<times> jsnum json" where
  "resolve_body r =
     (let body = nullish (request_json r) (JObj [])
      in (nullish_json (member ''resolvedBy'' body) (JStr ''handler''), nullish_json (member ''note'' body) (JStr [])))"

lemma route_resolve:
  assumes "wr_method r = ''POST''" "wr_path r = handler_path auth [''queue'', i, verb]" "verb \<in> {''approve'', ''deny''}"
    "CHR ''/'' \<notin> set i" "request_json r \<noteq> Some JNull"
  shows "route auth stamp r = andthen (resolve_item (li_api auth) verb i (fst (resolve_body r)) (snd (resolve_body r)))
    (\<lambda>d. ret (answer 200 d))"
proof -
  have s: "segments (li_base_path auth) (handler_path auth [''queue'', i, verb]) = [''queue'', i, verb]"
    using assms(3,4) by (intro segments_of_path) auto
  have m: "members (nullish (request_json r) (JObj [])) = ret (nullish (request_json r) (JObj []))"
    using assms(5) by (cases "request_json r") (auto simp: members_def nullish_def)
  show ?thesis unfolding route_def Let_def assms(1,2) upper_verbs s
    using assms(3) by (simp add: route_below_base m resolve_body_def Let_def)
qed

lemma post_alone: "nt_answers s = [] \<Longrightarrow> \<exists>s'. post c path body s = (Inl NetworkError, s')"
  by (simp add: post_def call_json_def andthen_apply fetch_def Let_def)

text \<open>Without an engine the handler answers by itself. When no answer comes from the engine, an authorization, the
  listing of the queue, an approval and a denial all answer 500, never the 502 that the handler keeps for an error
  without a status, and the health route answers that the engine is not well.\<close>

theorem handler_without_engine:
  assumes "nt_answers s = []"
    "(wr_method r = ''POST'' \<and> wr_path r = handler_path auth [''authorize''] \<and> authorizes r q)
     \<or> (wr_method r = ''GET'' \<and> wr_path r = handler_path auth [''queue''])
     \<or> (wr_method r = ''POST'' \<and> wr_path r = handler_path auth [''queue'', i, ''approve''] \<and> CHR ''/'' \<notin> set i
         \<and> request_json r \<noteq> Some JNull)"
    "wr_method h = ''GET''" "wr_path h = handler_path auth [''ok'']"
  shows "(\<exists>s'. lelu_handler print words auth stamp r s = (Inr (answer 500 (JObj [(''error'', JStr (words NetworkError))])), s'))
    \<and> (\<exists>s'. lelu_handler print words auth stamp h s = (Inr (answer 200 (JObj [(''ok'', JBool False)])), s'))"
proof
  have "\<exists>s'. route auth stamp r s = (Inl NetworkError, s')"
    using assms(2)
  proof (elim disjE conjE)
    assume a: "wr_method r = ''POST''" "wr_path r = handler_path auth [''authorize'']" "authorizes r q"
    have "authorize_request_ok (with_actor (li_actor auth) q)" using a(3) by (auto simp: authorizes_def with_actor_ok)
    then have "instance_authorize auth stamp q = andthen (post (li_api auth) ''/v1/agent/authorize'' (authorize_doc (with_actor (li_actor auth) q)))
        (\<lambda>d. andthen (members d) (\<lambda>d. ret (auth_decision_of stamp (az_tool (with_actor (li_actor auth) q)) d)))"
      by (simp only: instance_authorize_def client_authorize_def authorize_body_def check_def if_True andthen_ret)
    moreover obtain s1 where "post (li_api auth) ''/v1/agent/authorize'' (authorize_doc (with_actor (li_actor auth) q)) s
        = (Inl NetworkError, s1)"
      using post_alone [OF assms(1)] by blast
    ultimately show ?thesis unfolding route_authorize [OF a] by (simp add: andthen_Inl)
  next
    assume a: "wr_method r = ''GET''" "wr_path r = handler_path auth [''queue'']"
    show ?thesis unfolding route_queue [OF a]
      by (simp add: list_queue_def get_def call_json_def andthen_apply fetch_def Let_def assms(1))
  next
    assume a: "wr_method r = ''POST''" "wr_path r = handler_path auth [''queue'', i, ''approve'']" "CHR ''/'' \<notin> set i"
      "request_json r \<noteq> Some JNull"
    obtain s1 where "resolve_item (li_api auth) ''approve'' i (fst (resolve_body r)) (snd (resolve_body r)) s = (Inl NetworkError, s1)"
      using post_alone [OF assms(1)] unfolding resolve_item_def by blast
    then show ?thesis unfolding route_resolve [OF a(1,2) _ a(3,4), simplified] by (simp add: andthen_Inl)
  qed
  then show "\<exists>s'. lelu_handler print words auth stamp r s = (Inr (answer 500 (JObj [(''error'', JStr (words NetworkError))])), s')"
    by (auto simp: lelu_handler_def try_catch_apply error_answer_def error_status_def error_message_def)
next
  show "\<exists>s'. lelu_handler print words auth stamp h s = (Inr (answer 200 (JObj [(''ok'', JBool False)])), s')"
    by (simp add: lelu_handler_def route_ok [OF assms(3,4)] is_healthy_def get_request_def try_catch_apply andthen_apply
        fetch_def Let_def assms(1))
qed

text \<open>A refusal of the engine reaches the caller. When the engine refuses an authorization, the handler answers with
  the engine's own status, its error text and its whole answer as details.\<close>

theorem handler_passes_refusals_on:
  assumes "wr_method r = ''POST''" "wr_path r = handler_path auth [''authorize'']" "authorizes r q"
    "nt_answers s = (d, HttpAnswer status body) # rest" "int d \<le> c_timeout (li_api auth)" "\<not> http_ok status"
    "parse_json body = Some (JObj kvs)" "member ''error'' (JObj kvs) = Some (JStr msg)"
  shows "\<exists>s'. lelu_handler print words auth stamp r s
    = (Inr (answer status (JObj [(''error'', JStr msg), (''details'', JObj kvs)])), s')"
proof -
  let ?q = "with_actor (li_actor auth) q"
  have "authorize_request_ok ?q" using assms(3) by (auto simp: authorizes_def with_actor_ok)
  then have i: "instance_authorize auth stamp q = andthen (post (li_api auth) ''/v1/agent/authorize'' (authorize_doc ?q))
      (\<lambda>d. andthen (members d) (\<lambda>d. ret (auth_decision_of stamp (az_tool ?q) d)))"
    by (simp only: instance_authorize_def client_authorize_def authorize_body_def check_def if_True andthen_ret)
  have "\<exists>s1. post (li_api auth) ''/v1/agent/authorize'' (authorize_doc ?q) s
      = (Inl (EngineError (JStr msg) status (JObj kvs)), s1)"
    using assms(4-8) by (simp add: post_def call_json_def andthen_apply fetch_def Let_def parse_response_def nullish_json_def)
  then obtain s1 where "post (li_api auth) ''/v1/agent/authorize'' (authorize_doc ?q) s
      = (Inl (EngineError (JStr msg) status (JObj kvs)), s1)" by blast
  then have "\<exists>s'. route auth stamp r s = (Inl (EngineError (JStr msg) status (JObj kvs)), s')"
    unfolding route_authorize [OF assms(1-3)] i by (simp add: andthen_Inl)
  then show ?thesis
    by (auto simp: lelu_handler_def try_catch_apply error_answer_def error_status_def error_message_def)
qed

section \<open>The Express mount\<close>

lemma route_reads_json:
  assumes "wr_method r = wr_method r'" "wr_path r = wr_path r'" "request_json r = request_json r'"
  shows "lelu_handler print words auth stamp r = lelu_handler print words auth stamp r'"
  unfolding lelu_handler_def route_def assms ..

text \<open>Mounting under Express changes nothing. Whether a body parser ran before the handler or the body is read in
  chunks, the mounted handler does to the engine and answers what the handler itself does with the body as it was
  sent, for every body that is JSON and no bare text.\<close>

theorem express_mount_is_transparent:
  assumes "nr_method r \<notin> {''GET'', ''HEAD''}" "parse_json raw = Some v" "\<And>t. v \<noteq> JStr t" "parse_json (show_json v) = Some v"
    "concat cs = raw" "cs \<noteq> []"
  shows "node_handler show_json print words auth stamp (r\<lparr>nr_body := Parsed v\<rparr>)
      = lelu_handler print words auth stamp \<lparr>wr_method = nr_method r, wr_path = url_path (nr_url r), wr_body = Some raw\<rparr>
    \<and> node_handler show_json print words auth stamp (r\<lparr>nr_body := Chunks cs\<rparr>)
      = lelu_handler print words auth stamp \<lparr>wr_method = nr_method r, wr_path = url_path (nr_url r), wr_body = Some raw\<rparr>"
proof
  have "forwarded_body show_json (r\<lparr>nr_body := Parsed v\<rparr>) = Some (show_json v)"
    using assms(1,3) by (cases v) (auto simp: forwarded_body_def)
  then show "node_handler show_json print words auth stamp (r\<lparr>nr_body := Parsed v\<rparr>)
      = lelu_handler print words auth stamp \<lparr>wr_method = nr_method r, wr_path = url_path (nr_url r), wr_body = Some raw\<rparr>"
    unfolding node_handler_def by (intro route_reads_json) (use assms(2,4) in \<open>simp_all add: request_json_def\<close>)
  have "forwarded_body show_json (r\<lparr>nr_body := Chunks cs\<rparr>) = Some raw"
    using assms(1,5,6) by (auto simp: forwarded_body_def)
  then show "node_handler show_json print words auth stamp (r\<lparr>nr_body := Chunks cs\<rparr>)
      = lelu_handler print words auth stamp \<lparr>wr_method = nr_method r, wr_path = url_path (nr_url r), wr_body = Some raw\<rparr>"
    unfolding node_handler_def by (intro route_reads_json) (simp_all add: request_json_def)
qed

section \<open>Item identifiers\<close>

definition encode_char :: "char \<Rightarrow> string" where
  "encode_char c = concat (map (\<lambda>b. if unreserved b then [b] else percent b) (utf8_char c))"

lemma encode_Cons: "encode_component (c # s) = encode_char c @ encode_component s"
  by (simp add: encode_component_def encode_char_def utf8_def)

lemma high_reserved: "128 \<le> (of_char c :: nat) \<Longrightarrow> \<not> unreserved c"
  by (auto simp: unreserved_def Let_def)

lemma encode_char_length: "length (encode_char c) = 1 \<and> unreserved c \<and> encode_char c = [c] \<or> 3 \<le> length (encode_char c) \<and> \<not> unreserved c"
proof (cases "(of_char c :: nat) < 128")
  case True
  then show ?thesis by (auto simp: encode_char_def utf8_char_def percent_def)
next
  case False
  then have n: "\<not> unreserved c" by (simp add: high_reserved)
  have "(of_char c :: nat) < 256" by simp
  then have "192 + (of_char c :: nat) div 64 < 256" by linarith
  then have "\<not> unreserved (char_of (192 + (of_char c :: nat) div 64))" by (intro high_reserved) simp
  with n False show ?thesis by (auto simp: encode_char_def utf8_char_def percent_def Let_def)
qed

lemma encode_length: "length i \<le> length (encode_component i) \<and> (list_all unreserved i \<or> length i < length (encode_component i))"
proof (induction i)
  case (Cons c i)
  then show ?case using encode_char_length [of c] by (auto simp: encode_Cons)
qed (simp add: encode_component_def utf8_def)

lemma encode_unreserved: "list_all unreserved i \<Longrightarrow> encode_component i = i"
proof (induction i)
  case (Cons c i)
  then show ?case using encode_char_length [of c] by (auto simp: encode_Cons)
qed (simp add: encode_component_def utf8_def)

lemma encode_same: "encode_component i = i \<longleftrightarrow> list_all unreserved i"
  using encode_length [of i] encode_unreserved [of i] by (metis less_irrefl)

lemma encode_inj: "encode_component i = encode_component j \<longleftrightarrow> i = j"
proof -
  have "from_utf8 (percent_decode (encode_component k)) = k" for k
    by (simp add: encode_component_def decode_encode_bytes from_utf8_utf8)
  then show ?thesis by metis
qed

text \<open>The handler finds the items whose identifiers need no escaping, and no others. A browser asks to approve an
  item by its identifier, percent-encoded as a path part must be. The handler passes that part on as it is and the
  client encodes it again, so the engine is asked for the item itself exactly if encoding leaves the identifier
  alone; every other identifier is looked up under a name it does not have.\<close>

theorem handler_encodes_items_twice:
  assumes "wr_method r = ''POST''" "wr_path r = handler_path auth [''queue'', encode_component i, ''approve'']"
    "request_json r \<noteq> Some JNull"
  shows "\<exists>q. nt_sent (snd (lelu_handler print words auth stamp r s)) = nt_sent s @ [q]
    \<and> hr_url q = c_base (li_api auth) @ queue_path (encode_component i) ''/approve''
    \<and> (hr_url q = c_base (li_api auth) @ queue_path i ''/approve'' \<longleftrightarrow> list_all unreserved i)"
proof -
  have slash: "CHR ''/'' \<notin> set (encode_component i)" using encode_chars [of i] reserved_marks by auto
  have "nt_sent (snd (lelu_handler print words auth stamp r s)) = nt_sent (snd (route auth stamp r s))"
    by (auto simp: lelu_handler_def try_catch_apply split: prod.split sum.split)
  then have "\<exists>q. nt_sent (snd (lelu_handler print words auth stamp r s)) = nt_sent s @ [q]
      \<and> hr_url q = c_base (li_api auth) @ queue_path (encode_component i) ''/approve''"
    unfolding route_resolve [OF assms(1,2) _ slash assms(3), simplified] resolve_item_def
    by (simp add: sent_then_silent one_request post_sent)
  moreover have "encode_component (encode_component i) = encode_component i \<longleftrightarrow> list_all unreserved i"
    by (rule trans [OF encode_inj encode_same])
  then have "queue_path (encode_component i) ''/approve'' = queue_path i ''/approve'' \<longleftrightarrow> list_all unreserved i"
    by (simp add: queue_path_def)
  ultimately show ?thesis by auto
qed

section \<open>Concrete runs\<close>

definition demo_instance :: lelu_instance where
  "demo_instance = \<lparr>li_api = demo_client, li_actor = Some ''billing-agent'', li_base_path = ''/api/lelu''\<rparr>"

definition ask_doc :: "int json" where
  "ask_doc = JObj [(''tool'', JStr ''refund'')]"

definition ask_request :: web_request where
  "ask_request = \<lparr>wr_method = ''POST'', wr_path = handler_path demo_instance [''authorize''], wr_body = Some (stringify ask_doc)\<rparr>"

definition health_request :: web_request where
  "health_request = \<lparr>wr_method = ''GET'', wr_path = handler_path demo_instance [''ok''], wr_body = None\<rparr>"

lemma ask_authorizes: "authorizes ask_request demo_tool"
proof -
  have "parse_json (stringify ask_doc) = Some (reread ask_doc)" by (rule parse_stringify) (simp add: ask_doc_def)
  then show ?thesis
    by (auto simp: authorizes_def request_json_def ask_request_def ask_doc_def authorize_value_def optional_member_def
        member_def demo_tool_def authorize_request_ok_def)
qed

theorem default_actor_fills_gaps_witness:
  "\<exists>q d. nt_sent (snd (instance_authorize demo_instance ''now'' demo_tool (script []))) = [q] \<and> hr_body q = JsonBody d
    \<and> member ''actor'' d = Some (JStr ''billing-agent'')"
proof -
  have "authorize_request_ok demo_tool" by (simp add: authorize_request_ok_def demo_tool_def)
  from default_actor_fills_gaps [OF this, of demo_instance "''now''" "script []"]
  obtain q d where q: "nt_sent (snd (instance_authorize demo_instance ''now'' demo_tool (script []))) = nt_sent (script []) @ [q]"
      "hr_body q = JsonBody d"
      "member ''actor'' d = (case az_actor demo_tool of None \<Rightarrow> nonempty (li_actor demo_instance) | Some a \<Rightarrow> if a = [] then None else Some (JStr a))"
    by blast
  have "nt_sent (script []) = []" "az_actor demo_tool = None" "nonempty (li_actor demo_instance) = Some (JStr ''billing-agent'')"
    by (simp_all add: demo_tool_def demo_instance_def script_def nonempty_def truthy_def)
  with q show ?thesis by auto
qed

theorem handler_without_engine_witness:
  "(\<exists>s'. lelu_handler (\<lambda>_. []) (\<lambda>_. ''down'') demo_instance ''now'' ask_request (script [])
      = (Inr (answer 500 (JObj [(''error'', JStr ''down'')])), s'))
   \<and> (\<exists>s'. lelu_handler (\<lambda>_. []) (\<lambda>_. ''down'') demo_instance ''now'' health_request (script [])
      = (Inr (answer 200 (JObj [(''ok'', JBool False)])), s'))"
  by (rule handler_without_engine [where q = demo_tool and i = "''x''"])
     (use ask_authorizes in \<open>simp_all add: script_def ask_request_def health_request_def\<close>)

definition refusal_doc :: "int json" where
  "refusal_doc = JObj [(''error'', JStr ''policy missing'')]"

theorem handler_passes_refusals_on_witness:
  "\<exists>s'. lelu_handler (\<lambda>_. []) (\<lambda>_. ''down'') demo_instance ''now'' ask_request (script [(2, HttpAnswer 409 (stringify refusal_doc))])
    = (Inr (answer 409 (JObj [(''error'', JStr ''policy missing''), (''details'', JObj [(''error'', JStr ''policy missing'')])])), s')"
proof -
  have "parse_json (stringify refusal_doc) = Some (JObj [(''error'', JStr ''policy missing'')])"
    using parse_stringify [of refusal_doc] by (simp add: refusal_doc_def)
  then show ?thesis
    by (intro handler_passes_refusals_on [where q = demo_tool and d = 2 and rest = "[]"])
       (use ask_authorizes in \<open>simp_all add: script_def ask_request_def demo_instance_def demo_client_def http_ok_def member_def\<close>)
qed

theorem express_mount_is_transparent_witness:
  "\<exists>v. parse_json (stringify ask_doc) = Some v
    \<and> node_handler (\<lambda>_. stringify ask_doc) (\<lambda>_. []) (\<lambda>_. []) demo_instance ''now''
        \<lparr>nr_method = ''POST'', nr_protocol = None, nr_host = None, nr_url = ''/api/lelu/authorize?x=1'', nr_headers = [], nr_body = Parsed v\<rparr>
      = lelu_handler (\<lambda>_. []) (\<lambda>_. []) demo_instance ''now'' ask_request"
proof -
  have p: "parse_json (stringify ask_doc) = Some (reread ask_doc)" by (rule parse_stringify) (simp add: ask_doc_def)
  have path: "url_path ''/api/lelu/authorize?x=1'' = handler_path demo_instance [''authorize'']"
    by (simp add: url_path_def handler_path_def demo_instance_def)
  have "reread ask_doc \<noteq> JStr t" for t by (simp add: ask_doc_def)
  from express_mount_is_transparent [where cs = "[stringify ask_doc]" and show_json = "\<lambda>_. stringify ask_doc"
      and r = "\<lparr>nr_method = ''POST'', nr_protocol = None, nr_host = None, nr_url = ''/api/lelu/authorize?x=1'',
        nr_headers = [], nr_body = Chunks []\<rparr>", OF _ p this p]
  show ?thesis using p by (auto simp: path ask_request_def)
qed

theorem handler_encodes_items_twice_witness:
  "\<exists>q. nt_sent (snd (lelu_handler (\<lambda>_. []) (\<lambda>_. []) demo_instance ''now'' \<lparr>wr_method = ''POST'',
        wr_path = handler_path demo_instance [''queue'', encode_component ''a b'', ''approve''], wr_body = None\<rparr> (script []))) = [q]
    \<and> hr_url q = ''http://engine/v1/queue/a%2520b/approve''
    \<and> hr_url q \<noteq> c_base demo_client @ queue_path ''a b'' ''/approve''"
proof -
  let ?r = "\<lparr>wr_method = ''POST'', wr_path = handler_path demo_instance [''queue'', encode_component ''a b'', ''approve''], wr_body = None\<rparr>"
  have u: "\<not> list_all unreserved ''a b''" by code_simp
  have e: "c_base demo_client @ queue_path (encode_component ''a b'') ''/approve'' = ''http://engine/v1/queue/a%2520b/approve''"
    by code_simp
  have n: "request_json ?r \<noteq> Some JNull" by (simp add: request_json_def)
  have "li_api demo_instance = demo_client" "nt_sent (script []) = []" by (simp_all add: demo_instance_def script_def)
  moreover have "wr_method ?r = ''POST''" "wr_path ?r = handler_path demo_instance [''queue'', encode_component ''a b'', ''approve'']"
    by simp_all
  from handler_encodes_items_twice [OF this n, of "\<lambda>_. []" "\<lambda>_. []" "''now''" "script []"]
  obtain q where "nt_sent (snd (lelu_handler (\<lambda>_. []) (\<lambda>_. []) demo_instance ''now'' ?r (script []))) = nt_sent (script []) @ [q]"
      "hr_url q = c_base (li_api demo_instance) @ queue_path (encode_component ''a b'') ''/approve''"
      "hr_url q = c_base (li_api demo_instance) @ queue_path ''a b'' ''/approve'' \<longleftrightarrow> list_all unreserved ''a b''"
    by (elim exE conjE)
  ultimately show ?thesis using u e by (metis append_Nil)
qed

end
