(* ===== verification/AdminStats.thy ===== *)
theory AdminStats
  imports AccountFlow
begin

text \<open>
  The analytics endpoint \<open>platform/ui/app/api/admin/stats/route.ts\<close>: its guard and its seven aggregate
  queries. The printed forms of a time and of a day are arguments; rows with the same key of an
  \<open>ORDER BY\<close> keep the order of the table, and the parallel queries are sent one after the other.
\<close>

record admin_env =
  an_admins :: "string option"
  an_stamp :: "int \<Rightarrow> string"
  an_day :: "int \<Rightarrow> string"

section \<open>Aggregates\<close>

definition day_ms :: int where
  "day_ms = 86400000"

definition newer :: "int \<Rightarrow> int \<Rightarrow> int \<Rightarrow> bool" where
  "newer now days t = (now - days * day_ms < t)"

definition count_if :: "('a \<Rightarrow> bool) \<Rightarrow> 'a list \<Rightarrow> nat" where
  "count_if p xs = length (filter p xs)"

definition counts_json :: "(string \<times> nat) list \<Rightarrow> jsnum json" where
  "counts_json kvs = JObj (map (\<lambda>(k, n). (k, jint (int n))) kvs)"

definition user_counts :: "int \<Rightarrow> user_row list \<Rightarrow> (string \<times> nat) list" where
  "user_counts now us =
     [(''total'', length us), (''verified'', count_if u_verified us),
      (''new24h'', count_if (\<lambda>u. newer now 1 (u_created u)) us), (''new7d'', count_if (\<lambda>u. newer now 7 (u_created u)) us),
      (''new30d'', count_if (\<lambda>u. newer now 30 (u_created u)) us)]"

text \<open>What a user did and when: logins, decisions, uses of a key.\<close>

definition activity :: "db \<Rightarrow> (string \<times> int) list" where
  "activity s =
     concat (map (\<lambda>u. case u_last_login u of None \<Rightarrow> [] | Some t \<Rightarrow> [(u_id u, t)]) (t_users s))
     @ concat (map (\<lambda>a. case a_user a of None \<Rightarrow> [] | Some uid \<Rightarrow> [(uid, a_created a)]) (t_audit s))
     @ concat (map (\<lambda>k. case k_last_used k of None \<Rightarrow> [] | Some t \<Rightarrow> [(k_user k, t)]) (t_keys s))"

definition last_active :: "(string \<times> int) list \<Rightarrow> string \<Rightarrow> int" where
  "last_active evts uid = Max (set (map snd (filter (\<lambda>e. fst e = uid) evts)))"

definition active_within :: "int \<Rightarrow> int \<Rightarrow> (string \<times> int) list \<Rightarrow> nat" where
  "active_within now days evts = count_if (\<lambda>uid. newer now days (last_active evts uid)) (remdups (map fst evts))"

definition active_counts :: "int \<Rightarrow> (string \<times> int) list \<Rightarrow> (string \<times> nat) list" where
  "active_counts now evts =
     [(''d1'', active_within now 1 evts), (''d7'', active_within now 7 evts), (''d30'', active_within now 30 evts)]"

definition resource_counts :: "db \<Rightarrow> (string \<times> nat) list" where
  "resource_counts s =
     [(''activeKeys'', count_if (\<lambda>k. \<not> k_revoked k) (t_keys s)), (''totalKeys'', length (t_keys s)),
      (''activeAgents'', count_if (\<lambda>g. g_status g = ''active'') (t_agents s)), (''totalAgents'', length (t_agents s)),
      (''activePolicies'', count_if p_active (t_policies s))]"

definition decided :: "string \<Rightarrow> audit_row list \<Rightarrow> nat" where
  "decided d rows = count_if (\<lambda>a. a_decision a = d) rows"

definition decision_counts :: "int \<Rightarrow> audit_row list \<Rightarrow> (string \<times> nat) list" where
  "decision_counts now rows =
     [(''total'', length rows), (''total24h'', count_if (\<lambda>a. newer now 1 (a_created a)) rows),
      (''allowed'', decided ''allowed'' rows), (''denied'', decided ''denied'' rows),
      (''humanReview'', decided ''human_review'' rows), (''compute'', decided ''compute'' rows)]"

definition day_of :: "user_row \<Rightarrow> int" where
  "day_of u = u_created u div day_ms"

text \<open>Signups of the last fourteen times 24 hours, by calendar day.\<close>

definition signup_trend :: "int \<Rightarrow> user_row list \<Rightarrow> (int \<times> nat) list" where
  "signup_trend now us =
     (let recent = filter (\<lambda>u. newer now 14 (u_created u)) us
      in map (\<lambda>d. (d, count_if (\<lambda>u. day_of u = d) recent)) (sort (remdups (map day_of recent))))"

definition recent_signups :: "user_row list \<Rightarrow> user_row list" where
  "recent_signups us = take 10 (newest_first u_created us)"

definition events_of :: "int \<Rightarrow> audit_row list \<Rightarrow> user_row \<Rightarrow> nat" where
  "events_of now rows u = count_if (\<lambda>a. a_user a = Some (u_id u) \<and> newer now 30 (a_created a)) rows"

definition top_active :: "int \<Rightarrow> user_row list \<Rightarrow> audit_row list \<Rightarrow> user_row list" where
  "top_active now us rows =
     take 10 (sort_key (\<lambda>u. - int (events_of now rows u)) (filter (\<lambda>u. 0 < events_of now rows u) us))"

section \<open>The route\<close>

definition signup_json :: "admin_env \<Rightarrow> user_row \<Rightarrow> jsnum json" where
  "signup_json ae u = JObj [(''name'', JStr (u_name u)), (''email'', JStr (u_email u)),
     (''emailVerified'', JBool (u_verified u)), (''createdAt'', JStr (an_stamp ae (u_created u))),
     (''lastLoginAt'', jopt (map_option (an_stamp ae) (u_last_login u)))]"

definition stats_json :: "admin_env \<Rightarrow> int \<Rightarrow> db \<Rightarrow> jsnum json" where
  "stats_json ae now s = JObj
     [(''generatedAt'', JStr (an_stamp ae now)),
      (''users'', counts_json (user_counts now (t_users s))),
      (''active'', counts_json (active_counts now (activity s))),
      (''resources'', counts_json (resource_counts s)),
      (''decisions'', counts_json (decision_counts now (t_audit s))),
      (''signupTrend'', JArr (map (\<lambda>(d, n). JObj [(''day'', JStr (an_day ae d)), (''count'', jint (int n))])
         (signup_trend now (t_users s)))),
      (''recentSignups'', JArr (map (signup_json ae) (recent_signups (t_users s)))),
      (''topActive'', JArr (map (\<lambda>u. JObj [(''email'', JStr (u_email u)), (''name'', JStr (u_name u)),
         (''events'', jint (int (events_of now (t_audit s) u)))]) (top_active now (t_users s) (t_audit s))))]"

text \<open>Nothing is written between the queries, so the answer is of one state of the tables.\<close>

definition admin_stats :: "platform_env \<Rightarrow> admin_env \<Rightarrow> request \<Rightarrow> reply app" where
  "admin_stats pe ae rq =
     (case get_admin_user (pe_hmac pe) (pe_secret pe) (pe_now pe) (an_admins ae) (rq_cookie rq) of
        None \<Rightarrow> ret (error_reply 404 ''Not found'')
      | Some admin \<Rightarrow>
          try_catch
            (andthen ensure_schema (\<lambda>_. andthen (for_each (\<lambda>_. query) [1..7]) (\<lambda>_.
             andthen (gets (stats_json ae (pe_now pe))) (\<lambda>d. ret (json_reply 200 d)))))
            (\<lambda>_. ret (error_reply 500 ''Failed to load stats'')))"

section \<open>What the numbers mean\<close>

lemma count_if_mono: "(\<And>x. p x \<Longrightarrow> q x) \<Longrightarrow> count_if p xs \<le> count_if q xs"
  by (induction xs) (auto simp: count_if_def)

lemma newer_mono: "newer now d t \<Longrightarrow> d \<le> e \<Longrightarrow> newer now e t"
  by (auto simp: newer_def day_ms_def)

lemma active_mono: "d \<le> e \<Longrightarrow> active_within now d evts \<le> active_within now e evts"
  unfolding active_within_def by (rule count_if_mono) (rule newer_mono)

lemma last_active_within:
  assumes "uid \<in> fst ` set evts"
  shows "newer now d (last_active evts uid) \<longleftrightarrow> (\<exists>t. (uid, t) \<in> set evts \<and> newer now d t)"
proof -
  have "set (map snd (filter (\<lambda>e. fst e = uid) evts)) \<noteq> {}" using assms by auto
  then show ?thesis by (subst last_active_def, unfold newer_def, subst Max_gr_iff) (auto simp: image_iff)
qed

definition known_decision :: "audit_row \<Rightarrow> bool" where
  "known_decision a = (a_decision a \<in> {''allowed'', ''denied'', ''human_review'', ''compute''})"

lemma decisions_add_up:
  "list_all known_decision rows \<Longrightarrow>
    decided ''allowed'' rows + decided ''denied'' rows + decided ''human_review'' rows + decided ''compute'' rows = length rows"
  by (induction rows) (auto simp: decided_def count_if_def known_decision_def)

text \<open>The table's check constraint keeps the decisions to the four that are counted.\<close>

lemma insert_audit_known [pres]: "preserves (\<lambda>s. list_all known_decision (t_audit s)) (insert_audit a)"
  unfolding insert_audit_def
  by (auto simp: preserves_def andthen_apply query_def may_fail_def next_fault_def known_decision_def split: if_splits)

lemma count_if_concat: "sum_list (map (\<lambda>d. count_if (\<lambda>x. f x = d) xs) ds) = count_if (\<lambda>x. f x \<in> set ds) xs"
  if "distinct ds"
  using that
proof (induction ds)
  case (Cons d ds)
  have "count_if (\<lambda>x. f x = d) xs + count_if (\<lambda>x. f x \<in> set ds) xs = count_if (\<lambda>x. f x = d \<or> f x \<in> set ds) xs"
    using Cons.prems by (induction xs) (auto simp: count_if_def)
  then show ?case using Cons by simp
qed (simp add: count_if_def)

lemma trend_total: "sum_list (map snd (signup_trend now us)) = count_if (\<lambda>u. newer now 14 (u_created u)) us"
proof -
  let ?r = "filter (\<lambda>u. newer now 14 (u_created u)) us"
  have "sum_list (map snd (signup_trend now us)) = count_if (\<lambda>u. day_of u \<in> day_of ` set ?r) ?r"
    using count_if_concat [of "sort (remdups (map day_of ?r))" day_of ?r]
    by (simp add: signup_trend_def Let_def comp_def)
  also have "\<dots> = length ?r" unfolding count_if_def by (rule arg_cong [where f = length], rule filter_True) auto
  finally show ?thesis by (simp add: count_if_def)
qed

lemma day_range:
  assumes "\<forall>u \<in> set us. u_created u \<le> now" "(d, n) \<in> set (signup_trend now us)"
  shows "now div day_ms - 14 \<le> d \<and> d \<le> now div day_ms"
proof -
  obtain u where u: "u \<in> set us" "newer now 14 (u_created u)" "d = day_of u"
    using assms(2) by (auto simp: signup_trend_def Let_def)
  have "(now - 14 * day_ms) div day_ms \<le> d" unfolding u(3) day_of_def
    by (rule zdiv_mono1) (use u(2) in \<open>auto simp: newer_def day_ms_def\<close>)
  moreover have "(now - 14 * day_ms) div day_ms = now div day_ms - 14"
    by (simp add: day_ms_def)
  moreover have "d \<le> now div day_ms" unfolding u(3) day_of_def
    by (rule zdiv_mono1) (use assms(1) u(1) in \<open>auto simp: day_ms_def\<close>)
  ultimately show ?thesis by simp
qed

lemma trend_days: "map fst (signup_trend now us) = sort (remdups (map day_of (filter (\<lambda>u. newer now 14 (u_created u)) us)))"
  by (simp add: signup_trend_def Let_def comp_def)

lemma trend_length:
  assumes "\<forall>u \<in> set us. u_created u \<le> now"
  shows "length (signup_trend now us) \<le> 15"
proof -
  let ?ds = "map fst (signup_trend now us)"
  have "set ?ds \<subseteq> {now div day_ms - 14 .. now div day_ms}" using day_range [OF assms] by auto
  then have "card (set ?ds) \<le> card {now div day_ms - 14 .. now div day_ms}" by (intro card_mono) auto
  moreover have "distinct ?ds" by (simp add: trend_days)
  then have "card (set ?ds) = length (signup_trend now us)" using distinct_card by fastforce
  ultimately show ?thesis by simp
qed

section \<open>The answer\<close>

definition admin_session :: "platform_env \<Rightarrow> admin_env \<Rightarrow> request \<Rightarrow> bool" where
  "admin_session pe ae rq =
     (get_admin_user (pe_hmac pe) (pe_secret pe) (pe_now pe) (an_admins ae) (rq_cookie rq) \<noteq> None)"

lemma each_query_quiet: "faults s = [] \<Longrightarrow> for_each (\<lambda>_. query) xs s = (Inr (), s)"
  by (induction xs) (simp_all add: andthen_apply query_def may_fail_quiet)

lemma admin_stats_quiet:
  "admin_session pe ae rq \<Longrightarrow> faults s = [] \<Longrightarrow>
    admin_stats pe ae rq s = (Inr (json_reply 200 (stats_json ae (pe_now pe) s)), s)"
  by (auto simp: admin_stats_def admin_session_def ensure_schema_def query_def may_fail_quiet try_catch_apply andthen_apply
      each_query_quiet [unfolded query_def] split: option.split)

lemma stats_of_faults [simp]: "stats_json ae now (s\<lparr>faults := f\<rparr>) = stats_json ae now s"
  by (simp add: stats_json_def activity_def resource_counts_def)

definition same_tables :: "db \<Rightarrow> db \<Rightarrow> bool" where
  "same_tables s s' = (\<exists>f. s' = s\<lparr>faults := f\<rparr>)"

lemma same_query: "preserves (same_tables s) query"
  by (auto simp: preserves_def same_tables_def query_def may_fail_def next_fault_def andthen_apply)

lemma same_queries: "preserves (same_tables s) (for_each (\<lambda>_. query) xs)"
  by (intro pres same_query)

lemma same_prog_cases:
  fixes m :: "unit app"
  assumes "preserves (same_tables s) m"
  obtains e s' where "m s = (Inl e, s')" "same_tables s s'" | s' where "m s = (Inr (), s')" "same_tables s s'"
proof -
  obtain r s' where m: "m s = (r, s')" by force
  have "same_tables s s'" by (rule preservesD [OF assms _ m]) (auto simp: same_tables_def intro: exI [of _ "faults s"])
  with m that show thesis by (cases r) auto
qed

lemma same_stats_json: "same_tables s s' \<Longrightarrow> stats_json ae now s' = stats_json ae now s"
  by (auto simp: same_tables_def)

lemma same_queries_all: "preserves (same_tables s) (andthen query (\<lambda>_. for_each (\<lambda>_. query) xs))"
  by (intro pres same_query same_queries)

lemma same_stats: "preserves (same_tables s) (admin_stats pe ae rq)"
  unfolding admin_stats_def ensure_schema_def
  by (cases "get_admin_user (pe_hmac pe) (pe_secret pe) (pe_now pe) (an_admins ae) (rq_cookie rq)";
      simp; intro pres same_query same_queries)

text \<open>C38: The analytics are for administrators. Without a valid session of an administrator the endpoint
  answers 404 and touches nothing, not even a query; with one it answers the figures of the tables as they
  are, or 500 when a query fails. It never changes a table.\<close>

theorem stats_only_for_admins:
  "if admin_session pe ae rq
   then (\<exists>s'. same_tables s s' \<and> admin_stats pe ae rq s \<in> {(Inr (json_reply 200 (stats_json ae (pe_now pe) s)), s'),
           (Inr (error_reply 500 ''Failed to load stats''), s')})
   else admin_stats pe ae rq s = (Inr (error_reply 404 ''Not found''), s)"
proof (cases "get_admin_user (pe_hmac pe) (pe_secret pe) (pe_now pe) (an_admins ae) (rq_cookie rq)")
  case (Some admin)
  let ?m = "andthen query (\<lambda>_. for_each (\<lambda>_. query) [1..7])"
  have run: "admin_stats pe ae rq = try_catch (andthen ?m (\<lambda>_. andthen (gets (stats_json ae (pe_now pe))) (\<lambda>d. ret (json_reply 200 d))))
      (\<lambda>_. ret (error_reply 500 ''Failed to load stats''))"
    using Some by (simp add: admin_stats_def ensure_schema_def andthen_assoc)
  have adm: "admin_session pe ae rq" using Some by (simp add: admin_session_def)
  show ?thesis
  proof (cases rule: same_prog_cases [OF same_queries_all [of s "[1..7]"]])
    case (1 e s')
    then show ?thesis using adm run by (auto simp: try_catch_apply andthen_apply)
  next
    case (2 s')
    then show ?thesis using adm run same_stats_json [OF 2(2)] by (auto simp: try_catch_apply andthen_apply)
  qed
qed (simp add: admin_session_def admin_stats_def)

text \<open>The decision totals add up. As the audit table admits four decisions only, the four counts of the
  answer sum to its total, and the count of the last day is at most the total.\<close>

theorem decision_totals_add_up:
  assumes "admin_session pe ae rq" "faults s = []" "list_all known_decision (t_audit s)"
  shows "\<exists>rp n day a d r c. admin_stats pe ae rq s = (Inr rp, s)
    \<and> member ''decisions'' (rp_body rp) = Some (counts_json [(''total'', n), (''total24h'', day), (''allowed'', a),
        (''denied'', d), (''humanReview'', r), (''compute'', c)])
    \<and> n = a + d + r + c \<and> day \<le> n"
proof -
  have run: "admin_stats pe ae rq s = (Inr (json_reply 200 (stats_json ae (pe_now pe) s)), s)"
    by (rule admin_stats_quiet [OF assms(1,2)])
  have totals: "length (t_audit s) = decided ''allowed'' (t_audit s) + decided ''denied'' (t_audit s)
      + decided ''human_review'' (t_audit s) + decided ''compute'' (t_audit s)"
    using decisions_add_up [OF assms(3)] by simp
  have day: "count_if (\<lambda>a. newer (pe_now pe) 1 (a_created a)) (t_audit s) \<le> length (t_audit s)" by (simp add: count_if_def)
  have m: "member ''decisions'' (rp_body (json_reply 200 (stats_json ae (pe_now pe) s)))
      = Some (counts_json (decision_counts (pe_now pe) (t_audit s)))"
    by (simp add: json_reply_def stats_json_def member_def)
  show ?thesis by (intro exI conjI, rule run, rule m [unfolded decision_counts_def], rule totals, rule day)
qed

text \<open>The windows are nested and the trend is complete. Accounts active in a day are among those of the week
  and of the month; of the accounts created in a day, a week and thirty days likewise, and all are accounts. The
  daily signups sum to the accounts of the last fourteen times 24 hours; as that span touches fifteen calendar
  days, the trend can have fifteen entries.\<close>

theorem windows_are_nested:
  assumes "\<forall>u \<in> set us. u_created u \<le> now"
  shows "active_within now 1 evts \<le> active_within now 7 evts \<and> active_within now 7 evts \<le> active_within now 30 evts
    \<and> count_if (\<lambda>u. newer now 1 (u_created u)) us \<le> count_if (\<lambda>u. newer now 7 (u_created u)) us
    \<and> count_if (\<lambda>u. newer now 7 (u_created u)) us \<le> count_if (\<lambda>u. newer now 30 (u_created u)) us
    \<and> count_if (\<lambda>u. newer now 30 (u_created u)) us \<le> length us
    \<and> sum_list (map snd (signup_trend now us)) = count_if (\<lambda>u. newer now 14 (u_created u)) us
    \<and> length (signup_trend now us) \<le> 15"
  using trend_length [OF assms]
  by (intro conjI active_mono count_if_mono trend_total) (auto intro: newer_mono simp: count_if_def)

definition signup_at :: "string \<Rightarrow> int \<Rightarrow> user_row" where
  "signup_at uid t = (demo_user uid uid)\<lparr>u_created := t\<rparr>"

definition fortnight :: "user_row list" where
  "fortnight = signup_at ''n'' (15 * day_ms) # map (\<lambda>d. signup_at (show_nat d) (int d * day_ms + 1)) [1..<15]"

theorem windows_are_nested_witness:
  "length (signup_trend (15 * day_ms) fortnight) = 15 \<and> length (signup_trend (15 * day_ms) fortnight) \<le> 15"
proof -
  have a: "length (signup_trend (15 * day_ms) fortnight) = 15" by code_simp
  have "list_all (\<lambda>u. u_created u \<le> 15 * day_ms) fortnight" by code_simp
  then have "\<forall>u \<in> set fortnight. u_created u \<le> 15 * day_ms" by (simp add: list_all_iff)
  with windows_are_nested a show ?thesis by blast
qed

lemma admin_cookie: "\<exists>token. admin_session demo_env \<lparr>an_admins = None, an_stamp = show_int, an_day = show_int\<rparr>
    \<lparr>rq_auth = None, rq_cookie = Some token, rq_body = []\<rparr>"
proof -
  let ?c = "\<lparr>cl_user = ''u1'', cl_email = ''abenezerg@lelu-ai.com'', cl_name = ''Abe'', cl_verified = True\<rparr>"
  have env: "pe_secret demo_env = Some ''s3cret''" by (simp add: demo_env_def)
  obtain token where t: "sign_jwt (pe_hmac demo_env) (pe_secret demo_env) (pe_now demo_env) ?c = Some token"
    using env by (simp add: sign_jwt_def truthy_def Let_def)
  have tr: "truthy (Some token)" using t by (auto simp: sign_jwt_def truthy_def Let_def split: if_splits)
  have "\<bar>seconds (pe_now demo_env)\<bar> < 2 ^ 53 - session_ttl" by (simp add: demo_env_def seconds_def session_ttl_def)
  note v = verify_sign_jwt [OF t this, of "pe_now demo_env"]
  have adm: "is_admin_email None (Some ''abenezerg@lelu-ai.com'')" by code_simp
  show ?thesis
    by (rule exI [of _ token]) (use v tr adm in \<open>simp add: admin_session_def get_admin_user_def get_current_user_def
      session_ttl_def payload_doc_def member_def truthy_def\<close>)
qed

theorem decision_totals_add_up_witness:
  "\<exists>token rp n day a d r c. admin_stats demo_env \<lparr>an_admins = None, an_stamp = show_int, an_day = show_int\<rparr>
      \<lparr>rq_auth = None, rq_cookie = Some token, rq_body = []\<rparr> demo_db = (Inr rp, demo_db)
    \<and> member ''decisions'' (rp_body rp) = Some (counts_json [(''total'', n), (''total24h'', day), (''allowed'', a),
        (''denied'', d), (''humanReview'', r), (''compute'', c)])
    \<and> n = a + d + r + c \<and> day \<le> n"
proof -
  have "list_all known_decision (t_audit demo_db)" by (simp add: demo_db_def)
  with decision_totals_add_up [OF _ demo_db_ok(2)] admin_cookie show ?thesis by blast
qed

end
