(* ===== verification/Pages.thy ===== *)
theory Pages
  imports Web Http
begin

text \<open>
  Pages that run in the browser. A handler sends at most one request: its first part, up to the \<open>fetch\<close>, gives the
  new state and the request, its second part takes the answer. State that a handler reads is the state it was
  rendered with; setters with a function use the current state. Members of answers with a success status have
  the types the page declares.
\<close>

datatype page_answer = NoReply | Replied int "jsnum json option"

text \<open>The body is \<open>None\<close> when it is not JSON.\<close>

record page_call =
  pc_method :: string
  pc_path :: string
  pc_body :: "jsnum json option"

definition page_get :: "string \<Rightarrow> page_call" where
  "page_get path = \<lparr>pc_method = ''GET'', pc_path = path, pc_body = None\<rparr>"

definition page_send :: "string \<Rightarrow> string \<Rightarrow> jsnum json \<Rightarrow> page_call" where
  "page_send verb path body = \<lparr>pc_method = verb, pc_path = path, pc_body = Some body\<rparr>"

text \<open>What \<open>await res.json()\<close> leaves to read members of: \<open>null\<close> and a body that is not JSON throw.\<close>

datatype parsed_answer = Thrown | Refused "jsnum json" | Accepted "jsnum json"

definition read_answer :: "page_answer \<Rightarrow> parsed_answer" where
  "read_answer a =
     (case a of
        NoReply \<Rightarrow> Thrown
      | Replied st body \<Rightarrow>
          (case body of
             None \<Rightarrow> Thrown
           | Some d \<Rightarrow> if d = JNull then Thrown else if http_ok st then Accepted d else Refused d))"

text \<open>\<open>data.error || message\<close> for an error that is a text.\<close>

definition error_text :: "string \<Rightarrow> jsnum json \<Rightarrow> string" where
  "error_text msg d = (case member ''error'' d of Some (JStr e) \<Rightarrow> if e = [] then msg else e | _ \<Rightarrow> msg)"

definition jlist :: "jsnum json option \<Rightarrow> jsnum json list" where
  "jlist v = (case v of Some (JArr xs) \<Rightarrow> xs | _ \<Rightarrow> [])"

text \<open>\<open>{...x, [k]: v}\<close>.\<close>

definition with_member :: "string \<Rightarrow> jsnum json \<Rightarrow> jsnum json \<Rightarrow> jsnum json" where
  "with_member k v x =
     (let kvs = (case x of JObj kvs \<Rightarrow> kvs | _ \<Rightarrow> [])
      in JObj (if k \<in> fst ` set kvs then map (\<lambda>(n, w). if n = k then (n, v) else (n, w)) kvs else kvs @ [(k, v)]))"

definition same_id :: "jsnum json \<Rightarrow> jsnum json \<Rightarrow> bool" where
  "same_id x y = (member ''id'' x = member ''id'' y)"

definition has_id :: "string \<Rightarrow> jsnum json \<Rightarrow> bool" where
  "has_id i x = (member ''id'' x = Some (JStr i))"

section \<open>Signing in: \<open>app/login/page.tsx\<close>\<close>

record login_page =
  lp_email :: string
  lp_password :: string
  lp_error :: string
  lp_loading :: bool
  lp_not_verified :: bool
  lp_resend :: string

definition login_next :: "query_params \<Rightarrow> string" where
  "login_next q = (if truthy (map_of q ''next'') then the (map_of q ''next'') else ''/dashboard'')"

definition query_error_message :: "query_params \<Rightarrow> string option" where
  "query_error_message q =
     (let e = map_of q ''error''
      in if e = Some ''token_expired'' then Some ''Verification link has expired. Enter your email below and resend it.''
         else if e = Some ''invalid_token'' then Some ''Invalid verification link.''
         else if e = Some ''verification_failed'' then Some ''Email verification failed. Please try again.''
         else None)"

definition show_resend :: "query_params \<Rightarrow> login_page \<Rightarrow> bool" where
  "show_resend q pg = (lp_not_verified pg \<or> map_of q ''error'' = Some ''token_expired'')"

definition login_submit :: "login_page \<Rightarrow> login_page \<times> page_call" where
  "login_submit pg =
     (pg\<lparr>lp_error := [], lp_loading := True\<rparr>,
      page_send ''POST'' ''/api/auth/login'' (JObj [(''email'', JStr (lp_email pg)), (''password'', JStr (lp_password pg))]))"

text \<open>The second component is where the router goes.\<close>

definition login_answered :: "query_params \<Rightarrow> page_answer \<Rightarrow> login_page \<Rightarrow> login_page \<times> string option" where
  "login_answered q a pg =
     (let pg1 = pg\<lparr>lp_loading := False\<rparr>
      in case read_answer a of
           Thrown \<Rightarrow> (pg1\<lparr>lp_error := ''Something went wrong. Please try again.''\<rparr>, None)
         | Refused d \<Rightarrow>
             (let pg2 = pg1\<lparr>lp_error := error_text ''Login failed'' d\<rparr>
              in (if member ''code'' d = Some (JStr ''EMAIL_NOT_VERIFIED'')
                  then pg2\<lparr>lp_not_verified := True, lp_resend := ''idle''\<rparr> else pg2, None))
         | Accepted d \<Rightarrow> (pg1, Some (login_next q)))"

definition resend_submit :: "login_page \<Rightarrow> (login_page \<times> page_call) option" where
  "resend_submit pg =
     (if trim (lp_email pg) = [] \<or> lp_resend pg = ''sending'' then None
      else Some (pg\<lparr>lp_resend := ''sending''\<rparr>,
                 page_send ''POST'' ''/api/auth/resend-verification'' (JObj [(''email'', JStr (lp_email pg))])))"

definition resend_answered :: "page_answer \<Rightarrow> login_page \<Rightarrow> login_page" where
  "resend_answered a pg = pg\<lparr>lp_resend := (if a = NoReply then ''idle'' else ''sent'')\<rparr>"

section \<open>Registering: \<open>app/register/page.tsx\<close>\<close>

record register_page =
  rp_name :: string
  rp_email :: string
  rp_password :: string
  rp_confirm :: string
  rp_error :: string
  rp_loading :: bool

definition is_capital :: "char \<Rightarrow> bool" where
  "is_capital c = (let n = of_char c :: nat in 65 \<le> n \<and> n \<le> 90)"

definition is_small :: "char \<Rightarrow> bool" where
  "is_small c = (let n = of_char c :: nat in 97 \<le> n \<and> n \<le> 122)"

definition password_strength :: "string \<Rightarrow> nat" where
  "password_strength pw =
     (if pw = [] then 0
      else (if 8 \<le> length pw then 1 else 0) + (if list_ex is_capital pw then 1 else 0)
         + (if list_ex is_digit pw then 1 else 0)
         + (if list_ex (\<lambda>c. \<not> is_capital c \<and> \<not> is_small c \<and> \<not> is_digit c) pw then 1 else 0))"

definition strength_label :: "string \<Rightarrow> string" where
  "strength_label pw = [[], ''Weak'', ''Fair'', ''Good'', ''Strong''] ! password_strength pw"

definition register_submit :: "register_page \<Rightarrow> register_page \<times> page_call option" where
  "register_submit pg =
     (let pg1 = pg\<lparr>rp_error := []\<rparr>
      in if length (rp_password pg) < 8 then (pg1\<lparr>rp_error := ''Password must be at least 8 characters''\<rparr>, None)
         else if rp_password pg \<noteq> rp_confirm pg then (pg1\<lparr>rp_error := ''Passwords don'' @ CHR 0x27 # ''t match.''\<rparr>, None)
         else (pg1\<lparr>rp_loading := True\<rparr>, Some (page_send ''POST'' ''/api/auth/register''
                 (JObj [(''name'', JStr (rp_name pg)), (''email'', JStr (rp_email pg)), (''password'', JStr (rp_password pg))]))))"

definition register_answered :: "page_answer \<Rightarrow> register_page \<Rightarrow> register_page \<times> string option" where
  "register_answered a pg =
     (let pg1 = pg\<lparr>rp_loading := False\<rparr>
      in case read_answer a of
           Thrown \<Rightarrow> (pg1\<lparr>rp_error := ''Something went wrong. Please try again.''\<rparr>, None)
         | Refused d \<Rightarrow> (pg1\<lparr>rp_error := error_text ''Registration failed'' d\<rparr>, None)
         | Accepted d \<Rightarrow>
             (pg1, Some (if truthy_json (member ''requiresVerification'' d) then ''/login?registered=1&verify=1'' else ''/login?registered=1'')))"

section \<open>Passwords: \<open>app/forgot-password/page.tsx\<close> and \<open>app/reset-password/page.tsx\<close>\<close>

record forgot_page =
  fp_email :: string
  fp_error :: string
  fp_sent :: bool
  fp_loading :: bool

definition forgot_submit :: "forgot_page \<Rightarrow> forgot_page \<times> page_call" where
  "forgot_submit pg = (pg\<lparr>fp_error := [], fp_loading := True\<rparr>,
     page_send ''POST'' ''/api/auth/forgot-password'' (JObj [(''email'', JStr (fp_email pg))]))"

definition forgot_answered :: "page_answer \<Rightarrow> forgot_page \<Rightarrow> forgot_page" where
  "forgot_answered a pg =
     (let pg1 = pg\<lparr>fp_loading := False\<rparr>; failed = ''Something went wrong. Please try again.''
      in case read_answer a of
           Thrown \<Rightarrow> pg1\<lparr>fp_error := failed\<rparr>
         | Refused d \<Rightarrow> pg1\<lparr>fp_error := error_text failed d\<rparr>
         | Accepted d \<Rightarrow> pg1\<lparr>fp_sent := True\<rparr>)"

record reset_page =
  xp_password :: string
  xp_confirm :: string
  xp_error :: string
  xp_loading :: bool

text \<open>Without a token the form is not shown.\<close>

definition reset_token :: "query_params \<Rightarrow> string" where
  "reset_token q = nullish (map_of q ''token'') []"

definition reset_submit :: "query_params \<Rightarrow> reset_page \<Rightarrow> (reset_page \<times> page_call option) option" where
  "reset_submit q pg =
     (if reset_token q = [] then None
      else
        (let pg1 = pg\<lparr>xp_error := []\<rparr>
         in Some (if xp_password pg \<noteq> xp_confirm pg then (pg1\<lparr>xp_error := ''Passwords don'' @ CHR 0x27 # ''t match.''\<rparr>, None)
              else (pg1\<lparr>xp_loading := True\<rparr>, Some (page_send ''POST'' ''/api/auth/reset-password''
                      (JObj [(''token'', JStr (reset_token q)), (''password'', JStr (xp_password pg))]))))))"

definition reset_answered :: "page_answer \<Rightarrow> reset_page \<Rightarrow> reset_page \<times> string option" where
  "reset_answered a pg =
     (let pg1 = pg\<lparr>xp_loading := False\<rparr>
      in case read_answer a of
           Thrown \<Rightarrow> (pg1\<lparr>xp_error := ''Something went wrong. Please try again.''\<rparr>, None)
         | Refused d \<Rightarrow> (pg1\<lparr>xp_error := error_text ''Password reset failed. Please try again.'' d\<rparr>, None)
         | Accepted d \<Rightarrow> (pg1, Some ''/login?reset=1''))"

section \<open>The session in the navigation: \<open>components/SiteNav.tsx\<close>, \<open>components/UserMenu.tsx\<close>\<close>

text \<open>\<open>SomeUser\<close> holds the object of the answer.\<close>

datatype nav_user = Asking | Nobody | SomeUser "jsnum json"

definition me_answered :: "page_answer \<Rightarrow> nav_user" where
  "me_answered a =
     (case a of
        NoReply \<Rightarrow> Nobody
      | Replied st body \<Rightarrow>
          (if \<not> http_ok st then Nobody
           else case body of
                  None \<Rightarrow> Nobody
                | Some d \<Rightarrow> (case member ''user'' d of Some (JObj kvs) \<Rightarrow> SomeUser (JObj kvs) | _ \<Rightarrow> Nobody)))"

text \<open>\<open>toUpperCase()\<close> on Latin-1: the sharp s becomes two letters; the micro sign and the y with diaeresis,
  whose capitals are outside, stay.\<close>

definition upper_char :: "char \<Rightarrow> string" where
  "upper_char c =
     (let n = of_char c :: nat
      in if n = 223 then ''SS''
         else if (97 \<le> n \<and> n \<le> 122) \<or> (224 \<le> n \<and> n \<le> 254 \<and> n \<noteq> 247) then [char_of (n - 32)] else [c])"

definition upper_text :: "string \<Rightarrow> string" where
  "upper_text s = concat (map upper_char s)"

text \<open>The first letters of the first two words.\<close>

definition initials :: "string \<Rightarrow> string" where
  "initials name = upper_text (concat (take 2 (map (take 1) (split_on (CHR '' '') name))))"

datatype menu_view = NoMenu | MenuPlaceholder | SignInLinks | UserBadge string

definition menu_view_of :: "string \<Rightarrow> nav_user \<Rightarrow> menu_view" where
  "menu_view_of path u =
     (if path = ''/login'' \<or> path = ''/register'' then NoMenu
      else case u of
             Asking \<Rightarrow> MenuPlaceholder
           | Nobody \<Rightarrow> SignInLinks
           | SomeUser d \<Rightarrow> UserBadge (initials (nullish (str_of (member ''name'' d)) [])))"

definition nav_hidden :: "string \<Rightarrow> bool" where
  "nav_hidden path = (path = ''/'' \<or> path = ''/demo'' \<or> path = ''/login'' \<or> path = ''/register'')"

definition admin_link :: "nav_user \<Rightarrow> bool" where
  "admin_link u = (case u of SomeUser d \<Rightarrow> truthy_json (member ''isAdmin'' d) | _ \<Rightarrow> False)"

text \<open>\<open>logout()\<close>: any answer ends the session of the page; without one the call throws.\<close>

definition logout_answered :: "page_answer \<Rightarrow> nav_user \<Rightarrow> nav_user \<times> string option" where
  "logout_answered a u = (if a = NoReply then (u, None) else (Nobody, Some ''/''))"

section \<open>Where login leads\<close>

text \<open>The login page goes wherever its address says. After an accepted password it opens the value of \<open>next\<close> as
  it is, also an absolute address of another site or one that starts with two slashes, which the OAuth
  login of the same site replaces by the dashboard.\<close>

theorem login_page_follows_any_next:
  assumes "map_of q ''next'' = Some v" "v \<noteq> []" "read_answer a = Accepted d"
    "\<not> starts_with ''/'' v \<or> starts_with ''//'' v"
  shows "snd (login_answered q a pg) = Some v \<and> safe_next_path (Some v) = ''/dashboard'' \<and> v \<noteq> ''/dashboard''"
proof -
  have "starts_with ''/'' ''/dashboard''" "\<not> starts_with ''//'' ''/dashboard''" by code_simp+
  then have "v \<noteq> ''/dashboard''" using assms(4) by auto
  then show ?thesis using assms by (auto simp: login_answered_def login_next_def truthy_def safe_next_path_def Let_def)
qed

definition demo_login_page :: login_page where
  "demo_login_page = \<lparr>lp_email = ''ann@x.io'', lp_password = ''correct horse'', lp_error = [], lp_loading = True,
     lp_not_verified = False, lp_resend = ''idle''\<rparr>"

theorem login_page_follows_any_next_witness:
  "snd (login_answered [(''next'', ''https://evil.example'')] (Replied 200 (Some (JObj []))) demo_login_page) = Some ''https://evil.example''
     \<and> safe_next_path (Some ''https://evil.example'') = ''/dashboard''"
proof -
  have "\<not> starts_with ''/'' ''https://evil.example''" by code_simp
  then show ?thesis
    using login_page_follows_any_next [of "[(''next'', ''https://evil.example'')]" "''https://evil.example''"
        "Replied 200 (Some (JObj []))" "JObj []" demo_login_page]
    by (simp add: read_answer_def http_ok_def)
qed

end
