(* ===== verification/NumberText.thy ===== *)
theory NumberText
  imports JsNumber
begin

text \<open>
  Numbers as values of expressions, \<open>NaN\<close> included (\<open>None\<close>), their sum, quotient and comparison, and how
  they are printed: \<open>String(x)\<close> with the fewest digits that read back as the same double, and \<open>x.toFixed(d)\<close>.
\<close>

type_synonym number = "jsnum option"

fun num_add :: "number \<Rightarrow> number \<Rightarrow> number" where
  "num_add (Some (Fin x)) (Some (Fin y)) = Some (num_of_rat (x + y))"
| "num_add (Some PosInf) (Some NegInf) = None"
| "num_add (Some NegInf) (Some PosInf) = None"
| "num_add (Some PosInf) (Some y) = Some PosInf"
| "num_add (Some x) (Some PosInf) = Some PosInf"
| "num_add (Some NegInf) (Some y) = Some NegInf"
| "num_add (Some x) (Some NegInf) = Some NegInf"
| "num_add _ _ = None"

text \<open>Division by a length.\<close>

fun num_div_nat :: "number \<Rightarrow> nat \<Rightarrow> number" where
  "num_div_nat (Some (Fin x)) n =
     (if n = 0 then (if x = 0 then None else Some (if 0 < x then PosInf else NegInf)) else Some (num_of_rat (x / of_nat n)))"
| "num_div_nat v n = v"

fun num_lt :: "number \<Rightarrow> number \<Rightarrow> bool" where
  "num_lt (Some (Fin x)) (Some v) = num_greater v x"
| "num_lt (Some NegInf) (Some v) = (v \<noteq> NegInf)"
| "num_lt _ _ = False"

section \<open>Printing\<close>

text \<open>The \<open>n\<close> with \<open>10^(n-1) \<le> x < 10^n\<close>.\<close>

definition dec_exp :: "rat \<Rightarrow> int" where
  "dec_exp x =
     (if 1 \<le> x then int (length (show_nat (nat \<lfloor>x\<rfloor>))) else 1 - int (length (show_nat (nat (\<lceil>1 / x\<rceil> - 1)))))"

definition ten_to :: "int \<Rightarrow> rat" where
  "ten_to e = (if 0 \<le> e then 10 ^ nat e else 1 / 10 ^ nat (- e))"

text \<open>The number with \<open>k\<close> digits nearest to \<open>x\<close> and its exponent, when it reads back as \<open>x\<close>; rounding
  up may reach the next power of ten.\<close>

definition with_digits :: "rat \<Rightarrow> nat \<Rightarrow> (nat \<times> int) option" where
  "with_digits x k =
     (let n = dec_exp x; s = nat \<lfloor>x * ten_to (int k - n) + 1 / 2\<rfloor>
      in if fl (of_nat s * ten_to (n - int k)) \<noteq> x then None
         else if s = 10 ^ k then Some (1, n + 1) else Some (s, n))"

text \<open>Seventeen digits always suffice for a double.\<close>

definition shortest :: "rat \<Rightarrow> (nat \<times> int) option" where
  "shortest x =
     (case find_first (\<lambda>k. with_digits x k \<noteq> None) [1..<18] of None \<Rightarrow> None | Some k \<Rightarrow> with_digits x k)"

definition exponent_text :: "int \<Rightarrow> string" where
  "exponent_text e = ''e'' @ (if e < 0 then ''-'' else ''+'') @ show_nat (nat \<bar>e\<bar>)"

definition place_digits :: "string \<Rightarrow> int \<Rightarrow> string" where
  "place_digits ds n =
     (let k = int (length ds)
      in if k \<le> n \<and> n \<le> 21 then ds @ replicate (nat (n - k)) (CHR ''0'')
         else if 0 < n \<and> n \<le> 21 then take (nat n) ds @ ''.'' @ drop (nat n) ds
         else if - 6 < n \<and> n \<le> 0 then ''0.'' @ replicate (nat (- n)) (CHR ''0'') @ ds
         else take 1 ds @ (if k = 1 then [] else ''.'' @ drop 1 ds) @ exponent_text (n - 1))"

definition pos_text :: "rat \<Rightarrow> string" where
  "pos_text x = (case shortest x of None \<Rightarrow> [] | Some (s, n) \<Rightarrow> place_digits (show_nat s) n)"

fun number_text :: "number \<Rightarrow> string" where
  "number_text None = ''NaN''"
| "number_text (Some PosInf) = ''Infinity''"
| "number_text (Some NegInf) = ''-Infinity''"
| "number_text (Some (Fin x)) = (if x = 0 then ''0'' else if x < 0 then ''-'' @ pos_text (- x) else pos_text x)"

text \<open>\<open>x.toFixed(d)\<close>: of two nearest numbers with \<open>d\<close> decimals the larger.\<close>

definition fixed_text :: "nat \<Rightarrow> rat \<Rightarrow> string" where
  "fixed_text d x =
     (let m = nat \<lfloor>x * 10 ^ d + 1 / 2\<rfloor>; f = show_nat (m mod 10 ^ d)
      in if d = 0 then show_nat m else show_nat (m div 10 ^ d) @ ''.'' @ replicate (d - length f) (CHR ''0'') @ f)"

fun to_fixed :: "nat \<Rightarrow> number \<Rightarrow> string" where
  "to_fixed d (Some (Fin x)) =
     (if 10 ^ 21 \<le> \<bar>x\<bar> then number_text (Some (Fin x))
      else if x < 0 then ''-'' @ fixed_text d (- x) else fixed_text d x)"
| "to_fixed d v = number_text v"

lemma num_lt_nan [simp]: "\<not> num_lt None v" "\<not> num_lt v None"
  by (cases v; simp)+

end
