(* ===== verification/PlatformProxy.thy ===== *)
theory PlatformProxy
  imports Pages SdkNet NumberText
begin

text \<open>
  The control plane seen from the web server: the client \<open>platform/ui/lib/api.ts\<close>, the route
  \<open>app/api/v1/policies/[name]/route.ts\<close> and the trace page \<open>app/traces/[traceId]/page.tsx\<close> with its table and
  badges. Every function takes the answer it gets and returns what it sent with what it makes of the
  answer. Runtime error texts are the argument \<open>words\<close>; caching hints are left out.
\<close>

record control_env =
  ce_platform_url :: "string option"
  ce_platform_key :: "string option"
  ce_engine_url :: "string option"
  ce_engine_key :: "string option"

datatype call_error = Unreached | BadBody | NullBody | CallFailed string int

definition bearer_json :: "string \<Rightarrow> (string \<times> string) list" where
  "bearer_json key = [(''Content-Type'', ''application/json''), (''Authorization'', ''Bearer '' @ key)]"

definition platform_url :: "control_env \<Rightarrow> string" where
  "platform_url ce = nullish (ce_platform_url ce) ''http://localhost:9090''"

definition platform_headers :: "control_env \<Rightarrow> (string \<times> string) list" where
  "platform_headers ce = bearer_json (nullish (ce_platform_key ce) ''change-me-in-production'')"

definition engine_url :: "control_env \<Rightarrow> string" where
  "engine_url ce = nullish (ce_engine_url ce) ''http://localhost:8082''"

definition engine_headers :: "control_env \<Rightarrow> (string \<times> string) list" where
  "engine_headers ce = bearer_json (nullish (ce_engine_key ce) ''lelu-dev-key'')"

section \<open>The client\<close>

definition platform_get :: "control_env \<Rightarrow> string \<Rightarrow> http_request" where
  "platform_get ce path =
     \<lparr>hr_method = ''GET'', hr_url = platform_url ce @ path, hr_headers = platform_headers ce, hr_body = NoBody\<rparr>"

text \<open>\<open>if (!res.ok) throw new Error(`what: status`); return res.json();\<close>\<close>

definition read_json :: "string \<Rightarrow> http_answer \<Rightarrow> call_error + jsnum json" where
  "read_json what a =
     (case a of
        NoAnswer \<Rightarrow> Inl Unreached
      | HttpAnswer status body \<Rightarrow>
          (if \<not> http_ok status then Inl (CallFailed what status)
           else case parse_json body of None \<Rightarrow> Inl BadBody | Some d \<Rightarrow> Inr d))"

text \<open>An array, or the array under \<open>k\<close>, or nothing.\<close>

definition rows_under :: "string \<Rightarrow> jsnum json \<Rightarrow> jsnum json list" where
  "rows_under k d =
     (case d of
        JArr vs \<Rightarrow> vs
      | _ \<Rightarrow> (case member k d of Some (JArr vs) \<Rightarrow> vs | _ \<Rightarrow> []))"

definition some_params :: "(string \<times> string option) list \<Rightarrow> (string \<times> string) list" where
  "some_params kvs = concat (map (\<lambda>(k, v). case v of None \<Rightarrow> [] | Some x \<Rightarrow> [(k, x)]) kvs)"

definition api_audit_events ::
  "control_env \<Rightarrow> (string \<times> string option) list \<Rightarrow> http_answer \<Rightarrow> http_request \<times> (call_error + jsnum json list)" where
  "api_audit_events ce params a =
     (platform_get ce (with_query ''/api/v1/audit'' (some_params params)),
      map_sum id (rows_under ''events'') (read_json ''Audit fetch failed'' a))"

definition api_trace :: "control_env \<Rightarrow> string \<Rightarrow> http_answer \<Rightarrow> http_request \<times> (call_error + jsnum json)" where
  "api_trace ce trace a = (platform_get ce (''/api/v1/audit/trace/'' @ trace), read_json ''Trace fetch failed'' a)"

definition api_policies :: "control_env \<Rightarrow> http_answer \<Rightarrow> http_request \<times> (call_error + jsnum json list)" where
  "api_policies ce a =
     (platform_get ce ''/api/v1/policies'', map_sum id (rows_under ''policies'') (read_json ''Policy fetch failed'' a))"

text \<open>A failed call or an error status is \<open>null\<close>; the returned promise is not awaited, so a body that is
  not JSON is thrown past the \<open>catch\<close>.\<close>

definition read_or_null :: "http_answer \<Rightarrow> call_error + jsnum json option" where
  "read_or_null a =
     (case a of
        NoAnswer \<Rightarrow> Inr None
      | HttpAnswer status body \<Rightarrow>
          (if \<not> http_ok status then Inr None
           else case parse_json body of None \<Rightarrow> Inl BadBody | Some d \<Rightarrow> Inr (Some d)))"

definition api_shadow_summary :: "control_env \<Rightarrow> string \<Rightarrow> http_answer \<Rightarrow> http_request \<times> (call_error + jsnum json option)" where
  "api_shadow_summary ce minutes a =
     (\<lparr>hr_method = ''GET'', hr_url = engine_url ce @ ''/v1/shadow/summary?window_minutes='' @ minutes,
       hr_headers = engine_headers ce, hr_body = NoBody\<rparr>, read_or_null a)"

definition api_compliance_export ::
  "control_env \<Rightarrow> string option \<Rightarrow> http_answer \<Rightarrow> http_request \<times> (call_error + jsnum json option)" where
  "api_compliance_export ce framework a =
     (platform_get ce (''/api/v1/compliance/export?framework='' @ nullish framework ''all''), read_or_null a)"

definition api_simulator_replay ::
  "control_env \<Rightarrow> string \<Rightarrow> jsnum json list \<Rightarrow> http_answer \<Rightarrow> http_request \<times> (call_error + jsnum json)" where
  "api_simulator_replay ce yaml traces a =
     (\<lparr>hr_method = ''POST'', hr_url = engine_url ce @ ''/v1/simulator/replay'', hr_headers = engine_headers ce,
       hr_body = JsonBody (JObj [(''proposed_policy_yaml'', JStr yaml), (''traces'', JArr traces)])\<rparr>,
      read_json ''Simulator replay failed'' a)"

definition api_save_policy :: "control_env \<Rightarrow> string \<Rightarrow> string \<Rightarrow> http_answer \<Rightarrow> http_request \<times> (call_error + jsnum json)" where
  "api_save_policy ce name content a =
     (\<lparr>hr_method = ''POST'', hr_url = platform_url ce @ ''/api/v1/policies'', hr_headers = platform_headers ce,
       hr_body = JsonBody (JObj [(''name'', JStr name), (''content'', JStr content)])\<rparr>,
      read_json ''Policy save failed'' a)"

section \<open>The policy route\<close>

definition proxy_url :: "control_env \<Rightarrow> string \<Rightarrow> string" where
  "proxy_url ce name = nullish (ce_platform_url ce) ''http://platform:9090'' @ ''/api/v1/policies/'' @ name"

definition proxy_auth :: "control_env \<Rightarrow> string \<times> string" where
  "proxy_auth ce = (''Authorization'', ''Bearer '' @ nullish (ce_platform_key ce) ''platform-dev-key'')"

text \<open>\<open>error.message || fallback\<close>, with status 500.\<close>

definition caught_reply :: "(call_error \<Rightarrow> string) \<Rightarrow> string \<Rightarrow> call_error \<Rightarrow> reply" where
  "caught_reply words fallback e = error_reply 500 (if words e = [] then fallback else words e)"

text \<open>What the route makes of the answer; a status that allows no body cannot carry the error.\<close>

definition proxy_reply :: "(call_error \<Rightarrow> string) \<Rightarrow> string \<Rightarrow> http_answer \<Rightarrow> reply" where
  "proxy_reply words fallback a =
     (case a of
        NoAnswer \<Rightarrow> caught_reply words fallback Unreached
      | HttpAnswer status body \<Rightarrow>
          (if \<not> http_ok status
           then (if status = 304 then caught_reply words fallback NullBody
                 else error_reply status (''Platform API error: '' @ body))
           else case parse_json body of None \<Rightarrow> caught_reply words fallback BadBody | Some d \<Rightarrow> json_reply 200 d))"

definition proxy_put :: "(call_error \<Rightarrow> string) \<Rightarrow> control_env \<Rightarrow> string \<Rightarrow> request \<Rightarrow> http_answer \<Rightarrow> http_request list \<times> reply" where
  "proxy_put words ce name rq a =
     (case parse_json (rq_body rq) of
        None \<Rightarrow> ([], caught_reply words ''Failed to update policy'' BadBody)
      | Some body \<Rightarrow>
          ([\<lparr>hr_method = ''PUT'', hr_url = proxy_url ce name, hr_headers = [(''Content-Type'', ''application/json''), proxy_auth ce],
             hr_body = JsonBody body\<rparr>],
           proxy_reply words ''Failed to update policy'' a))"

definition proxy_get :: "(call_error \<Rightarrow> string) \<Rightarrow> control_env \<Rightarrow> string \<Rightarrow> request \<Rightarrow> http_answer \<Rightarrow> http_request list \<times> reply" where
  "proxy_get words ce name rq a =
     ([\<lparr>hr_method = ''GET'', hr_url = proxy_url ce name, hr_headers = [proxy_auth ce], hr_body = NoBody\<rparr>],
      proxy_reply words ''Failed to fetch policy'' a)"

section \<open>The trace page\<close>

record trace_event =
  te_id :: int
  te_trace :: string
  te_actor :: string
  te_action :: string
  te_decision :: string
  te_confidence :: rat

record trace_row =
  tr_link :: string
  tr_short :: string
  tr_label :: string
  tr_colour :: string
  tr_level :: string
  tr_percent :: string

record trace_view =
  tv_title :: string
  tv_count :: nat
  tv_average :: string
  tv_badges :: "(string \<times> string) list"
  tv_actors :: string
  tv_rows :: "trace_row list"

definition badge_label :: "string \<Rightarrow> string" where
  "badge_label d = (if d = ''human_review'' then ''Review'' else upper_text (take 1 d) @ drop 1 d)"

definition badge_colour :: "string \<Rightarrow> string" where
  "badge_colour d = (if d = ''allowed'' then ''green'' else if d = ''denied'' then ''red'' else ''yellow'')"

definition confidence_colour :: "rat \<Rightarrow> string" where
  "confidence_colour c = (if fl (9 / 10) \<le> c then ''green'' else if fl (7 / 10) \<le> c then ''yellow'' else ''red'')"

definition times_100 :: "number \<Rightarrow> number" where
  "times_100 v = (case v of Some (Fin x) \<Rightarrow> Some (num_of_rat (x * 100)) | _ \<Rightarrow> v)"

definition trace_row_of :: "trace_event \<Rightarrow> trace_row" where
  "trace_row_of e = \<lparr>tr_link = ''/traces/'' @ te_trace e, tr_short = take 8 (te_trace e), tr_label = badge_label (te_decision e),
     tr_colour = badge_colour (te_decision e), tr_level = confidence_colour (te_confidence e),
     tr_percent = to_fixed 0 (times_100 (Some (Fin (te_confidence e)))) @ ''%''\<rparr>"

text \<open>\<open>new Set(xs)\<close> keeps the first of equal values.\<close>

definition in_order :: "'a list \<Rightarrow> 'a list" where
  "in_order xs = rev (remdups (rev xs))"

definition average_confidence :: "trace_event list \<Rightarrow> number" where
  "average_confidence es =
     (if es = [] then Some (Fin 0)
      else num_div_nat (foldl (\<lambda>v e. num_add v (Some (Fin (te_confidence e)))) (Some (Fin 0)) es) (length es))"

definition trace_view_of :: "string \<Rightarrow> trace_event list \<Rightarrow> trace_view" where
  "trace_view_of trace es = \<lparr>tv_title = trace, tv_count = length es,
     tv_average = to_fixed 0 (times_100 (average_confidence es)) @ ''%'',
     tv_badges = map (\<lambda>d. (badge_label d, badge_colour d)) (in_order (map te_decision es)),
     tv_actors = join '', '' (in_order (map te_actor es)), tv_rows = map trace_row_of es\<rparr>"

text \<open>A visit: the guard first, then the call with the server's own key. \<open>decode\<close> reads the events of the
  answer; an answer without them throws.\<close>

definition visit_trace ::
  "control_env \<Rightarrow> (jsnum json \<Rightarrow> trace_event list option) \<Rightarrow> string \<Rightarrow> request \<Rightarrow> http_answer
    \<Rightarrow> string + http_request \<times> (call_error + trace_view)" where
  "visit_trace ce decode trace rq a =
     (case middleware (''/traces/'' @ trace) rq of
        ToLogin next \<Rightarrow> Inl next
      | Next \<Rightarrow>
          Inr (fst (api_trace ce trace a),
               case snd (api_trace ce trace a) of
                 Inl e \<Rightarrow> Inl e
               | Inr d \<Rightarrow> (case decode d of None \<Rightarrow> Inl NullBody | Some es \<Rightarrow> Inr (trace_view_of trace es))))"

section \<open>Properties\<close>

lemma policies_route_unguarded: "middleware (''/api/v1/policies/'' @ name) rq = Next"
  by (simp add: middleware_def is_protected_def protected_paths_def starts_with_def)

lemma traces_guarded: "middleware (''/traces/'' @ t) rq = (if truthy (rq_cookie rq) then Next else ToLogin (''/traces/'' @ t))"
  by (simp add: middleware_def is_protected_def protected_paths_def starts_with_def)

text \<open>C7: Anybody can rewrite the control plane's policies through the web server. The page guard lets every request
  to the policy route pass, with or without a session or key, and the route sends the document of the request on to the
  control plane under the server's own key; when the control plane accepts it, its answer is returned with 200.\<close>

theorem policy_route_writes_for_anyone:
  assumes "parse_json (rq_body rq) = Some body" "http_ok status" "parse_json txt_body = Some d"
  shows "middleware (''/api/v1/policies/'' @ name) rq = Next
    \<and> (\<exists>q. proxy_put words ce name rq (HttpAnswer status txt_body) = ([q], json_reply 200 d)
        \<and> hr_method q = ''PUT'' \<and> hr_url q = proxy_url ce name \<and> hr_body q = JsonBody body
        \<and> proxy_auth ce \<in> set (hr_headers q))"
  using assms by (simp add: policies_route_unguarded [simplified] proxy_put_def proxy_reply_def)

text \<open>What a caller of the policy route is told. A refusal of the control plane keeps its status, a success is 200,
  and everything else (no answer, an answer or a request that is not JSON, a refusal that can carry no text) is 500 with a
  text that is not empty.\<close>

theorem policy_route_answers:
  "rp_status (snd (proxy_put words ce name rq a)) =
     (case (parse_json (rq_body rq), a) of
        (Some body, HttpAnswer status reply_body) \<Rightarrow>
          (if http_ok status then (if parse_json reply_body = None then 500 else 200) else if status = 304 then 500 else status)
      | _ \<Rightarrow> 500)
   \<and> (\<exists>msg. msg \<noteq> [] \<and> rp_body (snd (proxy_put words ce name rq a)) = JObj [(''error'', JStr msg)]
       \<or> (\<exists>status reply_body. a = HttpAnswer status reply_body \<and> http_ok status
            \<and> parse_json reply_body = Some (rp_body (snd (proxy_put words ce name rq a)))))"
proof -
  have e: "rp_status (caught_reply words f x) = 500
      \<and> (f \<noteq> [] \<longrightarrow> (\<exists>msg. msg \<noteq> [] \<and> rp_body (caught_reply words f x) = JObj [(''error'', JStr msg)]))" for f x
    by (simp add: caught_reply_def error_reply_def json_reply_def)
  show ?thesis
  proof (cases "parse_json (rq_body rq)")
    case None
    then show ?thesis using e [of "''Failed to update policy''" BadBody] by (auto simp: proxy_put_def)
  next
    case (Some body)
    show ?thesis
    proof (cases a)
      case NoAnswer
      then show ?thesis using e [of "''Failed to update policy''" Unreached] Some by (auto simp: proxy_put_def proxy_reply_def)
    next
      case (HttpAnswer status reply_body)
      consider "\<not> http_ok status" "status = 304" | "\<not> http_ok status" "status \<noteq> 304" | "http_ok status" by blast
      then show ?thesis
      proof cases
        case 1
        then show ?thesis using e [of "''Failed to update policy''" NullBody] Some HttpAnswer
          by (auto simp: proxy_put_def proxy_reply_def)
      next
        case 2
        then show ?thesis using Some HttpAnswer
          by (simp add: proxy_put_def proxy_reply_def error_reply_def json_reply_def)
      next
        case 3
        then show ?thesis using e [of "''Failed to update policy''" BadBody] Some HttpAnswer
          by (cases "parse_json reply_body") (auto simp: proxy_put_def proxy_reply_def json_reply_def)
      qed
    qed
  qed
qed

text \<open>The trace page answers to any cookie. Who has no session cookie is sent to the login page; for everyone else,
  whatever the cookie holds, the page asks the control plane for the trace under the server's own key and shows what
  it gets: two visitors with cookies see the same.\<close>

theorem trace_page_shows_any_visitor:
  "(if truthy (rq_cookie rq)
    then \<exists>q. visit_trace ce decode t rq a = Inr q \<and> fst q = platform_get ce (''/api/v1/audit/trace/'' @ t)
      \<and> (truthy (rq_cookie rq') \<longrightarrow> visit_trace ce decode t rq' a = Inr q)
    else visit_trace ce decode t rq a = Inl (''/traces/'' @ t))"
  by (simp add: visit_trace_def traces_guarded [simplified] api_trace_def)

text \<open>The two optional summaries are null instead of an error, but for one case: a success whose body is not JSON is
  thrown, because the promise is returned without being awaited.\<close>

theorem summaries_are_null_on_failure:
  "(\<exists>e. snd (api_shadow_summary ce minutes a) = Inl e)
     \<longleftrightarrow> (\<exists>status body. a = HttpAnswer status body \<and> http_ok status \<and> parse_json body = None)"
  "(\<exists>e. snd (api_compliance_export ce framework a) = Inl e)
     \<longleftrightarrow> (\<exists>status body. a = HttpAnswer status body \<and> http_ok status \<and> parse_json body = None)"
  by (auto simp: api_shadow_summary_def api_compliance_export_def read_or_null_def split: http_answer.splits option.splits)

definition open_env :: control_env where
  "open_env = \<lparr>ce_platform_url = None, ce_platform_key = Some ''server-secret'', ce_engine_url = None, ce_engine_key = None\<rparr>"

definition policy_change :: "int json" where
  "policy_change = JObj [(''content'', JStr ''allow: *'')]"

theorem policy_route_writes_for_anyone_witness:
  "\<exists>q d. proxy_put (\<lambda>_. []) open_env ''auth'' \<lparr>rq_auth = None, rq_cookie = None, rq_body = stringify policy_change\<rparr>
       (HttpAnswer 200 (stringify policy_change)) = ([q], json_reply 200 d)
     \<and> (''Authorization'', ''Bearer server-secret'') \<in> set (hr_headers q)"
proof -
  have p: "parse_json (stringify policy_change) = Some (reread policy_change)"
    by (rule parse_stringify) (simp add: policy_change_def)
  have "proxy_auth open_env = (''Authorization'', ''Bearer server-secret'')" by (simp add: proxy_auth_def open_env_def nullish_def)
  with policy_route_writes_for_anyone [where rq = "\<lparr>rq_auth = None, rq_cookie = None, rq_body = stringify policy_change\<rparr>"
      and status = 200 and words = "\<lambda>_. []" and ce = open_env and name = "''auth''", OF _ _ p] p
  show ?thesis by (auto simp: http_ok_def)
qed

theorem trace_page_shows_any_visitor_witness:
  "visit_trace open_env (\<lambda>_. Some []) ''t1'' \<lparr>rq_auth = None, rq_cookie = Some ''forged'', rq_body = []\<rparr> NoAnswer
     = visit_trace open_env (\<lambda>_. Some []) ''t1'' \<lparr>rq_auth = None, rq_cookie = Some ''other'', rq_body = []\<rparr> NoAnswer"
proof -
  have "truthy (Some ''forged'')" "truthy (Some ''other'')" by (simp_all add: truthy_def)
  then show ?thesis
    using trace_page_shows_any_visitor [of "\<lparr>rq_auth = None, rq_cookie = Some ''forged'', rq_body = []\<rparr>" open_env "\<lambda>_. Some []"
        "''t1''" NoAnswer "\<lparr>rq_auth = None, rq_cookie = Some ''other'', rq_body = []\<rparr>"]
    by auto
qed

end
