(* ===== verification/ReactPages.thy ===== *)
theory ReactPages
  imports Pages SdkGates NumberText "HOL-Library.Multiset" "HOL-Library.List_Lexorder" "HOL-Library.Char_ord"
begin

text \<open>
  The React components of the SDK (\<open>sdk/typescript/src/react\<close>): the hook \<open>useAgentPermission\<close>, the review list
  \<open>LeluApprovalUI\<close> with its polling and its two buttons, and the table of \<open>AgentReputationDashboard\<close>.
  A component is its state and what it does on a click and on an answer; the texts of runtime errors are the
  argument \<open>words\<close>. Markup, icons and the opening of a payload are not modelled.
\<close>

section \<open>The hook\<close>

record permission_state =
  ps_can :: "jsnum json option"
  ps_loading :: bool
  ps_reason :: "jsnum json option"
  ps_decision :: string

definition asking :: permission_state where
  "asking = \<lparr>ps_can = Some (JBool False), ps_loading = True, ps_reason = Some (JStr []), ps_decision = []\<rparr>"

definition hook_client :: "string option \<Rightarrow> string option \<Rightarrow> client_config" where
  "hook_client base key = \<lparr>cc_base = Some (nullish base ''http://localhost:8080''), cc_timeout = None, cc_key = key\<rparr>"

definition hook_request :: "string \<Rightarrow> string \<Rightarrow> rat option \<Rightarrow> string option \<Rightarrow> agent_auth_request" where
  "hook_request actor action confidence scope =
     \<lparr>aa_actor = actor, aa_action = action, aa_resource = None,
      aa_context = \<lparr>cx_signal = None, cx_confidence = confidence, cx_acting_for = None, cx_scope = scope\<rparr>\<rparr>"

definition granted_state :: "agent_decision \<Rightarrow> permission_state" where
  "granted_state d =
     (let yes = truthy_json (ad_allowed d)
      in \<lparr>ps_can = ad_allowed d, ps_loading = False,
          ps_reason = Some (nullish_json (ad_reason d) (JStr (if yes then ''allowed'' else ''denied''))),
          ps_decision = (if yes then ''allowed'' else if gd_review d then ''human_review'' else ''denied'')\<rparr>)"

text \<open>A cancelled effect leaves the state alone.\<close>

definition permission_answered :: "(sdk_error \<Rightarrow> string) \<Rightarrow> bool \<Rightarrow> answer \<Rightarrow> permission_state \<Rightarrow> permission_state" where
  "permission_answered err_text cancelled a st =
     (if cancelled then st
      else case a of
             Inl e \<Rightarrow> \<lparr>ps_can = Some (JBool False), ps_loading = False, ps_reason = Some (JStr (err_text e)), ps_decision = ''denied''\<rparr>
           | Inr d \<Rightarrow> granted_state d)"

section \<open>The review list\<close>

record approval_ui =
  au_requests :: "jsnum json list"
  au_loading :: bool
  au_error :: "string option"
  au_search :: string
  au_processing :: "string option"

definition approval_start :: approval_ui where
  "approval_start = \<lparr>au_requests = [], au_loading = True, au_error = None, au_search = [], au_processing = None\<rparr>"

definition pending_call :: "string \<Rightarrow> page_call" where
  "pending_call base = page_get (base @ ''/v1/reviews/pending'')"

definition requests_fetched :: "(parsed_answer \<Rightarrow> string) \<Rightarrow> page_answer \<Rightarrow> approval_ui \<Rightarrow> approval_ui" where
  "requests_fetched words a pg =
     (let failed = (\<lambda>msg. pg\<lparr>au_error := Some msg, au_loading := False\<rparr>)
      in case a of
           NoReply \<Rightarrow> failed (words parsed_answer.Thrown)
         | Replied st body \<Rightarrow>
             (if \<not> http_ok st then failed ''Failed to fetch pending reviews''
              else case read_answer a of
                     Accepted d \<Rightarrow> pg\<lparr>au_requests := jlist (member ''requests'' d), au_error := None, au_loading := False\<rparr>
                   | other \<Rightarrow> failed (words other)))"

definition request_id :: "jsnum json \<Rightarrow> string" where
  "request_id r = nullish (str_of (member ''id'' r)) []"

definition resolve_call :: "string \<Rightarrow> string \<Rightarrow> bool \<Rightarrow> page_call" where
  "resolve_call base i approved = page_send ''POST'' (base @ ''/v1/reviews/'' @ i @ ''/resolve'') (JObj [(''approved'', JBool approved)])"

definition action_clicked :: "string \<Rightarrow> jsnum json \<Rightarrow> bool \<Rightarrow> approval_ui \<Rightarrow> approval_ui \<times> page_call" where
  "action_clicked base r approved pg =
     (pg\<lparr>au_processing := Some (request_id r)\<rparr>, resolve_call base (request_id r) approved)"

text \<open>The body of the answer is not read; the callback is told on success.\<close>

definition action_finished ::
  "(parsed_answer \<Rightarrow> string) \<Rightarrow> jsnum json \<Rightarrow> bool \<Rightarrow> page_answer \<Rightarrow> approval_ui \<Rightarrow> approval_ui \<times> (jsnum json \<times> bool) option" where
  "action_finished words r approved a pg =
     (let pg1 = pg\<lparr>au_processing := None\<rparr>
      in case a of
           NoReply \<Rightarrow> (pg1\<lparr>au_error := Some (words parsed_answer.Thrown)\<rparr>, None)
         | Replied st body \<Rightarrow>
             (if \<not> http_ok st then (pg1\<lparr>au_error := Some ''Failed to resolve review''\<rparr>, None)
              else (pg1\<lparr>au_requests := filter (\<lambda>x. request_id x \<noteq> request_id r) (au_requests pg)\<rparr>, Some (r, approved))))"

definition json_text :: "string \<Rightarrow> jsnum json \<Rightarrow> string" where
  "json_text k r = nullish (str_of (member k r)) []"

definition filtered_requests :: "approval_ui \<Rightarrow> jsnum json list" where
  "filtered_requests pg =
     (if au_search pg = [] then au_requests pg
      else filter (\<lambda>r. contains (to_lower (au_search pg)) (to_lower (json_text ''agentId'' r))
                  \<or> contains (to_lower (au_search pg)) (to_lower (json_text ''action'' r))) (au_requests pg))"

definition review_colour :: "rat \<Rightarrow> string" where
  "review_colour c = (if c < 1 / 2 then ''red'' else if c < fl (8 / 10) then ''yellow'' else ''green'')"

section \<open>Runs of the review list\<close>

text \<open>A run: answers to polls, typing, clicks on a button that is not disabled, and answers to clicks in
  any order. \<open>ar_flight\<close> holds the calls that are not answered, \<open>ar_sent\<close> every call that was sent,
  \<open>ar_listed\<close> the identifiers any poll listed.\<close>

record approval_run =
  ar_page :: approval_ui
  ar_flight :: "(jsnum json \<times> bool) list"
  ar_sent :: "(string \<times> bool) list"
  ar_listed :: "string set"

inductive approval_step :: "(parsed_answer \<Rightarrow> string) \<Rightarrow> approval_run \<Rightarrow> approval_run \<Rightarrow> bool" for words where
  polled: "pg = requests_fetched words a (ar_page s) \<Longrightarrow>
    approval_step words s (s\<lparr>ar_page := pg, ar_listed := ar_listed s \<union> request_id ` set (au_requests pg)\<rparr>)"
| typed: "approval_step words s (s\<lparr>ar_page := (ar_page s)\<lparr>au_search := q\<rparr>\<rparr>)"
| clicked: "\<lbrakk>r \<in> set (filtered_requests (ar_page s)); au_processing (ar_page s) \<noteq> Some (request_id r)\<rbrakk> \<Longrightarrow>
    approval_step words s (s\<lparr>ar_page := fst (action_clicked base r approved (ar_page s)),
      ar_flight := ar_flight s @ [(r, approved)], ar_sent := ar_sent s @ [(request_id r, approved)]\<rparr>)"
| answered: "\<lbrakk>ar_flight s = before @ (r, approved) # after\<rbrakk> \<Longrightarrow>
    approval_step words s (s\<lparr>ar_page := fst (action_finished words r approved a (ar_page s)), ar_flight := before @ after\<rparr>)"

inductive_cases approval_stepE: "approval_step words s s'"

definition run_start :: approval_run where
  "run_start = \<lparr>ar_page = approval_start, ar_flight = [], ar_sent = [], ar_listed = {}\<rparr>"

definition approval_reachable :: "(parsed_answer \<Rightarrow> string) \<Rightarrow> approval_run \<Rightarrow> bool" where
  "approval_reachable words s = (approval_step words)\<^sup>*\<^sup>* run_start s"

section \<open>The reputation table\<close>

record agent_stats =
  st_agent :: string
  st_total :: rat
  st_allowed :: rat
  st_denied :: rat
  st_reviews :: rat
  st_confidence :: rat
  st_score :: rat
  st_last :: string

datatype stat_key = AgentId | TotalActions | AllowedActions | DeniedActions | HumanReviews | AverageConfidence | HallucinationScore | LastActive

datatype stat_value = NumberStat rat | TextStat string

fun stat_of :: "stat_key \<Rightarrow> agent_stats \<Rightarrow> stat_value" where
  "stat_of AgentId a = TextStat (st_agent a)"
| "stat_of TotalActions a = NumberStat (st_total a)"
| "stat_of AllowedActions a = NumberStat (st_allowed a)"
| "stat_of DeniedActions a = NumberStat (st_denied a)"
| "stat_of HumanReviews a = NumberStat (st_reviews a)"
| "stat_of AverageConfidence a = NumberStat (st_confidence a)"
| "stat_of HallucinationScore a = NumberStat (st_score a)"
| "stat_of LastActive a = TextStat (st_last a)"

text \<open>The order of the operator \<open><\<close> on two values of one column.\<close>

fun stat_leq :: "stat_value \<Rightarrow> stat_value \<Rightarrow> bool" where
  "stat_leq (NumberStat x) (NumberStat y) = (x \<le> y)"
| "stat_leq (TextStat s) (TextStat t) = (s \<le> t)"
| "stat_leq (NumberStat x) (TextStat t) = True"
| "stat_leq (TextStat s) (NumberStat y) = False"

instantiation stat_value :: linorder
begin

definition less_eq_stat_value :: "stat_value \<Rightarrow> stat_value \<Rightarrow> bool" where
  "less_eq_stat_value x y = stat_leq x y"

definition less_stat_value :: "stat_value \<Rightarrow> stat_value \<Rightarrow> bool" where
  "less_stat_value x y = (stat_leq x y \<and> \<not> stat_leq y x)"

instance
proof
  fix x y z :: stat_value
  show "(x < y) = (x \<le> y \<and> \<not> y \<le> x)" by (simp add: less_stat_value_def less_eq_stat_value_def)
  show "x \<le> x" by (cases x) (simp_all add: less_eq_stat_value_def)
  show "x \<le> z" if "x \<le> y" "y \<le> z" using that by (cases x; cases y; cases z) (auto simp: less_eq_stat_value_def)
  show "x = y" if "x \<le> y" "y \<le> x" using that by (cases x; cases y) (auto simp: less_eq_stat_value_def)
  show "x \<le> y \<or> y \<le> x" by (cases x; cases y) (auto simp: less_eq_stat_value_def)
qed

end

datatype direction = Asc | Desc

record reputation_table =
  rt_stats :: "agent_stats list"
  rt_search :: string
  rt_key :: stat_key
  rt_direction :: direction
  rt_loading :: bool
  rt_refreshing :: bool
  rt_error :: "string option"

definition table_start :: reputation_table where
  "table_start = \<lparr>rt_stats = [], rt_search = [], rt_key = HallucinationScore, rt_direction = Desc, rt_loading = True,
     rt_refreshing = False, rt_error = None\<rparr>"

text \<open>\<open>read_stats\<close> takes an element of the answer as the declared type.\<close>

definition stats_fetched ::
  "(parsed_answer \<Rightarrow> string) \<Rightarrow> (jsnum json \<Rightarrow> agent_stats) \<Rightarrow> page_answer \<Rightarrow> reputation_table \<Rightarrow> reputation_table" where
  "stats_fetched words read_stats a t =
     (let t1 = t\<lparr>rt_loading := False, rt_refreshing := False\<rparr>; failed = (\<lambda>msg. t1\<lparr>rt_error := Some msg\<rparr>)
      in case a of
           NoReply \<Rightarrow> failed (words parsed_answer.Thrown)
         | Replied st body \<Rightarrow>
             (if \<not> http_ok st then failed ''Failed to fetch agent analytics''
              else case read_answer a of
                     Accepted d \<Rightarrow> t1\<lparr>rt_stats := map read_stats (jlist (member ''stats'' d)), rt_error := None\<rparr>
                   | other \<Rightarrow> failed (words other)))"

definition handle_sort :: "stat_key \<Rightarrow> reputation_table \<Rightarrow> reputation_table" where
  "handle_sort k t = t\<lparr>rt_key := k, rt_direction := (if rt_key t = k \<and> rt_direction t = Desc then Asc else Desc)\<rparr>"

text \<open>\<open>Array.prototype.sort\<close> is stable in both directions.\<close>

definition found_stats :: "reputation_table \<Rightarrow> agent_stats list" where
  "found_stats t =
     (if rt_search t = [] then rt_stats t
      else filter (\<lambda>a. contains (to_lower (rt_search t)) (to_lower (st_agent a))) (rt_stats t))"

definition processed_stats :: "reputation_table \<Rightarrow> agent_stats list" where
  "processed_stats t =
     (case rt_direction t of
        Asc \<Rightarrow> sort_key (stat_of (rt_key t)) (found_stats t)
      | Desc \<Rightarrow> rev (sort_key (stat_of (rt_key t)) (rev (found_stats t))))"

definition sum_of :: "(agent_stats \<Rightarrow> rat) \<Rightarrow> agent_stats list \<Rightarrow> number" where
  "sum_of f as = foldl (\<lambda>v a. num_add v (Some (Fin (f a)))) (Some (Fin 0)) as"

definition average_score :: "agent_stats list \<Rightarrow> number" where
  "average_score as = (if as = [] then Some (Fin 0) else num_div_nat (sum_of st_score as) (length as))"

definition high_risk :: "agent_stats list \<Rightarrow> nat" where
  "high_risk as = length (filter (\<lambda>a. 50 < st_score a) as)"

definition risk_colour :: "rat \<Rightarrow> string" where
  "risk_colour x = (if 50 < x then ''red'' else if 20 < x then ''yellow'' else ''green'')"

section \<open>Properties\<close>

text \<open>The hook grants what the tool gates refuse. On an answer that is allowed but downgraded to a narrower scope, or
  redirected to a safe tool, the hook says that the agent can execute; the Express gate answers the same decision
  with 403 and leaves the application alone.\<close>

theorem hook_grants_what_gates_refuse:
  assumes "truthy_json (ad_allowed d)" "truthy_json (ad_downgraded d) \<or> ad_computed d"
  shows "truthy_json (ps_can (permission_answered err_text False (Inr d) st))
    \<and> ps_decision (permission_answered err_text False (Inr d) st) = ''allowed''
    \<and> express_finish err_text actor action nxt (Inr d) w = (Inr (Answered 403 (express_forbidden actor action d)), w)"
  using assms by (auto simp: permission_answered_def granted_state_def express_finish_def Let_def)

lemma fetched_ids: "au_requests (requests_fetched words a pg) = au_requests pg \<or> au_error (requests_fetched words a pg) = None"
  by (auto simp: requests_fetched_def Let_def split: page_answer.split parsed_answer.split)

definition listed_only :: "approval_run \<Rightarrow> bool" where
  "listed_only s =
     (request_id ` set (au_requests (ar_page s)) \<subseteq> ar_listed s \<and> request_id ` fst ` set (ar_flight s) \<subseteq> ar_listed s
      \<and> fst ` set (ar_sent s) \<subseteq> ar_listed s
      \<and> (\<lambda>(r, approved). (request_id r, approved)) ` set (ar_flight s) \<subseteq> set (ar_sent s))"

lemma finished_requests: "set (au_requests (fst (action_finished words r approved a pg))) \<subseteq> set (au_requests pg)"
  by (auto simp: action_finished_def Let_def split: page_answer.split)

lemma filtered_subset: "set (filtered_requests pg) \<subseteq> set (au_requests pg)"
  by (auto simp: filtered_requests_def)

lemma listed_step: "approval_step words s s' \<Longrightarrow> listed_only s \<Longrightarrow> listed_only s'"
proof (induction rule: approval_step.induct)
  case (polled pg a s)
  then show ?case by (simp add: listed_only_def) blast
next
  case (clicked r s approved)
  have "request_id r \<in> ar_listed s" using clicked filtered_subset [of "ar_page s"] by (auto simp: listed_only_def)
  then show ?case using clicked.prems by (auto simp: listed_only_def action_clicked_def)
next
  case (answered s before r approved after a)
  then show ?case using finished_requests [of words r approved a "ar_page s"]
    by (auto simp: listed_only_def image_subset_iff)
qed (auto simp: listed_only_def)


definition review_object :: "string \<Rightarrow> jsnum json" where
  "review_object i = JObj [(''id'', JStr i), (''agentId'', JStr ''bot''), (''action'', JStr ''refund'')]"

definition two_reviews :: approval_ui where
  "two_reviews = \<lparr>au_requests = [review_object ''a'', review_object ''b''], au_loading = False, au_error = None,
     au_search = [], au_processing = None\<rparr>"

lemma two_reviews_polled:
  "requests_fetched words (Replied 200 (Some (JObj [(''requests'', JArr [review_object ''a'', review_object ''b''])]))) approval_start
    = two_reviews"
  by (simp add: requests_fetched_def read_answer_def http_ok_def member_def jlist_def approval_start_def two_reviews_def)

lemma two_verdicts_run:
  obtains s where "approval_reachable words s" "ar_sent s = [(''a'', True), (''b'', True), (''a'', False)]"
    "length (ar_flight s) = 3"
proof -
  let ?r = "review_object ''a''" and ?q = "review_object ''b''"
  let ?s1 = "run_start\<lparr>ar_page := two_reviews, ar_listed := {''a'', ''b''}\<rparr>"
  let ?s2 = "?s1\<lparr>ar_page := two_reviews\<lparr>au_processing := Some ''a''\<rparr>, ar_flight := [(?r, True)], ar_sent := [(''a'', True)]\<rparr>"
  let ?s3 = "?s2\<lparr>ar_page := two_reviews\<lparr>au_processing := Some ''b''\<rparr>, ar_flight := [(?r, True), (?q, True)],
    ar_sent := [(''a'', True), (''b'', True)]\<rparr>"
  let ?s4 = "?s3\<lparr>ar_page := two_reviews\<lparr>au_processing := Some ''a''\<rparr>, ar_flight := [(?r, True), (?q, True), (?r, False)],
    ar_sent := [(''a'', True), (''b'', True), (''a'', False)]\<rparr>"
  have ids: "request_id ?r = ''a''" "request_id ?q = ''b''" by (simp_all add: request_id_def review_object_def member_def nullish_def)
  have shown: "filtered_requests (two_reviews\<lparr>au_processing := p\<rparr>) = [?r, ?q]" "filtered_requests two_reviews = [?r, ?q]" for p
    by (simp_all add: filtered_requests_def two_reviews_def)
  have none: "au_processing two_reviews = None" by (simp add: two_reviews_def)
  have "approval_step words run_start (run_start\<lparr>ar_page := two_reviews,
      ar_listed := ar_listed run_start \<union> request_id ` set (au_requests two_reviews)\<rparr>)"
    by (rule polled [where a = "Replied 200 (Some (JObj [(''requests'', JArr [?r, ?q])]))"])
       (simp add: run_start_def two_reviews_polled)
  moreover have "ar_listed run_start \<union> request_id ` set (au_requests two_reviews) = {''a'', ''b''}"
    using ids by (auto simp: run_start_def two_reviews_def)
  ultimately have "approval_step words run_start ?s1" by simp
  moreover have "approval_step words ?s1 ?s2"
    using clicked [of ?r ?s1 words True] by (simp add: shown none ids action_clicked_def run_start_def)
  moreover have "approval_step words ?s2 ?s3"
    using clicked [of ?q ?s2 words True] by (simp add: shown ids action_clicked_def run_start_def)
  moreover have "approval_step words ?s3 ?s4"
    using clicked [of ?r ?s3 words False] by (simp add: shown ids action_clicked_def run_start_def)
  ultimately have "approval_reachable words ?s4"
    unfolding approval_reachable_def by (meson rtranclp.rtrancl_into_rtrancl rtranclp.rtrancl_refl)
  then show ?thesis using that by simp
qed


text \<open>One review can be approved and denied. The list remembers a single item in progress, so a click on a second item
  enables the buttons of the first one again while its call is not answered; both verdicts on it are then under way.\<close>

theorem review_can_get_two_verdicts:
  "\<exists>s i. approval_reachable words s \<and> (i, True) \<in> set (ar_sent s) \<and> (i, False) \<in> set (ar_sent s)
    \<and> length (ar_flight s) = length (ar_sent s)"
proof -
  obtain s where "approval_reachable words s" "ar_sent s = [(''a'', True), (''b'', True), (''a'', False)]" "length (ar_flight s) = 3"
    by (rule two_verdicts_run)
  then show ?thesis by (intro exI [of _ s] exI [of _ "''a''"]) simp
qed


definition downgraded_answer :: agent_decision where
  "downgraded_answer = agent_decision_of (hook_request ''bot'' ''refund'' None None)
     (auth_decision_of [] ''refund'' (JObj [(''allowed'', JBool True), (''downgraded_scope'', JStr ''read_only'')]))"

theorem hook_grants_what_gates_refuse_witness:
  "truthy_json (ps_can (permission_answered (\<lambda>_. []) False (Inr downgraded_answer) asking))
    \<and> express_finish (\<lambda>_. []) ''bot'' ''refund'' (\<lambda>w. w + 1) (Inr downgraded_answer) (0 :: nat)
        = (Inr (Answered 403 (express_forbidden ''bot'' ''refund'' downgraded_answer)), 0)"
proof -
  have a: "truthy_json (ad_allowed downgraded_answer)" "truthy_json (ad_downgraded downgraded_answer)" by code_simp+
  show ?thesis
    using hook_grants_what_gates_refuse [OF a(1) disjI1 [OF a(2)], of "\<lambda>_. []" asking "''bot''" "''refund''" "\<lambda>w. w + 1" "0 :: nat"]
    by blast
qed

text \<open>The table shows the agents that were found, in order. The rows are the agents whose identifier contains what was
  typed, each as often as it was answered, in ascending or descending order of the chosen column; choosing a column
  starts with the descending order and choosing it again turns the order round.\<close>

theorem table_shows_found_agents_in_order:
  "mset (processed_stats t) = mset (found_stats t)
    \<and> sorted_wrt (\<lambda>a b. if rt_direction t = Asc then stat_of (rt_key t) a \<le> stat_of (rt_key t) b
        else stat_of (rt_key t) b \<le> stat_of (rt_key t) a) (processed_stats t)
    \<and> rt_direction (handle_sort k (handle_sort k t)) \<noteq> rt_direction (handle_sort k t)"
proof -
  have up: "sorted_wrt (\<lambda>a b. stat_of (rt_key t) a \<le> stat_of (rt_key t) b) (sort_key (stat_of (rt_key t)) as)" for as
    using sorted_sort_key [of "stat_of (rt_key t)" as] by (simp add: sorted_wrt_map sorted_map)
  have "sorted_wrt (\<lambda>a b. if rt_direction t = Asc then stat_of (rt_key t) a \<le> stat_of (rt_key t) b
        else stat_of (rt_key t) b \<le> stat_of (rt_key t) a) (processed_stats t)"
    by (cases "rt_direction t") (simp_all add: processed_stats_def up sorted_wrt_rev)
  moreover have "mset (processed_stats t) = mset (found_stats t)"
    by (cases "rt_direction t") (simp_all add: processed_stats_def)
  moreover have "rt_direction (handle_sort k (handle_sort k t)) \<noteq> rt_direction (handle_sort k t)"
    by (simp add: handle_sort_def)
  ultimately show ?thesis by blast
qed

end
