(* ===== verification/Tracing.thy ===== *)
theory Tracing
  imports SdkReview
begin

text \<open>
  The tracer of the SDK, \<open>sdk/typescript/src/observability/tracer.ts\<close>: which attributes a span carries, the status a
  decision gives it, and the wrapper \<open>withAgentSpan\<close>, with the two calls of \<open>client.ts\<close> that run in it. The span
  itself belongs to OpenTelemetry: attributes set later replace earlier ones of the same name, and what
  setting a status does is the argument \<open>set_status\<close> (old status, new status). The arrow of a delegation chain is
  outside Latin-1 and written \<open>->\<close>; \<open>print\<close> is \<open>error.message\<close>.
\<close>

datatype attr = TextAttr string | NumAttr rat | BoolAttr bool | TextsAttr "string list"

datatype span_status = Unset | SpanOk | SpanError string

record span =
  sp_name :: string
  sp_attrs :: "(string \<times> attr) list"
  sp_status :: span_status
  sp_exceptions :: "string list"
  sp_ended :: bool

definition set_attributes :: "(string \<times> attr) list \<Rightarrow> span \<Rightarrow> span" where
  "set_attributes kvs s = s\<lparr>sp_attrs := sp_attrs s @ kvs\<rparr>"

definition attribute :: "string \<Rightarrow> span \<Rightarrow> attr option" where
  "attribute k s = map_of (rev (sp_attrs s)) k"

type_synonym status_setter = "span_status \<Rightarrow> span_status \<Rightarrow> span_status"

definition put_status :: "status_setter \<Rightarrow> span_status \<Rightarrow> span \<Rightarrow> span" where
  "put_status set_status new s = s\<lparr>sp_status := set_status (sp_status s) new\<rparr>"

section \<open>Starting spans\<close>

record span_options =
  so_agent :: string
  so_type :: "string option"
  so_action :: "string option"
  so_confidence :: "rat option"
  so_acting_for :: "string option"
  so_scope :: "string option"

text \<open>\<open>...(x && { [k]: x })\<close>.\<close>

definition text_attr :: "string \<Rightarrow> string option \<Rightarrow> (string \<times> attr) list" where
  "text_attr k x = (if truthy x then [(k, TextAttr (the x))] else [])"

definition number_attr :: "string \<Rightarrow> rat option \<Rightarrow> (string \<times> attr) list" where
  "number_attr k x = (case x of None \<Rightarrow> [] | Some v \<Rightarrow> if v = 0 then [] else [(k, NumAttr v)])"

definition start_agent_span :: "string \<Rightarrow> span_options \<Rightarrow> span" where
  "start_agent_span name opts = \<lparr>sp_name = name,
     sp_attrs =
       [(''ai.agent.id'', TextAttr (so_agent opts)),
        (''ai.agent.type'', TextAttr (if truthy (so_type opts) then the (so_type opts) else ''autonomous''))]
       @ text_attr ''ai.request.intent'' (so_action opts)
       @ (case so_confidence opts of None \<Rightarrow> [] | Some v \<Rightarrow> [(''ai.request.confidence'', NumAttr v)])
       @ text_attr ''ai.request.acting_for'' (so_acting_for opts) @ text_attr ''ai.request.scope'' (so_scope opts),
     sp_status = Unset, sp_exceptions = [], sp_ended = False\<rparr>"

definition bare_options :: "string \<Rightarrow> span_options" where
  "bare_options agent = \<lparr>so_agent = agent, so_type = None, so_action = None, so_confidence = None, so_acting_for = None,
     so_scope = None\<rparr>"

definition start_authorization_span :: "string \<Rightarrow> string \<Rightarrow> rat \<Rightarrow> span" where
  "start_authorization_span agent action confidence = start_agent_span ''ai.agent.authorize''
     ((bare_options agent)\<lparr>so_action := Some action, so_confidence := Some confidence, so_type := Some ''autonomous''\<rparr>)"

definition start_delegation_span :: "string \<Rightarrow> string \<Rightarrow> span" where
  "start_delegation_span delegator delegatee = set_attributes
     [(''ai.parent.agent'', TextAttr delegator), (''ai.child.agent'', TextAttr delegatee),
      (''ai.delegation.chain'', TextAttr (delegator @ ''->'' @ delegatee))]
     (start_agent_span ''ai.agent.delegate'' (bare_options delegator))"

definition start_swarm_span :: "string \<Rightarrow> string \<Rightarrow> string list \<Rightarrow> span" where
  "start_swarm_span swarm orchestrator agents = set_attributes
     [(''ai.swarm.id'', TextAttr swarm), (''ai.swarm.orchestrator'', TextAttr orchestrator),
      (''ai.swarm.agents'', TextsAttr agents), (''ai.swarm.agent_count'', NumAttr (of_nat (length agents)))]
     (start_agent_span ''ai.swarm.orchestration'' ((bare_options orchestrator)\<lparr>so_type := Some ''orchestrator''\<rparr>))"

section \<open>Recording\<close>

definition record_policy_evaluation :: "string \<Rightarrow> string \<Rightarrow> string \<Rightarrow> rat \<Rightarrow> span option \<Rightarrow> span option" where
  "record_policy_evaluation name version result latency = map_option (set_attributes
     [(''ai.policy.name'', TextAttr name), (''ai.policy.version'', TextAttr version), (''ai.policy.result'', TextAttr result),
      (''ai.latency.policy_eval_ms'', NumAttr latency)])"

record decision_metrics =
  dm_allowed :: bool
  dm_review :: bool
  dm_confidence :: rat
  dm_risk :: rat
  dm_outcome :: string

definition decision_type :: "decision_metrics \<Rightarrow> string" where
  "decision_type m = (if dm_review m then ''human_review'' else if dm_allowed m then ''autonomous'' else ''denied'')"

definition record_decision :: "status_setter \<Rightarrow> decision_metrics \<Rightarrow> span option \<Rightarrow> span option" where
  "record_decision set_status m = map_option (\<lambda>s.
     put_status set_status (if \<not> dm_allowed m \<and> \<not> dm_review m then SpanError ''Authorization denied'' else SpanOk)
       (set_attributes
         [(''ai.decision.type'', TextAttr (decision_type m)), (''ai.decision.confidence'', NumAttr (dm_confidence m)),
          (''ai.decision.human_review'', BoolAttr (dm_review m)), (''ai.decision.risk_score'', NumAttr (dm_risk m)),
          (''ai.decision.outcome'', TextAttr (dm_outcome m))] s))"

record latency_metrics =
  lm_total :: rat
  lm_gate :: "rat option"
  lm_policy :: "rat option"
  lm_risk :: "rat option"

definition record_latency :: "latency_metrics \<Rightarrow> span option \<Rightarrow> span option" where
  "record_latency m = map_option (set_attributes
     ([(''ai.latency.ms'', NumAttr (lm_total m))] @ number_attr ''ai.latency.confidence_gate_ms'' (lm_gate m)
      @ number_attr ''ai.latency.policy_eval_ms'' (lm_policy m) @ number_attr ''ai.latency.risk_eval_ms'' (lm_risk m)))"

definition inject_correlation_context :: "string \<Rightarrow> span option \<Rightarrow> span option" where
  "inject_correlation_context chain = map_option (set_attributes [(''ai.delegation.chain'', TextAttr chain)])"

section \<open>Running in a span\<close>

text \<open>\<open>withAgentSpan\<close>: the program gets the span and may change it; the last component is the ended span.\<close>

definition with_agent_span ::
  "status_setter \<Rightarrow> ('e \<Rightarrow> string) \<Rightarrow> string \<Rightarrow> span_options \<Rightarrow> (span \<Rightarrow> ('s, 'e, 'a) prog \<times> span)
    \<Rightarrow> 's \<Rightarrow> (('e + 'a) \<times> 's) \<times> span" where
  "with_agent_span set_status print name opts fn s =
     (let (m, sp) = fn (start_agent_span name opts); (r, s') = m s;
          done_span = (case r of
                    Inr x \<Rightarrow> put_status set_status SpanOk sp
                  | Inl e \<Rightarrow> put_status set_status (SpanError (print e)) (sp\<lparr>sp_exceptions := sp_exceptions sp @ [print e]\<rparr>))
      in ((r, s'), done_span\<lparr>sp_ended := True\<rparr>))"

definition authorize_span_options :: "agent_auth_request \<Rightarrow> span_options" where
  "authorize_span_options r = \<lparr>so_agent = aa_actor r, so_type = None, so_action = Some (aa_action r),
     so_confidence = cx_confidence (aa_context r), so_acting_for = cx_acting_for (aa_context r), so_scope = cx_scope (aa_context r)\<rparr>"

text \<open>What \<open>agentAuthorize\<close> runs in its span.\<close>

definition asked_in_span :: "client \<Rightarrow> string \<Rightarrow> agent_auth_request \<Rightarrow> agent_decision sdk" where
  "asked_in_span c stamp r =
     andthen (client_authorize c stamp \<lparr>az_tool = aa_action r, az_actor = Some (aa_actor r), az_context = Some (aa_context r),
                az_args = None\<rparr>) (\<lambda>d. ret (agent_decision_of r d))"

definition traced_agent_authorize ::
  "status_setter \<Rightarrow> (sdk_error \<Rightarrow> string) \<Rightarrow> client \<Rightarrow> string \<Rightarrow> agent_auth_request \<Rightarrow> net
    \<Rightarrow> ((sdk_error + agent_decision) \<times> net) \<times> span option" where
  "traced_agent_authorize set_status print c stamp r s =
     (if agent_auth_request_ok r
      then (let (out, sp) = with_agent_span set_status print ''ai.agent.authorize'' (authorize_span_options r)
              (\<lambda>sp. (asked_in_span c stamp r, sp)) s in (out, Some sp))
      else ((Inl Invalid, s), None))"

section \<open>Properties\<close>

text \<open>Tracing does not interfere. An authorization in a span returns or throws what it would without one and
  talks to the engine in the same way; its span is ended, names agent and action, and its error text is the one that
  was thrown.\<close>

theorem tracing_is_transparent:
  "fst (traced_agent_authorize set_status print c stamp r s) = client_agent_authorize c stamp r s
   \<and> (case snd (traced_agent_authorize set_status print c stamp r s) of None \<Rightarrow> \<not> agent_auth_request_ok r | Some sp \<Rightarrow>
        sp_ended sp \<and> attribute ''ai.agent.id'' sp = Some (TextAttr (aa_actor r))
        \<and> (case fst (client_agent_authorize c stamp r s) of Inl e \<Rightarrow> sp_exceptions sp = [print e] | Inr d \<Rightarrow> sp_exceptions sp = []))"
proof (cases "agent_auth_request_ok r")
  case True
  have m: "client_agent_authorize c stamp r = asked_in_span c stamp r"
    using True by (simp only: client_agent_authorize_def asked_in_span_def check_def if_True andthen_ret)
  obtain x s' where run: "asked_in_span c stamp r s = (x, s')" by force
  have id: "attribute ''ai.agent.id'' (start_agent_span ''ai.agent.authorize'' (authorize_span_options r)) = Some (TextAttr (aa_actor r))"
    by (simp add: attribute_def start_agent_span_def authorize_span_options_def text_attr_def split: option.split)
  then show ?thesis using True run
    by (cases x) (auto simp: traced_agent_authorize_def with_agent_span_def m put_status_def attribute_def start_agent_span_def)
next
  case False
  then show ?thesis by (simp add: traced_agent_authorize_def client_agent_authorize_def check_def)
qed

text \<open>A recorded denial ends as a success. Recording a denial marks the span as an error, but when the program that ran
  in the span returns, the wrapper sets the status to OK: with any span that takes OK when it is told so, the denied
  authorization is reported as one that succeeded.\<close>

theorem recorded_denial_ends_as_success:
  assumes "\<And>old. set_status old SpanOk = SpanOk" "\<not> dm_allowed m" "\<not> dm_review m"
  shows "sp_status (snd (with_agent_span set_status print name opts
      (\<lambda>sp. (ret x, the (record_decision set_status m (Some sp)))) s)) = SpanOk
    \<and> attribute ''ai.decision.type'' (snd (with_agent_span set_status print name opts
      (\<lambda>sp. (ret x, the (record_decision set_status m (Some sp)))) s)) = Some (TextAttr ''denied'')
    \<and> sp_status (the (record_decision set_status m (Some sp))) = set_status (sp_status sp) (SpanError ''Authorization denied'')"
  using assms by (simp add: with_agent_span_def record_decision_def put_status_def attribute_def set_attributes_def decision_type_def)

text \<open>A latency of zero is not recorded: of the three partial latencies exactly those are attributes that are given and
  not zero, while the total is always one.\<close>

theorem zero_latencies_are_dropped:
  assumes "sp_attrs sp = []"
  shows "\<exists>sp'. record_latency m (Some sp) = Some sp'
    \<and> attribute ''ai.latency.ms'' sp' = Some (NumAttr (lm_total m))
    \<and> attribute ''ai.latency.risk_eval_ms'' sp' = (case lm_risk m of None \<Rightarrow> None | Some v \<Rightarrow> if v = 0 then None else Some (NumAttr v))"
  using assms by (auto simp: record_latency_def set_attributes_def attribute_def number_attr_def split: option.split)

theorem recorded_denial_ends_as_success_witness:
  "sp_status (snd (with_agent_span (\<lambda>old new. new) (\<lambda>_ :: unit. []) ''op'' (bare_options ''bot'')
      (\<lambda>sp. (ret (), the (record_decision (\<lambda>old new. new) \<lparr>dm_allowed = False, dm_review = False, dm_confidence = 1, dm_risk = 0,
          dm_outcome = ''deny''\<rparr> (Some sp)))) (0 :: nat))) = SpanOk"
  by (rule recorded_denial_ends_as_success [THEN conjunct1]) simp_all

theorem zero_latencies_are_dropped_witness:
  "\<exists>sp'. record_latency \<lparr>lm_total = 3, lm_gate = None, lm_policy = Some 2, lm_risk = Some 0\<rparr>
      (Some \<lparr>sp_name = [], sp_attrs = [], sp_status = Unset, sp_exceptions = [], sp_ended = False\<rparr>) = Some sp'
    \<and> attribute ''ai.latency.risk_eval_ms'' sp' = None"
  using zero_latencies_are_dropped [of "\<lparr>sp_name = [], sp_attrs = [], sp_status = Unset, sp_exceptions = [], sp_ended = False\<rparr>"
      "\<lparr>lm_total = 3, lm_gate = None, lm_policy = Some 2, lm_risk = Some 0\<rparr>"]
  by auto

end
