(* ===== verification/MailService.thy ===== *)
theory MailService
  imports AccountFlow Http
begin

text \<open>
  Sending mail, \<open>platform/ui/lib/email.ts\<close>: which provider the environment selects, what is sent to it, and the
  two mails. A mail is what its template fills in (the page around it is not modelled); \<open>number_of\<close> reads the
  port. \<open>send_mail\<close> of the account routes is the same sending with the provider chosen.
\<close>

record mail_env =
  me_ses_region :: "string option"
  me_aws_region :: "string option"
  me_resend_key :: "string option"
  me_smtp_host :: "string option"
  me_smtp_user :: "string option"
  me_smtp_pass :: "string option"
  me_smtp_port :: "string option"
  me_smtp_from :: "string option"
  me_ses_from :: "string option"
  me_email_from :: "string option"
  me_base_url :: "string option"

definition either :: "'a option \<Rightarrow> 'a option \<Rightarrow> 'a option" where
  "either x y = (case x of None \<Rightarrow> y | Some v \<Rightarrow> Some v)"

definition mail_from :: "mail_env \<Rightarrow> string" where
  "mail_from ev = nullish (either (me_smtp_from ev) (either (me_ses_from ev) (me_email_from ev))) ''Lelu <noreply@lelu-ai.com>''"

definition mail_base :: "mail_env \<Rightarrow> string" where
  "mail_base ev = nullish (me_base_url ev) ''https://lelu-ai.com''"

definition ses_region :: "mail_env \<Rightarrow> string option" where
  "ses_region ev = (let r = either (me_ses_region ev) (me_aws_region ev) in if truthy r then r else None)"

record smtp_options =
  sm_host :: string
  sm_port :: "int option"
  sm_secure :: bool
  sm_user :: string
  sm_pass :: string

text \<open>A port that is no number is \<open>None\<close>.\<close>

definition smtp_transporter :: "(string \<Rightarrow> int option) \<Rightarrow> mail_env \<Rightarrow> smtp_options option" where
  "smtp_transporter number_of ev =
     (if \<not> truthy (me_smtp_host ev) \<or> \<not> truthy (me_smtp_user ev) \<or> \<not> truthy (me_smtp_pass ev) then None
      else (let port = (case me_smtp_port ev of None \<Rightarrow> Some 587 | Some t \<Rightarrow> number_of t)
            in Some \<lparr>sm_host = the (me_smtp_host ev), sm_port = port, sm_secure = (port = Some 465), sm_user = the (me_smtp_user ev),
                 sm_pass = the (me_smtp_pass ev)\<rparr>))"

definition email_configured :: "mail_env \<Rightarrow> bool" where
  "email_configured ev =
     (truthy (me_ses_region ev) \<or> truthy (me_aws_region ev) \<or> truthy (me_resend_key ev)
      \<or> (truthy (me_smtp_host ev) \<and> truthy (me_smtp_user ev) \<and> truthy (me_smtp_pass ev)))"

datatype provider = ViaSes string | ViaResend string | ViaSmtp smtp_options | NoProvider

definition provider_of :: "(string \<Rightarrow> int option) \<Rightarrow> mail_env \<Rightarrow> provider" where
  "provider_of number_of ev =
     (case ses_region ev of
        Some r \<Rightarrow> ViaSes r
      | None \<Rightarrow>
          (if truthy (me_resend_key ev) then ViaResend (the (me_resend_key ev))
           else case smtp_transporter number_of ev of Some t \<Rightarrow> ViaSmtp t | None \<Rightarrow> NoProvider))"

record mail_content =
  mc_from :: string
  mc_to :: string
  mc_subject :: string
  mc_first_name :: string
  mc_link :: string

datatype delivery = Skipped | Handed provider mail_content

datatype provider_answer = Rejected | Status int

text \<open>\<open>send\<close>: at most one provider, and an error when it does not take the mail.\<close>

definition deliver :: "(string \<Rightarrow> int option) \<Rightarrow> mail_env \<Rightarrow> mail_content \<Rightarrow> provider_answer \<Rightarrow> unit option \<times> delivery" where
  "deliver number_of ev m a =
     (let p = provider_of number_of ev
      in case p of
           NoProvider \<Rightarrow> (Some (), Skipped)
         | ViaResend key \<Rightarrow> (case a of Status st \<Rightarrow> if http_ok st then Some () else None | Rejected \<Rightarrow> None, Handed p m)
         | _ \<Rightarrow> (if a = Rejected then None else Some (), Handed p m))"

text \<open>\<open>name.split(" ")[0]\<close>.\<close>

definition first_name :: "string \<Rightarrow> string" where
  "first_name name = hd (split_on (CHR '' '') name)"

definition reset_mail :: "mail_env \<Rightarrow> string \<Rightarrow> string \<Rightarrow> string \<Rightarrow> string option \<Rightarrow> mail_content" where
  "reset_mail ev to_address name token base_url = \<lparr>mc_from = mail_from ev, mc_to = to_address, mc_subject = ''Reset your Lelu password'',
     mc_first_name = first_name name, mc_link = nullish base_url (mail_base ev) @ ''/reset-password?token='' @ token\<rparr>"

definition verification_mail :: "mail_env \<Rightarrow> string \<Rightarrow> string \<Rightarrow> string \<Rightarrow> string option \<Rightarrow> mail_content" where
  "verification_mail ev to_address name token base_url = \<lparr>mc_from = mail_from ev, mc_to = to_address, mc_subject = ''Verify your Lelu account'',
     mc_first_name = first_name name, mc_link = nullish base_url (mail_base ev) @ ''/api/auth/verify-email?token='' @ token\<rparr>"

section \<open>Properties\<close>

text \<open>C40: Where the two views of the configuration differ. Mail that is configured has a provider, but for one environment:
  an empty \<open>SES_REGION\<close> hides \<open>AWS_SES_REGION\<close> from the sender while it still counts as configured. There every mail is
  dropped without an error, although registration counts on it and leaves the account unverified.\<close>

theorem configured_mail_has_a_provider:
  "(email_configured ev \<and> provider_of number_of ev = NoProvider) =
     (me_ses_region ev = Some [] \<and> truthy (me_aws_region ev) \<and> \<not> truthy (me_resend_key ev)
      \<and> \<not> (truthy (me_smtp_host ev) \<and> truthy (me_smtp_user ev) \<and> truthy (me_smtp_pass ev)))
   \<and> (provider_of number_of ev = NoProvider) = (deliver number_of ev m a = (Some (), Skipped))
   \<and> (email_configured ev \<or> provider_of number_of ev = NoProvider)"
proof (intro conjI)
  have p: "provider_of number_of ev = NoProvider \<longleftrightarrow> ses_region ev = None \<and> \<not> truthy (me_resend_key ev)
      \<and> \<not> (truthy (me_smtp_host ev) \<and> truthy (me_smtp_user ev) \<and> truthy (me_smtp_pass ev))"
    by (auto simp: provider_of_def smtp_transporter_def Let_def split: option.splits)
  have r: "ses_region ev = None \<longleftrightarrow> (case me_ses_region ev of None \<Rightarrow> \<not> truthy (me_aws_region ev) | Some x \<Rightarrow> x = [])"
    by (auto simp: ses_region_def either_def truthy_def Let_def split: option.split)
  show "(email_configured ev \<and> provider_of number_of ev = NoProvider) =
     (me_ses_region ev = Some [] \<and> truthy (me_aws_region ev) \<and> \<not> truthy (me_resend_key ev)
      \<and> \<not> (truthy (me_smtp_host ev) \<and> truthy (me_smtp_user ev) \<and> truthy (me_smtp_pass ev)))"
    unfolding p r email_configured_def by (cases "me_ses_region ev") (auto simp: truthy_def)
  show "email_configured ev \<or> provider_of number_of ev = NoProvider"
    unfolding p r email_configured_def by (cases "me_ses_region ev") (auto simp: truthy_def)
  show "(provider_of number_of ev = NoProvider) = (deliver number_of ev m a = (Some (), Skipped))"
    by (cases "provider_of number_of ev") (auto simp: deliver_def Let_def)
qed

lemma split_on_set: "w \<in> set (split_on c s) \<Longrightarrow> set w \<subseteq> set s"
proof (induction s arbitrary: w)
  case (Cons x s)
  then show ?case by (cases "split_on c s") (fastforce split: if_splits)+
qed simp

text \<open>A registered name cannot write into the mail. The first name is put into the page of a mail as it is; of a name that
  registration accepts it holds letters, white space other than blanks, apostrophes, hyphens and dots, so none
  of the characters that open a tag, an entity or a quoted attribute.\<close>

theorem registered_names_stay_plain:
  assumes "valid_name name"
  shows "set (mc_first_name (verification_mail ev to_address name token base_url)) \<inter> {CHR ''<'', CHR ''>'', CHR ''&'', CHR 0x22, CHR '' ''} = {}"
proof -
  have sub: "set (first_name name) \<subseteq> set name" unfolding first_name_def
    by (rule split_on_set) (rule hd_in_set, simp)
  have blank: "CHR '' '' \<notin> set (first_name name)" unfolding first_name_def
    by (rule split_on_pieces) (rule hd_in_set, simp)
  have "c \<notin> set name" if "c \<in> {CHR ''<'', CHR ''>'', CHR ''&'', CHR 0x22}" for c
    using assms that by (auto simp: valid_name_def list_all_iff is_letter_def is_ws_def)
  with sub blank show ?thesis by (auto simp: verification_mail_def)
qed

definition no_mail :: mail_env where
  "no_mail = \<lparr>me_ses_region = None, me_aws_region = None, me_resend_key = None, me_smtp_host = None, me_smtp_user = None,
     me_smtp_pass = None, me_smtp_port = None, me_smtp_from = None, me_ses_from = None, me_email_from = None, me_base_url = None\<rparr>"

theorem registered_names_stay_plain_witness:
  "mc_first_name (verification_mail no_mail ''ann@x.io'' ''Ann O-Hara'' ''t'' None) = ''Ann'' \<and>
    set (mc_first_name (verification_mail no_mail ''ann@x.io'' ''Ann O-Hara'' ''t'' None)) \<inter> {CHR ''<'', CHR ''>'', CHR ''&'', CHR 0x22, CHR '' ''} = {}"
proof
  show "mc_first_name (verification_mail no_mail ''ann@x.io'' ''Ann O-Hara'' ''t'' None) = ''Ann''" by code_simp
  have "valid_name ''Ann O-Hara''" by code_simp
  then show "set (mc_first_name (verification_mail no_mail ''ann@x.io'' ''Ann O-Hara'' ''t'' None))
      \<inter> {CHR ''<'', CHR ''>'', CHR ''&'', CHR 0x22, CHR '' ''} = {}"
    by (rule registered_names_stay_plain)
qed

end
