(* ===== verification/WireTypes.thy ===== *)
theory WireTypes
  imports SdkSession
begin

text \<open>
  The result types the SDK declares (\<open>sdk/typescript/src/types.ts\<close> and the inline types of
  \<open>client.ts\<close>) as data, when a JSON value has one of them, and what the client's renaming of members
  does to them. TypeScript erases its types, so nothing checks an answer against them at run time.
\<close>

section \<open>Types\<close>

text \<open>A member has its name, whether it may be missing, and its type. \<open>WMap\<close> is \<open>Record<string, T>\<close>.\<close>

datatype wire =
    WText | WNumber | WBool | WOneOf "string list" | WAny
  | WList wire
  | WMap wire
  | WObj "(string \<times> bool \<times> wire) list"

type_synonym wire_members = "(string \<times> bool \<times> wire) list"

fun conforms :: "wire \<Rightarrow> jsnum json \<Rightarrow> bool" where
  "conforms WText v = (case v of JStr s \<Rightarrow> True | _ \<Rightarrow> False)"
| "conforms WNumber v = (case v of JNum n \<Rightarrow> True | _ \<Rightarrow> False)"
| "conforms WBool v = (case v of JBool b \<Rightarrow> True | _ \<Rightarrow> False)"
| "conforms (WOneOf names) v = (case v of JStr s \<Rightarrow> s \<in> set names | _ \<Rightarrow> False)"
| "conforms WAny v = True"
| "conforms (WList w) v = (case v of JArr vs \<Rightarrow> list_all (conforms w) vs | _ \<Rightarrow> False)"
| "conforms (WMap w) v = (case v of JObj kvs \<Rightarrow> list_all (\<lambda>(k, x). conforms w x) kvs | _ \<Rightarrow> False)"
| "conforms (WObj ms) v =
     (case v of
        JObj kvs \<Rightarrow> list_all (\<lambda>(k, optional, w). case member k v of None \<Rightarrow> optional | Some x \<Rightarrow> conforms w x) ms
      | _ \<Rightarrow> False)"

definition needs :: "string \<Rightarrow> wire \<Rightarrow> string \<times> bool \<times> wire" where
  "needs k w = (k, False, w)"

definition may_have :: "string \<Rightarrow> wire \<Rightarrow> string \<times> bool \<times> wire" where
  "may_have k w = (k, True, w)"

lemmas member_kinds = needs_def may_have_def

section \<open>Declared results\<close>

definition revoke_token_result :: wire_members where
  "revoke_token_result = [needs ''success'' WBool]"

definition vault_store_result :: wire_members where
  "vault_store_result =
     [needs ''id'' WText, needs ''agentId'' WText, needs ''userId'' WText, needs ''provider'' WText,
      needs ''scopes'' (WList WText), needs ''expiresAt'' WText, needs ''createdAt'' WText]"

definition vault_token_result :: wire_members where
  "vault_token_result =
     [needs ''agentId'' WText, needs ''userId'' WText, needs ''provider'' WText, needs ''accessToken'' WText,
      needs ''scopes'' (WList WText), needs ''expiresAt'' WText, needs ''refreshed'' WBool]"

text \<open>\<open>expiresAt: string | undefined\<close>.\<close>

definition vault_credential_summary :: wire_members where
  "vault_credential_summary =
     [needs ''id'' WText, needs ''agentId'' WText, needs ''userId'' WText, needs ''provider'' WText,
      needs ''scopes'' (WList WText), may_have ''expiresAt'' WText, needs ''expired'' WBool,
      needs ''createdAt'' WText, needs ''updatedAt'' WText]"

definition agent_type_names :: "string list" where
  "agent_type_names = [''autonomous'', ''assistant'', ''workflow'']"

definition agent_status_names :: "string list" where
  "agent_status_names = [''active'', ''suspended'', ''revoked'']"

definition registered_agent_type :: wire_members where
  "registered_agent_type =
     [needs ''id'' WText, needs ''tenantId'' WText, needs ''name'' WText, needs ''description'' WText,
      needs ''agentType'' (WOneOf agent_type_names), needs ''ownerEmail'' WText,
      needs ''status'' (WOneOf agent_status_names), needs ''scopes'' (WList WText), needs ''metadata'' (WMap WAny),
      needs ''createdAt'' WText, needs ''updatedAt'' WText]"

definition workload_token_type :: wire_members where
  "workload_token_type =
     [needs ''token'' WText, needs ''agentId'' WText, needs ''scopes'' (WList WText), needs ''expiresAt'' WText,
      needs ''issuedAt'' WText]"

definition agent_status_result :: wire_members where
  "agent_status_result = [needs ''agentId'' WText, needs ''status'' (WOneOf agent_status_names)]"

text \<open>\<open>clientSecret: string | undefined\<close>.\<close>

definition oauth_client_type :: wire_members where
  "oauth_client_type =
     [needs ''clientId'' WText, may_have ''clientSecret'' WText, needs ''clientName'' WText,
      needs ''redirectUris'' (WList WText), needs ''grantTypes'' (WList WText), needs ''scope'' WText,
      needs ''tokenEndpointAuthMethod'' WText, needs ''clientIdIssuedAt'' WNumber]"

definition owasp_finding_type :: wire_members where
  "owasp_finding_type =
     [needs ''checkId'' WText, needs ''title'' WText,
      needs ''severity'' (WOneOf [''critical'', ''high'', ''medium'', ''low'']),
      needs ''description'' WText, needs ''remediation'' WText]"

definition nhi_type_names :: "string list" where
  "nhi_type_names = [''registered_agent'', ''shadow_agent'', ''credential'']"

definition nhi_status_names :: "string list" where
  "nhi_status_names = [''active'', ''shadow'', ''suspended'', ''revoked'', ''stale'']"

definition nhi_risk_names :: "string list" where
  "nhi_risk_names = [''critical'', ''high'', ''medium'', ''low'', ''none'']"

definition nhi_entry_type :: wire_members where
  "nhi_entry_type =
     [needs ''id'' WText, needs ''tenantId'' WText, needs ''type'' (WOneOf nhi_type_names), needs ''name'' WText,
      needs ''status'' (WOneOf nhi_status_names), needs ''scopes'' (WList WText), needs ''riskScore'' WNumber,
      needs ''riskLevel'' (WOneOf nhi_risk_names), needs ''findings'' (WList (WObj owasp_finding_type)),
      needs ''lastSeen'' WText, needs ''createdAt'' WText, may_have ''agentType'' WText, may_have ''ownerEmail'' WText,
      may_have ''provider'' WText, may_have ''requestCount'' WNumber, may_have ''expiresAt'' WText]"

definition nhi_list_result :: wire_members where
  "nhi_list_result = [needs ''nhis'' (WList (WObj nhi_entry_type)), needs ''count'' WNumber]"

definition nhi_scan_result :: wire_members where
  "nhi_scan_result =
     [needs ''tenantId'' WText, needs ''scannedAt'' WText, needs ''totalNhis'' WNumber, needs ''byType'' (WMap WNumber),
      needs ''byStatus'' (WMap WNumber), needs ''byRiskLevel'' (WMap WNumber),
      needs ''topRisks'' (WList (WObj nhi_entry_type)), needs ''findingCounts'' (WMap WNumber)]"

definition nhi_stats_type :: wire_members where
  "nhi_stats_type =
     [needs ''tenantId'' WText, needs ''totalNhis'' WNumber, needs ''byType'' (WMap WNumber),
      needs ''byStatus'' (WMap WNumber), needs ''byRiskLevel'' (WMap WNumber), needs ''generatedAt'' WText]"

definition queue_item_status_names :: "string list" where
  "queue_item_status_names = [''pending'', ''approved'', ''denied'']"

definition review_item_type :: wire_members where
  "review_item_type =
     [needs ''id'' WText, needs ''tenant_id'' WText, needs ''actor'' WText, needs ''action'' WText,
      may_have ''resource'' (WMap WText), needs ''confidence_score'' WNumber, needs ''reason'' WText,
      may_have ''acting_for'' WText, needs ''enqueued_at'' WText,
      needs ''status'' (WOneOf queue_item_status_names), may_have ''resolved_at'' WText,
      may_have ''resolved_by'' WText, may_have ''resolution_note'' WText]"

definition alert_type :: wire_members where
  "alert_type =
     [needs ''id'' WText, needs ''rule_id'' WText, needs ''agent_id'' WText, needs ''timestamp'' WText,
      needs ''title'' WText, needs ''description'' WText,
      needs ''severity'' (WOneOf [''low'', ''medium'', ''high'', ''critical'']), needs ''priority'' WNumber,
      needs ''trigger_data'' (WMap WAny), needs ''context'' (WMap WAny),
      needs ''status'' (WOneOf [''active'', ''acknowledged'', ''resolved'']), may_have ''acked_by'' WText,
      may_have ''acked_at'' WText, may_have ''resolved_at'' WText, may_have ''group_id'' WText,
      needs ''group_count'' WNumber, needs ''tags'' (WMap WText), needs ''channels'' (WList WText)]"

end
