(* ===== verification/WireProps.thy ===== *)
theory WireProps
  imports WireTypes SdkProps
begin

text \<open>
  What becomes of the declared result types: the calls that rename members return a value of the declared
  type whenever the engine's answer has the inline type of \<open>client.ts\<close>; the calls that pass an answer through
  are as good as the engine's own encoding, given here for the Go structs of an inventory entry
  (\<open>engine/internal/nhi\<close>), an alert (\<open>engine/internal/observability\<close>) and a review (\<open>engine/internal/queue\<close>).
\<close>

section \<open>Renaming keeps types\<close>

text \<open>The view a call returns as an object: a member that is \<open>undefined\<close> cannot be told from one that is missing.\<close>

definition object :: "view \<Rightarrow> jsnum json" where
  "object v = JObj (concat (map (\<lambda>(k, x). when_some k x) v))"

definition source_name :: "(string \<times> string) list \<Rightarrow> string \<Rightarrow> string" where
  "source_name names k = (case map_of names k of None \<Rightarrow> k | Some s \<Rightarrow> s)"

text \<open>The type an answer needs to have for its view to have the members \<open>ms\<close>.\<close>

definition source_members :: "(string \<times> string) list \<Rightarrow> wire_members \<Rightarrow> wire_members" where
  "source_members names ms = map (\<lambda>(k, r). (source_name names k, r)) ms"

definition covers :: "(string \<times> string) list \<Rightarrow> wire_members \<Rightarrow> bool" where
  "covers names ms = (distinct (map fst names) \<and> list_all (\<lambda>m. fst m \<in> set (map fst names)) ms)"

lemma distinct_view_names: "distinct (map fst names) \<Longrightarrow> distinct (map fst (view names d))"
  by (simp add: view_def comp_def case_prod_beta)

lemma member_object_view:
  assumes "distinct (map fst names)" "(k, theirs) \<in> set names"
  shows "member k (object (view names d)) = member theirs d"
proof -
  have keys: "map_of (rev (concat (map (\<lambda>(k, x). when_some k x) v))) k = (case map_of v k of None \<Rightarrow> None | Some x \<Rightarrow> x)"
    if "distinct (map fst v)" for v :: view and k
    using that
  proof (induction v)
    case Nil
    show ?case by simp
  next
    case (Cons p v)
    obtain k' x where p: "p = (k', x)" by (cases p)
    have none: "map_of v k' = None" using Cons.prems by (simp add: p map_of_eq_None_iff)
    show ?case using Cons none by (cases x) (auto simp: p when_some_def map_add_def split: option.splits)
  qed
  have "map_of (view names d) k = Some (member theirs d)"
  proof (rule map_of_is_SomeI)
    show "distinct (map fst (view names d))" by (rule distinct_view_names [OF assms(1)])
    show "(k, member theirs d) \<in> set (view names d)" using assms(2) by (force simp: view_def)
  qed
  then show ?thesis by (simp add: object_def member_def keys [OF distinct_view_names [OF assms(1)]])
qed

lemma renaming_keeps_types:
  assumes "covers names ms" "conforms (WObj (source_members names ms)) d"
  shows "conforms (WObj ms) (object (view names d))"
proof -
  have at: "member k (object (view names d)) = member (source_name names k) d" if key: "k \<in> set (map fst names)" for k
  proof -
    have dist: "distinct (map fst names)" using assms(1) by (simp add: covers_def)
    obtain theirs where t: "(k, theirs) \<in> set names" using key by auto
    then have "source_name names k = theirs" using dist by (simp add: source_name_def)
    then show ?thesis using member_object_view [OF dist t] by simp
  qed
  have "case member (source_name names k) d of None \<Rightarrow> optional | Some x \<Rightarrow> conforms w x"
    if "(k, optional, w) \<in> set ms" for k optional w
    using assms(2) that by (fastforce simp: source_members_def list_all_iff split: json.splits)
  moreover have "k \<in> set (map fst names)" if "(k, optional, w) \<in> set ms" for k optional w
    using assms(1) that unfolding covers_def list_all_iff by force
  ultimately have "list_all (\<lambda>(k, optional, w). case member k (object (view names d)) of None \<Rightarrow> optional
      | Some x \<Rightarrow> conforms w x) ms"
    by (auto simp: list_all_iff at)
  then show ?thesis by (simp add: object_def)
qed

lemma renamed_runs:
  assumes "renamed names m s = (Inr v, s')"
  shows "\<exists>d. m s = (Inr d, s') \<and> v = view names d"
  using assms by (auto simp: renamed_def andthen_apply members_def ret_def throw_def split: prod.splits sum.splits if_splits)

section \<open>The calls that rename\<close>

text \<open>What the engine's answers are cast to in \<open>client.ts\<close>.\<close>

definition vault_store_answer :: wire_members where
  "vault_store_answer =
     [needs ''id'' WText, needs ''agent_id'' WText, needs ''user_id'' WText, needs ''provider'' WText,
      needs ''scopes'' (WList WText), needs ''expires_at'' WText, needs ''created_at'' WText]"

definition vault_token_answer :: wire_members where
  "vault_token_answer =
     [needs ''agent_id'' WText, needs ''user_id'' WText, needs ''provider'' WText, needs ''access_token'' WText,
      needs ''scopes'' (WList WText), needs ''expires_at'' WText, needs ''refreshed'' WBool]"

definition engine_registered_agent :: wire_members where
  "engine_registered_agent =
     [needs ''id'' WText, needs ''tenant_id'' WText, needs ''name'' WText, needs ''description'' WText,
      needs ''agent_type'' (WOneOf agent_type_names), needs ''owner_email'' WText,
      needs ''status'' (WOneOf agent_status_names), needs ''scopes'' (WList WText), needs ''metadata'' (WMap WAny),
      needs ''created_at'' WText, needs ''updated_at'' WText]"

text \<open>The client reads \<open>status\<close> as a text and casts it to the one it expects.\<close>

definition agent_status_answer :: wire_members where
  "agent_status_answer = [needs ''agent_id'' WText, needs ''status'' (WOneOf agent_status_names)]"

definition agent_token_answer :: wire_members where
  "agent_token_answer =
     [needs ''token'' WText, needs ''agent_id'' WText, needs ''scopes'' (WList WText), needs ''expires_at'' WText,
      needs ''issued_at'' WText]"

definition oauth_client_answer :: wire_members where
  "oauth_client_answer =
     [needs ''client_id'' WText, may_have ''client_secret'' WText, needs ''client_name'' WText,
      needs ''redirect_uris'' (WList WText), needs ''grant_types'' (WList WText), needs ''scope'' WText,
      needs ''token_endpoint_auth_method'' WText, needs ''client_id_issued_at'' WNumber]"

definition nhi_stats_answer :: wire_members where
  "nhi_stats_answer =
     [needs ''tenant_id'' WText, needs ''total_nhis'' WNumber, needs ''by_type'' (WMap WNumber),
      needs ''by_status'' (WMap WNumber), needs ''by_risk_level'' (WMap WNumber), needs ''generated_at'' WText]"

text \<open>Of a call that only renames: the call, the request it makes, the type of the answer, and the type of
  the result.\<close>

definition renaming_call :: "client \<Rightarrow> client_call \<Rightarrow> (view sdk \<times> jsnum json sdk \<times> wire_members \<times> wire_members) option" where
  "renaming_call c op =
     (case op of
        RevokeToken i \<Rightarrow> Some (revoke_token c i, delete c (''/v1/tokens/'' @ encode_component i),
          revoke_token_result, revoke_token_result)
      | VaultStore r \<Rightarrow> Some (vault_store c r, post c ''/v1/vault/store'' (vault_doc r), vault_store_answer, vault_store_result)
      | VaultGetToken a u p \<Rightarrow> Some (vault_get_token c a u p, get c (with_query ''/v1/vault/token'' (vault_params a u p)),
          vault_token_answer, vault_token_result)
      | RegisterAgent r \<Rightarrow> Some (register_agent c r, post c ''/v1/agents'' (register_doc r),
          engine_registered_agent, registered_agent_type)
      | GetAgent i \<Rightarrow> Some (client_get_agent c i, get c (agent_path i []), engine_registered_agent, registered_agent_type)
      | RevokeAgent i \<Rightarrow> Some (client_revoke_agent c i, delete c (agent_path i []), agent_status_answer, agent_status_result)
      | SuspendAgent i \<Rightarrow> Some (suspend_agent c i, post c (agent_path i ''/suspend'') (JObj []),
          agent_status_answer, agent_status_result)
      | IssueAgentToken i \<Rightarrow> Some (issue_agent_token c i, post c (agent_path i ''/token'') (JObj []),
          agent_token_answer, workload_token_type)
      | RegisterOAuthClient r \<Rightarrow> Some (register_oauth_client c r, post c ''/oauth/clients'' (oauth_doc r),
          oauth_client_answer, oauth_client_type)
      | NHIStats t \<Rightarrow> Some (get_nhi_stats c t, get c (for_tenant ''/v1/nhi/stats'' t), nhi_stats_answer, nhi_stats_type)
      | _ \<Rightarrow> None)"

lemma renamed_keeps_types:
  assumes "renamed names ask s = (Inr v, s')" "covers names ms" "source_members names ms = sent"
  shows "\<exists>d. ask s = (Inr d, s') \<and> (conforms (WObj sent) d \<longrightarrow> conforms (WObj ms) (object v))"
  using renamed_runs [OF assms(1)] renaming_keeps_types [OF assms(2)] assms(3) by blast

lemmas declared_types =
  revoke_token_result_def vault_store_answer_def vault_store_result_def vault_token_answer_def vault_token_result_def
  engine_registered_agent_def registered_agent_type_def agent_status_answer_def agent_status_result_def
  agent_token_answer_def workload_token_type_def oauth_client_answer_def oauth_client_type_def nhi_stats_answer_def
  nhi_stats_type_def

lemmas renaming_calls =
  revoke_token_def vault_store_def vault_get_token_def register_agent_def client_get_agent_def client_revoke_agent_def
  suspend_agent_def issue_agent_token_def register_oauth_client_def get_nhi_stats_def agent_names_def status_names_def


definition vault_list_answer :: wire_members where
  "vault_list_answer =
     [needs ''id'' WText, needs ''agent_id'' WText, needs ''user_id'' WText, needs ''provider'' WText,
      needs ''scopes'' (WList WText), may_have ''expires_at'' WText, needs ''expired'' WBool,
      needs ''created_at'' WText, needs ''updated_at'' WText]"

lemma views_of_objects:
  assumes "list_all (conforms (WObj sent)) ds" "covers names ms" "source_members names ms = sent"
  shows "\<exists>vs. views names ds s = (Inr vs, s) \<and> length vs = length ds \<and> list_all (\<lambda>v. conforms (WObj ms) (object v)) vs"
  using assms(1)
proof (induction ds)
  case Nil
  show ?case by (simp add: ret_def)
next
  case (Cons d ds)
  have d: "conforms (WObj sent) d" using Cons.prems by (simp del: conforms.simps)
  then have "d \<noteq> JNull" by auto
  then have m: "members d s = (Inr d, s)" by (simp add: members_def ret_def)
  have ty: "conforms (WObj ms) (object (view names d))" using renaming_keeps_types [OF assms(2)] assms(3) d by blast
  from Cons obtain vs where vs: "views names ds s = (Inr vs, s)" "length vs = length ds"
    "list_all (\<lambda>v. conforms (WObj ms) (object v)) vs" by (auto simp del: conforms.simps)
  then show ?case using m ty by (simp add: andthen_apply ret_def del: conforms.simps)
qed

text \<open>Lists of credentials and of agents. Whenever every credential the engine lists has the inline type the
  client casts it to, every summary \<open>vaultList\<close> returns has the declared type and none is lost; the same
  for the agents of \<open>listAgents\<close>.\<close>

theorem listing_calls_keep_types:
  assumes "get c (''/v1/vault/list?agent_id='' @ encode_component i) s = (Inr (JObj [(''credentials'', JArr ds)]), s1)"
    "list_all (conforms (WObj vault_list_answer)) ds"
    "get c (for_tenant ''/v1/agents'' t) s2 = (Inr (JObj [(''agents'', JArr as), (''count'', n)]), s3)"
    "list_all (conforms (WObj engine_registered_agent)) as"
  shows "\<exists>vs ws. vault_list c i s = (Inr vs, s1) \<and> length vs = length ds
      \<and> list_all (\<lambda>v. conforms (WObj vault_credential_summary) (object v)) vs
      \<and> client_list_agents c t s2 = (Inr (ws, Some n), s3) \<and> length ws = length as
      \<and> list_all (\<lambda>v. conforms (WObj registered_agent_type) (object v)) ws"
proof -
  have mo: "members (JObj kvs) s = (Inr (JObj kvs), s)" for kvs s by (simp add: members_def ret_def)
  let ?names = "[(''id'', ''id''), (''agentId'', ''agent_id''), (''userId'', ''user_id''), (''provider'', ''provider''),
        (''scopes'', ''scopes''), (''expiresAt'', ''expires_at''), (''expired'', ''expired''),
        (''createdAt'', ''created_at''), (''updatedAt'', ''updated_at'')]"
  have names: "covers ?names vault_credential_summary"
    "source_members ?names vault_credential_summary = vault_list_answer"
    "covers agent_names registered_agent_type" "source_members agent_names registered_agent_type = engine_registered_agent"
    by (simp_all add: covers_def source_members_def source_name_def agent_names_def vault_credential_summary_def
        vault_list_answer_def registered_agent_type_def engine_registered_agent_def member_kinds)
  obtain vs where vs: "views ?names ds s1 = (Inr vs, s1)" "length vs = length ds"
    "list_all (\<lambda>v. conforms (WObj vault_credential_summary) (object v)) vs"
    using views_of_objects [OF assms(2) names(1,2)] by blast
  obtain ws where ws: "views agent_names as s3 = (Inr ws, s3)" "length ws = length as"
    "list_all (\<lambda>v. conforms (WObj registered_agent_type) (object v)) ws"
    using views_of_objects [OF assms(4) names(3,4)] by blast
  have "vault_list c i s = (Inr vs, s1)"
    using assms(1) vs(1) by (simp add: vault_list_def andthen_apply mo map_views_def member_def nullish_json_def)
  moreover have "client_list_agents c t s2 = (Inr (ws, Some n), s3)"
    using assms(3) ws(1) by (simp add: client_list_agents_def andthen_apply mo map_views_def member_def ret_def)
  ultimately show ?thesis using vs(2,3) ws(2,3) by blast
qed

section \<open>Answers passed through\<close>

text \<open>How Go's \<open>encoding/json\<close> writes: a nil slice or map and a nil pointer as \<open>null\<close>; a member marked
  \<open>omitempty\<close> not at all when it is empty, zero or nil. Times are their RFC 3339 texts.\<close>

definition or_null :: "jsnum json option \<Rightarrow> jsnum json" where
  "or_null v = (case v of None \<Rightarrow> JNull | Some x \<Rightarrow> x)"

definition unless_empty :: "string \<Rightarrow> string \<Rightarrow> (string \<times> jsnum json) list" where
  "unless_empty k s = (if s = [] then [] else [(k, JStr s)])"

record go_finding =
  gf_check :: string
  gf_title :: string
  gf_severity :: string
  gf_description :: string
  gf_remediation :: string

definition finding_wire :: "go_finding \<Rightarrow> jsnum json" where
  "finding_wire f = JObj [(''check_id'', JStr (gf_check f)), (''title'', JStr (gf_title f)),
     (''severity'', JStr (gf_severity f)), (''description'', JStr (gf_description f)),
     (''remediation'', JStr (gf_remediation f))]"

record go_nhi =
  gn_id :: string
  gn_tenant :: string
  gn_type :: string
  gn_name :: string
  gn_status :: string
  gn_scopes :: "string list option"
  gn_score :: rat
  gn_level :: string
  gn_findings :: "go_finding list option"
  gn_seen :: string
  gn_created :: string
  gn_agent_type :: string
  gn_owner :: string
  gn_provider :: string
  gn_requests :: int
  gn_expires :: "string option"

definition nhi_wire :: "go_nhi \<Rightarrow> jsnum json" where
  "nhi_wire e = JObj ([(''id'', JStr (gn_id e)), (''tenant_id'', JStr (gn_tenant e)), (''type'', JStr (gn_type e)),
       (''name'', JStr (gn_name e)), (''status'', JStr (gn_status e)),
       (''scopes'', or_null (map_option strings (gn_scopes e))), (''risk_score'', jnum (gn_score e)),
       (''risk_level'', JStr (gn_level e)),
       (''findings'', or_null (map_option (\<lambda>fs. JArr (map finding_wire fs)) (gn_findings e))),
       (''last_seen'', JStr (gn_seen e)), (''created_at'', JStr (gn_created e))]
     @ unless_empty ''agent_type'' (gn_agent_type e) @ unless_empty ''owner_email'' (gn_owner e)
     @ unless_empty ''provider'' (gn_provider e)
     @ (if gn_requests e = 0 then [] else [(''request_count'', jwhole (gn_requests e))])
     @ when_some ''expires_at'' (map_option JStr (gn_expires e)))"

lemma unless_empty_lookup: "map_of (rev (unless_empty a s)) k = (if k = a \<and> s \<noteq> [] then Some (JStr s) else None)"
  by (simp add: unless_empty_def)

text \<open>The members the declared type of an entry requires and the engine names otherwise.\<close>

definition untranslated_names :: "string list" where
  "untranslated_names = [''riskScore'', ''riskLevel'', ''tenantId'', ''lastSeen'', ''createdAt'']"

lemma nhi_wire_untranslated: "list_all (\<lambda>k. member k (nhi_wire e) = None) untranslated_names"
  unfolding nhi_wire_def untranslated_names_def
  by (simp add: member_lookup unless_empty_lookup del: rev.simps(2) rev_append append.simps)

lemma nhi_wire_untyped: "\<not> conforms (WObj nhi_entry_type) (nhi_wire e)"
proof -
  have "member ''riskScore'' (nhi_wire e) = None"
    using nhi_wire_untranslated [of e] by (simp add: untranslated_names_def)
  then show ?thesis by (simp add: nhi_wire_def nhi_entry_type_def needs_def)
qed

lemma entries_typed: "conforms (WList (WObj nhi_entry_type)) (JArr (map nhi_wire es)) \<longleftrightarrow> es = []"
  using nhi_wire_untyped by (cases es) (simp_all del: conforms.simps(8))

lemma members_of_object: "members (JObj kvs) s = (Inr (JObj kvs), s)"
  by (simp add: members_def ret_def)

text \<open>No inventory entry has its declared type. When the engine answers \<open>listNHI\<close> with its entries, the caller
  gets exactly these documents; none of them has the type \<open>NHIEntry\<close>, and the members the type requires
  for the posture of an identity (score, level, tenant, last activity, creation) are \<open>undefined\<close> in all
  of them, because the engine sends them under names the client does not translate.\<close>

theorem inventory_entries_lack_their_type:
  assumes "get c (for_tenant ''/v1/nhi/inventory'' t) s = (Inr d, s')"
    "d = JObj [(''count'', jwhole n), (''nhis'', JArr (map nhi_wire es))]"
  shows "\<exists>v. list_nhi c t s = (Inr v, s') \<and> map_of v ''nhis'' = Some (Some (JArr (map nhi_wire es)))
      \<and> (conforms (WObj nhi_list_result) (object v) \<longleftrightarrow> es = [])
      \<and> list_all (\<lambda>e. \<not> conforms (WObj nhi_entry_type) (nhi_wire e)
          \<and> list_all (\<lambda>k. member k (nhi_wire e) = None) untranslated_names) es"
proof -
  have "conforms (WObj nhi_list_result) (object [(''nhis'', Some (JArr (map nhi_wire es))), (''count'', Some (jwhole n))])
      \<longleftrightarrow> es = []"
    using entries_typed [of es]
    by (simp add: nhi_list_result_def needs_def object_def when_some_def member_def jwhole_def del: conforms.simps(6))
  moreover have "list_nhi c t s = (Inr [(''nhis'', Some (JArr (map nhi_wire es))), (''count'', Some (jwhole n))], s')"
    using assms by (simp add: list_nhi_def renamed_def andthen_apply members_of_object ret_def view_def or_empty_def member_def
        nullish_json_def)
  ultimately show ?thesis using nhi_wire_untyped nhi_wire_untranslated by (simp add: list_all_iff)
qed

definition scan_wire :: "string \<Rightarrow> string \<Rightarrow> int \<Rightarrow> (string \<times> int) list \<Rightarrow> (string \<times> int) list \<Rightarrow> (string \<times> int) list
    \<Rightarrow> go_nhi list \<Rightarrow> (string \<times> int) list \<Rightarrow> jsnum json" where
  "scan_wire tenant scanned total_nhis by_type by_status by_level top_risks counts =
     (let counted = (\<lambda>kvs. JObj (map (\<lambda>(k, n). (k, jwhole n)) kvs))
      in JObj [(''tenant_id'', JStr tenant), (''scanned_at'', JStr scanned), (''total_nhis'', jwhole total_nhis),
           (''by_type'', counted by_type), (''by_status'', counted by_status), (''by_risk_level'', counted by_level),
           (''top_risks'', JArr (map nhi_wire top_risks)), (''finding_counts'', counted counts)])"

lemma counted_map: "conforms (WMap WNumber) (JObj (map (\<lambda>(k, n). (k, jwhole n)) kvs))"
  by (auto simp: list_all_iff jwhole_def)

text \<open>The same entries in a scan. A scan of the engine has the declared type, once its members are
  renamed, exactly if it found no identity at risk to report.\<close>

theorem scans_with_their_type:
  assumes "post c (for_tenant ''/v1/nhi/scan'' t) (JObj []) s
      = (Inr (scan_wire tenant scanned n types statuses levels es counts), s')"
  shows "\<exists>v. trigger_nhi_scan c t s = (Inr v, s') \<and> (conforms (WObj nhi_scan_result) (object v) \<longleftrightarrow> es = [])"
proof -
  let ?counted = "\<lambda>kvs. JObj (map (\<lambda>(k, n). (k, jwhole n)) kvs)"
  let ?v = "[(''tenantId'', Some (JStr tenant)), (''scannedAt'', Some (JStr scanned)), (''totalNhis'', Some (jwhole n)),
      (''byType'', Some (?counted types)), (''byStatus'', Some (?counted statuses)), (''byRiskLevel'', Some (?counted levels)),
      (''topRisks'', Some (JArr (map nhi_wire es))), (''findingCounts'', Some (?counted counts))]"
  have "trigger_nhi_scan c t s = (Inr ?v, s')"
    using assms by (simp add: scan_wire_def Let_def trigger_nhi_scan_def renamed_def andthen_apply members_of_object ret_def
        view_def or_empty_def member_def nullish_json_def)
  moreover have "conforms (WObj nhi_scan_result) (object ?v) \<longleftrightarrow> es = []"
    using entries_typed [of es] counted_map
    by (simp add: nhi_scan_result_def needs_def object_def when_some_def member_def jwhole_def del: conforms.simps(6,7))
  ultimately show ?thesis by blast
qed

record go_review =
  gr_id :: string
  gr_tenant :: string
  gr_actor :: string
  gr_action :: string
  gr_resource :: "(string \<times> string) list"
  gr_confidence :: rat
  gr_reason :: string
  gr_acting_for :: string
  gr_enqueued :: int
  gr_status :: string
  gr_resolved_at :: "string option"
  gr_resolved_by :: string
  gr_note :: string
  gr_fingerprint :: string
  gr_reputation :: string
  gr_redeemed :: "string option"

text \<open>Enqueued at a time in milliseconds, of which \<open>rfc\<close> is the text.\<close>

definition review_wire :: "(int \<Rightarrow> string) \<Rightarrow> go_review \<Rightarrow> jsnum json" where
  "review_wire rfc r = JObj ([(''id'', JStr (gr_id r))] @ unless_empty ''tenant_id'' (gr_tenant r)
     @ [(''actor'', JStr (gr_actor r)), (''action'', JStr (gr_action r))]
     @ (if gr_resource r = [] then [] else [(''resource'', JObj (map (\<lambda>(k, x). (k, JStr x)) (gr_resource r)))])
     @ [(''confidence_score'', jnum (gr_confidence r)), (''reason'', JStr (gr_reason r))]
     @ unless_empty ''acting_for'' (gr_acting_for r)
     @ [(''enqueued_at'', JStr (rfc (gr_enqueued r))), (''status'', JStr (gr_status r))]
     @ when_some ''resolved_at'' (map_option JStr (gr_resolved_at r))
     @ unless_empty ''resolved_by'' (gr_resolved_by r) @ unless_empty ''resolution_note'' (gr_note r)
     @ unless_empty ''payload_fingerprint'' (gr_fingerprint r) @ unless_empty ''reputation_actor'' (gr_reputation r)
     @ when_some ''redeemed_at'' (map_option JStr (gr_redeemed r)))"

text \<open>A review still pending after seven days is read as \<open>expired\<close>.\<close>

definition pending_max_age :: int where
  "pending_max_age = 7 * 24 * 3600000"

definition expired_if_stale :: "int \<Rightarrow> go_review \<Rightarrow> string" where
  "expired_if_stale now r =
     (if gr_status r = ''pending'' \<and> now - gr_enqueued r > pending_max_age then ''expired'' else gr_status r)"

definition read_review :: "int \<Rightarrow> go_review \<Rightarrow> go_review" where
  "read_review now r = r\<lparr>gr_status := expired_if_stale now r\<rparr>"

lemma text_map: "list_all (\<lambda>(k, x). conforms WText x) (map (\<lambda>(k, x). (k, JStr x)) kvs)"
  by (induction kvs) auto

lemma review_wire_lookup:
  "conforms (WObj review_item_type) (review_wire rfc r) \<longleftrightarrow> gr_tenant r \<noteq> [] \<and> gr_status r \<in> set queue_item_status_names"
proof -
  have resource: "map_of (rev (if gr_resource r = [] then [] else [(''resource'', v)])) k
      = (if k = ''resource'' \<and> gr_resource r \<noteq> [] then Some v else None)" for k v
    by simp
  show ?thesis
    unfolding review_wire_def review_item_type_def member_kinds
    by (simp add: member_lookup unless_empty_lookup resource text_map jnum_def split: option.split
        del: rev.simps(2) rev_append append.simps)
qed

text \<open>Which reviews have their declared type. The document the engine sends for a review it stored as
  pending, approved or denied has the type \<open>ReviewQueueItem\<close> exactly if it names a tenant and it is not a
  pending one older than seven days: a review without a tenant lacks the required \<open>tenant_id\<close>, and a
  stale one has the status \<open>expired\<close>, which the type does not know.\<close>

theorem reviews_with_their_type:
  assumes "gr_status r \<in> set queue_item_status_names"
  shows "conforms (WObj review_item_type) (review_wire rfc (read_review now r))
    \<longleftrightarrow> gr_tenant r \<noteq> [] \<and> (gr_status r = ''pending'' \<longrightarrow> now - gr_enqueued r \<le> pending_max_age)"
  unfolding review_wire_lookup using assms
  by (auto simp: read_review_def expired_if_stale_def queue_item_status_names_def)

record go_alert =
  ga_id :: string
  ga_rule :: string
  ga_agent :: string
  ga_time :: string
  ga_title :: string
  ga_description :: string
  ga_severity :: string
  ga_priority :: int
  ga_trigger :: "(string \<times> jsnum json) list option"
  ga_context :: "(string \<times> jsnum json) list option"
  ga_status :: string
  ga_acked_by :: string
  ga_acked_at :: "string option"
  ga_resolved_at :: "string option"
  ga_group :: string
  ga_group_count :: int
  ga_tags :: "(string \<times> string) list option"
  ga_channels :: "string list option"

definition alert_wire :: "go_alert \<Rightarrow> jsnum json" where
  "alert_wire a = JObj [(''id'', JStr (ga_id a)), (''rule_id'', JStr (ga_rule a)), (''agent_id'', JStr (ga_agent a)),
     (''timestamp'', JStr (ga_time a)), (''title'', JStr (ga_title a)), (''description'', JStr (ga_description a)),
     (''severity'', JStr (ga_severity a)), (''priority'', jwhole (ga_priority a)),
     (''trigger_data'', or_null (map_option JObj (ga_trigger a))), (''context'', or_null (map_option JObj (ga_context a))),
     (''status'', JStr (ga_status a)), (''acked_by'', JStr (ga_acked_by a)),
     (''acked_at'', or_null (map_option JStr (ga_acked_at a))),
     (''resolved_at'', or_null (map_option JStr (ga_resolved_at a))), (''group_id'', JStr (ga_group a)),
     (''group_count'', jwhole (ga_group_count a)),
     (''tags'', or_null (map_option (\<lambda>ts. JObj (map (\<lambda>(k, x). (k, JStr x)) ts)) (ga_tags a))),
     (''channels'', or_null (map_option strings (ga_channels a)))]"

lemma or_null_text: "conforms WText (or_null (map_option JStr t)) \<longleftrightarrow> t \<noteq> None"
  by (cases t) (simp_all add: or_null_def)

lemma or_null_map: "conforms (WMap WAny) (or_null (map_option JObj m)) \<longleftrightarrow> m \<noteq> None"
  by (cases m) (auto simp: or_null_def list_all_iff)

lemma or_null_texts: "conforms (WList WText) (or_null (map_option strings l)) \<longleftrightarrow> l \<noteq> None"
  by (cases l) (simp_all add: or_null_def strings_def list_all_iff)

lemma or_null_text_map:
  "conforms (WMap WText) (or_null (map_option (\<lambda>ts. JObj (map (\<lambda>(k, x). (k, JStr x)) ts)) g)) \<longleftrightarrow> g \<noteq> None"
  by (cases g) (auto simp: or_null_def list_all_iff)

text \<open>Which alerts have their declared type. The document the engine sends for an alert has the type \<open>Alert\<close>
  exactly if its severity and status are declared names and none of its context, maps, list and two
  times is nil: in particular an alert that is not both acknowledged and resolved never has it, since
  its missing times are sent as \<open>null\<close>.\<close>

theorem alerts_with_their_type:
  "conforms (WObj alert_type) (alert_wire a) \<longleftrightarrow>
     ga_severity a \<in> set [''low'', ''medium'', ''high'', ''critical''] \<and> ga_trigger a \<noteq> None \<and> ga_context a \<noteq> None
     \<and> ga_status a \<in> set [''active'', ''acknowledged'', ''resolved''] \<and> ga_acked_at a \<noteq> None \<and> ga_resolved_at a \<noteq> None
     \<and> ga_tags a \<noteq> None \<and> ga_channels a \<noteq> None"
  unfolding alert_wire_def alert_type_def member_kinds conforms.simps(8)
  using or_null_text [of "ga_acked_at a"] or_null_text [of "ga_resolved_at a"] or_null_map [of "ga_trigger a"]
    or_null_map [of "ga_context a"] or_null_texts [of "ga_channels a"] or_null_text_map [of "ga_tags a"]
  by (simp add: member_lookup jwhole_def del: rev.simps(2) rev_append append.simps conforms.simps(6,7) set_simps)

section \<open>Examples\<close>

definition revoked_doc :: "int json" where
  "revoked_doc = JObj [(''success'', JBool True)]"

definition shadow_entry :: go_nhi where
  "shadow_entry = \<lparr>gn_id = ''n1'', gn_tenant = ''t1'', gn_type = ''shadow_agent'', gn_name = ''crawler'', gn_status = ''shadow'',
     gn_scopes = Some [], gn_score = 1, gn_level = ''high'', gn_findings = Some [], gn_seen = ''then'', gn_created = ''then'',
     gn_agent_type = [], gn_owner = [], gn_provider = [], gn_requests = 0, gn_expires = None\<rparr>"

definition inventory_doc :: "int json" where
  "inventory_doc = JObj [(''count'', JNum 1), (''nhis'', JArr [JObj [(''id'', JStr ''n1''), (''tenant_id'', JStr ''t1''),
     (''type'', JStr ''shadow_agent''), (''name'', JStr ''crawler''), (''status'', JStr ''shadow''), (''scopes'', JArr []),
     (''risk_score'', JNum 1), (''risk_level'', JStr ''high''), (''findings'', JArr []), (''last_seen'', JStr ''then''),
     (''created_at'', JStr ''then'')]])]"

lemma example_docs:
  "parse_json (stringify revoked_doc) = Some (reread revoked_doc)"
  "parse_json (stringify inventory_doc) = Some (reread inventory_doc)"
  by (rule parse_stringify, simp add: revoked_doc_def inventory_doc_def)+

lemma example_reread:
  "reread revoked_doc = JObj [(''success'', JBool True)]"
  "reread inventory_doc = JObj [(''count'', jwhole 1), (''nhis'', JArr (map nhi_wire [shadow_entry]))]"
  by (simp_all add: revoked_doc_def inventory_doc_def nhi_wire_def shadow_entry_def jwhole_def jnum_def or_null_def strings_def
      unless_empty_def when_some_def)

lemmas example_run = call_json_def andthen_apply fetch_def Let_def parse_response_def http_ok_def example_docs demo_client_def
  script_def


theorem inventory_entries_lack_their_type_witness:
  "\<exists>v s'. list_nhi demo_client None (script [(2, HttpAnswer 200 (stringify inventory_doc))]) = (Inr v, s')
     \<and> map_of v ''nhis'' = Some (Some (JArr [nhi_wire shadow_entry]))
     \<and> \<not> conforms (WObj nhi_entry_type) (nhi_wire shadow_entry)"
proof -
  obtain s1 where ask: "get demo_client (for_tenant ''/v1/nhi/inventory'' None)
      (script [(2, HttpAnswer 200 (stringify inventory_doc))]) = (Inr (reread inventory_doc), s1)"
    by (simp add: get_def example_run)
  from inventory_entries_lack_their_type [OF this example_reread(2)] show ?thesis by auto
qed

definition stale_review :: go_review where
  "stale_review = \<lparr>gr_id = ''r1'', gr_tenant = ''t1'', gr_actor = ''a'', gr_action = ''refund'', gr_resource = [],
     gr_confidence = 1, gr_reason = ''low'', gr_acting_for = [], gr_enqueued = 0, gr_status = ''pending'',
     gr_resolved_at = None, gr_resolved_by = [], gr_note = [], gr_fingerprint = ''f'', gr_reputation = [], gr_redeemed = None\<rparr>"

theorem reviews_with_their_type_witness:
  "conforms (WObj review_item_type) (review_wire (\<lambda>t. ''then'') (read_review 5 stale_review))
   \<and> \<not> conforms (WObj review_item_type) (review_wire (\<lambda>t. ''then'') (read_review 700000000 stale_review))"
proof -
  have "gr_status stale_review \<in> set queue_item_status_names" by (simp add: stale_review_def queue_item_status_names_def)
  from reviews_with_their_type [OF this] show ?thesis by (simp add: stale_review_def pending_max_age_def)
qed

end
