(* ===== verification/AnalyticsTypes.thy ===== *)
theory AnalyticsTypes
  imports WireProps
begin

text \<open>
  The analytics of the engine as the SDK declares and the engine encodes them: reputations, anomalies and
  baselines (\<open>sdk/typescript/src/types.ts\<close>; \<open>engine/internal/observability\<close>, \<open>server.go\<close>). The client returns these
  answers unchanged, so a caller's types are as good as the encoding.
\<close>

section \<open>Declared\<close>

definition agent_reputation_type :: wire_members where
  "agent_reputation_type =
     [needs ''agent_id'' WText, needs ''reputation_score'' WNumber, needs ''decision_count'' WNumber,
      needs ''accuracy_rate'' WNumber, needs ''calibration_score'' WNumber, needs ''last_updated'' WText,
      needs ''confidence_sum'' WNumber, needs ''correct_decisions'' WNumber, needs ''high_conf_errors'' WNumber,
      needs ''low_conf_correct'' WNumber]"

definition anomaly_severity_names :: "string list" where
  "anomaly_severity_names = [''none'', ''low'', ''medium'', ''high'', ''severe'']"

definition anomaly_result_type :: wire_members where
  "anomaly_result_type =
     [needs ''agent_id'' WText, needs ''timestamp'' WText, needs ''anomaly_score'' WNumber, needs ''is_anomaly'' WBool,
      needs ''severity'' (WOneOf anomaly_severity_names), needs ''features'' (WMap WNumber), needs ''explanation'' WText,
      needs ''action'' WText, needs ''confidence'' WNumber, needs ''latency'' WNumber, needs ''outcome'' WText]"

definition baseline_health_type :: wire_members where
  "baseline_health_type =
     [needs ''agent_id'' WText, needs ''overall_health'' WNumber, needs ''sample_count'' WNumber, needs ''age'' WNumber,
      needs ''last_updated'' WText, needs ''confidence_variance'' WNumber, needs ''latency_variance'' WNumber,
      needs ''action_diversity'' WNumber, needs ''temporal_coverage'' WNumber, needs ''confidence_drift'' WNumber,
      needs ''latency_drift'' WNumber, needs ''pattern_drift'' WNumber, needs ''needs_refresh'' WBool,
      needs ''recommended_actions'' (WList WText)]"

definition drift_type_names :: "string list" where
  "drift_type_names = [''none'', ''confidence'', ''latency'', ''pattern'', ''combined'']"

definition drift_severity_names :: "string list" where
  "drift_severity_names = [''none'', ''low'', ''medium'', ''high'', ''critical'']"

definition drift_analysis_type :: wire_members where
  "drift_analysis_type =
     [needs ''agent_id'' WText, needs ''detected_at'' WText, needs ''drift_score'' WNumber,
      needs ''drift_type'' (WOneOf drift_type_names), needs ''severity'' (WOneOf drift_severity_names),
      needs ''baseline_age'' WNumber, needs ''recent_samples'' WNumber, needs ''explanation'' WText,
      needs ''recommendations'' (WList WText)]"

definition reputation_list_response :: wire_members where
  "reputation_list_response =
     [needs ''agents'' (WList (WObj agent_reputation_type)), needs ''total'' WNumber,
      needs ''sort'' (WOneOf [''top'', ''problematic'']), may_have ''threshold'' WNumber]"

definition anomalies_response :: wire_members where
  "anomalies_response =
     [needs ''agent_id'' WText, needs ''anomalies'' (WList (WObj anomaly_result_type)), needs ''total'' WNumber,
      needs ''since'' WText]"

definition baseline_response :: wire_members where
  "baseline_response =
     [needs ''agent_id'' WText, needs ''health'' (WObj baseline_health_type), needs ''drift'' (WObj drift_analysis_type)]"

section \<open>Encoded\<close>

record go_reputation =
  rp_agent :: string
  rp_score :: rat
  rp_decisions :: int
  rp_accuracy :: rat
  rp_calibration :: rat
  rp_updated :: string
  rp_confidence_sum :: rat
  rp_correct :: int
  rp_high_errors :: int
  rp_low_correct :: int

definition reputation_wire :: "go_reputation \<Rightarrow> jsnum json" where
  "reputation_wire r = JObj [(''agent_id'', JStr (rp_agent r)), (''reputation_score'', jnum (rp_score r)),
     (''decision_count'', jwhole (rp_decisions r)), (''accuracy_rate'', jnum (rp_accuracy r)),
     (''calibration_score'', jnum (rp_calibration r)), (''last_updated'', JStr (rp_updated r)),
     (''confidence_sum'', jnum (rp_confidence_sum r)), (''correct_decisions'', jwhole (rp_correct r)),
     (''high_conf_errors'', jwhole (rp_high_errors r)), (''low_conf_correct'', jwhole (rp_low_correct r))]"

text \<open>A slice that nothing was appended to is nil.\<close>

definition slice :: "jsnum json list \<Rightarrow> jsnum json" where
  "slice vs = (if vs = [] then JNull else JArr vs)"

definition top_reputations_wire :: "go_reputation list \<Rightarrow> jsnum json" where
  "top_reputations_wire rs = JObj [(''agents'', slice (map reputation_wire rs)), (''sort'', JStr ''top''),
     (''total'', jwhole (int (length rs)))]"

definition problematic_reputations_wire :: "rat \<Rightarrow> go_reputation list \<Rightarrow> jsnum json" where
  "problematic_reputations_wire threshold rs = JObj [(''agents'', slice (map reputation_wire rs)),
     (''sort'', JStr ''problematic''), (''threshold'', jnum threshold), (''total'', jwhole (int (length rs)))]"

record go_anomaly =
  an_agent :: string
  an_time :: string
  an_score :: rat
  an_found :: bool
  an_severity :: string
  an_features :: "(string \<times> rat) list option"
  an_explanation :: string
  an_action :: string
  an_confidence :: rat
  an_latency :: int
  an_outcome :: string

definition anomaly_wire :: "go_anomaly \<Rightarrow> jsnum json" where
  "anomaly_wire a = JObj [(''agent_id'', JStr (an_agent a)), (''timestamp'', JStr (an_time a)),
     (''anomaly_score'', jnum (an_score a)), (''is_anomaly'', JBool (an_found a)), (''severity'', JStr (an_severity a)),
     (''features'', or_null (map_option (\<lambda>fs. JObj (map (\<lambda>(k, x). (k, jnum x)) fs)) (an_features a))),
     (''explanation'', JStr (an_explanation a)), (''action'', JStr (an_action a)),
     (''confidence'', jnum (an_confidence a)), (''latency'', jwhole (an_latency a)), (''outcome'', JStr (an_outcome a))]"

text \<open>Here the handler's list is never nil.\<close>

definition anomalies_wire :: "string \<Rightarrow> string \<Rightarrow> go_anomaly list \<Rightarrow> jsnum json" where
  "anomalies_wire agent since rs = JObj [(''agent_id'', JStr agent), (''anomalies'', JArr (map anomaly_wire rs)),
     (''since'', JStr since), (''total'', jwhole (int (length rs)))]"

record go_health =
  he_agent :: string
  he_health :: rat
  he_samples :: int
  he_age :: int
  he_updated :: string
  he_confidence_variance :: rat
  he_latency_variance :: rat
  he_diversity :: int
  he_coverage :: rat
  he_confidence_drift :: rat
  he_latency_drift :: rat
  he_pattern_drift :: rat
  he_refresh :: bool
  he_actions :: "string list"

definition health_wire :: "go_health \<Rightarrow> jsnum json" where
  "health_wire h = JObj [(''agent_id'', JStr (he_agent h)), (''overall_health'', jnum (he_health h)),
     (''sample_count'', jwhole (he_samples h)), (''age'', jwhole (he_age h)), (''last_updated'', JStr (he_updated h)),
     (''confidence_variance'', jnum (he_confidence_variance h)), (''latency_variance'', jnum (he_latency_variance h)),
     (''action_diversity'', jwhole (he_diversity h)), (''temporal_coverage'', jnum (he_coverage h)),
     (''confidence_drift'', jnum (he_confidence_drift h)), (''latency_drift'', jnum (he_latency_drift h)),
     (''pattern_drift'', jnum (he_pattern_drift h)), (''needs_refresh'', JBool (he_refresh h)),
     (''recommended_actions'', strings (he_actions h))]"

text \<open>The recommendations stay nil when drift is not analysed for lack of data; \<open>dr_metrics\<close> are the three members the SDK does not declare.\<close>

record go_drift =
  dr_agent :: string
  dr_at :: string
  dr_score :: rat
  dr_type :: string
  dr_severity :: string
  dr_metrics :: "jsnum json \<times> jsnum json \<times> jsnum json"
  dr_age :: int
  dr_samples :: int
  dr_explanation :: string
  dr_advice :: "string list"

definition drift_wire :: "go_drift \<Rightarrow> jsnum json" where
  "drift_wire d = JObj [(''agent_id'', JStr (dr_agent d)), (''detected_at'', JStr (dr_at d)), (''drift_score'', jnum (dr_score d)),
     (''drift_type'', JStr (dr_type d)), (''severity'', JStr (dr_severity d)),
     (''confidence_drift'', fst (dr_metrics d)), (''latency_drift'', fst (snd (dr_metrics d))),
     (''pattern_drift'', snd (snd (dr_metrics d))), (''baseline_age'', jwhole (dr_age d)),
     (''recent_samples'', jwhole (dr_samples d)), (''explanation'', JStr (dr_explanation d)),
     (''recommendations'', slice (map JStr (dr_advice d)))]"

definition baseline_wire :: "string \<Rightarrow> go_health \<Rightarrow> go_drift \<Rightarrow> jsnum json" where
  "baseline_wire agent h d = JObj [(''agent_id'', JStr agent), (''drift'', drift_wire d), (''health'', health_wire h)]"

section \<open>Which of them have their type\<close>

lemmas numbers = jnum_def jwhole_def

lemma reputation_typed: "conforms (WObj agent_reputation_type) (reputation_wire r)"
  by (simp add: reputation_wire_def agent_reputation_type_def needs_def member_def numbers)

lemma slice_typed: "list_all (conforms w) vs \<Longrightarrow> conforms (WList w) (slice vs) \<longleftrightarrow> vs \<noteq> []"
  by (simp add: slice_def)

lemma reputation_slice: "conforms (WList (WObj agent_reputation_type)) (slice (map reputation_wire rs)) \<longleftrightarrow> rs \<noteq> []"
proof -
  have "list_all (conforms (WObj agent_reputation_type)) (map reputation_wire rs)"
    using reputation_typed by (simp add: list_all_iff del: conforms.simps)
  from slice_typed [OF this] show ?thesis by (simp del: conforms.simps)
qed

lemma text_slice: "conforms (WList WText) (slice (map JStr xs)) \<longleftrightarrow> xs \<noteq> []"
proof -
  have "list_all (conforms WText) (map JStr xs)" by (simp add: list_all_iff)
  from slice_typed [OF this] show ?thesis by (simp del: conforms.simps)
qed

lemma number_map: "conforms (WMap WNumber) (or_null (map_option (\<lambda>fs. JObj (map (\<lambda>(k, x). (k, jnum x)) fs)) g)) \<longleftrightarrow> g \<noteq> None"
  by (cases g) (auto simp: or_null_def list_all_iff jnum_def)

lemma anomaly_typed:
  "conforms (WObj anomaly_result_type) (anomaly_wire a) \<longleftrightarrow> an_severity a \<in> set anomaly_severity_names \<and> an_features a \<noteq> None"
  using number_map [of "an_features a"]
  by (simp add: anomaly_wire_def anomaly_result_type_def needs_def member_def numbers del: conforms.simps(7) set_simps)

lemma health_typed: "conforms (WObj baseline_health_type) (health_wire h)"
  by (simp add: health_wire_def baseline_health_type_def needs_def member_def numbers strings_def list_all_iff)

lemma drift_typed:
  "conforms (WObj drift_analysis_type) (drift_wire d)
    \<longleftrightarrow> dr_type d \<in> set drift_type_names \<and> dr_severity d \<in> set drift_severity_names \<and> dr_advice d \<noteq> []"
  using text_slice [of "dr_advice d"]
  by (simp add: drift_wire_def drift_analysis_type_def needs_def member_def numbers del: conforms.simps(6) set_simps)

text \<open>Which analytics answers have their declared type. A list of reputations has it exactly if it names an agent:
  the engine sends \<open>null\<close> for none. A list of anomalies has it if their severities are declared and their
  features are there, also when it is empty. A baseline has it exactly if its drift comes with a
  recommendation and declared names: an agent without enough data for a comparison has none, and the
  engine sends \<open>null\<close> for the list.\<close>

theorem analytics_answers_with_their_type:
  "(conforms (WObj reputation_list_response) (top_reputations_wire rs) \<longleftrightarrow> rs \<noteq> [])
   \<and> (conforms (WObj reputation_list_response) (problematic_reputations_wire threshold rs) \<longleftrightarrow> rs \<noteq> [])
   \<and> (conforms (WObj anomalies_response) (anomalies_wire agent since as)
        \<longleftrightarrow> list_all (\<lambda>a. an_severity a \<in> set anomaly_severity_names \<and> an_features a \<noteq> None) as)
   \<and> (conforms (WObj baseline_response) (baseline_wire agent h d)
        \<longleftrightarrow> dr_advice d \<noteq> [] \<and> dr_type d \<in> set drift_type_names
            \<and> dr_severity d \<in> set drift_severity_names)"
proof (intro conjI)
  show "conforms (WObj reputation_list_response) (top_reputations_wire rs) \<longleftrightarrow> rs \<noteq> []"
    using reputation_slice [of rs]
    by (simp add: top_reputations_wire_def reputation_list_response_def member_kinds member_def numbers del: conforms.simps(6))
  show "conforms (WObj reputation_list_response) (problematic_reputations_wire threshold rs) \<longleftrightarrow> rs \<noteq> []"
    using reputation_slice [of rs]
    by (simp add: problematic_reputations_wire_def reputation_list_response_def member_kinds member_def numbers
        del: conforms.simps(6))
  have "conforms (WList (WObj anomaly_result_type)) (JArr (map anomaly_wire as))
      \<longleftrightarrow> list_all (\<lambda>a. an_severity a \<in> set anomaly_severity_names \<and> an_features a \<noteq> None) as"
    using anomaly_typed by (simp add: list_all_iff del: conforms.simps(8))
  then show "conforms (WObj anomalies_response) (anomalies_wire agent since as)
      \<longleftrightarrow> list_all (\<lambda>a. an_severity a \<in> set anomaly_severity_names \<and> an_features a \<noteq> None) as"
    by (simp add: anomalies_wire_def anomalies_response_def needs_def member_def numbers del: conforms.simps(6))
  show "conforms (WObj baseline_response) (baseline_wire agent h d)
      \<longleftrightarrow> dr_advice d \<noteq> [] \<and> dr_type d \<in> set drift_type_names \<and> dr_severity d \<in> set drift_severity_names"
  proof -
    have "conforms (WObj baseline_response) (baseline_wire agent h d)
        \<longleftrightarrow> conforms (WObj baseline_health_type) (health_wire h) \<and> conforms (WObj drift_analysis_type) (drift_wire d)"
      unfolding baseline_response_def baseline_wire_def needs_def conforms.simps(8) [of "[a, b, c]" for a b c]
      by (simp add: member_def del: conforms.simps(8))
    then show ?thesis using health_typed drift_typed by blast
  qed
qed

end
