(* ===== verification/SandboxPage.thy ===== *)
theory SandboxPage
  imports Pages AuthorizeRoute
begin

text \<open>
  The public playground, \<open>app/sandbox/page.tsx\<close>: its fields, the request it sends and what it shows. The texts of a
  scenario come from its table. \<open>Object.keys\<close> counts members, elements and characters.
\<close>

record scenario =
  sc_label :: string
  sc_tool :: string
  sc_context :: string
  sc_args :: string
  sc_expected :: string

definition scenarios :: "scenario list" where
  "scenarios =
     [\<lparr>sc_label = ''Read customer'', sc_tool = ''read_customer_profile'', sc_context = ''Fetching account summary for support ticket #4821'',
        sc_args = ''{'' @ [CHR 10] @ ''  '' @ [CHR 0x22] @ ''customer_id'' @ [CHR 0x22] @ '': '' @ [CHR 0x22] @ ''cust_abc123'' @ [CHR 0x22] @ [CHR 10] @ ''}'', sc_expected = ''allow''\<rparr>,
      \<lparr>sc_label = ''Query database'', sc_tool = ''query_database'', sc_context = ''Looking up order history for last 30 days'',
        sc_args = ''{'' @ [CHR 10] @ ''  '' @ [CHR 0x22] @ ''table'' @ [CHR 0x22] @ '': '' @ [CHR 0x22] @ ''orders'' @ [CHR 0x22] @ '','' @ [CHR 10] @ ''  '' @ [CHR 0x22] @ ''limit'' @ [CHR 0x22] @ '': 50'' @ [CHR 10] @ ''}'', sc_expected = ''allow''\<rparr>,
      \<lparr>sc_label = ''Send email'', sc_tool = ''send_email'', sc_context = ''Notifying user that their subscription is expiring'',
        sc_args = ''{'' @ [CHR 10] @ ''  '' @ [CHR 0x22] @ ''to'' @ [CHR 0x22] @ '': '' @ [CHR 0x22] @ ''user@example.com'' @ [CHR 0x22] @ '','' @ [CHR 10] @ ''  '' @ [CHR 0x22] @ ''subject'' @ [CHR 0x22] @ '': '' @ [CHR 0x22] @ ''Your subscription expires soon'' @ [CHR 0x22] @ [CHR 10] @ ''}'', sc_expected = ''human_review''\<rparr>,
      \<lparr>sc_label = ''Transfer funds'', sc_tool = ''transfer_funds'', sc_context = ''Moving $4,200 to vendor account for invoice #INV-992'',
        sc_args = ''{'' @ [CHR 10] @ ''  '' @ [CHR 0x22] @ ''amount'' @ [CHR 0x22] @ '': 4200,'' @ [CHR 10] @ ''  '' @ [CHR 0x22] @ ''currency'' @ [CHR 0x22] @ '': '' @ [CHR 0x22] @ ''USD'' @ [CHR 0x22] @ '','' @ [CHR 10] @ ''  '' @ [CHR 0x22] @ ''to_account'' @ [CHR 0x22] @ '': '' @ [CHR 0x22] @ ''vendor_992'' @ [CHR 0x22] @ [CHR 10] @ ''}'', sc_expected = ''human_review''\<rparr>,
      \<lparr>sc_label = ''Delete records'', sc_tool = ''delete_all_records'', sc_context = ''Clearing stale test data from the users table'',
        sc_args = ''{'' @ [CHR 10] @ ''  '' @ [CHR 0x22] @ ''table'' @ [CHR 0x22] @ '': '' @ [CHR 0x22] @ ''users'' @ [CHR 0x22] @ '','' @ [CHR 10] @ ''  '' @ [CHR 0x22] @ ''filter'' @ [CHR 0x22] @ '': '' @ [CHR 0x22] @ ''is_test=true'' @ [CHR 0x22] @ [CHR 10] @ ''}'', sc_expected = ''deny''\<rparr>,
      \<lparr>sc_label = ''Execute shell'', sc_tool = ''execute_shell_command'', sc_context = ''Running cleanup script on production server'',
        sc_args = ''{'' @ [CHR 10] @ ''  '' @ [CHR 0x22] @ ''command'' @ [CHR 0x22] @ '': '' @ [CHR 0x22] @ ''rm -rf /tmp/cache/*'' @ [CHR 0x22] @ [CHR 10] @ ''}'', sc_expected = ''deny''\<rparr>,
      \<lparr>sc_label = ''Write file'', sc_tool = ''write_file'', sc_context = ''Saving updated config to production directory'',
        sc_args = ''{'' @ [CHR 10] @ ''  '' @ [CHR 0x22] @ ''path'' @ [CHR 0x22] @ '': '' @ [CHR 0x22] @ ''/prod/config.yaml'' @ [CHR 0x22] @ '','' @ [CHR 10] @ ''  '' @ [CHR 0x22] @ ''content'' @ [CHR 0x22] @ '': '' @ [CHR 0x22] @ ''timeout: 30s'' @ [CHR 0x22] @ [CHR 10] @ ''}'', sc_expected = ''compute''\<rparr>]"

record sandbox_page =
  sb_active :: int
  sb_tool :: string
  sb_context :: string
  sb_args :: string
  sb_args_error :: string
  sb_loading :: bool
  sb_response :: "jsnum json option"
  sb_error :: string
  sb_history :: "(jsnum json option \<times> jsnum json option \<times> jsnum json option) list"
  sb_tab :: string

definition load_scenario :: "scenario list \<Rightarrow> nat \<Rightarrow> sandbox_page \<Rightarrow> sandbox_page" where
  "load_scenario scs i pg = pg\<lparr>sb_active := int i, sb_tool := sc_tool (scs ! i), sb_context := sc_context (scs ! i),
     sb_args := sc_args (scs ! i), sb_args_error := [], sb_response := None, sb_error := []\<rparr>"

text \<open>A shared link fills the fields in.\<close>

definition fill_from_link :: "query_params \<Rightarrow> sandbox_page \<Rightarrow> sandbox_page" where
  "fill_from_link q pg =
     (if truthy (map_of q ''tool'')
      then pg\<lparr>sb_tool := the (map_of q ''tool''), sb_context := nullish (map_of q ''context'') [], sb_args := ''{}'', sb_active := - 1\<rparr>
      else pg)"

definition link_params :: "sandbox_page \<Rightarrow> query_params option" where
  "link_params pg =
     (if trim (sb_tool pg) = [] then None
      else Some ((''tool'', trim (sb_tool pg)) # (if trim (sb_context pg) = [] then [] else [(''context'', trim (sb_context pg))])))"

definition edit_tool :: "string \<Rightarrow> sandbox_page \<Rightarrow> sandbox_page" where
  "edit_tool v pg = pg\<lparr>sb_tool := v, sb_active := - 1\<rparr>"

definition edit_args :: "string \<Rightarrow> sandbox_page \<Rightarrow> sandbox_page" where
  "edit_args v pg = pg\<lparr>sb_args := v, sb_args_error := []\<rparr>"

text \<open>\<open>parseArgs()\<close>: the value and whether it reports an error.\<close>

definition parse_args :: "string \<Rightarrow> jsnum json option \<times> bool" where
  "parse_args args =
     (let t = trim args
      in if t = [] \<or> t = ''{}'' then (None, False)
         else (case parse_json t of None \<Rightarrow> (None, True) | Some v \<Rightarrow> (Some v, False)))"

definition invalid_args :: string where
  "invalid_args = ''Invalid JSON in args''"

definition sandbox_body :: "sandbox_page \<Rightarrow> jsnum json option \<Rightarrow> jsnum json" where
  "sandbox_body pg args = JObj
     ([(''tool'', JStr (trim (sb_tool pg)))]
      @ (if trim (sb_context pg) = [] then [] else [(''context'', JStr (trim (sb_context pg)))])
      @ when_truthy ''args'' args)"

text \<open>\<open>handleSend\<close> up to its request. The error that stops it is the one it was rendered with, not the one that
  \<open>parseArgs\<close> has just set.\<close>

definition handle_send :: "sandbox_page \<Rightarrow> sandbox_page \<times> page_call option" where
  "handle_send pg =
     (let (args, bad) = parse_args (sb_args pg);
          pg1 = pg\<lparr>sb_args_error := (if bad then invalid_args else [])\<rparr>
      in if sb_args_error pg \<noteq> [] then (pg1, None)
         else (pg1\<lparr>sb_loading := True, sb_error := []\<rparr>, Some (page_send ''POST'' ''/api/sandbox/authorize'' (sandbox_body pg args))))"

definition send_answered :: "page_answer \<Rightarrow> sandbox_page \<Rightarrow> sandbox_page" where
  "send_answered a pg =
     (let pg1 = pg\<lparr>sb_loading := False\<rparr>
      in case read_answer a of
           Thrown \<Rightarrow> pg1\<lparr>sb_error := ''Network error - please try again.''\<rparr>
         | Refused d \<Rightarrow> pg1\<lparr>sb_error := error_text ''Request failed'' d\<rparr>
         | Accepted d \<Rightarrow>
             pg1\<lparr>sb_response := Some d, sb_tab := ''response'',
                 sb_history := take 8 ((member ''tool'' d, member ''decision'' d, member ''requestId'' d) # sb_history pg1)\<rparr>)"

text \<open>\<open>disabled\<close> of the button.\<close>

definition can_send :: "sandbox_page \<Rightarrow> bool" where
  "can_send pg = (\<not> sb_loading pg \<and> trim (sb_tool pg) \<noteq> [])"

section \<open>What the page shows as the request\<close>

fun key_count :: "jsnum json \<Rightarrow> nat" where
  "key_count (JObj kvs) = length (remdups (map fst kvs))"
| "key_count (JArr vs) = length vs"
| "key_count (JStr s) = length s"
| "key_count _ = 0"

definition shown_args :: "string \<Rightarrow> jsnum json option" where
  "shown_args args = (case parse_json args of Some v \<Rightarrow> if 0 < key_count v then Some v else None | None \<Rightarrow> None)"

text \<open>\<open>buildRequestBody()\<close>, and the body of the curl command, which only takes objects.\<close>

definition shown_body :: "sandbox_page \<Rightarrow> jsnum json" where
  "shown_body pg = JObj
     ([(''tool'', JStr (trim (sb_tool pg)))]
      @ (if trim (sb_context pg) = [] then [] else [(''context'', JStr (trim (sb_context pg)))])
      @ when_some ''args'' (shown_args (sb_args pg)))"

definition curl_body :: "sandbox_page \<Rightarrow> jsnum json" where
  "curl_body pg = JObj
     ([(''tool'', JStr (if trim (sb_tool pg) = [] then ''your_tool'' else trim (sb_tool pg)))]
      @ (if trim (sb_context pg) = [] then [] else [(''context'', JStr (trim (sb_context pg)))])
      @ when_some ''args'' (case shown_args (sb_args pg) of
            Some v \<Rightarrow> if is_object (Some v) then Some v else None | None \<Rightarrow> None))"

section \<open>Properties\<close>

text \<open>Arguments that are not JSON are dropped and the call is decided without them. The first click on the button
  reports the error and sends the request all the same, with no \<open>args\<close>; only while the error is shown
  a further click sends nothing.\<close>

theorem playground_sends_call_without_bad_args:
  assumes "sb_args_error pg = []" "snd (parse_args (sb_args pg))"
  shows "\<exists>pg1 body. handle_send pg = (pg1, Some (page_send ''POST'' ''/api/sandbox/authorize'' body))
    \<and> member ''args'' body = None \<and> member ''tool'' body = Some (JStr (trim (sb_tool pg)))
    \<and> sb_args_error pg1 = invalid_args \<and> snd (handle_send pg1) = None"
proof -
  obtain args where p: "parse_args (sb_args pg) = (args, True)" using assms(2) by (metis prod.collapse)
  then have "args = None" by (auto simp: parse_args_def Let_def split: if_splits option.splits)
  then show ?thesis
    using assms(1) p by (auto simp: handle_send_def sandbox_body_def when_truthy_def truthy_json_def member_def invalid_args_def Let_def)
qed

definition first_page :: sandbox_page where
  "first_page = \<lparr>sb_active = 0, sb_tool = ''delete_all_records'', sb_context = [], sb_args = ''{'', sb_args_error = [],
     sb_loading = False, sb_response = None, sb_error = [], sb_history = [], sb_tab = ''response''\<rparr>"

theorem playground_sends_call_without_bad_args_witness:
  "\<exists>pg1 body. handle_send first_page = (pg1, Some (page_send ''POST'' ''/api/sandbox/authorize'' body)) \<and> member ''args'' body = None"
proof -
  have "snd (parse_args ''{'')" by code_simp
  then show ?thesis
    using playground_sends_call_without_bad_args [of first_page] by (auto simp: first_page_def)
qed

text \<open>Every scenario of the playground announces the decision that the fallback table of the sandbox takes
  for its tool.\<close>

theorem scenarios_decide_as_announced:
  "map (\<lambda>sc. decision_name (tv_decision (local_evaluate (sc_tool sc)))) scenarios = map sc_expected scenarios"
  by code_simp

end
