(* ===== verification/QueryText.thy ===== *)
theory QueryText
  imports SdkProps McpServer SandboxPage
begin

text \<open>
  Reading a query back: what \<open>URLSearchParams\<close> makes of the text its own serializer (\<open>search_params\<close>)
  wrote (decoding is that of the MCP server's queries, \<open>split_pair\<close>), and with it the links into the public playground, those the documentation shows
  (\<open>components/docs/TryInSandbox.tsx\<close>) and those the page shares of itself (\<open>app/sandbox/page.tsx\<close>).
\<close>

section \<open>The parser\<close>

definition parse_query :: "string \<Rightarrow> query_params" where
  "parse_query s = map split_pair (filter (\<lambda>p. p \<noteq> []) (split_on (CHR ''&'') s))"

section \<open>Reading what the serializer wrote\<close>

lemma form_decode_plain: "c \<noteq> CHR 0x25 \<Longrightarrow> c \<noteq> CHR ''+'' \<Longrightarrow> form_decode (c # s) = c # form_decode s"
  by simp

lemma form_decode_percent: "form_decode (percent b @ s) = b # form_decode s"
proof -
  have "hex_val (upper_hex_digit (of_char b div 16)) = Some (of_char b div 16)"
    by (intro hex_val_upper) (simp add: less_mult_imp_div_less nat_of_char_less_256)
  moreover have "hex_val (upper_hex_digit (of_char b mod 16)) = Some (of_char b mod 16)"
    by (intro hex_val_upper) simp
  moreover have "char_of (16 * (of_char b div 16) + of_char b mod 16 :: nat) = b"
    by (simp add: mult.commute)
  ultimately show ?thesis by (simp add: percent_def)
qed

definition form_byte :: "char \<Rightarrow> string" where
  "form_byte b = (if b = CHR '' '' then ''+'' else if form_char b then [b] else percent b)"

lemma form_encode_bytes: "form_encode s = concat (map form_byte (utf8 s))"
  by (simp add: form_encode_def form_byte_def [abs_def])

lemma upper_hex_digit_range: "d < 16 \<Longrightarrow> upper_hex_digit d \<notin> {CHR ''+'', CHR ''&'', CHR ''=''}"
proof -
  assume "d < 16"
  then have "of_char (upper_hex_digit d) = (if d < 10 then 48 + d else 55 + d)" by (simp add: upper_hex_digit_def)
  then show ?thesis by (auto split: if_splits)
qed

lemma percent_digits:
  "set (percent b) \<inter> {CHR ''+'', CHR ''&'', CHR ''=''} = {}"
proof -
  have "of_char b div 16 < (16 :: nat)" "of_char b mod 16 < (16 :: nat)"
    by (simp_all add: less_mult_imp_div_less nat_of_char_less_256)
  then show ?thesis using upper_hex_digit_range by (auto simp: percent_def)
qed

lemma form_byte_range: "set (form_byte b) \<inter> {CHR ''&'', CHR ''=''} = {}"
  using percent_digits [of b] by (auto simp: form_byte_def form_char_def)

lemma form_encode_range: "CHR ''&'' \<notin> set (form_encode s)" "CHR ''='' \<notin> set (form_encode s)"
  using form_byte_range by (fastforce simp: form_encode_bytes)+

lemma decode_form_byte: "form_decode (form_byte b @ s) = b # form_decode s"
proof (cases "form_char b")
  case True
  then have "b \<noteq> CHR 0x25" "b \<noteq> CHR ''+''" "b \<noteq> CHR '' ''" by (auto simp: form_char_def)
  then show ?thesis using True by (simp add: form_byte_def)
next
  case False
  then show ?thesis using form_decode_percent by (simp add: form_byte_def)
qed

lemma form_decode_bytes: "form_decode (concat (map form_byte bs)) = bs"
  by (induction bs) (simp_all add: decode_form_byte)

lemma form_decode_encode: "from_utf8 (form_decode (form_encode s)) = s"
  by (simp add: form_encode_bytes form_decode_bytes from_utf8_utf8)

lemma split_written_pair: "split_pair (form_encode k @ CHR ''='' # form_encode v) = (k, v)"
proof -
  have "takeWhile (\<lambda>c. c \<noteq> CHR ''='') (form_encode k @ CHR ''='' # form_encode v) = form_encode k"
    using form_encode_range(2) [of k] by (subst takeWhile_append2) auto
  then show ?thesis by (simp add: split_pair_def Let_def form_decode_encode)
qed

lemma split_on_join: "ps \<noteq> [] \<Longrightarrow> list_all (\<lambda>p. c \<notin> set p) ps \<Longrightarrow> split_on c (join [c] ps) = ps"
  by (induction "[c]" ps rule: join.induct) (auto simp: split_on_append split_on_no_sep)

lemma search_params_cons:
  "search_params kvs = join ''&'' (map (\<lambda>(k, v). form_encode k @ CHR ''='' # form_encode v) kvs)"
  by (simp add: search_params_def)

lemma search_params_read: "parse_query (search_params kvs) = kvs"
proof (cases "kvs = []")
  case True
  then show ?thesis by (simp add: search_params_def parse_query_def)
next
  case False
  let ?ps = "map (\<lambda>(k, v). form_encode k @ CHR ''='' # form_encode v) kvs"
  have "list_all (\<lambda>p. CHR ''&'' \<notin> set p) ?ps" using form_encode_range(1) by (auto simp: list_all_iff)
  then have "split_on (CHR ''&'') (search_params kvs) = ?ps"
    unfolding search_params_cons by (intro split_on_join) (simp_all add: False)
  moreover have "filter (\<lambda>p. p \<noteq> []) ?ps = ?ps" by (rule filter_True) auto
  moreover have "map split_pair ?ps = kvs" by (induction kvs) (auto simp: split_written_pair)
  ultimately show ?thesis by (simp add: parse_query_def)
qed

text \<open>Queries read back. Whatever parameters the serializer of \<open>URLSearchParams\<close> writes, in the SDK's requests
  or a page's links, its parser returns the same names and values in the same order: no value can break
  out of its parameter, add one or lose a character.\<close>

theorem query_reads_back: "parse_query (search_params kvs) = kvs"
  by (rule search_params_read)

section \<open>Links into the playground\<close>

text \<open>The link of an example in the documentation.\<close>

definition try_in_sandbox :: "string \<Rightarrow> string option \<Rightarrow> string" where
  "try_in_sandbox tool context =
     ''/sandbox?'' @ search_params ((''tool'', tool) # (if truthy context then [(''context'', the context)] else []))"

text \<open>\<open>useSearchParams\<close> of the page a link opens.\<close>

definition link_query :: "string \<Rightarrow> query_params" where
  "link_query url = parse_query (drop 1 (dropWhile (\<lambda>c. c \<noteq> CHR ''?'') url))"

text \<open>The address the page gives itself while its fields are edited, which \<open>copyShareLink\<close> copies.\<close>

definition share_link :: "sandbox_page \<Rightarrow> string option" where
  "share_link pg = map_option (\<lambda>q. ''/sandbox?'' @ search_params q) (link_params pg)"

definition open_link :: "string \<Rightarrow> sandbox_page \<Rightarrow> sandbox_page" where
  "open_link url pg = fill_from_link (link_query url) pg"

lemma link_query_of: "link_query (''/sandbox?'' @ search_params q) = q"
  by (simp add: link_query_def search_params_read)

text \<open>C31: Links restore the request. The page a shared link opens has the tool and the context of the page that
  was shared, without the blanks around them, and no arguments; a link of the documentation fills in
  exactly the tool and the context it was made for.\<close>

theorem links_restore_the_request:
  assumes "share_link pg = Some url" "tool \<noteq> []"
  shows "sb_tool (open_link url pg') = trim (sb_tool pg) \<and> sb_context (open_link url pg') = trim (sb_context pg)
      \<and> sb_args (open_link url pg') = ''{}''
      \<and> sb_tool (open_link (try_in_sandbox tool context) pg') = tool
      \<and> sb_context (open_link (try_in_sandbox tool context) pg') = nullish context []"
proof -
  obtain q where q: "link_params pg = Some q" "url = ''/sandbox?'' @ search_params q"
    using assms(1) by (auto simp: share_link_def)
  then have "open_link url pg' = fill_from_link q pg'" using link_query_of by (simp add: open_link_def)
  moreover have "open_link (try_in_sandbox tool context) pg'
      = fill_from_link ((''tool'', tool) # (if truthy context then [(''context'', the context)] else [])) pg'"
    unfolding open_link_def try_in_sandbox_def link_query_of ..
  ultimately show ?thesis
    using q(1) assms(2) by (cases "context") (auto simp: link_params_def fill_from_link_def truthy_def nullish_def split: if_splits)
qed

definition refund_page :: sandbox_page where
  "refund_page = \<lparr>sb_active = - 1, sb_tool = ''send & log '', sb_context = ''a=b'', sb_args = ''{}'', sb_args_error = [],
     sb_loading = False, sb_response = None, sb_error = [], sb_history = [], sb_tab = ''response''\<rparr>"

theorem links_restore_the_request_witness:
  "\<exists>url. share_link refund_page = Some url \<and> sb_tool (open_link url refund_page) = ''send & log''
     \<and> sb_context (open_link url refund_page) = ''a=b''"
proof -
  have t: "trim (sb_tool refund_page) = ''send & log''" "trim (sb_context refund_page) = ''a=b''"
    unfolding refund_page_def sandbox_page.simps by code_simp+
  obtain url where url: "share_link refund_page = Some url" by (simp add: share_link_def link_params_def t)
  have "(''delete_file'' :: string) \<noteq> []" by simp
  from links_restore_the_request [OF url this] show ?thesis using url by (auto simp: t)
qed

end
