(* ===== verification/SiteMap.thy ===== *)
theory SiteMap
  imports Pages MailService
begin

text \<open>
  Finding one's way on the site: the links of the header (\<open>components/SiteNav.tsx\<close>), the tabs and the sidebar of
  the documentation (\<open>components/docs\<close>), where the footer is left out, the playing of the demo page
  (\<open>app/demo/page.tsx\<close>), and the routes that report on the deployment itself (\<open>app/api/config-check\<close>,
  \<open>app/healthz\<close>, \<open>app/api/beta\<close>).
\<close>

section \<open>Header\<close>

record nav_link =
  nl_name :: string
  nl_href :: string

definition link :: "string \<Rightarrow> string \<Rightarrow> nav_link" where
  "link name href = \<lparr>nl_name = name, nl_href = href\<rparr>"

definition header_links :: "nav_link list" where
  "header_links =
     [link ''Docs'' ''/docs'', link ''Pricing'' ''/pricing'', link ''Sandbox'' ''/sandbox'', link ''About'' ''/about'',
      link ''Agents'' ''/agents'', link ''Security'' ''/nhi'', link ''Audit Log'' ''/audit'', link ''Policies'' ''/policies'']"

definition link_active :: "string \<Rightarrow> nav_link \<Rightarrow> bool" where
  "link_active path l = (path = nl_href l \<or> starts_with (nl_href l @ ''/'') path)"

definition footer_hidden :: "string \<Rightarrow> bool" where
  "footer_hidden path = (path \<in> set [''/'', ''/demo'', ''/login'', ''/register''])"

text \<open>A link of one segment is active on a path that begins with this segment.\<close>

lemma active_segment:
  assumes "link_active path l" "nl_href l = CHR ''/'' # seg" "CHR ''/'' \<notin> set seg"
  shows "takeWhile (\<lambda>c. c \<noteq> CHR ''/'') (tl path) = seg"
proof -
  from assms(1,2) consider "path = CHR ''/'' # seg" | rest where "path = CHR ''/'' # seg @ CHR ''/'' # rest"
    by (auto simp: link_active_def starts_with_iff)
  moreover have "takeWhile (\<lambda>c. c \<noteq> CHR ''/'') (seg @ t) = seg @ takeWhile (\<lambda>c. c \<noteq> CHR ''/'') t" for t
    using assms(3) by (intro takeWhile_append2) auto
  ultimately show ?thesis using assms(3) by cases (auto simp: takeWhile_eq_all_conv)
qed

lemma length_filter_conj: "length (filter (\<lambda>x. P x \<and> Q x) xs) \<le> length (filter Q xs)"
  by (induction xs) auto

lemma length_filter_distinct: "distinct (map f xs) \<Longrightarrow> length (filter (\<lambda>x. f x = h) xs) \<le> 1"
proof (induction xs)
  case Nil
  then show ?case by simp
next
  case (Cons x xs)
  have "filter (\<lambda>y. f y = h) xs = []" if "f x = h"
  proof -
    have "f x \<notin> f ` set xs" using Cons.prems by simp
    then have "f y \<noteq> h" if "y \<in> set xs" for y using that \<open>f x = h\<close> by (metis imageI)
    then show ?thesis by (simp add: filter_empty_conv)
  qed
  then show ?case using Cons by (cases "f x = h") simp_all
qed

text \<open>The header shows one place at a time. On whatever path, at most one link of the header is marked as the
  current one.\<close>

theorem one_header_link_active: "length (filter (link_active path) header_links) \<le> 1"
proof -
  let ?seg = "takeWhile (\<lambda>c. c \<noteq> CHR ''/'') (tl path)"
  have seg: "link_active path l \<Longrightarrow> l \<in> set header_links \<Longrightarrow> nl_href l = CHR ''/'' # ?seg" for l
    using active_segment [of path l "tl (nl_href l)"] by (auto simp: header_links_def link_def)
  have "filter (link_active path) header_links
      = filter (\<lambda>l. link_active path l \<and> nl_href l = CHR ''/'' # ?seg) header_links"
    using seg by (intro filter_cong) auto
  then have "length (filter (link_active path) header_links) \<le> length (filter (\<lambda>l. nl_href l = CHR ''/'' # ?seg) header_links)"
    using length_filter_conj [of "link_active path" "\<lambda>l. nl_href l = CHR ''/'' # ?seg" header_links] by (rule ord_eq_le_trans [OF arg_cong])
  also have "\<dots> \<le> 1" by (rule length_filter_distinct) (simp add: header_links_def link_def)
  finally show ?thesis .
qed

section \<open>Sidebar of the documentation\<close>

record nav_section =
  ns_title :: string
  ns_open :: bool
  ns_items :: "nav_link list"

definition doc_section :: "string \<Rightarrow> bool \<Rightarrow> nav_link list \<Rightarrow> nav_section" where
  "doc_section title opened items = \<lparr>ns_title = title, ns_open = opened, ns_items = items\<rparr>"

definition doc_sections :: "nav_section list" where
  "doc_sections =
     [doc_section ''Get Started'' True [link ''Introduction'' ''/docs'',
        link ''Installation'' ''/docs/installation'',
        link ''Quickstart'' ''/docs/quickstart''],
      doc_section ''Concepts'' False [link ''Actors'' ''/docs/concepts/actors'',
        link ''Actions'' ''/docs/concepts/actions'',
        link ''Resources'' ''/docs/concepts/resources'',
        link ''Policies'' ''/docs/concepts/policies'',
        link ''Decisions'' ''/docs/concepts/decisions''],
      doc_section ''Authorization'' False [link ''Agent Authorize'' ''/docs/concepts/api'',
        link ''Confidence Gating'' ''/docs/confidence'',
        link ''Delegation'' ''/docs/concepts/delegation''],
      doc_section ''Policies'' False [link ''Writing Rego'' ''/docs/policies/rego'',
        link ''Testing'' ''/docs/guides/testing'',
        link ''Versioning'' ''/docs/policies/versioning''],
      doc_section ''Human Review'' False [link ''Routing'' ''/docs/human-in-loop'',
        link ''Approvals'' ''/docs/approvals'',
        link ''SLAs'' ''/docs/slas''],
      doc_section ''Audit'' False [link ''Event Schema'' ''/docs/audit-trail'',
        link ''Query API'' ''/docs/audit-query'',
        link ''SIEM Export'' ''/docs/audit-siem''],
      doc_section ''Integrations'' False [link ''OpenAI'' ''/docs/integrations/openai'',
        link ''Anthropic'' ''/docs/integrations/anthropic'',
        link ''LangChain'' ''/docs/integrations/langchain'',
        link ''LangGraph'' ''/docs/integrations/langgraph'',
        link ''Strands Agents'' ''/docs/integrations/strands'',
        link ''MCP'' ''/docs/integrations/mcp'',
        link ''Claude Code Plugin'' ''/docs/integrations/claude-code-plugin'',
        link ''Vercel AI SDK'' ''/docs/integrations/vercel-ai''],
      doc_section ''Infrastructure'' False [link ''Self-Hosting'' ''/docs/guides/production'',
        link ''Cloud'' ''/docs/docker'',
        link ''Scaling'' ''/docs/scaling''],
      doc_section ''SDKs'' False [link ''TypeScript'' ''/docs/integrations/typescript'',
        link ''Python'' ''/docs/integrations/python'']]"

text \<open>Which sections are open, by title.\<close>

type_synonym sidebar = "(string \<times> bool) list"

definition initial_sidebar :: sidebar where
  "initial_sidebar = map (\<lambda>s. (ns_title s, ns_open s)) doc_sections"

definition set_open :: "string \<Rightarrow> bool \<Rightarrow> sidebar \<Rightarrow> sidebar" where
  "set_open title b sb = map (\<lambda>(t, x). if t = title then (t, b) else (t, x)) sb"

definition section_of :: "string \<Rightarrow> nav_section \<Rightarrow> bool" where
  "section_of path s = (path \<in> nl_href ` set (ns_items s))"

text \<open>The effect of a new path opens the section it belongs to; a click turns one section over.\<close>

definition visit_path :: "string \<Rightarrow> sidebar \<Rightarrow> sidebar" where
  "visit_path path sb = fold (\<lambda>s sb. if section_of path s then set_open (ns_title s) True sb else sb) doc_sections sb"

definition toggle_section :: "string \<Rightarrow> sidebar \<Rightarrow> sidebar" where
  "toggle_section title sb = map (\<lambda>(t, x). if t = title then (t, \<not> x) else (t, x)) sb"

inductive sidebar_reach :: "sidebar \<Rightarrow> bool" where
  mounted: "sidebar_reach (visit_path path initial_sidebar)"
| visited: "sidebar_reach sb \<Longrightarrow> sidebar_reach (visit_path path sb)"
| toggled: "sidebar_reach sb \<Longrightarrow> sidebar_reach (toggle_section title sb)"

lemma set_open_titles: "map fst (set_open t b sb) = map fst sb"
  by (auto simp: set_open_def)

lemma set_open_opens: "t \<in> fst ` set sb \<Longrightarrow> (t, True) \<in> set (set_open t True sb)"
  by (force simp: set_open_def)

lemma set_open_keeps: "(x, True) \<in> set sb \<Longrightarrow> (x, True) \<in> set (set_open t True sb)"
  by (force simp: set_open_def)

definition open_matching :: "string \<Rightarrow> nav_section list \<Rightarrow> sidebar \<Rightarrow> sidebar" where
  "open_matching path ss = fold (\<lambda>s sb. if section_of path s then set_open (ns_title s) True sb else sb) ss"

lemma open_matching_titles: "map fst (open_matching path ss sb) = map fst sb"
  unfolding open_matching_def by (induction ss arbitrary: sb) (simp_all add: set_open_titles)

lemma open_matching_keeps: "(x, True) \<in> set sb \<Longrightarrow> (x, True) \<in> set (open_matching path ss sb)"
  unfolding open_matching_def by (induction ss arbitrary: sb) (simp_all add: set_open_keeps)

lemma open_matching_opens:
  assumes "s \<in> set ss" "section_of path s" "ns_title s \<in> fst ` set sb"
  shows "(ns_title s, True) \<in> set (open_matching path ss sb)"
  using assms
proof (induction ss arbitrary: sb)
  case Nil
  then show ?case by simp
next
  case (Cons r ss)
  let ?sb = "if section_of path r then set_open (ns_title r) True sb else sb"
  have step: "open_matching path (r # ss) sb = open_matching path ss ?sb" by (simp add: open_matching_def)
  have "map fst ?sb = map fst sb" by (simp add: set_open_titles)
  then have titles: "fst ` set ?sb = fst ` set sb" by (metis list.set_map)
  show ?case
  proof (cases "s = r")
    case True
    then show ?thesis unfolding step using Cons.prems set_open_opens by (intro open_matching_keeps) simp
  next
    case False
    then show ?thesis unfolding step using Cons titles by simp
  qed
qed

lemma visit_path_matching: "visit_path path = open_matching path doc_sections"
  by (rule ext) (simp add: visit_path_def open_matching_def)

lemma sidebar_titles: "sidebar_reach sb \<Longrightarrow> map fst sb = map ns_title doc_sections"
proof (induction rule: sidebar_reach.induct)
  case (mounted path)
  then show ?case by (simp add: visit_path_matching open_matching_titles initial_sidebar_def comp_def)
next
  case (visited sb path)
  then show ?case by (simp add: visit_path_matching open_matching_titles)
next
  case (toggled sb title)
  have "map fst (toggle_section title sb) = map fst sb" by (auto simp: toggle_section_def)
  with toggled show ?case by simp
qed

text \<open>The sidebar follows the reader. After any navigation and any clicks it still has every section once and in
  its order, and going to a page of the documentation leaves the section of this page open and closes none.\<close>

theorem sidebar_follows_the_reader:
  assumes "sidebar_reach sb"
  shows "map fst (visit_path path sb) = map ns_title doc_sections
    \<and> (\<forall>s \<in> set doc_sections. section_of path s \<longrightarrow> (ns_title s, True) \<in> set (visit_path path sb))
    \<and> (\<forall>t. (t, True) \<in> set sb \<longrightarrow> (t, True) \<in> set (visit_path path sb))"
proof -
  have titles: "map fst sb = map ns_title doc_sections" by (rule sidebar_titles [OF assms])
  then have "fst ` set sb = ns_title ` set doc_sections" by (metis list.set_map)
  then show ?thesis
    using open_matching_opens open_matching_keeps titles
    by (auto simp: visit_path_matching open_matching_titles)
qed

theorem sidebar_follows_the_reader_witness:
  "(''SDKs'', True) \<in> set (visit_path ''/docs/integrations/python'' (toggle_section ''SDKs'' (visit_path ''/docs'' initial_sidebar)))"
proof -
  have "sidebar_reach (toggle_section ''SDKs'' (visit_path ''/docs'' initial_sidebar))"
    by (intro sidebar_reach.intros)
  from sidebar_follows_the_reader [OF this, of "''/docs/integrations/python''"]
  have "\<forall>s \<in> set doc_sections. section_of ''/docs/integrations/python'' s
      \<longrightarrow> (ns_title s, True) \<in> set (visit_path ''/docs/integrations/python'' (toggle_section ''SDKs'' (visit_path ''/docs'' initial_sidebar)))"
    by blast
  then show ?thesis by (simp add: doc_sections_def doc_section_def section_of_def link_def)
qed

section \<open>The demo\<close>

text \<open>The scenes with their lengths in seconds; the captions are left out.\<close>

definition scenes :: "(string \<times> rat) list" where
  "scenes = [(''intro'', 11), (''problem'', 26), (''start'', 28), (''decisions'', 30), (''live'', 36), (''outro'', 17)]"

definition demo_length :: rat where
  "demo_length = sum_list (map snd scenes)"

record demo_page =
  dm_elapsed :: rat
  dm_done :: bool
  dm_start :: rat

text \<open>A tick of the timer at a time in seconds; \<open>replay\<close> starts over.\<close>

definition demo_tick :: "rat \<Rightarrow> demo_page \<Rightarrow> demo_page" where
  "demo_tick now pg =
     (let e = now - dm_start pg
      in if demo_length \<le> e then pg\<lparr>dm_elapsed := demo_length, dm_done := True\<rparr> else pg\<lparr>dm_elapsed := e\<rparr>)"

definition demo_replay :: "rat \<Rightarrow> demo_page \<Rightarrow> demo_page" where
  "demo_replay now pg = pg\<lparr>dm_start := now, dm_elapsed := 0, dm_done := False\<rparr>"

text \<open>The loop over the scenes with what they add up to; after the last one the last stays.\<close>

fun scene_index :: "rat \<Rightarrow> rat \<Rightarrow> nat \<Rightarrow> rat list \<Rightarrow> nat" where
  "scene_index elapsed acc i [] = i - 1"
| "scene_index elapsed acc i (d # ds) = (if elapsed < acc + d then i else scene_index elapsed (acc + d) (Suc i) ds)"

definition active_scene :: "rat \<Rightarrow> nat" where
  "active_scene elapsed = scene_index elapsed 0 0 (map snd scenes)"

definition scene_elapsed :: "rat \<Rightarrow> rat" where
  "scene_elapsed elapsed =
     (let i = active_scene elapsed
      in min (elapsed - sum_list (map snd (take i scenes))) (snd (scenes ! i)))"

text \<open>The bars: full before the active scene, empty after it.\<close>

definition bar_width :: "rat \<Rightarrow> nat \<Rightarrow> rat" where
  "bar_width elapsed i =
     (let k = active_scene elapsed
      in if i < k then 100 else if i = k then scene_elapsed elapsed / snd (scenes ! i) * 100 else 0)"

text \<open>The demo plays through. As long as it runs its active scene exists and its bar is between empty and
  full, and together the bars show how much has passed: the seconds played in the scenes add up to the
  time elapsed.\<close>

theorem demo_plays_through:
  assumes "0 \<le> elapsed" "elapsed \<le> demo_length"
  shows "active_scene elapsed < length scenes \<and> 0 \<le> scene_elapsed elapsed
    \<and> scene_elapsed elapsed \<le> snd (scenes ! active_scene elapsed)
    \<and> (\<Sum>i < length scenes. bar_width elapsed i / 100 * snd (scenes ! i)) = elapsed"
proof -
  consider "elapsed < 11" | "11 \<le> elapsed" "elapsed < 37" | "37 \<le> elapsed" "elapsed < 65" | "65 \<le> elapsed" "elapsed < 95"
    | "95 \<le> elapsed" "elapsed < 131" | "131 \<le> elapsed" "elapsed \<le> 148"
    using assms(2) by (fastforce simp: demo_length_def scenes_def)
  then show ?thesis
    using assms(1)
    by cases (simp_all add: bar_width_def scene_elapsed_def active_scene_def scenes_def Let_def numeral_eq_Suc lessThan_Suc
        field_simps)
qed

theorem demo_plays_through_witness:
  "active_scene 40 = 2 \<and> scene_elapsed 40 = 3 \<and> (\<Sum>i < length scenes. bar_width 40 i / 100 * snd (scenes ! i)) = 40"
proof -
  have "(0 :: rat) \<le> 40" "40 \<le> demo_length" by (simp_all add: demo_length_def scenes_def)
  from demo_plays_through [OF this] show ?thesis
    by (simp add: active_scene_def scene_elapsed_def scenes_def Let_def numeral_eq_Suc)
qed

section \<open>Pages of the documentation\<close>

text \<open>The paths that \<open>app/docs\<close> has a \<open>page.tsx\<close> for.\<close>

definition doc_pages :: "string list" where
  "doc_pages =
     [''/docs'', ''/docs/api-keys'', ''/docs/api/agent'', ''/docs/api/authorize'', ''/docs/api/queue'',
      ''/docs/approvals'', ''/docs/audit-query'', ''/docs/audit-siem'', ''/docs/audit-trail'',
      ''/docs/behavioral-analytics'', ''/docs/cli-commands'', ''/docs/concepts/actions'', ''/docs/concepts/actors'',
      ''/docs/concepts/api'', ''/docs/concepts/architecture'', ''/docs/concepts/cli'', ''/docs/concepts/client'',
      ''/docs/concepts/decisions'', ''/docs/concepts/delegation'', ''/docs/concepts/policies'',
      ''/docs/concepts/resources'', ''/docs/concepts/skills'', ''/docs/confidence'', ''/docs/database'',
      ''/docs/databases'', ''/docs/databases/postgresql'', ''/docs/databases/redis'', ''/docs/docker'',
      ''/docs/guides/production'', ''/docs/guides/testing'', ''/docs/human-in-loop'', ''/docs/installation'',
      ''/docs/integrations/anthropic'', ''/docs/integrations/backend'', ''/docs/integrations/claude-code-plugin'',
      ''/docs/integrations/langchain'', ''/docs/integrations/langgraph'', ''/docs/integrations/mcp'',
      ''/docs/integrations/mobile'', ''/docs/integrations/nextjs'', ''/docs/integrations/openai'',
      ''/docs/integrations/python'', ''/docs/integrations/react'', ''/docs/integrations/strands'',
      ''/docs/integrations/typescript'', ''/docs/integrations/vercel-ai'', ''/docs/migrations'',
      ''/docs/multi-agent'', ''/docs/observability'', ''/docs/plugins/audit-plugin'',
      ''/docs/plugins/confidence-plugin'', ''/docs/plugins/rate-limit'', ''/docs/policies/rego'',
      ''/docs/policies/versioning'', ''/docs/predictive-analytics'', ''/docs/prompt-injection'',
      ''/docs/quickstart'', ''/docs/risk-assessment'', ''/docs/scaling'', ''/docs/slas'', ''/docs/sso'',
      ''/docs/workflow'']"

text \<open>No link of the sidebar is dead, none occurs twice, and a page belongs to at most one section.\<close>

theorem sidebar_links_lead_to_pages:
  "distinct (concat (map (\<lambda>s. map nl_href (ns_items s)) doc_sections))
   \<and> list_all (\<lambda>h. h \<in> set doc_pages) (concat (map (\<lambda>s. map nl_href (ns_items s)) doc_sections))"
  by code_simp

section \<open>The deployment about itself\<close>

text \<open>\<open>null\<close> and \<open>undefined\<close> members of the environment are \<open>None\<close>.\<close>

record config_env =
  ce_database :: "string option"
  ce_postgres :: "string option"
  ce_jwt :: "string option"
  ce_node :: "string option"
  ce_mail :: mail_env

definition config_vars :: "config_env \<Rightarrow> (string \<times> bool) list" where
  "config_vars ce =
     [(''DATABASE_URL'', truthy (either (ce_database ce) (ce_postgres ce))), (''JWT_SECRET'', truthy (ce_jwt ce)),
      (''RESEND_API_KEY'', truthy (me_resend_key (ce_mail ce)))]"

definition missing_vars :: "config_env \<Rightarrow> string list" where
  "missing_vars ce = map fst (filter (\<lambda>(k, v). \<not> v) (config_vars ce))"

definition config_check :: "config_env \<Rightarrow> reply" where
  "config_check ce = json_reply 200 (JObj
     [(''ok'', JBool (missing_vars ce = [])),
      (''vars'', JObj (map (\<lambda>(k, v). (k, JBool v)) (config_vars ce) @ [(''NODE_ENV'', JStr (nullish (ce_node ce) ''not set''))])),
      (''missing'', JArr (map JStr (missing_vars ce))),
      (''hint'', JStr (if missing_vars ce \<noteq> []
         then ''Set missing vars in Vercel -> Project Settings -> Environment Variables, then redeploy.''
         else ''All required env vars are present.''))])"

definition healthz :: reply where
  "healthz = json_reply 200 (JObj [(''status'', JStr ''ok''), (''service'', JStr ''lelu-ui'')])"

definition beta_usage :: reply where
  "beta_usage = error_reply 410
     ''This endpoint is no longer available. Sign in at lelu-ai.com and visit /api-key to manage your keys.''"

definition beta_generate :: reply where
  "beta_generate = error_reply 410
     ''Anonymous key generation is no longer available. Sign in at lelu-ai.com and visit /api-key to create a key.''"

text \<open>The configuration check and the mailer. The check calls a deployment complete exactly if the database, the
  session secret and the key of one mail provider are set. A complete one can send mail; one that sends its
  mail through SES or SMTP is called incomplete although registration and password reset work.\<close>

theorem config_check_wants_one_mailer:
  "(member ''ok'' (rp_body (config_check ce)) = Some (JBool True)
      \<longleftrightarrow> truthy (either (ce_database ce) (ce_postgres ce)) \<and> truthy (ce_jwt ce) \<and> truthy (me_resend_key (ce_mail ce)))
   \<and> (truthy (me_resend_key (ce_mail ce)) \<longrightarrow> email_configured (ce_mail ce))
   \<and> (\<not> truthy (me_resend_key (ce_mail ce)) \<longrightarrow> member ''ok'' (rp_body (config_check ce)) = Some (JBool False)
        \<and> (\<forall>number_of. ses_region (ce_mail ce) \<noteq> None \<longrightarrow> provider_of number_of (ce_mail ce) \<noteq> NoProvider))"
  by (auto simp: config_check_def json_reply_def member_def missing_vars_def config_vars_def email_configured_def provider_of_def)

definition ses_deployment :: config_env where
  "ses_deployment = \<lparr>ce_database = Some ''postgres://db'', ce_postgres = None, ce_jwt = Some ''s'', ce_node = None,
     ce_mail = \<lparr>me_ses_region = Some ''eu-west-1'', me_aws_region = None, me_resend_key = None, me_smtp_host = None,
       me_smtp_user = None, me_smtp_pass = None, me_smtp_port = None, me_smtp_from = None, me_ses_from = None,
       me_email_from = None, me_base_url = None\<rparr>\<rparr>"

theorem config_check_wants_one_mailer_witness:
  "member ''ok'' (rp_body (config_check ses_deployment)) = Some (JBool False) \<and> email_configured (ce_mail ses_deployment)
   \<and> provider_of (\<lambda>t. None) (ce_mail ses_deployment) \<noteq> NoProvider"
proof -
  have "\<not> truthy (me_resend_key (ce_mail ses_deployment))" "ses_region (ce_mail ses_deployment) \<noteq> None"
    by (simp_all add: ses_deployment_def truthy_def ses_region_def either_def)
  then show ?thesis using config_check_wants_one_mailer [of ses_deployment]
    by (simp add: ses_deployment_def email_configured_def truthy_def)
qed

end
