(* ===== verification/PolicySync.thy ===== *)
theory PolicySync
  imports Tenants Http PolicyText Jwt
begin

text \<open>
  The bridge between the platform's policies and the engine: \<open>platform/ui/lib/policy-sync.ts\<close> compiles
  the active rules of an account to the engine's YAML and replaces the engine's policy by it, guarded by
  the digest it has read before. The remote side is a function \<open>serve\<close> from a request and the state of
  the remote host to its answer and next state; the engine's own handlers (\<open>handlePolicyGet\<close> and
  \<open>handlePolicyPut\<close> of \<open>engine/internal/server/server.go\<close>) are the host the properties are about.
\<close>

section \<open>Compiling rules\<close>

text \<open>\<open>s.replace(/"/g, '\\"')\<close>: nothing but the quotes is escaped.\<close>

definition escape_quotes :: "string \<Rightarrow> string" where
  "escape_quotes s = concat (map (\<lambda>c. if c = CHR 0x22 then [CHR 0x5C, CHR 0x22] else [c]) s)"

text \<open>The lines of one rule. Reading \<open>replace\<close> of anything but a text throws (\<open>None\<close>), as does a rule
  that is \<open>null\<close>.\<close>

definition reason_of :: "jsnum json \<Rightarrow> string option" where
  "reason_of r = str_of (Some (nullish_json (member ''reason'' r) (JStr [])))"

definition compile_rule :: "(jsnum \<Rightarrow> string) \<Rightarrow> jsnum json \<Rightarrow> string list option" where
  "compile_rule num r =
     (case (str_of (member ''id'' r), str_of (member ''pattern'' r), reason_of r) of
        (Some i, Some p, Some reason) \<Rightarrow>
          Some ([''  - id: '' @ dq (escape_quotes i),
                 ''    match: '' @ dq (escape_quotes p),
                 ''    decision: '' @ js_string_opt num (member ''decision'' r)]
                @ (if escape_quotes reason = [] then [] else [''    reason: '' @ dq (escape_quotes reason)]))
      | _ \<Rightarrow> None)"

fun compile_rules :: "(jsnum \<Rightarrow> string) \<Rightarrow> jsnum json list \<Rightarrow> string list option" where
  "compile_rules num [] = Some []"
| "compile_rules num (r # rs) =
     (case (compile_rule num r, compile_rules num rs) of
        (Some ls, Some ms) \<Rightarrow> Some (ls @ ms)
      | _ \<Rightarrow> None)"

definition compile_to_engine_yaml :: "(jsnum \<Rightarrow> string) \<Rightarrow> jsnum json list \<Rightarrow> string option" where
  "compile_to_engine_yaml num rules =
     (case (if rules = [] then Some [''  []''] else compile_rules num rules) of
        None \<Rightarrow> None
      | Some ls \<Rightarrow> Some (join nl ([''version: '' @ dq ''1'', ''rules:''] @ ls) @ nl))"

definition active_rules :: "policy_row list \<Rightarrow> jsnum json list" where
  "active_rules ps = concat (map p_rules (filter p_active ps))"

section \<open>Pushing\<close>

record sync_request =
  sq_put :: bool
  sq_url :: string
  sq_headers :: "(string \<times> string) list"
  sq_body :: string

record sync_env =
  sy_url :: "string option"
  sy_admin_key :: "string option"
  sy_num :: "jsnum \<Rightarrow> string"
  sy_status_text :: "int \<Rightarrow> string"
  sy_fetch_error :: string

text \<open>\<open>SyncResult\<close>, or a rejected promise.\<close>

datatype sync_result =
    SyncOk "jsnum json"
  | SyncFailed string "int option"
  | SyncThrows

definition sync_url :: "sync_env \<Rightarrow> string" where
  "sync_url env = strip_slash (nullish (sy_url env) ''http://localhost:8080'')"

definition engine_headers :: "sync_env \<Rightarrow> (string \<times> string) list" where
  "engine_headers env =
     (if truthy (sy_admin_key env) then [(''Authorization'', ''Bearer '' @ the (sy_admin_key env))] else [])"

definition get_request :: "sync_env \<Rightarrow> sync_request" where
  "get_request env = \<lparr>sq_put = False, sq_url = sync_url env @ ''/v1/policy'', sq_headers = engine_headers env, sq_body = []\<rparr>"

definition put_request :: "sync_env \<Rightarrow> string \<Rightarrow> jsnum json \<Rightarrow> sync_request" where
  "put_request env yaml if_match =
     \<lparr>sq_put = True, sq_url = sync_url env @ ''/v1/policy'',
      sq_headers = (''Content-Type'', ''application/x-yaml'') # engine_headers env
        @ (if if_match \<noteq> JStr [] then [(''If-Match'', js_string (sy_num env) if_match)] else []),
      sq_body = yaml\<rparr>"

text \<open>\<open>body.digest ?? ""\<close> of a successful answer; \<open>None\<close> when there is none to read.\<close>

definition answered_digest :: "http_answer \<Rightarrow> jsnum json option" where
  "answered_digest a =
     (case a of
        NoAnswer \<Rightarrow> None
      | HttpAnswer status body \<Rightarrow>
          (if \<not> http_ok status then None
           else (case parse_json body of
                   None \<Rightarrow> None
                 | Some v \<Rightarrow> if v = JNull then None else Some (nullish_json (member ''digest'' v) (JStr [])))))"

text \<open>What \<open>doPut\<close> makes of an answer that it does not retry on.\<close>

definition put_result :: "sync_env \<Rightarrow> http_answer \<Rightarrow> sync_result" where
  "put_result env a =
     (case a of
        NoAnswer \<Rightarrow> SyncFailed (''Engine unreachable: '' @ sy_fetch_error env) None
      | HttpAnswer status body \<Rightarrow>
          (if \<not> http_ok status
           then SyncFailed (if body = [] then sy_status_text env status else body) (Some status)
           else (case answered_digest a of None \<Rightarrow> SyncThrows | Some d \<Rightarrow> SyncOk d)))"

definition conflict :: sync_result where
  "conflict = SyncFailed ''Policy digest conflict; retry failed'' (Some 412)"

definition is_conflict :: "http_answer \<Rightarrow> bool" where
  "is_conflict a = (case a of NoAnswer \<Rightarrow> False | HttpAnswer status body \<Rightarrow> status = 412)"

text \<open>\<open>doPut(yaml, ifMatch, retry)\<close>: the second call is the one with \<open>retry\<close> set.\<close>

definition do_put_retry ::
  "sync_env \<Rightarrow> (sync_request \<Rightarrow> 'e \<Rightarrow> http_answer \<times> 'e) \<Rightarrow> string \<Rightarrow> jsnum json \<Rightarrow> 'e \<Rightarrow> sync_result \<times> 'e" where
  "do_put_retry env serve yaml if_match e =
     (let (a, e1) = serve (put_request env yaml if_match) e in (put_result env a, e1))"

definition do_put ::
  "sync_env \<Rightarrow> (sync_request \<Rightarrow> 'e \<Rightarrow> http_answer \<times> 'e) \<Rightarrow> string \<Rightarrow> jsnum json \<Rightarrow> 'e \<Rightarrow> sync_result \<times> 'e" where
  "do_put env serve yaml if_match e =
     (let (a, e1) = serve (put_request env yaml if_match) e
      in if is_conflict a then
           (let (b, e2) = serve (get_request env) e1
            in case answered_digest b of
                 None \<Rightarrow> (conflict, e2)
               | Some d \<Rightarrow> do_put_retry env serve yaml d e2)
         else (put_result env a, e1))"

definition push_yaml ::
  "sync_env \<Rightarrow> (sync_request \<Rightarrow> 'e \<Rightarrow> http_answer \<times> 'e) \<Rightarrow> string \<Rightarrow> 'e \<Rightarrow> sync_result \<times> 'e" where
  "push_yaml env serve yaml e =
     (let (a, e1) = serve (get_request env) e
      in do_put env serve yaml (nullish (answered_digest a) (JStr [])) e1)"

text \<open>\<open>pushPolicyToEngine(userId)\<close>, over the database and the remote host.\<close>

definition push_policy_to_engine ::
  "sync_env \<Rightarrow> (sync_request \<Rightarrow> 'e \<Rightarrow> http_answer \<times> 'e) \<Rightarrow> string \<Rightarrow> db \<times> 'e \<Rightarrow> sync_result \<times> (db \<times> 'e)" where
  "push_policy_to_engine env serve uid = (\<lambda>(s, e).
     if sync_url env = [] then (SyncFailed ''ENGINE_URL not configured'' None, (s, e))
     else
       (case list_policies uid s of
          (Inl _, s1) \<Rightarrow> (SyncThrows, (s1, e))
        | (Inr policies, s1) \<Rightarrow>
            (case compile_to_engine_yaml (sy_num env) (active_rules policies) of
               None \<Rightarrow> (SyncThrows, (s1, e))
             | Some yaml \<Rightarrow> (let (r, e1) = push_yaml env serve yaml e in (r, (s1, e1))))))"

section \<open>The engine's policy endpoint\<close>

text \<open>The part of the handler's state the endpoint uses: the bytes that were loaded last, where a policy
  is persisted, and whose \<open>Authorization\<close> header is the operator's admin key.\<close>

datatype policy_store = NoStore | ReadOnly | Failing | Writable

record engine_host =
  eh_text :: "string option"
  eh_store :: policy_store
  eh_admin :: "string option \<Rightarrow> bool"

text \<open>\<open>digest\<close> is SHA-256 in hexadecimal, \<open>loads\<close> the parser's error message for bytes that are no
  policy. Other members of the two answers (path, source, previous digest, time) are not read by the
  client and left out. A body is read up to its first mebibyte. Requests are taken one after the other:
  the handler compares the digests before it takes its lock.\<close>

definition host_digest :: "(string \<Rightarrow> string) \<Rightarrow> engine_host \<Rightarrow> string" where
  "host_digest digest h = (case eh_text h of None \<Rightarrow> [] | Some t \<Rightarrow> digest t)"

definition host_answer :: "int \<Rightarrow> (string \<times> int json) list \<Rightarrow> http_answer" where
  "host_answer status kvs = HttpAnswer status (stringify (JObj kvs))"

definition host_error :: "int \<Rightarrow> string \<Rightarrow> http_answer" where
  "host_error status msg = host_answer status [(''error'', JStr msg)]"

definition handle_policy_get :: "(string \<Rightarrow> string) \<Rightarrow> engine_host \<Rightarrow> http_answer" where
  "handle_policy_get digest h = host_answer 200 [(''digest'', JStr (host_digest digest h))]"

definition read_limit :: nat where
  "read_limit = 1024 * 1024"

definition handle_policy_put ::
  "(string \<Rightarrow> string) \<Rightarrow> (string \<Rightarrow> string option) \<Rightarrow> sync_request \<Rightarrow> engine_host \<Rightarrow> http_answer \<times> engine_host" where
  "handle_policy_put digest loads q h =
     (let if_match = map_of (sq_headers q) ''If-Match''; body = take read_limit (utf8 (sq_body q))
      in if \<not> eh_admin h (map_of (sq_headers q) ''Authorization'')
         then (host_error 403 ''policy mutation requires the admin API key'', h)
         else if truthy if_match \<and> if_match \<noteq> Some (host_digest digest h)
         then (host_error 412 ''policy changed since last read; GET /v1/policy for the current digest and retry'', h)
         else (case loads body of
                 Some err \<Rightarrow> (host_error 400 err, h)
               | None \<Rightarrow>
                   (if eh_store h = ReadOnly
                    then (host_error 501 (''policy updates are disabled in this deployment: the policy directory is mounted read-only. ''
                            @ ''Mount it writable, or manage policy through your deployment pipeline.''), h)
                    else if eh_store h = Failing then (host_error 507 ''persist failed; policy unchanged'', h)
                    else (host_answer 200 [(''digest'', JStr (digest body))], h\<lparr>eh_text := Some body\<rparr>))))"

definition engine_serve ::
  "(string \<Rightarrow> string) \<Rightarrow> (string \<Rightarrow> string option) \<Rightarrow> sync_request \<Rightarrow> engine_host \<Rightarrow> http_answer \<times> engine_host" where
  "engine_serve digest loads q h =
     (if sq_put q then handle_policy_put digest loads q h else (handle_policy_get digest h, h))"

section \<open>Reading the engine's answers\<close>

lemma answered_digest_host:
  "http_ok status \<Longrightarrow> answered_digest (host_answer status [(''digest'', JStr d)]) = Some (JStr d)"
  using parse_stringify [of "JObj [(''digest'', JStr d)]"]
  by (simp add: answered_digest_def host_answer_def nullish_json_def member_def)

lemma answered_digest_get: "answered_digest (handle_policy_get digest h) = Some (JStr (host_digest digest h))"
  by (simp add: handle_policy_get_def answered_digest_host http_ok_def)

text \<open>A host that accepts what the platform sends.\<close>

definition accepts :: "sync_env \<Rightarrow> (string \<Rightarrow> string option) \<Rightarrow> string \<Rightarrow> engine_host \<Rightarrow> bool" where
  "accepts env loads yaml h =
     (eh_admin h (map_of (engine_headers env) ''Authorization'') \<and> eh_store h \<in> {NoStore, Writable}
      \<and> length (utf8 yaml) \<le> read_limit \<and> loads (utf8 yaml) = None)"

lemma accepts_text [simp]: "accepts env loads yaml (h\<lparr>eh_text := t\<rparr>) = accepts env loads yaml h"
  by (simp add: accepts_def)

lemma put_request_headers:
  "map_of (sq_headers (put_request env yaml (JStr d))) ''Authorization'' = map_of (engine_headers env) ''Authorization''"
  "map_of (sq_headers (put_request env yaml (JStr d))) ''If-Match'' = (if d = [] then None else Some d)"
  by (auto simp: put_request_def engine_headers_def)

lemma put_accepted:
  assumes "accepts env loads yaml h"
  shows "engine_serve digest loads (put_request env yaml (JStr d)) h
    = (if d = [] \<or> d = host_digest digest h
       then (host_answer 200 [(''digest'', JStr (digest (utf8 yaml)))], h\<lparr>eh_text := Some (utf8 yaml)\<rparr>)
       else (host_error 412 ''policy changed since last read; GET /v1/policy for the current digest and retry'', h))"
proof -
  have b: "sq_put (put_request env yaml (JStr d))" "sq_body (put_request env yaml (JStr d)) = yaml"
    by (simp_all add: put_request_def)
  show ?thesis
    using assms by (auto simp: engine_serve_def handle_policy_put_def b put_request_headers accepts_def truthy_def Let_def)
qed

lemma get_served: "engine_serve digest loads (get_request env) h = (handle_policy_get digest h, h)"
  by (simp add: engine_serve_def get_request_def)

lemma put_result_host: "put_result env (host_answer 200 [(''digest'', JStr d)]) = SyncOk (JStr d)"
  using answered_digest_host [of 200 d] by (simp add: put_result_def host_answer_def http_ok_def)

lemma conflict_host: "is_conflict (host_error 412 m)" "\<not> is_conflict (host_answer 200 kvs)"
  by (simp_all add: is_conflict_def host_error_def host_answer_def)

text \<open>Between two requests of the platform others may change the host.\<close>

definition disturbed ::
  "(sync_request \<Rightarrow> 'h \<Rightarrow> http_answer \<times> 'h) \<Rightarrow> sync_request \<Rightarrow> ('h \<Rightarrow> 'h) list \<times> 'h \<Rightarrow> http_answer \<times> (('h \<Rightarrow> 'h) list \<times> 'h)" where
  "disturbed serve q = (\<lambda>(fs, h).
     (case fs of
        [] \<Rightarrow> (let (a, h1) = serve q h in (a, ([], h1)))
      | f # gs \<Rightarrow> (let (a, h1) = serve q (f h) in (a, (gs, h1)))))"

lemma disturbed_simps [simp]:
  "disturbed serve q ([], h) = (fst (serve q h), ([], snd (serve q h)))"
  "disturbed serve q (f # gs, h) = (fst (serve q (f h)), (gs, snd (serve q (f h))))"
  by (simp_all add: disturbed_def split_beta)

text \<open>Another writer's update of the loaded policy.\<close>

definition rewrite :: "string option \<Rightarrow> engine_host \<Rightarrow> engine_host" where
  "rewrite t h = h\<lparr>eh_text := t\<rparr>"

lemma accepts_rewrite [simp]: "accepts env loads yaml (rewrite t h) = accepts env loads yaml h"
  by (simp add: rewrite_def)

section \<open>A push as a whole\<close>

definition policies_of :: "string \<Rightarrow> db \<Rightarrow> policy_row list" where
  "policies_of uid s = newest_first p_created (filter (\<lambda>p. p_user p = uid) (t_policies s))"

lemma list_policies_quiet: "faults s = [] \<Longrightarrow> list_policies uid s = (Inr (policies_of uid s), s)"
  by (simp add: list_policies_def quiet_simps policies_of_def)

text \<open>Serving requests leaves the configuration of the host alone.\<close>

definition same_host :: "engine_host \<Rightarrow> engine_host \<Rightarrow> bool" where
  "same_host h h' = (\<exists>t. h' = h\<lparr>eh_text := t\<rparr>)"

lemma same_host_refl: "same_host h h"
  unfolding same_host_def by (rule exI [of _ "eh_text h"]) simp

lemma same_host_trans: "same_host a b \<Longrightarrow> same_host b c \<Longrightarrow> same_host a c"
  by (auto simp: same_host_def)

lemma same_host_accepts: "same_host h h' \<Longrightarrow> accepts env loads yaml h' = accepts env loads yaml h"
  by (auto simp: same_host_def)

lemma serve_same_host: "same_host h (snd (engine_serve digest loads q h))"
proof -
  have "same_host h (h\<lparr>eh_text := t\<rparr>)" for t by (auto simp: same_host_def)
  then show ?thesis
    by (auto simp: engine_serve_def handle_policy_put_def Let_def same_host_refl split: option.splits)
qed

lemma push_yaml_same_host: "same_host h (snd (push_yaml env (engine_serve digest loads) yaml h))"
  by (auto simp: push_yaml_def do_put_def do_put_retry_def Let_def split_beta get_served
      intro: serve_same_host same_host_trans [OF serve_same_host serve_same_host] split: option.splits)

lemma push_same_host:
  assumes "push_policy_to_engine env (engine_serve digest loads) uid (s, h) = (r, (s', h'))"
  shows "same_host h h'" "t_policies s' = t_policies s" "faults s = [] \<Longrightarrow> s' = s"
proof -
  obtain x s1 where l: "list_policies uid s = (x, s1)" by force
  have t: "t_policies s1 = t_policies s"
    using l by (auto simp: list_policies_def ensure_schema_def andthen_apply split: prod.splits sum.splits
        dest!: query_cases select_cases)
  have q: "s1 = s" if "faults s = []" using l list_policies_quiet [OF that] by simp
  have "same_host h h' \<and> (s' = s \<or> s' = s1)"
    using assms push_yaml_same_host l
    by (auto simp: push_policy_to_engine_def same_host_refl split_beta Let_def split: if_splits sum.splits option.splits)
  then show "same_host h h'" "t_policies s' = t_policies s" "faults s = [] \<Longrightarrow> s' = s" using t q by auto
qed

lemma push_accepted:
  assumes "faults s = []" "sync_url env \<noteq> []" "accepts env loads yaml h"
    "compile_to_engine_yaml (sy_num env) (active_rules (policies_of uid s)) = Some yaml"
  shows "push_policy_to_engine env (engine_serve digest loads) uid (s, h)
    = (SyncOk (JStr (digest (utf8 yaml))), (s, h\<lparr>eh_text := Some (utf8 yaml)\<rparr>))"
  using assms
  by (auto simp: push_policy_to_engine_def list_policies_quiet push_yaml_def do_put_def get_served answered_digest_get
      put_accepted nullish_def put_result_host conflict_host Let_def)

fun push_all ::
  "sync_env \<Rightarrow> (sync_request \<Rightarrow> 'e \<Rightarrow> http_answer \<times> 'e) \<Rightarrow> string list \<Rightarrow> db \<times> 'e \<Rightarrow> db \<times> 'e" where
  "push_all env serve [] st = st"
| "push_all env serve (uid # uids) st = push_all env serve uids (snd (push_policy_to_engine env serve uid st))"

lemma push_all_snoc:
  "push_all env serve (uids @ [uid]) st = snd (push_policy_to_engine env serve uid (push_all env serve uids st))"
  by (induction uids arbitrary: st) simp_all

lemma push_all_quiet:
  "faults s = [] \<Longrightarrow> \<exists>h'. push_all env (engine_serve digest loads) uids (s, h) = (s, h') \<and> same_host h h'"
proof (induction uids arbitrary: h)
  case Nil
  then show ?case by (simp add: same_host_refl)
next
  case (Cons uid uids)
  obtain r s1 h1 where p: "push_policy_to_engine env (engine_serve digest loads) uid (s, h) = (r, (s1, h1))"
    by (metis prod.exhaust)
  then have "s1 = s" "same_host h h1" using push_same_host [OF p] Cons.prems by auto
  with Cons p show ?case by (fastforce intro: same_host_trans)
qed

section \<open>What is compiled\<close>

text \<open>A rule as the dashboard stores it, for texts that need no escaping in a YAML string.\<close>

definition rule_doc :: "pattern_rule \<Rightarrow> jsnum json" where
  "rule_doc r = JObj [(''id'', JStr (rule_id r)), (''pattern'', JStr (rule_match r)),
     (''decision'', JStr (rule_decision r)), (''reason'', JStr (rule_reason r))]"

definition plain_text :: "string \<Rightarrow> bool" where
  "plain_text t = (CHR 0x22 \<notin> set t \<and> CHR 0x5C \<notin> set t \<and> CHR 10 \<notin> set t)"

definition dashboard_rule :: "pattern_rule \<Rightarrow> bool" where
  "dashboard_rule r =
     (r = rule (rule_id r) (rule_match r) (rule_decision r) (rule_reason r)
      \<and> plain_text (rule_id r) \<and> plain_text (rule_match r) \<and> plain_text (rule_decision r) \<and> plain_text (rule_reason r))"

lemma escape_plain: "plain_text t \<Longrightarrow> escape_quotes t = t"
  by (induction t) (auto simp: escape_quotes_def plain_text_def)

definition quoted_id :: "pattern_rule \<Rightarrow> pattern_rule" where
  "quoted_id r = r\<lparr>rule_id := dq (rule_id r)\<rparr>"

definition unquoted_id :: "pattern_rule \<Rightarrow> pattern_rule" where
  "unquoted_id r = r\<lparr>rule_id := unquote (rule_id r)\<rparr>"

lemma unquoted_quoted: "unquoted_id (quoted_id r) = r"
  by (simp add: unquoted_id_def quoted_id_def)

lemma compile_rule_plain:
  assumes "dashboard_rule r"
  shows "\<exists>ls. compile_rule num (rule_doc r) = Some ls \<and> unlines ls = rule_text (quoted_id r)"
  using assms
  by (auto simp: compile_rule_def rule_doc_def member_def reason_of_def nullish_json_def dashboard_rule_def escape_plain
      js_string_opt_def unlines_def rule_text_def quoted_id_def)

lemma compile_rules_plain:
  assumes "list_all dashboard_rule rs"
  shows "\<exists>ls. compile_rules num (map rule_doc rs) = Some ls \<and> unlines ls = rules_text (map quoted_id rs)"
  using assms
proof (induction rs)
  case Nil
  then show ?case by (simp add: unlines_def rules_text_def)
next
  case (Cons r rs)
  then obtain ms where ms: "compile_rules num (map rule_doc rs) = Some ms" "unlines ms = rules_text (map quoted_id rs)"
    by auto
  obtain ls where "compile_rule num (rule_doc r) = Some ls" "unlines ls = rule_text (quoted_id r)"
    using compile_rule_plain Cons.prems by fastforce
  with ms show ?case by (simp add: unlines_def rules_text_def)
qed

lemma join_unlines: "ls \<noteq> [] \<Longrightarrow> join nl ls @ nl = unlines ls"
  by (induction nl ls rule: join.induct) (simp_all add: unlines_def)

lemma plain_quoted:
  assumes "list_all dashboard_rule rs"
  shows "plain_rules (map quoted_id rs)"
proof -
  have "plain_rules [quoted_id r]" if d: "dashboard_rule r" for r
  proof -
    obtain i m dec reason where r: "r = rule i m dec reason" using d by (auto simp: dashboard_rule_def)
    show ?thesis using d unfolding r
      by (simp add: plain_rules_def dashboard_rule_def quoted_id_def rule_def plain_text_def one_line_def dq_def)
  qed
  then show ?thesis using assms by (auto simp: plain_rules_def list_all_iff)
qed

section \<open>An example\<close>

definition deny_rule :: "string \<Rightarrow> pattern_rule" where
  "deny_rule pat = rule pat pat ''deny'' []"

definition deny_policy :: "string \<Rightarrow> string \<Rightarrow> policy_row" where
  "deny_policy uid pat = \<lparr>p_id = uid, p_user = uid, p_name = ''p'', p_description = [], p_rules = [rule_doc (deny_rule pat)],
     p_active = True, p_created = 0, p_updated = 0\<rparr>"

definition two_accounts :: db where
  "two_accounts = demo_db\<lparr>t_policies := [deny_policy ''u1'' ''delete'', deny_policy ''u2'' ''pay'']\<rparr>"

definition demo_sync :: sync_env where
  "demo_sync = \<lparr>sy_url = None, sy_admin_key = Some ''adm'', sy_num = (\<lambda>_. []), sy_status_text = (\<lambda>_. []), sy_fetch_error = []\<rparr>"

definition demo_host :: engine_host where
  "demo_host = \<lparr>eh_text = None, eh_store = Writable, eh_admin = (\<lambda>a. a = Some ''Bearer adm'')\<rparr>"

definition deny_yaml :: "string \<Rightarrow> string" where
  "deny_yaml pat = ''version: '' @ dq ''1'' @ nl @ ''rules:'' @ nl @ ''  - id: '' @ dq pat @ nl @ ''    match: '' @ dq pat @ nl
     @ ''    decision: deny'' @ nl"

lemma demo_compiled:
  "compile_to_engine_yaml (sy_num demo_sync) (active_rules (policies_of ''u1'' two_accounts)) = Some (deny_yaml ''delete'')"
  "compile_to_engine_yaml (sy_num demo_sync) (active_rules (policies_of ''u2'' two_accounts)) = Some (deny_yaml ''pay'')"
  by (simp_all add: compile_to_engine_yaml_def active_rules_def policies_of_def two_accounts_def deny_policy_def
      newest_first_def compile_rule_def rule_doc_def deny_rule_def rule_def member_def reason_of_def nullish_json_def
      escape_quotes_def js_string_opt_def deny_yaml_def)

lemma demo_accepts:
  "accepts demo_sync (\<lambda>_. None) (deny_yaml ''delete'') demo_host" "accepts demo_sync (\<lambda>_. None) (deny_yaml ''pay'') demo_host"
proof -
  have "length (utf8 (deny_yaml ''delete'')) \<le> 200" "length (utf8 (deny_yaml ''pay'')) \<le> 200" by code_simp+
  then show "accepts demo_sync (\<lambda>_. None) (deny_yaml ''delete'') demo_host" "accepts demo_sync (\<lambda>_. None) (deny_yaml ''pay'') demo_host"
    by (simp_all add: accepts_def demo_sync_def demo_host_def engine_headers_def truthy_def read_limit_def)
qed

lemma demo_url: "faults two_accounts = []" "sync_url demo_sync \<noteq> []"
  by (simp add: two_accounts_def demo_db_def) code_simp

section \<open>Properties\<close>



text \<open>C20: The engine only ever holds the rules of the account that synced last. However many accounts
  synced before, with whatever outcome, after a successful sync of an account the loaded policy is the
  compilation of that account's active rules alone; the rules of every other account are gone.\<close>

theorem last_sync_replaces_all_rules:
  assumes "faults s = []" "sync_url env \<noteq> []" "accepts env loads yaml h"
    "compile_to_engine_yaml (sy_num env) (active_rules (policies_of uid s)) = Some yaml"
  shows "eh_text (snd (push_all env (engine_serve digest loads) (earlier @ [uid]) (s, h))) = Some (utf8 yaml)"
proof -
  obtain h' where h': "push_all env (engine_serve digest loads) earlier (s, h) = (s, h')" "same_host h h'"
    using push_all_quiet [OF assms(1)] by blast
  then have "accepts env loads yaml h'" using assms(3) same_host_accepts by blast
  then show ?thesis using push_accepted [OF assms(1,2) _ assms(4)] h' by (simp add: push_all_snoc)
qed

theorem last_sync_replaces_all_rules_witness:
  "eh_text (snd (push_all demo_sync (engine_serve id (\<lambda>_. None)) [''u1'', ''u2''] (two_accounts, demo_host)))
     = Some (utf8 (deny_yaml ''pay''))"
  using last_sync_replaces_all_rules [OF demo_url demo_accepts(2) demo_compiled(2), of id "[''u1'']"] by simp



text \<open>A pattern of the dashboard is not a pattern of the engine. Where \<open>policies.ts\<close> documents and
  implements a substring test, a pushed rule whose pattern has no star applies in the engine to the
  action of exactly that name: for any other tool whose name contains the pattern, the platform's own
  evaluation gives the verdict of the rule, and the engine's rules give none.\<close>

theorem pushed_pattern_misses_substrings:
  assumes "CHR ''*'' \<notin> set (rule_match r)" "contains (to_lower (rule_match r)) (to_lower tool)" "tool \<noteq> rule_match r"
    and substring: "\<forall>t. regex (Some (JStr (rule_match r))) t = Some (contains (to_lower (rule_match r)) (to_lower t))"
    and "p_rules p = [rule_doc r]"
  shows "map_option pv_decision (evaluate_with_policies regex num tool [p]) = Some (Some (JStr (rule_decision r)))
    \<and> evaluate_rules [r] (actor, tool) = None"
  using assms
  by (auto simp: evaluate_with_policies_def stored_test_def rule_doc_def member_def stored_verdict_def match_action_def)


theorem pushed_pattern_misses_substrings_witness:
  "map_option pv_decision (evaluate_with_policies
       (\<lambda>v t. case v of Some (JStr p) \<Rightarrow> Some (contains (to_lower p) (to_lower t)) | _ \<Rightarrow> None) (\<lambda>_. [])
       ''delete_user'' [deny_policy ''u1'' ''delete'']) = Some (Some (JStr (rule_decision (deny_rule ''delete''))))
    \<and> evaluate_rules [deny_rule ''delete''] (''agent'', ''delete_user'') = None"
proof (rule pushed_pattern_misses_substrings)
  show "contains (to_lower (rule_match (deny_rule ''delete''))) (to_lower ''delete_user'')" by code_simp
qed (simp_all add: deny_rule_def rule_def deny_policy_def)
end
