(* ===== verification/ManageRoutes.thy ===== *)
theory ManageRoutes
  imports AuthRoutes PolicySync
begin

text \<open>
  The platform's management routes: API keys (\<open>v1/keys\<close>, \<open>v1/keys/verify\<close>, \<open>dashboard/keys\<close>), the audit
  log (\<open>v1/audit\<close>), the usage of the month (\<open>dashboard/usage\<close>), agents (\<open>agents\<close>) and policies
  (\<open>policies\<close>), all under \<open>platform/ui/app/api\<close>. A route is a program over the database; an error that
  leaves it is the framework's own 500. The policy routes also say whose policies are pushed to the
  engine once they have answered.
\<close>

record manage =
  mg_platform :: platform_env
  mg_stamp :: "int \<Rightarrow> string"
  mg_num :: "jsnum \<Rightarrow> string"
  mg_month :: int
  mg_reset :: string

definition unauthorized :: reply where
  "unauthorized = error_reply 401 ''Unauthorized''"

definition jstamp :: "manage \<Rightarrow> int option \<Rightarrow> jsnum json" where
  "jstamp mg t = jopt (map_option (mg_stamp mg) t)"

text \<open>A handler whose body catches every error.\<close>

definition guarded :: "string \<Rightarrow> reply app \<Rightarrow> reply app" where
  "guarded msg m = try_catch m (\<lambda>_. ret (error_reply 500 msg))"

section \<open>API keys\<close>

record key_draws =
  kd_id :: string
  kd_prefix :: string
  kd_secret :: string

definition key_json :: "manage \<Rightarrow> key_row \<Rightarrow> jsnum json" where
  "key_json mg k = JObj [(''id'', JStr (k_id k)), (''userId'', JStr (k_user k)), (''name'', JStr (k_name k)),
     (''keyPrefix'', JStr (k_prefix k)), (''createdAt'', JStr (mg_stamp mg (k_created k))),
     (''lastUsedAt'', jstamp mg (k_last_used k)), (''expiresAt'', jstamp mg (k_expires k)),
     (''revoked'', JBool (k_revoked k)), (''revokedAt'', jstamp mg (k_revoked_at k))]"

definition keys_reply :: "manage \<Rightarrow> string \<Rightarrow> reply app" where
  "keys_reply mg uid = guarded ''Failed to fetch keys''
     (andthen (list_api_keys uid) (\<lambda>ks. ret (json_reply 200 (JObj [(''keys'', JArr (map (key_json mg) ks))]))))"

definition new_key_reply :: "manage \<Rightarrow> key_draws \<Rightarrow> string \<Rightarrow> string \<Rightarrow> rat option \<Rightarrow> reply app" where
  "new_key_reply mg kd uid name days = guarded ''Failed to create key''
     (andthen (create_api_key (pe_sha256 (mg_platform mg)) (pe_now (mg_platform mg)) (kd_id kd) (kd_prefix kd) (kd_secret kd)
                uid name days) (\<lambda>(row, full).
      ret (json_reply 201 (JObj [(''key'', key_json mg row), (''fullKey'', JStr full)]))))"

text \<open>The checks on \<open>name\<close> that the two creating routes share.\<close>

definition checked_name :: "string \<Rightarrow> nat \<Rightarrow> string \<Rightarrow> jsnum json \<Rightarrow> reply + string" where
  "checked_name missing limit too_long body =
     (case body_str ''name'' body of
        None \<Rightarrow> Inl (error_reply 400 missing)
      | Some name \<Rightarrow>
          (if trim name = [] then Inl (error_reply 400 missing)
           else if limit < length name then Inl (error_reply 400 too_long)
           else Inr (trim name)))"

definition key_name :: "jsnum json \<Rightarrow> reply + string" where
  "key_name = checked_name ''Key name is required'' 64 ''Key name must be 64 characters or less''"

text \<open>\<open>expiresInDays\<close>: absent, or a positive finite number.\<close>

definition expires_in :: "jsnum json \<Rightarrow> rat option option" where
  "expires_in body =
     (case member ''expiresInDays'' body of
        None \<Rightarrow> Some None
      | Some (JNum (Fin r)) \<Rightarrow> if 0 < r then Some (Some r) else None
      | Some _ \<Rightarrow> None)"

definition v1_keys_get :: "manage \<Rightarrow> request \<Rightarrow> reply app" where
  "v1_keys_get mg rq =
     andthen (resolve_user_id (mg_platform mg) rq) (\<lambda>who.
     if \<not> truthy who then ret unauthorized else keys_reply mg (the who))"

definition v1_keys_post :: "manage \<Rightarrow> key_draws \<Rightarrow> request \<Rightarrow> reply app" where
  "v1_keys_post mg kd rq =
     andthen (resolve_user_id (mg_platform mg) rq) (\<lambda>who.
     if \<not> truthy who then ret unauthorized
     else (case parsed_body rq of
             None \<Rightarrow> ret (error_reply 400 ''Invalid request body'')
           | Some body \<Rightarrow>
               (case key_name body of
                  Inl refusal \<Rightarrow> ret refusal
                | Inr name \<Rightarrow>
                    (case expires_in body of
                       None \<Rightarrow> ret (error_reply 400 ''expiresInDays must be a positive number'')
                     | Some days \<Rightarrow> new_key_reply mg kd (the who) name days))))"

definition invalid_key_reply :: reply where
  "invalid_key_reply = json_reply 200 (JObj [(''valid'', JBool False)])"

definition v1_keys_verify :: "manage \<Rightarrow> request \<Rightarrow> reply app" where
  "v1_keys_verify mg rq =
     (case parsed_body rq of
        None \<Rightarrow> ret (error_reply 400 ''Invalid request body'')
      | Some body \<Rightarrow>
          (case body_str ''key'' body of
             None \<Rightarrow> ret invalid_key_reply
           | Some key \<Rightarrow>
               (if \<not> starts_with ''lelu_sk_'' key then ret invalid_key_reply
                else guarded ''Verification failed''
                  (andthen (validate_api_key (pe_sha256 (mg_platform mg)) (pe_now (mg_platform mg)) key) (\<lambda>r.
                   ret (case r of
                          None \<Rightarrow> invalid_key_reply
                        | Some (uid, kid) \<Rightarrow>
                            json_reply 200 (JObj [(''valid'', JBool True), (''userId'', JStr uid), (''keyId'', JStr kid)])))))))"

definition dashboard_keys_get :: "manage \<Rightarrow> request \<Rightarrow> reply app" where
  "dashboard_keys_get mg rq =
     (case session_user (mg_platform mg) rq of None \<Rightarrow> ret unauthorized | Some uid \<Rightarrow> keys_reply mg uid)"

definition dashboard_keys_post :: "manage \<Rightarrow> key_draws \<Rightarrow> request \<Rightarrow> reply app" where
  "dashboard_keys_post mg kd rq =
     (case session_user (mg_platform mg) rq of
        None \<Rightarrow> ret unauthorized
      | Some uid \<Rightarrow>
          (case parsed_body rq of
             None \<Rightarrow> ret (error_reply 400 ''Invalid request body'')
           | Some body \<Rightarrow>
               (case key_name body of Inl refusal \<Rightarrow> ret refusal | Inr name \<Rightarrow> new_key_reply mg kd uid name None)))"

definition dashboard_keys_delete :: "manage \<Rightarrow> string \<Rightarrow> request \<Rightarrow> reply app" where
  "dashboard_keys_delete mg i rq =
     (case session_user (mg_platform mg) rq of
        None \<Rightarrow> ret unauthorized
      | Some uid \<Rightarrow>
          (if i = [] then ret (error_reply 400 ''Key ID is required'')
           else guarded ''Failed to revoke key''
             (andthen (revoke_api_key (pe_now (mg_platform mg)) i uid) (\<lambda>_.
              ret (json_reply 200 (JObj [(''ok'', JBool True)]))))))"

section \<open>Audit log and usage\<close>

definition audit_json :: "manage \<Rightarrow> audit_row \<Rightarrow> jsnum json" where
  "audit_json mg a = JObj [(''id'', jint (int (a_id a))), (''trace_id'', JStr (a_trace a)), (''user_id'', jopt (a_user a)),
     (''key_id'', jopt (a_key a)), (''actor'', JStr (a_actor a)), (''action'', JStr (a_action a)),
     (''decision'', JStr (a_decision a)), (''reason'', JStr (a_reason a)), (''rule'', JStr (a_rule a)),
     (''policy_name'', jopt (a_policy a)), (''confidence'', JNum (num_of_rat (a_confidence a))),
     (''latency_ms'', jint (a_latency a)), (''mode'', JStr (a_mode a)), (''input_hash'', jopt (a_input_hash a)),
     (''output_hash'', jopt (a_output_hash a)), (''policy_digest'', jopt (a_digest a)),
     (''created_at'', JStr (mg_stamp mg (a_created a)))]"

text \<open>\<open>parseInt(s, 10)\<close>: leading white space, a sign, the digits that follow; \<open>None\<close> is \<open>NaN\<close>.\<close>

definition parse_int :: "string \<Rightarrow> int option" where
  "parse_int s =
     (let t = trim_start s;
          (sgn, u) = (case t of c # r \<Rightarrow> if c = CHR ''-'' then (-1, r) else if c = CHR ''+'' then (1, r) else (1, t) | [] \<Rightarrow> (1, []));
          ds = takeWhile is_digit u
      in if ds = [] then None else Some (sgn * int (read_digits 0 ds)))"

definition audit_page :: "manage \<Rightarrow> int \<Rightarrow> audit_row list \<Rightarrow> jsnum json" where
  "audit_page mg limit es = JObj
     [(''events'', JArr (map (audit_json mg) es)), (''count'', jint (int (length es))), (''limit'', jint limit),
      (''cursor'', jint 0),
      (''next_cursor'', if int (length es) = limit then (if es = [] then jint 0 else jint (int (a_id (last es)))) else jint 0)]"

definition list_for :: "manage \<Rightarrow> query_params \<Rightarrow> string option \<Rightarrow> reply app" where
  "list_for mg q who = guarded ''Failed to fetch audit events.''
     (case parse_int (nullish (map_of q ''limit'') ''20'') of
        None \<Rightarrow> andthen ensure_schema (\<lambda>_. andthen query (\<lambda>_. throw DbError))
      | Some n \<Rightarrow>
          (let limit = min n 500
           in andthen (list_audit_events \<lparr>af_user = who, af_actor = map_of q ''actor'', af_action = map_of q ''action'',
                        af_decision = map_of q ''decision'', af_limit = Some limit\<rparr>) (\<lambda>es.
              ret (json_reply 200 (audit_page mg limit es)))))"

definition v1_audit_get :: "manage \<Rightarrow> query_params \<Rightarrow> request \<Rightarrow> reply app" where
  "v1_audit_get mg q rq =
     (case bearer rq of
        None \<Rightarrow> ret (error_reply 401 ''Missing or invalid Authorization header. Use: Bearer <api_key>'')
      | Some key \<Rightarrow>
          (if starts_with ''lelu_sk_sandbox_'' key then list_for mg q None
           else
             andthen (validate_api_key (pe_sha256 (mg_platform mg)) (pe_now (mg_platform mg)) key) (\<lambda>r.
               case r of
                 None \<Rightarrow> ret (error_reply 401 ''Invalid or revoked API key.'')
               | Some (uid, kid) \<Rightarrow> list_for mg q (Some uid))))"

definition dashboard_usage :: "manage \<Rightarrow> request \<Rightarrow> reply app" where
  "dashboard_usage mg rq =
     (case session_user (mg_platform mg) rq of
        None \<Rightarrow> ret unauthorized
      | Some uid \<Rightarrow> guarded ''Failed to fetch usage stats''
          (andthen (check_quota (mg_month mg) uid) (\<lambda>q.
           ret (json_reply 200 (JObj [(''plan'', JStr (q_plan q)), (''authRequests'', jint (int (q_used q))),
             (''authQuota'', jint (int (q_limit q))), (''resetDate'', JStr (mg_reset mg))])))))"

section \<open>Agents\<close>

definition agent_json :: "manage \<Rightarrow> agent_row \<Rightarrow> jsnum json" where
  "agent_json mg g = JObj [(''id'', JStr (g_id g)), (''userId'', JStr (g_user g)), (''name'', JStr (g_name g)),
     (''description'', JStr (g_description g)), (''agentType'', JStr (g_type g)), (''ownerEmail'', JStr (g_owner g)),
     (''status'', JStr (g_status g)), (''scopes'', JArr (g_scopes g)), (''lastSeenAt'', jstamp mg (g_last_seen g)),
     (''createdAt'', JStr (mg_stamp mg (g_created g))), (''updatedAt'', JStr (mg_stamp mg (g_updated g)))]"

definition agents_get :: "manage \<Rightarrow> request \<Rightarrow> reply app" where
  "agents_get mg rq =
     (case session_user (mg_platform mg) rq of
        None \<Rightarrow> ret unauthorized
      | Some uid \<Rightarrow> guarded ''Failed to fetch agents''
          (andthen (list_agents uid) (\<lambda>gs. ret (json_reply 200 (JObj [(''agents'', JArr (map (agent_json mg) gs))])))))"

definition jarray :: "jsnum json option \<Rightarrow> jsnum json list option" where
  "jarray v = (case v of Some (JArr vs) \<Rightarrow> Some vs | _ \<Rightarrow> None)"

text \<open>The type of a new agent is taken as it is sent, the driver prints it as a text.\<close>

definition agent_input :: "manage \<Rightarrow> string \<Rightarrow> string \<Rightarrow> jsnum json \<Rightarrow> create_agent_input" where
  "agent_input mg uid name body = \<lparr>ca_user = uid, ca_name = name,
     ca_description = Some (nullish (body_str ''description'' body) []),
     ca_type = Some (js_string (mg_num mg) (nullish_json (member ''agentType'' body) (JStr ''autonomous''))),
     ca_owner = Some (nullish (body_str ''ownerEmail'' body) []),
     ca_scopes = Some (nullish (jarray (member ''scopes'' body)) [])\<rparr>"

definition agents_post :: "manage \<Rightarrow> string \<Rightarrow> request \<Rightarrow> reply app" where
  "agents_post mg rnd rq =
     (case session_user (mg_platform mg) rq of
        None \<Rightarrow> ret unauthorized
      | Some uid \<Rightarrow>
          (case parsed_body rq of
             None \<Rightarrow> ret (error_reply 400 ''Invalid request body'')
           | Some body \<Rightarrow>
               (case checked_name ''Agent name is required'' 80 ''Name must be 80 characters or less'' body of
                  Inl refusal \<Rightarrow> ret refusal
                | Inr name \<Rightarrow> guarded ''Failed to create agent''
                    (andthen (create_agent (pe_now (mg_platform mg)) rnd (agent_input mg uid name body)) (\<lambda>g.
                     ret (json_reply 201 (JObj [(''agent'', agent_json mg g)])))))))"

definition agent_not_found :: reply where
  "agent_not_found = error_reply 404 ''Agent not found''"

definition agent_get :: "manage \<Rightarrow> string \<Rightarrow> request \<Rightarrow> reply app" where
  "agent_get mg i rq =
     (case session_user (mg_platform mg) rq of
        None \<Rightarrow> ret unauthorized
      | Some uid \<Rightarrow>
          andthen (get_agent i uid) (\<lambda>g.
          ret (case g of None \<Rightarrow> agent_not_found | Some a \<Rightarrow> json_reply 200 (JObj [(''agent'', agent_json mg a)]))))"

text \<open>\<open>DELETE agents/[id]\<close> (revoked) and \<open>POST agents/[id]/suspend\<close> (suspended).\<close>

definition agent_set :: "manage \<Rightarrow> string \<Rightarrow> string \<Rightarrow> request \<Rightarrow> reply app" where
  "agent_set mg status i rq =
     (case session_user (mg_platform mg) rq of
        None \<Rightarrow> ret unauthorized
      | Some uid \<Rightarrow>
          andthen (set_agent_status (pe_now (mg_platform mg)) i uid status) (\<lambda>ok.
          ret (if ok then json_reply 200 (JObj [(''success'', JBool True), (''status'', JStr status)]) else agent_not_found)))"

definition agent_delete :: "manage \<Rightarrow> string \<Rightarrow> request \<Rightarrow> reply app" where
  "agent_delete mg = agent_set mg ''revoked''"

definition agent_suspend :: "manage \<Rightarrow> string \<Rightarrow> request \<Rightarrow> reply app" where
  "agent_suspend mg = agent_set mg ''suspended''"

section \<open>Policies\<close>

text \<open>A policy route answers and names the account whose policies are then pushed, if any.\<close>

type_synonym policy_reply = "reply \<times> string option"

definition policy_json :: "manage \<Rightarrow> policy_row \<Rightarrow> jsnum json" where
  "policy_json mg p = JObj [(''id'', JStr (p_id p)), (''userId'', JStr (p_user p)), (''name'', JStr (p_name p)),
     (''description'', JStr (p_description p)), (''rules'', JArr (p_rules p)), (''isActive'', JBool (p_active p)),
     (''createdAt'', JStr (mg_stamp mg (p_created p))), (''updatedAt'', JStr (mg_stamp mg (p_updated p)))]"

definition guarded_policy :: "string \<Rightarrow> policy_reply app \<Rightarrow> policy_reply app" where
  "guarded_policy msg m = try_catch m (\<lambda>_. ret (error_reply 500 msg, None))"

text \<open>Every policy route starts by resolving the acting user.\<close>

definition as_user :: "manage \<Rightarrow> request \<Rightarrow> (string \<Rightarrow> policy_reply app) \<Rightarrow> policy_reply app" where
  "as_user mg rq f =
     andthen (resolve_user_id (mg_platform mg) rq) (\<lambda>who. if \<not> truthy who then ret (unauthorized, None) else f (the who))"

definition policies_get :: "manage \<Rightarrow> request \<Rightarrow> policy_reply app" where
  "policies_get mg rq = as_user mg rq (\<lambda>uid. guarded_policy ''Failed to fetch policies''
     (andthen (list_policies uid) (\<lambda>ps. ret (json_reply 200 (JObj [(''policies'', JArr (map (policy_json mg) ps))]), None))))"

definition policies_post :: "manage \<Rightarrow> string \<Rightarrow> request \<Rightarrow> policy_reply app" where
  "policies_post mg new_id rq = as_user mg rq (\<lambda>uid.
     case parsed_body rq of
       None \<Rightarrow> ret (error_reply 400 ''Invalid request body'', None)
     | Some body \<Rightarrow>
         (case checked_name ''Policy name is required'' 64 ''Name must be 64 characters or less'' body of
            Inl refusal \<Rightarrow> ret (refusal, None)
          | Inr name \<Rightarrow> guarded_policy ''Failed to create policy''
              (andthen (create_policy (pe_now (mg_platform mg)) new_id uid name
                  (case body_str ''description'' body of None \<Rightarrow> [] | Some d \<Rightarrow> trim d)
                  (nullish (jarray (member ''rules'' body)) [])) (\<lambda>p.
               ret (json_reply 201 (JObj [(''policy'', policy_json mg p)]), Some uid)))))"

definition not_found :: reply where
  "not_found = error_reply 404 ''Not found''"

definition policy_get :: "manage \<Rightarrow> string \<Rightarrow> request \<Rightarrow> policy_reply app" where
  "policy_get mg i rq = as_user mg rq (\<lambda>uid.
     andthen (get_policy i uid) (\<lambda>p.
     ret (case p of None \<Rightarrow> not_found | Some p \<Rightarrow> json_reply 200 (JObj [(''policy'', policy_json mg p)]), None)))"

definition patch_of :: "jsnum json \<Rightarrow> policy_patch" where
  "patch_of body = \<lparr>pp_name = map_option trim (body_str ''name'' body),
     pp_description = map_option trim (body_str ''description'' body), pp_rules = jarray (member ''rules'' body),
     pp_active = (case member ''isActive'' body of Some (JBool b) \<Rightarrow> Some b | _ \<Rightarrow> None)\<rparr>"

definition policy_put :: "manage \<Rightarrow> string \<Rightarrow> request \<Rightarrow> policy_reply app" where
  "policy_put mg i rq = as_user mg rq (\<lambda>uid.
     case parsed_body rq of
       None \<Rightarrow> ret (error_reply 400 ''Invalid request body'', None)
     | Some body \<Rightarrow> guarded_policy ''Failed to update policy''
         (andthen (update_policy (pe_now (mg_platform mg)) i uid (patch_of body)) (\<lambda>p.
          ret (case p of
                 None \<Rightarrow> (not_found, None)
               | Some p \<Rightarrow> (json_reply 200 (JObj [(''policy'', policy_json mg p)]), Some uid)))))"

definition policy_delete :: "manage \<Rightarrow> string \<Rightarrow> request \<Rightarrow> policy_reply app" where
  "policy_delete mg i rq = as_user mg rq (\<lambda>uid. guarded_policy ''Failed to delete policy''
     (andthen (delete_policy i uid) (\<lambda>_. ret (json_reply 200 (JObj [(''deleted'', JBool True)]), Some uid))))"

text \<open>The push that follows does not change the answer; what it reports is only printed.\<close>

definition serve_policy ::
  "sync_env \<Rightarrow> (sync_request \<Rightarrow> 'e \<Rightarrow> http_answer \<times> 'e) \<Rightarrow> policy_reply app \<Rightarrow> db \<times> 'e \<Rightarrow> (app_error + reply) \<times> (db \<times> 'e)" where
  "serve_policy env serve route = (\<lambda>(s, e).
     (case route s of
        (Inl err, s1) \<Rightarrow> (Inl err, (s1, e))
      | (Inr (rp, None), s1) \<Rightarrow> (Inr rp, (s1, e))
      | (Inr (rp, Some uid), s1) \<Rightarrow> (Inr rp, snd (push_policy_to_engine env serve uid (s1, e)))))"

section \<open>All of them\<close>

datatype manage_call =
    V1KeysGet
  | V1KeysPost key_draws
  | V1KeysVerify
  | V1AuditGet query_params
  | DashboardKeysGet
  | DashboardKeysPost key_draws
  | DashboardKeysDelete string
  | DashboardUsage
  | AgentsGet
  | AgentsPost string
  | AgentGet string
  | AgentDelete string
  | AgentSuspend string
  | PoliciesGet
  | PoliciesPost string
  | PolicyGet string
  | PolicyPut string
  | PolicyDelete string

definition plain_call :: "reply app \<Rightarrow> policy_reply app" where
  "plain_call m = andthen m (\<lambda>rp. ret (rp, None))"

fun manage_route :: "manage \<Rightarrow> manage_call \<Rightarrow> request \<Rightarrow> policy_reply app" where
  "manage_route mg V1KeysGet rq = plain_call (v1_keys_get mg rq)"
| "manage_route mg (V1KeysPost kd) rq = plain_call (v1_keys_post mg kd rq)"
| "manage_route mg V1KeysVerify rq = plain_call (v1_keys_verify mg rq)"
| "manage_route mg (V1AuditGet q) rq = plain_call (v1_audit_get mg q rq)"
| "manage_route mg DashboardKeysGet rq = plain_call (dashboard_keys_get mg rq)"
| "manage_route mg (DashboardKeysPost kd) rq = plain_call (dashboard_keys_post mg kd rq)"
| "manage_route mg (DashboardKeysDelete i) rq = plain_call (dashboard_keys_delete mg i rq)"
| "manage_route mg DashboardUsage rq = plain_call (dashboard_usage mg rq)"
| "manage_route mg AgentsGet rq = plain_call (agents_get mg rq)"
| "manage_route mg (AgentsPost rnd) rq = plain_call (agents_post mg rnd rq)"
| "manage_route mg (AgentGet i) rq = plain_call (agent_get mg i rq)"
| "manage_route mg (AgentDelete i) rq = plain_call (agent_delete mg i rq)"
| "manage_route mg (AgentSuspend i) rq = plain_call (agent_suspend mg i rq)"
| "manage_route mg PoliciesGet rq = policies_get mg rq"
| "manage_route mg (PoliciesPost i) rq = policies_post mg i rq"
| "manage_route mg (PolicyGet i) rq = policy_get mg i rq"
| "manage_route mg (PolicyPut i) rq = policy_put mg i rq"
| "manage_route mg (PolicyDelete i) rq = policy_delete mg i rq"

end
