(* ===== verification/ManageProps.thy ===== *)
theory ManageProps
  imports ManageRoutes
begin

text \<open>
  What the management routes guarantee. Whatever routes others call, the rows of an account stay what
  they were as long as no request carries a credential of that account (a session, or a key that is
  stored for it); the audit route lists the events of the key's account, with the exception of sandbox
  keys.
\<close>

section \<open>Frames\<close>

definition kept :: "string \<Rightarrow> key_row list \<Rightarrow> policy_row list \<Rightarrow> agent_row list \<Rightarrow> db \<Rightarrow> bool" where
  "kept v ks ps gs s =
     (distinct (map k_id (t_keys s)) \<and> filter (\<lambda>k. k_user k = v) (t_keys s) = ks
      \<and> filter (\<lambda>p. p_user p = v) (t_policies s) = ps \<and> filter (\<lambda>g. g_user g = v) (t_agents s) = gs)"

lemma kept_faults [simp]: "kept v ks ps gs (s\<lparr>faults := f\<rparr>) = kept v ks ps gs s"
  by (simp add: kept_def)

lemma frame_eq_map:
  assumes "\<And>k. k \<in> set xs \<Longrightarrow> P k \<Longrightarrow> owner k \<noteq> v" "\<And>k. owner (f k) = owner k"
  shows "filter (\<lambda>r. owner r = v) (map (\<lambda>k. if P k then f k else k) xs) = filter (\<lambda>r. owner r = v) xs"
  using assms by (induction xs) auto

lemma frame_eq_filter:
  assumes "\<And>k. \<not> P k \<Longrightarrow> owner k \<noteq> v"
  shows "filter (\<lambda>r. owner r = v) (filter P xs) = filter (\<lambda>r. owner r = v) xs"
  using assms by (auto simp: filter_filter intro!: filter_cong)

lemma same_ids: "(\<And>k. k_id (f k) = k_id k) \<Longrightarrow> map k_id (map (\<lambda>k. if P k then f k else k) ks) = map k_id ks"
  by auto

lemma kept_updates:
  assumes "uid \<noteq> v" "kept v ks ps gs s"
  shows "kept v ks ps gs (s\<lparr>t_keys := map (\<lambda>k. if revocable i uid k then k\<lparr>k_revoked := True, k_revoked_at := Some now\<rparr> else k) (t_keys s)\<rparr>)"
    and "kept v ks ps gs (s\<lparr>t_policies := map (\<lambda>p. if p_id p = i \<and> p_user p = uid then patch_policy now q p else p) (t_policies s)\<rparr>)"
    and "kept v ks ps gs (s\<lparr>t_policies := filter (\<lambda>p. \<not> (p_id p = i \<and> p_user p = uid)) (t_policies s)\<rparr>)"
    and "kept v ks ps gs (s\<lparr>t_agents := map (\<lambda>g. if owns_agent i uid g then g\<lparr>g_status := status, g_updated := now\<rparr> else g) (t_agents s)\<rparr>)"
proof -
  have k: "filter (\<lambda>r. k_user r = v) (map (\<lambda>k. if revocable i uid k then k\<lparr>k_revoked := True, k_revoked_at := Some now\<rparr> else k) (t_keys s))
      = filter (\<lambda>r. k_user r = v) (t_keys s)"
    by (rule frame_eq_map) (use assms(1) in \<open>auto simp: revocable_def\<close>)
  have p: "filter (\<lambda>r. p_user r = v) (map (\<lambda>p. if p_id p = i \<and> p_user p = uid then patch_policy now q p else p) (t_policies s))
      = filter (\<lambda>r. p_user r = v) (t_policies s)"
    by (rule frame_eq_map) (use assms(1) in \<open>auto simp: patch_policy_def\<close>)
  have d: "filter (\<lambda>r. p_user r = v) (filter (\<lambda>p. \<not> (p_id p = i \<and> p_user p = uid)) (t_policies s))
      = filter (\<lambda>r. p_user r = v) (t_policies s)"
    by (rule frame_eq_filter) (use assms(1) in auto)
  have g: "filter (\<lambda>r. g_user r = v) (map (\<lambda>g. if owns_agent i uid g then g\<lparr>g_status := status, g_updated := now\<rparr> else g) (t_agents s))
      = filter (\<lambda>r. g_user r = v) (t_agents s)"
    by (rule frame_eq_map) (use assms(1) in \<open>auto simp: owns_agent_def\<close>)
  have ids: "map k_id (map (\<lambda>k. if revocable i uid k then k\<lparr>k_revoked := True, k_revoked_at := Some now\<rparr> else k) (t_keys s)) = map k_id (t_keys s)"
    by (rule same_ids) simp
  show "kept v ks ps gs (s\<lparr>t_keys := map (\<lambda>k. if revocable i uid k then k\<lparr>k_revoked := True, k_revoked_at := Some now\<rparr> else k) (t_keys s)\<rparr>)"
    using assms(2) k ids by (simp add: kept_def del: filter_map map_map)
  show "kept v ks ps gs (s\<lparr>t_policies := map (\<lambda>p. if p_id p = i \<and> p_user p = uid then patch_policy now q p else p) (t_policies s)\<rparr>)"
    using assms(2) p by (simp add: kept_def del: filter_map)
  show "kept v ks ps gs (s\<lparr>t_policies := filter (\<lambda>p. \<not> (p_id p = i \<and> p_user p = uid)) (t_policies s)\<rparr>)"
    using assms(2) d by (simp add: kept_def del: filter_filter)
  show "kept v ks ps gs (s\<lparr>t_agents := map (\<lambda>g. if owns_agent i uid g then g\<lparr>g_status := status, g_updated := now\<rparr> else g) (t_agents s)\<rparr>)"
    using assms(2) g by (simp add: kept_def del: filter_map)
qed

lemma kept_inserts:
  "k_user k \<noteq> v \<Longrightarrow> preserves (kept v ks ps gs) (insert_key k)"
  "p_user p \<noteq> v \<Longrightarrow> preserves (kept v ks ps gs) (insert_policy p)"
  "g_user g \<noteq> v \<Longrightarrow> preserves (kept v ks ps gs) (insert_agent g)"
  unfolding insert_key_def insert_policy_def insert_agent_def
  by (rule preserves_insert_checked; simp add: kept_def)+

lemmas kept_rules = pres kept_inserts preserves_update preserves_modify kept_updates

text \<open>Every operation on behalf of another account.\<close>

lemma kept_key_ops:
  assumes "uid \<noteq> v"
  shows "preserves (kept v ks ps gs) (create_api_key sha now i prefix secret uid name ex)"
    and "preserves (kept v ks ps gs) (revoke_api_key now i uid)"
    and "preserves (kept v ks ps gs) (list_api_keys uid)"
  unfolding create_api_key_def revoke_api_key_def list_api_keys_def Let_def
  by (intro kept_rules; simp add: assms)+

lemma kept_policy_ops:
  assumes "uid \<noteq> v"
  shows "preserves (kept v ks ps gs) (create_policy now i uid name description rules)"
    and "preserves (kept v ks ps gs) (update_policy now i uid q)"
    and "preserves (kept v ks ps gs) (delete_policy i uid)"
    and "preserves (kept v ks ps gs) (get_policy i uid)"
    and "preserves (kept v ks ps gs) (list_policies uid)"
  unfolding create_policy_def update_policy_def delete_policy_def get_policy_def list_policies_def Let_def
  by (intro kept_rules; simp add: assms)+

lemma kept_agent_ops:
  assumes "uid \<noteq> v"
  shows "ca_user inp = uid \<Longrightarrow> preserves (kept v ks ps gs) (create_agent now rnd inp)"
    and "preserves (kept v ks ps gs) (set_agent_status now i uid status)"
    and "preserves (kept v ks ps gs) (get_agent i uid)"
    and "preserves (kept v ks ps gs) (list_agents uid)"
  unfolding create_agent_def set_agent_status_def get_agent_def list_agents_def Let_def
  by (intro kept_rules; simp add: assms)+

lemma kept_reads:
  "preserves (kept v ks ps gs) (list_audit_events f)" "preserves (kept v ks ps gs) (check_quota m uid)"
  unfolding list_audit_events_def check_quota_def get_user_plan_def get_monthly_usage_def Let_def
  by (intro pres; simp)+

section \<open>Credentials\<close>

text \<open>\<open>gives I Q m\<close>: a run of \<open>m\<close> keeps \<open>I\<close>, and a result satisfies \<open>Q\<close>.\<close>

definition gives :: "('s \<Rightarrow> bool) \<Rightarrow> ('a \<Rightarrow> bool) \<Rightarrow> ('s, 'e, 'a) prog \<Rightarrow> bool" where
  "gives I Q m = (\<forall>s. I s \<longrightarrow> I (snd (m s)) \<and> (\<forall>x. fst (m s) = Inr x \<longrightarrow> Q x))"

lemma preserves_gives:
  assumes "gives I Q m" "\<And>x. Q x \<Longrightarrow> preserves I (f x)"
  shows "preserves I (andthen m f)"
  unfolding preserves_def andthen_def
proof (intro allI impI)
  fix s assume "I s"
  then have m: "I (snd (m s))" "\<forall>x. fst (m s) = Inr x \<longrightarrow> Q x" using assms(1) by (auto simp: gives_def)
  obtain r s' where rs: "m s = (r, s')" by force
  show "I (snd (case m s of (Inl e, s') \<Rightarrow> (Inl e, s') | (Inr x, s') \<Rightarrow> f x s'))"
    using m assms(2) rs by (cases r) (auto simp: preserves_def)
qed

text \<open>The keys a request presents, in its header or its body.\<close>

definition presented :: "request \<Rightarrow> string list" where
  "presented rq =
     (case bearer rq of None \<Rightarrow> [] | Some k \<Rightarrow> [k])
     @ (case parsed_body rq of None \<Rightarrow> [] | Some b \<Rightarrow> (case body_str ''key'' b of None \<Rightarrow> [] | Some k \<Rightarrow> [k]))"

text \<open>No session of the account, and no key among \<open>ks\<close>.\<close>

definition stranger :: "platform_env \<Rightarrow> string \<Rightarrow> key_row list \<Rightarrow> request \<Rightarrow> bool" where
  "stranger pe v ks rq =
     (session_user pe rq \<noteq> Some v
      \<and> list_all (\<lambda>full. list_all (\<lambda>k. k_hash k \<noteq> pe_sha256 pe full) ks) (presented rq))"

lemma kept_validate:
  assumes "list_all (\<lambda>k. k_hash k \<noteq> sha full) ks"
  shows "gives (kept v ks ps gs) (\<lambda>r. case r of None \<Rightarrow> True | Some (uid, kid) \<Rightarrow> uid \<noteq> v) (validate_api_key sha now full)"
  unfolding gives_def
proof (intro allI impI)
  fix s assume k: "kept v ks ps gs s"
  have foreign: "k_user k \<noteq> v" if "k \<in> set (t_keys s)" "k_hash k = sha full" for k
    using k that assms by (auto simp: kept_def list_all_iff)
  have upd: "kept v ks ps gs (s\<lparr>faults := f, t_keys := map (\<lambda>k. if k_id k = k_id row then k\<lparr>k_last_used := Some now\<rparr> else k) (t_keys s)\<rparr>)"
    if row: "row \<in> set (t_keys s)" "k_hash row = sha full" for row f
  proof -
    have same: "x = row" if "x \<in> set (t_keys s)" "k_id x = k_id row" for x
      using k row(1) that by (auto simp: kept_def distinct_map dest: inj_onD)
    have "filter (\<lambda>r. k_user r = v) (map (\<lambda>k. if k_id k = k_id row then k\<lparr>k_last_used := Some now\<rparr> else k) (t_keys s))
        = filter (\<lambda>r. k_user r = v) (t_keys s)"
      by (rule frame_eq_map) (use same foreign row in auto)
    moreover have "map k_id (map (\<lambda>k. if k_id k = k_id row then k\<lparr>k_last_used := Some now\<rparr> else k) (t_keys s)) = map k_id (t_keys s)"
      by (rule same_ids) simp
    ultimately show ?thesis using k by (simp add: kept_def tick_def del: filter_map map_map)
  qed
  obtain r s' where v: "validate_api_key sha now full s = (r, s')" by force
  have "kept v ks ps gs s' \<and> (\<forall>x. r = Inr x \<longrightarrow> (case x of None \<Rightarrow> True | Some (uid, kid) \<Rightarrow> uid \<noteq> v))"
    using v k
    by (auto simp: validate_api_key_def andthen_apply tick_def split: prod.splits sum.splits list.splits if_splits option.splits
        dest!: select_cases update_cases filter_hd dest: foreign intro: upd)
  then show "kept v ks ps gs (snd (validate_api_key sha now full s))
      \<and> (\<forall>x. fst (validate_api_key sha now full s) = Inr x \<longrightarrow> (case x of None \<Rightarrow> True | Some (uid, kid) \<Rightarrow> uid \<noteq> v))"
    using v by simp
qed

lemma gives_map:
  assumes "gives I P m" "\<And>x. P x \<Longrightarrow> Q (f x)"
  shows "gives I Q (andthen m (\<lambda>x. ret (f x)))"
  using assms unfolding gives_def andthen_def by (auto split: prod.splits sum.splits)

lemma kept_resolve:
  assumes "stranger pe v ks rq"
  shows "gives (kept v ks ps gs) (\<lambda>who. who \<noteq> Some v) (resolve_user_id pe rq)"
proof (cases "bearer rq")
  case None
  then show ?thesis using assms by (simp add: resolve_user_id_def gives_def stranger_def)
next
  case (Some key)
  then have "list_all (\<lambda>k. k_hash k \<noteq> pe_sha256 pe key) ks" using assms by (simp add: stranger_def presented_def)
  then have "gives (kept v ks ps gs) (\<lambda>r. case r of None \<Rightarrow> True | Some (uid, kid) \<Rightarrow> uid \<noteq> v)
      (validate_api_key (pe_sha256 pe) (pe_now pe) key)" by (rule kept_validate)
  then have "gives (kept v ks ps gs) (\<lambda>who. who \<noteq> Some v)
      (andthen (validate_api_key (pe_sha256 pe) (pe_now pe) key) (\<lambda>r. ret (map_option fst r)))"
    by (rule gives_map) (auto split: option.splits)
  then show ?thesis using Some by (simp add: resolve_user_id_def)
qed

lemma kept_resolved:
  assumes "stranger pe v ks rq" "\<And>uid. uid \<noteq> v \<Longrightarrow> preserves (kept v ks ps gs) (f (Some uid))"
    "preserves (kept v ks ps gs) (f None)"
  shows "preserves (kept v ks ps gs) (andthen (resolve_user_id pe rq) f)"
  by (rule preserves_gives [OF kept_resolve [OF assms(1)]]) (metis assms(2,3) not_None_eq)

lemma kept_session:
  assumes "stranger pe v ks rq" "\<And>uid. uid \<noteq> v \<Longrightarrow> preserves I (f uid)" "preserves I m"
  shows "preserves I (case session_user pe rq of None \<Rightarrow> m | Some uid \<Rightarrow> f uid)"
  using assms by (auto simp: stranger_def split: option.splits)

lemma kept_as_user:
  assumes "stranger (mg_platform mg) v ks rq" "\<And>uid. uid \<noteq> v \<Longrightarrow> preserves (kept v ks ps gs) (f uid)"
  shows "preserves (kept v ks ps gs) (as_user mg rq f)"
  unfolding as_user_def by (rule kept_resolved [OF assms(1)]) (auto simp: assms(2) truthy_def intro: pres)

lemma kept_guarded [pres]:
  "preserves I m \<Longrightarrow> preserves I (guarded msg m)" "preserves I n \<Longrightarrow> preserves I (guarded_policy msg n)"
  "preserves I m \<Longrightarrow> preserves I (plain_call m)"
  unfolding guarded_def guarded_policy_def plain_call_def by (intro pres; assumption)+

section \<open>Every route\<close>

lemma kept_key_replies:
  assumes "uid \<noteq> v"
  shows "preserves (kept v ks ps gs) (keys_reply mg uid)" "preserves (kept v ks ps gs) (new_key_reply mg kd uid name days)"
  unfolding keys_reply_def new_key_reply_def by (intro pres kept_key_ops [OF assms])+

lemma kept_key_routes:
  assumes "stranger (mg_platform mg) v ks rq"
  shows "preserves (kept v ks ps gs) (v1_keys_get mg rq)"
    and "preserves (kept v ks ps gs) (v1_keys_post mg kd rq)"
    and "preserves (kept v ks ps gs) (dashboard_keys_get mg rq)"
    and "preserves (kept v ks ps gs) (dashboard_keys_post mg kd rq)"
    and "preserves (kept v ks ps gs) (dashboard_keys_delete mg i rq)"
  unfolding v1_keys_get_def v1_keys_post_def dashboard_keys_get_def dashboard_keys_post_def dashboard_keys_delete_def
      apply (rule kept_resolved [OF assms]; auto simp: truthy_def intro!: pres kept_key_replies)
     apply (rule kept_resolved [OF assms]; auto simp: truthy_def intro!: pres kept_key_replies)
    apply (rule kept_session [OF assms]; intro pres kept_key_replies; assumption)
   apply (rule kept_session [OF assms]; intro pres kept_key_replies; assumption)
  apply (rule kept_session [OF assms]; intro pres kept_key_ops; assumption)
  done

lemma kept_presented:
  assumes "stranger pe v ks rq" "full \<in> set (presented rq)"
  shows "preserves (kept v ks ps gs) (validate_api_key (pe_sha256 pe) now full)"
  using kept_validate [of "pe_sha256 pe" full ks v ps gs now] assms
  by (auto simp: stranger_def list_all_iff gives_def preserves_def)

lemma kept_verify:
  assumes "stranger (mg_platform mg) v ks rq"
  shows "preserves (kept v ks ps gs) (v1_keys_verify mg rq)"
  unfolding v1_keys_verify_def
  by (intro pres; rule kept_presented [OF assms]; simp add: presented_def)

lemma kept_audit:
  assumes "stranger (mg_platform mg) v ks rq"
  shows "preserves (kept v ks ps gs) (v1_audit_get mg q rq)" "preserves (kept v ks ps gs) (dashboard_usage mg rq)"
proof -
  have l: "preserves (kept v ks ps gs) (list_for mg q who)" for who
    unfolding list_for_def Let_def by (intro pres kept_reads; simp)
  show "preserves (kept v ks ps gs) (v1_audit_get mg q rq)"
    unfolding v1_audit_get_def by (intro pres l kept_presented [OF assms]) (simp add: presented_def)
  show "preserves (kept v ks ps gs) (dashboard_usage mg rq)"
    unfolding dashboard_usage_def by (intro pres kept_reads)
qed

lemma kept_agent_routes:
  assumes "stranger (mg_platform mg) v ks rq"
  shows "preserves (kept v ks ps gs) (agents_get mg rq)"
    and "preserves (kept v ks ps gs) (agents_post mg rnd rq)"
    and "preserves (kept v ks ps gs) (agent_get mg i rq)"
    and "preserves (kept v ks ps gs) (agent_set mg status i rq)"
  unfolding agents_get_def agents_post_def agent_get_def agent_set_def
  by (rule kept_session [OF assms]; intro pres kept_agent_ops; (assumption | simp add: agent_input_def))+

lemma kept_policy_routes:
  assumes "stranger (mg_platform mg) v ks rq"
  shows "preserves (kept v ks ps gs) (policies_get mg rq)"
    and "preserves (kept v ks ps gs) (policies_post mg i rq)"
    and "preserves (kept v ks ps gs) (policy_get mg i rq)"
    and "preserves (kept v ks ps gs) (policy_put mg i rq)"
    and "preserves (kept v ks ps gs) (policy_delete mg i rq)"
  unfolding policies_get_def policies_post_def policy_get_def policy_put_def policy_delete_def
  by (rule kept_as_user [OF assms]; intro pres kept_policy_ops; assumption)+

lemma kept_route:
  assumes "stranger (mg_platform mg) v ks rq"
  shows "preserves (kept v ks ps gs) (manage_route mg call rq)"
  by (cases call) (simp_all add: agent_delete_def agent_suspend_def kept_guarded(3) kept_key_routes [OF assms] kept_verify [OF assms]
      kept_audit [OF assms] kept_agent_routes [OF assms] kept_policy_routes [OF assms])

text \<open>A run of requests, each answered before the next; the answers are dropped.\<close>

fun manage_run :: "(manage \<times> manage_call \<times> request) list \<Rightarrow> db \<Rightarrow> db" where
  "manage_run [] s = s"
| "manage_run ((mg, call, rq) # rest) s = manage_run rest (snd (manage_route mg call rq s))"

lemma kept_run:
  assumes "list_all (\<lambda>(mg, call, rq). stranger (mg_platform mg) v ks rq) run" "kept v ks ps gs s"
  shows "kept v ks ps gs (manage_run run s)"
  using assms
proof (induction run arbitrary: s)
  case (Cons x run)
  obtain mg call rq where x: "x = (mg, call, rq)" by (metis prod.exhaust)
  have "kept v ks ps gs (snd (manage_route mg call rq s))"
    using kept_route [of mg v ks rq ps gs call] Cons.prems x by (simp add: preserves_def)
  with Cons x show ?case by simp
qed simp

section \<open>Properties\<close>

text \<open>C6: Tenant isolation over HTTP. Whatever management routes are called, in any number, with any
  bodies and identifiers (also the victim's), by requests of which none has a session of the account
  and none presents a key that is stored for it, and whatever statements fail in between: the keys, the
  policies and the agents of the account are exactly what they were.\<close>

theorem http_tenant_isolation:
  assumes "db_ok s"
    and "list_all (\<lambda>(mg, call, rq). stranger (mg_platform mg) v (filter (\<lambda>k. k_user k = v) (t_keys s)) rq) run"
  shows "filter (\<lambda>k. k_user k = v) (t_keys (manage_run run s)) = filter (\<lambda>k. k_user k = v) (t_keys s)
    \<and> filter (\<lambda>p. p_user p = v) (t_policies (manage_run run s)) = filter (\<lambda>p. p_user p = v) (t_policies s)
    \<and> filter (\<lambda>g. g_user g = v) (t_agents (manage_run run s)) = filter (\<lambda>g. g_user g = v) (t_agents s)"
proof -
  have "kept v (filter (\<lambda>k. k_user k = v) (t_keys s)) (filter (\<lambda>p. p_user p = v) (t_policies s))
      (filter (\<lambda>g. g_user g = v) (t_agents s)) s"
    using assms(1) by (simp add: kept_def db_ok_def)
  from kept_run [OF assms(2) this] show ?thesis by (simp add: kept_def)
qed

definition example_env :: platform_env where
  "example_env = \<lparr>pe_hmac = (\<lambda>k m. m), pe_sha256 = (\<lambda>t. t), pe_scrypt = (\<lambda>p s. p), pe_secret = None, pe_now = 5\<rparr>"

definition example_manage :: manage where
  "example_manage = \<lparr>mg_platform = example_env, mg_stamp = show_int, mg_num = (\<lambda>_. []), mg_month = 0, mg_reset = []\<rparr>"

definition example_key :: "string \<Rightarrow> string \<Rightarrow> key_row" where
  "example_key uid full = \<lparr>k_id = full, k_user = uid, k_name = ''ci'', k_prefix = ''p'', k_hash = full,
     k_created = 0, k_last_used = None, k_expires = None, k_revoked = False, k_revoked_at = None\<rparr>"

definition two_tenants :: db where
  "two_tenants = two_accounts\<lparr>t_keys := [example_key ''u1'' ''lelu_sk_a_b'', example_key ''u2'' ''lelu_sk_c_d'']\<rparr>"

definition intruder :: request where
  "intruder = \<lparr>rq_auth = Some ''Bearer lelu_sk_c_d'', rq_cookie = None, rq_body = ''{}''\<rparr>"

lemma intruder_presents: "presented intruder = [''lelu_sk_c_d'']"
  by code_simp

lemma two_tenants_ok: "db_ok two_tenants" "faults two_tenants = []"
  by (simp_all add: db_ok_def two_tenants_def two_accounts_def example_key_def deny_policy_def demo_db_def demo_user_def)

theorem http_tenant_isolation_witness:
  "filter (\<lambda>p. p_user p = ''u1'') (t_policies (manage_run
       [(example_manage, PolicyDelete ''u1'', intruder), (example_manage, DashboardKeysDelete ''lelu_sk_a_b'', intruder)] two_tenants))
     = [deny_policy ''u1'' ''delete'']"
proof -
  have "stranger example_env ''u1'' (filter (\<lambda>k. k_user k = ''u1'') (t_keys two_tenants)) intruder"
    unfolding stranger_def intruder_presents
    by (simp add: two_tenants_def example_key_def session_user_def get_current_user_def truthy_def intruder_def example_env_def)
  then show ?thesis
    using http_tenant_isolation [OF two_tenants_ok(1), of "''u1''"
        "[(example_manage, PolicyDelete ''u1'', intruder), (example_manage, DashboardKeysDelete ''lelu_sk_a_b'', intruder)]"]
    by (simp add: example_manage_def two_tenants_def two_accounts_def deny_policy_def)
qed

text \<open>C14: The audit route answers a page of at most 500 events, and, unless the presented key has the
  sandbox prefix, all of them are events of the account of a live stored key with the digest of the
  presented one.\<close>

theorem audit_page_is_the_key_owners:
  assumes "v1_audit_get mg q rq s = (Inr rp, s')" "rp_status rp = 200"
  shows "\<exists>key es limit. bearer rq = Some key \<and> rp = json_reply 200 (audit_page mg limit es) \<and> length es \<le> 500
    \<and> (starts_with ''lelu_sk_sandbox_'' key
       \<or> (\<exists>k \<in> set (t_keys s). live_key (pe_sha256 (mg_platform mg)) (pe_now (mg_platform mg)) key k
            \<and> list_all (\<lambda>a. a_user a = Some (k_user k)) es))"
proof -
  have page: "\<exists>es limit. r = json_reply 200 (audit_page mg limit es) \<and> length es \<le> 500
      \<and> list_all (\<lambda>a. case who of None \<Rightarrow> True | Some u \<Rightarrow> a_user a = Some u) es"
    if l: "list_for mg q who t = (Inr r, t')" "rp_status r = 200" for who t r t'
  proof -
    have "rp_status (error_reply 500 m) \<noteq> 200" for m by (simp add: error_reply_def json_reply_def)
    then obtain n es t1 where n: "list_audit_events \<lparr>af_user = who, af_actor = map_of q ''actor'', af_action = map_of q ''action'',
        af_decision = map_of q ''decision'', af_limit = Some (min n 500)\<rparr> t = (Inr es, t1)"
      "r = json_reply 200 (audit_page mg (min n 500) es)"
      using l by (auto simp: list_for_def guarded_def try_catch_apply andthen_apply Let_def
          split: option.splits prod.splits sum.splits)
    have "a_user a = Some u" if "a \<in> set es" "who = Some u" for a u
      using list_audit_result [OF n(1)] that by (auto simp: audit_matches_def)
    then show ?thesis using list_audit_result [OF n(1)] n(2) by (fastforce simp: list_all_iff split: option.splits)
  qed
  have e: "rp_status (error_reply 401 m) \<noteq> 200" for m by (simp add: error_reply_def json_reply_def)
  show ?thesis
  proof (cases "bearer rq")
    case None
    then show ?thesis using assms e by (simp add: v1_audit_get_def) metis
  next
    case (Some key)
    show ?thesis
    proof (cases "starts_with ''lelu_sk_sandbox_'' key")
      case True
      then show ?thesis using Some assms page [of None] by (fastforce simp: v1_audit_get_def)
    next
      case False
      then obtain uid kid s1 where v: "validate_api_key (pe_sha256 (mg_platform mg)) (pe_now (mg_platform mg)) key s = (Inr (Some (uid, kid)), s1)"
        "list_for mg q (Some uid) s1 = (Inr rp, s')"
        using Some assms e by (auto simp: v1_audit_get_def andthen_apply split: prod.splits sum.splits option.splits)
      obtain es limit where p: "rp = json_reply 200 (audit_page mg limit es)" "length es \<le> 500" "list_all (\<lambda>a. a_user a = Some uid) es"
        using page [OF v(2) assms(2)] by auto
      obtain k where "k \<in> set (t_keys s)" "k_user k = uid" "live_key (pe_sha256 (mg_platform mg)) (pe_now (mg_platform mg)) key k"
        using validate_cases [OF v(1)] by auto
      then show ?thesis using p Some by blast
    qed
  qed
qed

theorem audit_page_is_the_key_owners_witness:
  "\<exists>rp s' es limit. v1_audit_get example_manage [] intruder two_tenants = (Inr rp, s')
     \<and> rp = json_reply 200 (audit_page example_manage limit es) \<and> length es \<le> 500"
proof -
  have b: "bearer intruder = Some ''lelu_sk_c_d''" "starts_with ''lelu_sk_sandbox_'' ''lelu_sk_c_d'' = False" by code_simp+
  have lim: "parse_int ''20'' = Some 20" by code_simp
  have run: "v1_audit_get example_manage [] intruder two_tenants
      = (Inr (json_reply 200 (audit_page example_manage 20 [])), snd (v1_audit_get example_manage [] intruder two_tenants))"
    by (simp add: v1_audit_get_def b lim validate_api_key_def quiet_simps two_tenants_ok list_for_def guarded_def nullish_def
        list_audit_events_def Let_def newest_first_def)
      (simp add: two_tenants_def example_key_def two_accounts_def demo_db_def example_manage_def example_env_def
        quiet_simps newest_first_def)
  from audit_page_is_the_key_owners [OF run] show ?thesis
    using run by (simp add: json_reply_def) metis
qed

text \<open>C21: A sandbox key reads every tenant's log. A key that only has the sandbox prefix, stored for
  nobody, gets the newest events of all accounts, up to the limit it asks for.\<close>

theorem sandbox_key_reads_every_tenant:
  assumes "faults s = []" "bearer rq = Some key" "starts_with ''lelu_sk_sandbox_'' key" "0 \<le> n"
    "parse_int (nullish (map_of q ''limit'') ''20'') = Some n"
    "map_of q ''actor'' = None" "map_of q ''action'' = None" "map_of q ''decision'' = None"
  shows "fst (v1_audit_get mg q rq s) = Inr (json_reply 200 (audit_page mg (min n 500)
     (take (nat (min n 500)) (newest_first a_created (t_audit s)))))"
proof -
  have "audit_matches \<lparr>af_user = None, af_actor = None, af_action = None, af_decision = None, af_limit = l\<rparr> = (\<lambda>a. True)" for l
    by (auto simp: audit_matches_def)
  then show ?thesis
    using assms by (simp add: v1_audit_get_def list_for_def guarded_def quiet_simps list_audit_events_def Let_def nullish_def)
qed

definition example_event :: audit_row where
  "example_event = \<lparr>a_id = 1, a_trace = [], a_user = Some ''u1'', a_key = None, a_actor = ''bot'', a_action = ''read'',
     a_decision = ''allowed'', a_reason = [], a_rule = [], a_policy = None, a_confidence = 1, a_latency = 0, a_mode = ''live'',
     a_input_hash = None, a_output_hash = None, a_digest = None, a_created = 3\<rparr>"

theorem sandbox_key_reads_every_tenant_witness:
  "fst (v1_audit_get example_manage [] (intruder\<lparr>rq_auth := Some ''Bearer lelu_sk_sandbox_''\<rparr>) (two_tenants\<lparr>t_audit := [example_event]\<rparr>))
     = Inr (json_reply 200 (audit_page example_manage 20 [example_event]))"
proof -
  have b: "bearer (intruder\<lparr>rq_auth := Some ''Bearer lelu_sk_sandbox_''\<rparr>) = Some ''lelu_sk_sandbox_''"
    "starts_with ''lelu_sk_sandbox_'' ''lelu_sk_sandbox_''" by code_simp+
  have lim: "parse_int (nullish (map_of [] ''limit'') ''20'') = Some 20" by code_simp
  have q: "faults (two_tenants\<lparr>t_audit := [example_event]\<rparr>) = []" using two_tenants_ok(2) by simp
  show ?thesis
    using sandbox_key_reads_every_tenant [OF q b _ lim, of example_manage] by (simp add: newest_first_def)
qed

end
