(* ===== verification/AuditPage.thy ===== *)
theory AuditPage
  imports ManageRoutes AccountFlow NumberText
begin

text \<open>
  The audit page, \<open>platform/ui/app/audit/page.tsx\<close>, which the server renders from the audit log, behind the page
  guard of \<open>middleware.ts\<close>. The view keeps what is shown: the events of the table, the counts, the incidents and
  the points of the sparkline. Query parameters occur once.
\<close>

definition bucket_count :: nat where
  "bucket_count = 12"

text \<open>The age of an event in steps of five minutes; younger events are further right.\<close>

definition bucket_of :: "int \<Rightarrow> audit_row \<Rightarrow> int" where
  "bucket_of now a = (now - a_created a) div 300000"

fun count_buckets :: "int \<Rightarrow> audit_row list \<Rightarrow> nat list \<Rightarrow> nat list" where
  "count_buckets now [] cs = cs"
| "count_buckets now (a # es) cs =
     (let b = bucket_of now a
      in count_buckets now es
           (if 0 \<le> b \<and> b < int bucket_count then (let i = bucket_count - 1 - nat b in cs[i := cs ! i + 1]) else cs))"

definition spark_point :: "nat \<Rightarrow> nat \<Rightarrow> nat \<Rightarrow> string" where
  "spark_point mx i v =
     to_fixed 1 (Some (Fin (fl (fl (of_nat i / of_nat (bucket_count - 1)) * 240)))) @ '',''
     @ to_fixed 1 (Some (Fin (fl (48 - fl (fl (of_nat v / of_nat mx) * 48)))))"

definition sparkline_points :: "int \<Rightarrow> audit_row list \<Rightarrow> string" where
  "sparkline_points now es =
     (let cs = count_buckets now es (replicate bucket_count 0); mx = Max (set (cs @ [1]))
      in join '' '' (map (\<lambda>(i, v). spark_point mx i v) (enumerate 0 cs)))"

record audit_view =
  av_events :: "audit_row list"
  av_stats :: audit_stats
  av_incidents :: "audit_row list"
  av_spark :: string

definition no_stats :: audit_stats where
  "no_stats = \<lparr>st_total = 0, st_allowed = 0, st_denied = 0, st_review = 0, st_compute = 0\<rparr>"

definition incident :: "audit_row \<Rightarrow> bool" where
  "incident a = (a_decision a = ''denied'' \<or> a_decision a = ''human_review'' \<or> a_decision a = ''compute'')"

definition page_filter :: "string option \<Rightarrow> query_params \<Rightarrow> audit_filter" where
  "page_filter who q = \<lparr>af_user = who, af_actor = map_of q ''actor'', af_action = map_of q ''action'',
     af_decision = map_of q ''decision'', af_limit = Some 100\<rparr>"

text \<open>\<open>AuditPage\<close>: without a valid session the user is \<open>undefined\<close>.\<close>

definition audit_page_view :: "platform_env \<Rightarrow> query_params \<Rightarrow> request \<Rightarrow> audit_view app" where
  "audit_page_view pe q rq =
     (let who = session_user pe rq
      in andthen (try_catch (list_audit_events (page_filter who q)) (\<lambda>_. ret [])) (\<lambda>es.
         andthen (try_catch (get_audit_stats who) (\<lambda>_. ret no_stats)) (\<lambda>st.
         ret \<lparr>av_events = es, av_stats = st, av_incidents = take 8 (filter incident es),
              av_spark = sparkline_points (pe_now pe) es\<rparr>)))"

text \<open>A visit passes the guard first: \<open>Inl\<close> is the path the login page returns to.\<close>

definition visit_audit :: "platform_env \<Rightarrow> query_params \<Rightarrow> request \<Rightarrow> (string + audit_view) app" where
  "visit_audit pe q rq =
     (case middleware ''/audit'' rq of
        ToLogin next_path \<Rightarrow> ret (Inl next_path)
      | Next \<Rightarrow> andthen (audit_page_view pe q rq) (\<lambda>v. ret (Inr v)))"

text \<open>What submitting the form asks for: every field is sent, also the empty ones.\<close>

definition form_query :: "string \<Rightarrow> string \<Rightarrow> string \<Rightarrow> query_params" where
  "form_query actor act decision = [(''actor'', actor), (''action'', act), (''decision'', decision)]"

section \<open>Facts\<close>

lemma audit_guard: "middleware ''/audit'' rq = (if truthy (rq_cookie rq) then Next else ToLogin ''/audit'')"
proof -
  have "is_protected ''/audit''" by code_simp
  then show ?thesis by (simp add: middleware_def)
qed

lemma audit_page_quiet:
  assumes "faults s = []"
  shows "\<exists>st. audit_page_view pe q rq s =
    (Inr \<lparr>av_events = take 100 (newest_first a_created (filter (audit_matches (page_filter (session_user pe rq) q)) (t_audit s))),
       av_stats = st,
       av_incidents = take 8 (filter incident
          (take 100 (newest_first a_created (filter (audit_matches (page_filter (session_user pe rq) q)) (t_audit s))))),
       av_spark = sparkline_points (pe_now pe)
          (take 100 (newest_first a_created (filter (audit_matches (page_filter (session_user pe rq) q)) (t_audit s))))\<rparr>, s)"
  using assms
  by (simp add: audit_page_view_def list_audit_events_def get_audit_stats_def quiet_simps ret_def Let_def page_filter_def nullish_def)

lemma page_parts:
  assumes "audit_page_view pe q rq s = (Inr v, s')"
  shows "\<exists>s1. (try_catch (list_audit_events (page_filter (session_user pe rq) q)) (\<lambda>_. ret []) :: audit_row list app) s = (Inr (av_events v), s1)
    \<and> av_incidents v = take 8 (filter incident (av_events v))"
  using assms by (auto simp: audit_page_view_def andthen_apply Let_def split: prod.splits sum.splits)

lemma page_events_match:
  assumes "audit_page_view pe q rq s = (Inr v, s')"
  shows "set (av_events v) \<subseteq> set (filter (audit_matches (page_filter (session_user pe rq) q)) (t_audit s))"
proof -
  let ?f = "page_filter (session_user pe rq) q"
  obtain s1 where e: "(try_catch (list_audit_events ?f) (\<lambda>_. ret []) :: audit_row list app) s = (Inr (av_events v), s1)"
    using page_parts [OF assms] by blast
  obtain r s2 where l: "list_audit_events ?f s = (r, s2)" by force
  then show ?thesis using e list_audit_result [of ?f s _ s2] by (cases r) (auto simp: try_catch_apply)
qed

lemma page_incidents: "audit_page_view pe q rq s = (Inr v, s') \<Longrightarrow> set (av_incidents v) \<subseteq> set (av_events v)"
  using page_parts by (fastforce dest: in_set_takeD)

section \<open>Properties\<close>

text \<open>C15: The audit page shows a signed-in user only events of that user: whatever the query asks for and whatever
  statements fail, every event of the table and every incident carries the user of the session.\<close>

theorem audit_page_shows_own_events:
  assumes "visit_audit pe q rq s = (Inr (Inr v), s')" "session_user pe rq = Some u"
  shows "list_all (\<lambda>a. a_user a = Some u) (av_events v @ av_incidents v)"
proof -
  have run: "audit_page_view pe q rq s = (Inr v, s')"
    using assms(1) by (auto simp: visit_audit_def andthen_apply split: guard_result.splits prod.splits sum.splits)
  then show ?thesis
    using page_events_match [OF run] page_incidents [OF run] assms(2)
    by (auto simp: list_all_iff audit_matches_def page_filter_def)
qed

text \<open>C10: A made-up session cookie opens the audit log of every account. The guard only asks for a cookie and the page
  then asks for the events of no user in particular: a visitor whose cookie is not a valid session sees the
  newest events of all accounts, all of them while there are at most a hundred.\<close>

theorem audit_page_open_to_forged_cookies:
  assumes "faults s = []" "truthy (rq_cookie rq)" "session_user pe rq = None"
  shows "\<exists>v. visit_audit pe [] rq s = (Inr (Inr v), s)
    \<and> av_events v = take 100 (newest_first a_created (t_audit s))
    \<and> (length (t_audit s) \<le> 100 \<longrightarrow> set (av_events v) = set (t_audit s))"
proof -
  have "audit_matches (page_filter None []) = (\<lambda>a. True)" by (simp add: audit_matches_def page_filter_def fun_eq_iff)
  then obtain v where v: "audit_page_view pe [] rq s = (Inr v, s)" "av_events v = take 100 (newest_first a_created (t_audit s))"
    using audit_page_quiet [OF assms(1), of pe "[]" rq] assms(3) by fastforce
  have "visit_audit pe [] rq s = (Inr (Inr v), s)"
    using v assms(2) by (simp add: visit_audit_def audit_guard andthen_apply ret_def)
  then show ?thesis using v by (simp add: newest_first_def)
qed

text \<open>Filtering with \<open>All decisions\<close> finds nothing. The form sends the empty decision, which the page takes
  for a decision to compare with, so no event is shown whatever the other two fields ask for.\<close>

theorem audit_form_all_decisions_finds_nothing:
  assumes "visit_audit pe (form_query actor act []) rq s = (Inr (Inr v), s')"
    "list_all (\<lambda>a. a_decision a \<noteq> []) (t_audit s)"
  shows "av_events v = [] \<and> av_incidents v = []"
proof -
  have run: "audit_page_view pe (form_query actor act []) rq s = (Inr v, s')"
    using assms(1) by (auto simp: visit_audit_def andthen_apply split: guard_result.splits prod.splits sum.splits)
  have "\<not> audit_matches (page_filter (session_user pe rq) (form_query actor act [])) a" if "a \<in> set (t_audit s)" for a
    using assms(2) that by (auto simp: audit_matches_def page_filter_def form_query_def list_all_iff)
  then show ?thesis using page_events_match [OF run] page_incidents [OF run] by auto
qed

section \<open>Examples\<close>

definition denied_event :: "string \<Rightarrow> audit_row" where
  "denied_event uid = \<lparr>a_id = 1, a_trace = ''t'', a_user = Some uid, a_key = None, a_actor = ''bot'', a_action = ''drop_table'',
     a_decision = ''denied'', a_reason = [], a_rule = [], a_policy = None, a_confidence = 1, a_latency = 0, a_mode = ''live'',
     a_input_hash = None, a_output_hash = None, a_digest = None, a_created = 3\<rparr>"

definition shared_log :: db where
  "shared_log = demo_db\<lparr>t_audit := [denied_event ''u1'', denied_event ''u2'']\<rparr>"

definition with_cookie :: "string \<Rightarrow> request" where
  "with_cookie c = \<lparr>rq_auth = None, rq_cookie = Some c, rq_body = []\<rparr>"

lemma shared_log_quiet: "faults shared_log = []" "t_audit shared_log = [denied_event ''u1'', denied_event ''u2'']"
  using demo_db_ok(2) by (simp_all add: shared_log_def)

text \<open>A session of the first user.\<close>

lemma own_session: "\<exists>token. truthy (Some token) \<and> session_user demo_env (with_cookie token) = Some ''u1''"
proof -
  let ?c = "\<lparr>cl_user = ''u1'', cl_email = ''ann@x.io'', cl_name = ''Ann'', cl_verified = True\<rparr>"
  have env: "pe_secret demo_env = Some ''s3cret''" by (simp add: demo_env_def)
  obtain token where t: "sign_jwt (pe_hmac demo_env) (pe_secret demo_env) (pe_now demo_env) ?c = Some token"
    using env by (simp add: sign_jwt_def truthy_def Let_def)
  then have "truthy (Some token)" using env by (auto simp: sign_jwt_def truthy_def Let_def split: if_splits)
  moreover have "\<bar>seconds (pe_now demo_env)\<bar> < 2 ^ 53 - session_ttl" by (simp add: demo_env_def seconds_def session_ttl_def)
  ultimately show ?thesis
    using session_user_signed [OF t, of "with_cookie token"] by (auto simp: with_cookie_def session_ttl_def)
qed

theorem audit_page_shows_own_events_witness:
  "\<exists>token v. visit_audit demo_env [] (with_cookie token) shared_log = (Inr (Inr v), shared_log)
     \<and> av_events v = [denied_event ''u1''] \<and> list_all (\<lambda>a. a_user a = Some ''u1'') (av_events v @ av_incidents v)"
proof -
  obtain token where t: "truthy (Some token)" "session_user demo_env (with_cookie token) = Some ''u1''" using own_session by blast
  have f: "filter (audit_matches (page_filter (Some ''u1'') [])) (t_audit shared_log) = [denied_event ''u1'']"
    by (simp add: shared_log_quiet audit_matches_def page_filter_def denied_event_def)
  obtain v where v: "audit_page_view demo_env [] (with_cookie token) shared_log = (Inr v, shared_log)" "av_events v = [denied_event ''u1'']"
    using audit_page_quiet [OF shared_log_quiet(1), of demo_env "[]" "with_cookie token"] t f by (auto simp: newest_first_def)
  then have "visit_audit demo_env [] (with_cookie token) shared_log = (Inr (Inr v), shared_log)"
    using t by (simp add: visit_audit_def audit_guard andthen_apply ret_def with_cookie_def)
  with audit_page_shows_own_events [OF this t(2)] v(2) show ?thesis by blast
qed

theorem audit_page_open_to_forged_cookies_witness:
  "\<exists>v. visit_audit demo_env [] (with_cookie ''x'') shared_log = (Inr (Inr v), shared_log)
     \<and> set (av_events v) = {denied_event ''u1'', denied_event ''u2''}"
proof -
  have "session_user demo_env (with_cookie ''x'') = None"
    by (simp add: session_user_def get_current_user_def verify_jwt_def with_cookie_def truthy_def)
  then show ?thesis
    using audit_page_open_to_forged_cookies [OF shared_log_quiet(1), of "with_cookie ''x''" demo_env]
    by (auto simp: with_cookie_def truthy_def shared_log_quiet)
qed

theorem audit_form_all_decisions_finds_nothing_witness:
  "\<exists>v. visit_audit demo_env (form_query ''bot'' [] []) (with_cookie ''x'') shared_log = (Inr (Inr v), shared_log) \<and> av_events v = []"
proof -
  obtain v where "audit_page_view demo_env (form_query ''bot'' [] []) (with_cookie ''x'') shared_log = (Inr v, shared_log)"
    using audit_page_quiet [OF shared_log_quiet(1)] by blast
  then have "visit_audit demo_env (form_query ''bot'' [] []) (with_cookie ''x'') shared_log = (Inr (Inr v), shared_log)"
    by (simp add: visit_audit_def audit_guard andthen_apply ret_def with_cookie_def truthy_def)
  with audit_form_all_decisions_finds_nothing [OF this] show ?thesis by (auto simp: shared_log_quiet denied_event_def)
qed

end
