(* ===== verification/SdkPlatform.thy ===== *)
theory SdkPlatform
  imports ManageProps SdkAdmin AnswerTypes AuditPage
begin

text \<open>
  The SDK client against the hosted platform: the pages of the audit log and the stored policies as
  \<open>sdk/typescript/src/client.ts\<close> asks for them, and as the routes under \<open>platform/ui/app/api\<close> answer. The query
  of a request reaches a route as the list of its parameters.
\<close>

section \<open>Events\<close>

text \<open>The members of \<open>AuditEvent\<close> (\<open>types.ts\<close>) that the route sends under the declared name.\<close>

definition event_fields_sent :: "(string \<times> jtype) list" where
  "event_fields_sent =
     [(''id'', TNumber), (''actor'', TText), (''action'', TText),
      (''decision'', TText), (''reason'', TText), (''rule'', TText), (''confidence'', TNumber), (''mode'', TText)]"

text \<open>Those it requires and the route sends under another name only.\<close>

definition event_fields_renamed :: "(string \<times> jtype) list" where
  "event_fields_renamed = [(''traceId'', TText), (''latencyMs'', TNumber), (''createdAt'', TText)]"

lemma event_typed:
  "declared event_fields_sent (audit_json mg a)
   \<and> list_all (\<lambda>(k, t). member k (audit_json mg a) = None) event_fields_renamed"
  by (simp add: declared_def event_fields_sent_def event_fields_renamed_def audit_json_def member_def jint_def)

text \<open>A 200 answer of the audit route is a page of stored events.\<close>

lemma list_for_page:
  assumes "list_for mg q who t = (Inr r, t')" "rp_status r = 200"
  shows "\<exists>es limit. r = json_reply 200 (audit_page mg limit es) \<and> set es \<subseteq> set (t_audit t)"
proof -
  have "rp_status (error_reply 500 m) \<noteq> 200" for m by (simp add: error_reply_def json_reply_def)
  then obtain n es t1 where n: "list_audit_events \<lparr>af_user = who, af_actor = map_of q ''actor'', af_action = map_of q ''action'',
      af_decision = map_of q ''decision'', af_limit = Some (min n 500)\<rparr> t = (Inr es, t1)"
    "r = json_reply 200 (audit_page mg (min n 500) es)"
    using assms by (auto simp: list_for_def guarded_def try_catch_apply andthen_apply Let_def
        split: option.splits prod.splits sum.splits)
  then show ?thesis using list_audit_result [OF n(1)] by auto
qed

lemma validate_keeps_log: "preserves (\<lambda>s. t_audit s = es) (validate_api_key sha now key)"
  unfolding validate_api_key_def Let_def by (intro pres preserves_update; simp)

lemma audit_answer_page:
  assumes "v1_audit_get mg q rq s = (Inr rp, s')" "rp_status rp = 200"
  shows "\<exists>es limit. rp = json_reply 200 (audit_page mg limit es) \<and> set es \<subseteq> set (t_audit s)"
proof -
  have e: "rp_status (error_reply 401 m) \<noteq> 200" for m by (simp add: error_reply_def json_reply_def)
  then obtain key where k: "bearer rq = Some key" using assms by (cases "bearer rq") (auto simp: v1_audit_get_def)
  show ?thesis
  proof (cases "starts_with ''lelu_sk_sandbox_'' key")
    case True
    then show ?thesis using k assms list_for_page [of mg q None s rp s'] by (simp add: v1_audit_get_def)
  next
    case False
    then obtain uid kid s1 where v: "validate_api_key (pe_sha256 (mg_platform mg)) (pe_now (mg_platform mg)) key s = (Inr (Some (uid, kid)), s1)"
      "list_for mg q (Some uid) s1 = (Inr rp, s')"
      using k assms e by (auto simp: v1_audit_get_def andthen_apply split: prod.splits sum.splits option.splits)
    have "t_audit s1 = t_audit s" by (rule preservesD [OF validate_keeps_log _ v(1)]) simp
    then show ?thesis using list_for_page [OF v(2) assms(2)] by simp
  qed
qed

text \<open>The events of the hosted log have not the type the SDK gives them. In every page the route answers, each event
  has an identifier, actor, action, decision, reason, rule, confidence and mode of the declared types, but neither
  \<open>traceId\<close> nor \<open>latencyMs\<close> nor \<open>createdAt\<close>: the route writes these names with underscores and the SDK passes the
  events on as they are.\<close>

theorem hosted_events_lack_declared_members:
  assumes "v1_audit_get mg q rq s = (Inr rp, s')" "rp_status rp = 200"
  shows "\<exists>es. member ''events'' (rp_body rp) = Some (JArr es)
    \<and> list_all (\<lambda>e. declared event_fields_sent e \<and> list_all (\<lambda>(k, t). member k e = None) event_fields_renamed) es"
proof -
  obtain es limit where p: "rp = json_reply 200 (audit_page mg limit es)" using audit_answer_page [OF assms] by blast
  have "member ''events'' (rp_body rp) = Some (JArr (map (audit_json mg) es))"
    by (simp add: p json_reply_def audit_page_def member_def)
  then show ?thesis using event_typed by (auto simp: list_all_iff)
qed

section \<open>Pages\<close>

lemma audit_depends_on_four:
  assumes "\<And>k. k \<in> {''limit'', ''actor'', ''action'', ''decision''} \<Longrightarrow> map_of q k = map_of q' k"
  shows "v1_audit_get mg q rq = v1_audit_get mg q' rq"
proof -
  have m: "map_of q ''limit'' = map_of q' ''limit''" "map_of q ''actor'' = map_of q' ''actor''"
    "map_of q ''action'' = map_of q' ''action''" "map_of q ''decision'' = map_of q' ''decision''"
    by (rule assms; simp)+
  have "list_for mg q who = list_for mg q' who" for who unfolding list_for_def m ..
  then show ?thesis unfolding v1_audit_get_def by presburger
qed

lemma param_lookup:
  "map_of (param k v @ rest) k' = (if k' = k \<and> truthy v then v else map_of rest k')"
  "map_of (param k v) k' = (if k' = k \<and> truthy v then v else None)"
  by (auto simp: param_def truthy_def split: option.splits)

lemma num_param_lookup:
  "map_of (num_param show_num k v @ rest) k' = (if k' = k \<and> v \<noteq> None then map_option show_num v else map_of rest k')"
  by (auto simp: num_param_def split: option.splits)

lemma audit_params_lookup:
  "map_of (audit_params show_num r) ''limit'' = map_option show_num (aq_limit r)"
  "map_of (audit_params show_num r) ''actor'' = (if truthy (aq_actor r) then aq_actor r else None)"
  "map_of (audit_params show_num r) ''action'' = (if truthy (aq_action r) then aq_action r else None)"
  "map_of (audit_params show_num r) ''decision'' = (if truthy (aq_decision r) then aq_decision r else None)"
  by (simp_all add: audit_params_def param_lookup num_param_lookup del: map_of_append)

text \<open>C24: The hosted log has one page. Of what the SDK can ask of the audit log, the route reads the limit, the actor, the
  action and the decision; with another cursor, trace or period the same request gets the same answer. So the next
  page, asked for with the cursor the answer named, is the first page again.\<close>

theorem hosted_log_ignores_cursor_and_period:
  "v1_audit_get mg (audit_params show_num (r\<lparr>aq_cursor := c, aq_trace := t, aq_from := f, aq_to := u\<rparr>)) rq s
    = v1_audit_get mg (audit_params show_num r) rq s"
proof -
  have "v1_audit_get mg (audit_params show_num (r\<lparr>aq_cursor := c, aq_trace := t, aq_from := f, aq_to := u\<rparr>)) rq
      = v1_audit_get mg (audit_params show_num r) rq"
    by (rule audit_depends_on_four) (auto simp: audit_params_lookup)
  then show ?thesis by simp
qed

section \<open>Policies\<close>

definition upserted :: "manage \<Rightarrow> string \<Rightarrow> string \<Rightarrow> upsert_request \<Rightarrow> policy_row" where
  "upserted mg i uid u = \<lparr>p_id = i, p_user = uid, p_name = trim (up_name u), p_description = trim (nullish (up_description u) []),
     p_rules = up_rules u, p_active = True, p_created = pe_now (mg_platform mg), p_updated = pe_now (mg_platform mg)\<rparr>"

lemma upsert_members:
  "member ''name'' (upsert_doc u) = Some (JStr (up_name u))"
  "member ''description'' (upsert_doc u) = Some (JStr (nullish (up_description u) []))"
  "member ''rules'' (upsert_doc u) = Some (JArr (up_rules u))"
  by (simp_all add: upsert_doc_def member_def)

lemma upsert_posted:
  assumes "bearer rq = None" "session_user (mg_platform mg) rq = Some uid" "uid \<noteq> []" "parsed_body rq = Some (upsert_doc u)"
    "trim (up_name u) \<noteq> []" "length (up_name u) \<le> 64" "faults s = []" "i \<notin> p_id ` set (t_policies s)" "user_exists uid s"
  shows "policies_post mg i rq s
    = (Inr (json_reply 201 (JObj [(''policy'', policy_json mg (upserted mg i uid u))]), Some uid),
       s\<lparr>t_policies := t_policies s @ [upserted mg i uid u]\<rparr>)"
proof -
  have who: "resolve_user_id (mg_platform mg) rq = ret (Some uid)" using assms(1,2) by (simp add: resolve_user_id_def)
  have name: "checked_name ''Policy name is required'' 64 ''Name must be 64 characters or less'' (upsert_doc u) = Inr (trim (up_name u))"
    using assms(5,6) by (simp add: checked_name_def body_str_def upsert_members)
  have new: "find_first (\<lambda>p. p_id p = i) (t_policies s) = None" using assms(8) by (auto simp: find_first_None)
  have made: "create_policy (pe_now (mg_platform mg)) i uid (trim (up_name u)) (trim (nullish (up_description u) [])) (up_rules u) s
      = (Inr (upserted mg i uid u), s\<lparr>t_policies := t_policies s @ [upserted mg i uid u]\<rparr>)"
    using assms(7-9) new by (simp add: create_policy_def insert_policy_def quiet_simps upserted_def find_first_append)
  show ?thesis
    using assms(3,4) made
    by (simp add: policies_post_def as_user_def who truthy_def name guarded_policy_def body_str_def upsert_members jarray_def nullish_def
        andthen_apply try_catch_apply)
qed

text \<open>The SDK's upsert never updates. Sent twice, with whatever rules and whether the policy is to be active or not, it
  leaves two stored policies of the same name, both active.\<close>

theorem upsert_inserts_each_time:
  assumes "bearer rq = None" "session_user (mg_platform mg) rq = Some uid" "uid \<noteq> []" "parsed_body rq = Some (upsert_doc u)"
    "trim (up_name u) \<noteq> []" "length (up_name u) \<le> 64" "faults s = []" "i \<notin> p_id ` set (t_policies s)" "user_exists uid s"
    "j \<notin> p_id ` set (t_policies s)" "j \<noteq> i"
  shows "\<exists>s' p q. snd (policies_post mg j rq (snd (policies_post mg i rq s))) = s'
    \<and> t_policies s' = t_policies s @ [p, q] \<and> p_name p = p_name q \<and> p_active p \<and> p_active q \<and> p_rules p = up_rules u"
proof -
  let ?s1 = "s\<lparr>t_policies := t_policies s @ [upserted mg i uid u]\<rparr>"
  have one: "snd (policies_post mg i rq s) = ?s1" using upsert_posted [OF assms(1-9)] by simp
  have "j \<notin> p_id ` set (t_policies ?s1)" using assms(10,11) by (auto simp: upserted_def)
  moreover have "faults ?s1 = []" "user_exists uid ?s1" using assms(7,9) by (simp_all add: user_exists_def)
  ultimately have two: "snd (policies_post mg j rq ?s1) = ?s1\<lparr>t_policies := t_policies ?s1 @ [upserted mg j uid u]\<rparr>"
    using upsert_posted [OF assms(1-6), of ?s1 j] by simp
  show ?thesis unfolding one two by (simp add: upserted_def)
qed

section \<open>Concrete runs\<close>

theorem hosted_events_lack_declared_members_witness:
  "\<exists>rp s'. v1_audit_get example_manage [] (intruder\<lparr>rq_auth := Some ''Bearer lelu_sk_sandbox_''\<rparr>) (two_tenants\<lparr>t_audit := [example_event]\<rparr>)
      = (Inr rp, s')
    \<and> (\<exists>es. member ''events'' (rp_body rp) = Some (JArr es)
        \<and> list_all (\<lambda>e. declared event_fields_sent e \<and> list_all (\<lambda>(k, t). member k e = None) event_fields_renamed) es)"
proof -
  have b: "bearer (intruder\<lparr>rq_auth := Some ''Bearer lelu_sk_sandbox_''\<rparr>) = Some ''lelu_sk_sandbox_''"
    "starts_with ''lelu_sk_sandbox_'' ''lelu_sk_sandbox_''" by code_simp+
  have lim: "parse_int ''20'' = Some 20" by code_simp
  have q: "faults (two_tenants\<lparr>t_audit := [example_event]\<rparr>) = []" using two_tenants_ok(2) by simp
  have run: "v1_audit_get example_manage [] (intruder\<lparr>rq_auth := Some ''Bearer lelu_sk_sandbox_''\<rparr>) (two_tenants\<lparr>t_audit := [example_event]\<rparr>)
      = (Inr (json_reply 200 (audit_page example_manage 20 [example_event])), two_tenants\<lparr>t_audit := [example_event]\<rparr>)"
    by (simp add: v1_audit_get_def b lim list_for_def guarded_def nullish_def list_audit_events_def Let_def quiet_simps q newest_first_def
        audit_matches_def)
  from hosted_events_lack_declared_members [OF run] run show ?thesis by (simp add: json_reply_def)
qed

definition sample_upsert :: upsert_request where
  "sample_upsert = \<lparr>up_name = ''prod'', up_description = None, up_rules = [], up_active = Some False\<rparr>"

definition sample_doc :: "int json" where
  "sample_doc = JObj [(''name'', JStr ''prod''), (''description'', JStr []), (''rules'', JArr []), (''isActive'', JBool False)]"

theorem upsert_inserts_each_time_witness:
  "\<exists>mg rq p q. parsed_body rq = Some (upsert_doc sample_upsert)
    \<and> t_policies (snd (policies_post mg ''p2'' rq (snd (policies_post mg ''p1'' rq demo_db)))) = [p, q] \<and> p_active p \<and> p_active q"
proof -
  let ?mg = "example_manage\<lparr>mg_platform := demo_env\<rparr>"
  obtain token where t: "session_user demo_env (with_cookie token) = Some ''u1''" using own_session by blast
  let ?rq = "(with_cookie token)\<lparr>rq_body := stringify sample_doc\<rparr>"
  have body: "parsed_body ?rq = Some (upsert_doc sample_upsert)"
    using parse_stringify [of sample_doc] by (simp add: parsed_body_def sample_doc_def upsert_doc_def sample_upsert_def nullish_def)
  have who: "bearer ?rq = None" "session_user (mg_platform ?mg) ?rq = Some ''u1''"
    using t by (simp_all add: bearer_def with_cookie_def session_user_def)
  have name: "trim (up_name sample_upsert) \<noteq> []" "length (up_name sample_upsert) \<le> 64" by code_simp+
  have fresh: "''p1'' \<notin> p_id ` set (t_policies demo_db)" "user_exists ''u1'' demo_db" "''p2'' \<notin> p_id ` set (t_policies demo_db)" "''p2'' \<noteq> ''p1''"
    by (simp_all add: demo_db_def user_exists_def demo_user_def)
  have none: "t_policies demo_db = []" by (simp add: demo_db_def)
  from upsert_inserts_each_time [OF who _ body name demo_db_ok(2) fresh]
  show ?thesis using body by (simp add: none) blast
qed

end
