(* ===== verification/SdkStrands.thy ===== *)
theory SdkStrands
  imports SdkGateProps
begin

text \<open>
  The Strands Agents intervention of the SDK (\<open>sdk/typescript/src/strands/index.ts\<close>): a tool call of the
  agent is turned into an authorize request, the decision into an outcome, the outcome into one of the
  four actions the framework knows. What an action makes the framework run is the table at the head of
  the source file. \<open>show_json\<close> prints a JSON value that is no text, as in the other gates.
\<close>

section \<open>Calls, outcomes, actions\<close>

record tool_use =
  tu_name :: "string option"
  tu_input :: "jsnum json option"
  tu_id :: "string option"

record tool_call =
  tc_name :: string
  tc_args :: "jsnum json"
  tc_id :: string

text \<open>\<open>extractCall\<close>: the event may lack its tool use.\<close>

definition extract_call :: "tool_use option \<Rightarrow> tool_call" where
  "extract_call ev =
     (let use = nullish ev \<lparr>tu_name = None, tu_input = None, tu_id = None\<rparr>
      in \<lparr>tc_name = nullish (tu_name use) [],
          tc_args = (if is_object (tu_input use) then the (tu_input use) else JObj []),
          tc_id = nullish (tu_id use) []\<rparr>)"

datatype guard_action = GAllow | GDeny | GRedirect | GReview

record guard_outcome =
  go_action :: guard_action
  go_message :: string
  go_reason :: "jsnum json"
  go_trace :: "jsnum json"
  go_review_id :: "jsnum json option"
  go_tool :: "jsnum json option"
  go_args :: "jsnum json option"
  go_decision :: "auth_decision option"
  go_request :: "authorize_request option"

definition bare_outcome :: "guard_action \<Rightarrow> string \<Rightarrow> string \<Rightarrow> guard_outcome" where
  "bare_outcome act msg reason =
     \<lparr>go_action = act, go_message = msg, go_reason = JStr reason, go_trace = JStr [], go_review_id = None,
      go_tool = None, go_args = None, go_decision = None, go_request = None\<rparr>"

definition decide ::
  "(jsnum json \<Rightarrow> string) \<Rightarrow> auth_decision \<Rightarrow> tool_call \<Rightarrow> string \<Rightarrow> authorize_request option \<Rightarrow> guard_outcome" where
  "decide show_json d call actor rq =
     (let trace = nullish_json (ad_request_id d) (JStr []);
          reason = nullish_json (ad_reason d) (JStr []);
          because = '' Reason: '' @ print show_json (Some reason);
          subject = ''[Lelu] '' @ quoted (tc_name call);
          base = \<lparr>go_action = GAllow, go_message = [], go_reason = reason, go_trace = trace, go_review_id = None,
                  go_tool = None, go_args = None, go_decision = Some d, go_request = rq\<rparr>
      in if ad_decision d = HumanReview
         then base\<lparr>go_action := GReview, go_message := subject @ '' requires human approval.'' @ because,
                   go_review_id := ad_review_id d\<rparr>
         else if truthy_json (ad_safe_tool d)
         then base\<lparr>go_action := GRedirect,
                   go_message := subject @ '' redirected to '' @ quoted (print show_json (ad_safe_tool d)) @ ''.'' @ because,
                   go_tool := ad_safe_tool d, go_args := ad_safe_args d\<rparr>
         else if \<not> truthy_json (ad_allowed d)
         then base\<lparr>go_action := GDeny,
                   go_message := subject @ '' was denied for agent '' @ quoted actor @ ''.'' @ because\<rparr>
         else base)"

datatype strands_action =
    Proceed "jsnum json"
  | Cancel string
  | Transform "jsnum json" "jsnum json option" string
  | Confirm string "jsnum json"

record guard_options =
  gu_actor :: string
  gu_action_for :: "(tool_call \<Rightarrow> string) option"
  gu_confidence_for :: "(tool_call \<Rightarrow> rat option) option"
  gu_acting_for :: "string option"
  gu_confirms :: "bool option"
  gu_fail_open :: "bool option"

section \<open>The handler\<close>

text \<open>Arguments that are an array are rejected by the schema; empty ones are left out.\<close>

definition guard_request :: "guard_options \<Rightarrow> tool_call \<Rightarrow> sdk_error + authorize_request" where
  "guard_request opts call =
     (let rq = \<lparr>az_tool = nullish (gu_action_for opts) tc_name call, az_actor = Some (gu_actor opts),
                az_context = Some \<lparr>cx_signal = None,
                  cx_confidence = nullish (gu_confidence_for opts) (\<lambda>_. None) call,
                  cx_acting_for = gu_acting_for opts, cx_scope = None\<rparr>, az_args = None\<rparr>
      in case tc_args call of
           JObj (kv # kvs) \<Rightarrow> Inr (rq\<lparr>az_args := Some (kv # kvs)\<rparr>)
         | JArr (v # vs) \<Rightarrow> Inl Invalid
         | _ \<Rightarrow> Inr rq)"

definition guard_ask :: "client \<Rightarrow> string \<Rightarrow> sdk_error + authorize_request \<Rightarrow> auth_decision sdk" where
  "guard_ask c stamp rq = (case rq of Inl e \<Rightarrow> throw e | Inr r \<Rightarrow> client_authorize c stamp r)"

definition unreachable :: "bool \<Rightarrow> tool_call \<Rightarrow> string \<Rightarrow> guard_outcome" where
  "unreachable fail_open call message =
     (if fail_open then bare_outcome GAllow [] (''engine unreachable: '' @ message)
      else bare_outcome GDeny (''[Lelu] '' @ quoted (tc_name call) @ '' blocked: authorization engine unreachable (''
             @ message @ '').'') message)"

definition guard_evaluate ::
  "(sdk_error \<Rightarrow> string) \<Rightarrow> (jsnum json \<Rightarrow> string) \<Rightarrow> client \<Rightarrow> string \<Rightarrow> guard_options \<Rightarrow> tool_call \<Rightarrow> guard_outcome sdk" where
  "guard_evaluate err_text show_json c stamp opts call =
     (let rq = guard_request opts call
      in try_catch
           (andthen (guard_ask c stamp rq) (\<lambda>d.
              ret (decide show_json d call (gu_actor opts) (case rq of Inl e \<Rightarrow> None | Inr r \<Rightarrow> Some r))))
           (\<lambda>e. ret (unreachable (nullish (gu_fail_open opts) False) call (err_text e))))"

definition to_action :: "guard_options \<Rightarrow> guard_outcome \<Rightarrow> strands_action" where
  "to_action opts out =
     (case go_action out of
        GAllow \<Rightarrow> Proceed (go_reason out)
      | GRedirect \<Rightarrow>
          (if truthy_json (go_tool out) then Transform (the (go_tool out)) (go_args out) (go_message out)
           else Cancel (go_message out))
      | GReview \<Rightarrow>
          (if nullish (gu_confirms opts) True then Confirm (go_message out) (go_reason out) else Cancel (go_message out))
      | GDeny \<Rightarrow> Cancel (go_message out))"

definition before_tool_call ::
  "(sdk_error \<Rightarrow> string) \<Rightarrow> (jsnum json \<Rightarrow> string) \<Rightarrow> client \<Rightarrow> string \<Rightarrow> guard_options \<Rightarrow> tool_use option \<Rightarrow> strands_action sdk" where
  "before_tool_call err_text show_json c stamp opts ev =
     andthen (guard_evaluate err_text show_json c stamp opts (extract_call ev)) (\<lambda>out. ret (to_action opts out))"

datatype guard_error = NothingToRedeem | RedeemFailed sdk_error

definition guard_redeem :: "client \<Rightarrow> guard_outcome \<Rightarrow> int option \<Rightarrow> (net, guard_error, jsnum json) prog" where
  "guard_redeem c out timeout =
     (case (go_decision out, go_request out) of
        (Some d, Some r) \<Rightarrow> try_catch (wait_and_redeem c (ByDecision d) r timeout) (\<lambda>e. throw (RedeemFailed e))
      | _ \<Rightarrow> throw NothingToRedeem)"

section \<open>What the framework then runs\<close>

text \<open>The tool and its arguments: the requested one, the one the call was pointed at, or nothing for now.\<close>

definition runs_tool :: "tool_call \<Rightarrow> strands_action \<Rightarrow> (jsnum json \<times> jsnum json) option" where
  "runs_tool call act =
     (case act of
        Proceed reason \<Rightarrow> Some (JStr (tc_name call), tc_args call)
      | Transform tool args msg \<Rightarrow> Some (tool, nullish args (tc_args call))
      | Cancel msg \<Rightarrow> None
      | Confirm msg reason \<Rightarrow> None)"

lemma evaluate_cases:
  obtains e s' where "guard_ask c stamp (guard_request opts call) s = (Inl e, s')"
      "guard_evaluate err_text show_json c stamp opts call s = (Inr (unreachable (nullish (gu_fail_open opts) False) call (err_text e)), s')"
  | r d s' where "guard_request opts call = Inr r" "client_authorize c stamp r s = (Inr d, s')"
      "guard_evaluate err_text show_json c stamp opts call s = (Inr (decide show_json d call (gu_actor opts) (Some r)), s')"
proof -
  obtain y s' where a: "guard_ask c stamp (guard_request opts call) s = (y, s')" by force
  show thesis
  proof (cases y)
    case (Inl e)
    with a that(1) show thesis by (simp add: guard_evaluate_def Let_def try_catch_apply andthen_apply)
  next
    case (Inr d)
    then obtain r where r: "guard_request opts call = Inr r" using a by (cases "guard_request opts call") (auto simp: guard_ask_def)
    moreover from this a Inr have "client_authorize c stamp r s = (Inr d, s')" by (simp add: guard_ask_def)
    ultimately show thesis using that(2) by (simp add: guard_evaluate_def guard_ask_def Let_def try_catch_apply andthen_apply)
  qed
qed

lemma unreachable_runs: "runs_tool call (to_action opts (unreachable fail_open call msg))
    = (if fail_open then Some (JStr (tc_name call), tc_args call) else None)"
  by (simp add: unreachable_def bare_outcome_def to_action_def runs_tool_def)

lemma decide_runs:
  "runs_tool call (to_action opts (decide show_json d call actor rq)) =
     (if ad_decision d = HumanReview then None
      else if truthy_json (ad_safe_tool d) then Some (the (ad_safe_tool d), nullish (ad_safe_args d) (tc_args call))
      else if truthy_json (ad_allowed d) then Some (JStr (tc_name call), tc_args call)
      else None)"
  by (auto simp: decide_def to_action_def runs_tool_def Let_def)

text \<open>The handler always answers with an action and asks at most once. Without an answer the call runs only
  if the application chose to fail open.\<close>

lemma strands_cases:
  "\<exists>act s'. before_tool_call err_text show_json c stamp opts ev s = (Inr act, s')
     \<and> (let call = extract_call ev; original = Some (JStr (tc_name call), tc_args call)
        in runs_tool call act = (if nullish (gu_fail_open opts) False then original else None)
           \<or> (\<exists>r d. guard_request opts call = Inr r \<and> answers_with s d
                \<and> nt_sent s' = nt_sent s @ [post_request c ''/v1/agent/authorize'' (authorize_doc r)]
                \<and> runs_tool call act =
                    (if decision_of d = HumanReview then None
                     else if truthy_json (member ''safe_tool'' d)
                     then Some (the (member ''safe_tool'' d), nullish (member ''safe_args'' d) (tc_args call))
                     else if truthy_json (member ''allowed'' d) then original else None)))"
proof (rule evaluate_cases [of c stamp opts "extract_call ev" s err_text show_json])
  fix e s'
  assume "guard_evaluate err_text show_json c stamp opts (extract_call ev) s
    = (Inr (unreachable (nullish (gu_fail_open opts) False) (extract_call ev) (err_text e)), s')"
  then show ?thesis by (simp add: before_tool_call_def andthen_apply unreachable_runs Let_def)
next
  fix r d s'
  assume a: "guard_request opts (extract_call ev) = Inr r" "client_authorize c stamp r s = (Inr d, s')"
    "guard_evaluate err_text show_json c stamp opts (extract_call ev) s
      = (Inr (decide show_json d (extract_call ev) (gu_actor opts) (Some r)), s')"
  from authorize_Inr [OF a(2)] obtain doc where "answers_with s doc" "d = auth_decision_of stamp (az_tool r) doc"
    "nt_sent s' = nt_sent s @ [post_request c ''/v1/agent/authorize'' (authorize_doc r)]" by blast
  with a show ?thesis
    by (auto simp: before_tool_call_def andthen_apply decide_runs Let_def auth_decision_of_def)
qed

text \<open>What a Strands agent runs for each outcome of the engine, when the engine's answer reached the
  client. A review runs nothing. Otherwise an answer that names a safe tool runs the safe tool, on an
  allow that policy redirected and on a denial alike. Without a safe tool the requested tool runs on an
  allow, redirected or not, and on a read-only downgrade; nothing runs on a denial.\<close>

theorem strands_runs_by_outcome:
  assumes "answers_with s d" "carries d oc computed"
    and "guard_request opts (extract_call ev) = Inr r" "client_authorize c stamp r s = (Inr dec, s')"
  shows "\<exists>act. before_tool_call err_text show_json c stamp opts ev s = (Inr act, s')
    \<and> runs_tool (extract_call ev) act =
        (if oc = OReview then None
         else if truthy_json (member ''safe_tool'' d)
         then Some (the (member ''safe_tool'' d), nullish (member ''safe_args'' d) (tc_args (extract_call ev)))
         else if oc = ODeny then None
         else Some (JStr (tc_name (extract_call ev)), tc_args (extract_call ev)))"
proof -
  obtain d' where "answers_with s d'" and dec: "dec = auth_decision_of stamp (az_tool r) d'"
    using authorize_Inr [OF assms(4)] by blast
  then have d': "d' = d" using assms(1) answers_unique by blast
  have "before_tool_call err_text show_json c stamp opts ev s
    = (Inr (to_action opts (decide show_json dec (extract_call ev) (gu_actor opts) (Some r))), s')"
    using assms(3,4)
    by (simp add: before_tool_call_def guard_evaluate_def guard_ask_def Let_def try_catch_apply andthen_apply)
  moreover have "decision_of d = HumanReview \<longleftrightarrow> oc = OReview" "truthy_json (member ''allowed'' d) \<longleftrightarrow> oc = OAllow \<or> oc = OReadOnly"
    using assms(2)
    by (auto simp: carries_def decision_of_def sent_allowed_def sent_review_def sent_compute_def)
  ultimately show ?thesis
    by (cases oc) (simp_all add: decide_runs dec d' auth_decision_of_def)
qed

definition refused_doc :: "int json" where
  "refused_doc = JObj [(''allowed'', JBool False), (''safe_tool'', JStr ''trash'')]"

definition demo_guard :: guard_options where
  "demo_guard = \<lparr>gu_actor = ''bot'', gu_action_for = None, gu_confidence_for = None, gu_acting_for = None,
     gu_confirms = None, gu_fail_open = None\<rparr>"

definition demo_use :: tool_use where
  "demo_use = \<lparr>tu_name = Some ''delete'', tu_input = None, tu_id = None\<rparr>"

theorem strands_runs_by_outcome_witness:
  "\<exists>act s'. before_tool_call (\<lambda>_. []) (\<lambda>_. []) demo_client ''now'' demo_guard (Some demo_use)
       (script [(2, HttpAnswer 200 (stringify refused_doc))]) = (Inr act, s')
     \<and> runs_tool (extract_call (Some demo_use)) act = Some (JStr ''trash'', JObj [])"
proof -
  have p: "parse_json (stringify refused_doc) = Some (reread refused_doc)"
    by (rule parse_stringify) (simp add: refused_doc_def)
  have said: "answers_with (script [(2, HttpAnswer 200 (stringify refused_doc))]) (reread refused_doc)"
    by (simp add: answers_with_def script_def http_ok_def p)
  have deny: "carries (reread refused_doc) ODeny True"
    by (simp add: carries_def refused_doc_def member_def truthy_json_def sent_allowed_def sent_scope_def
        sent_review_def sent_compute_def)
  let ?r = "\<lparr>az_tool = ''delete'', az_actor = Some ''bot'', az_context = Some \<lparr>cx_signal = None, cx_confidence = None,
      cx_acting_for = None, cx_scope = None\<rparr>, az_args = None\<rparr>"
  have rq: "guard_request demo_guard (extract_call (Some demo_use)) = Inr ?r"
    by (simp add: guard_request_def extract_call_def demo_use_def demo_guard_def nullish_def is_object_def Let_def)
  have ok: "authorize_request_ok ?r" by (simp add: authorize_request_ok_def context_ok_def confidence_ok_def)
  have notnull: "reread refused_doc \<noteq> JNull" by (simp add: refused_doc_def)
  obtain dec s' where run: "client_authorize demo_client ''now'' ?r (script [(2, HttpAnswer 200 (stringify refused_doc))]) = (Inr dec, s')"
    using ok notnull
    by (simp add: client_authorize_def authorize_body_def check_def andthen_apply post_call call_json_def fetch_def Let_def
        parse_response_def http_ok_def p members_def script_def demo_client_def)
  from strands_runs_by_outcome [OF said deny rq run, of "\<lambda>_. []" "\<lambda>_. []"] show ?thesis
    by (auto simp: refused_doc_def member_def truthy_json_def extract_call_def demo_use_def nullish_def is_object_def Let_def)
qed

end
