(* ===== verification/LocalStore.thy ===== *)
theory LocalStore
  imports SdkNet "HOL-Library.List_Lexorder" "HOL-Library.Char_ord"
begin

text \<open>
  The local storage of the SDK (\<open>sdk/typescript/src/storage.ts\<close>): audit events and policies in two
  SQLite tables. The store is the rows of the two tables, the next automatic event id, the clock
  (seconds, as \<open>CURRENT_TIMESTAMP\<close>) and the ids \<open>generateId\<close> will draw. The order of rows with equal
  sort keys is the database's, so \<open>ORDER BY created_at DESC\<close> is an argument. Rules are stored as text.
\<close>

section \<open>Rows\<close>

record audit_input =
  ai_trace :: string
  ai_user :: "string option"
  ai_key :: "string option"
  ai_actor :: string
  ai_action :: string
  ai_decision :: string
  ai_reason :: string
  ai_rule :: string
  ai_policy :: "string option"
  ai_confidence :: rat
  ai_latency :: rat
  ai_mode :: string

record event_row = audit_input +
  er_id :: int
  er_created :: int

record policy_row =
  pw_id :: string
  pw_user :: string
  pw_name :: string
  pw_description :: string
  pw_rules :: string
  pw_active :: int
  pw_created :: int
  pw_updated :: int

record store =
  st_now :: int
  st_next :: int
  st_ids :: "string list"
  st_events :: "event_row list"
  st_policies :: "policy_row list"

datatype store_error = Constraint | BadRules

type_synonym 'a store_prog = "(store, store_error, 'a) prog"

section \<open>Audit events\<close>

definition insert_audit_event :: "audit_input \<Rightarrow> unit store_prog" where
  "insert_audit_event e = modify (\<lambda>s. s\<lparr>st_next := st_next s + 1,
     st_events := st_events s @ [audit_input.extend e \<lparr>er_id = st_next s, er_created = st_now s\<rparr>]\<rparr>)"

text \<open>\<open>n || d\<close> for a number.\<close>

definition or_number :: "int option \<Rightarrow> int \<Rightarrow> int" where
  "or_number v d = (let n = nullish v 0 in if n = 0 then d else n)"

text \<open>\<open>LIMIT n\<close>; a negative one is no limit.\<close>

definition limit_rows :: "int \<Rightarrow> 'a list \<Rightarrow> 'a list" where
  "limit_rows n rows = (if n < 0 then rows else take (nat n) rows)"

definition page :: "(event_row list \<Rightarrow> event_row list) \<Rightarrow> int \<Rightarrow> int \<Rightarrow> string option \<Rightarrow> store \<Rightarrow> event_row list" where
  "page newest limit cursor actor s =
     limit_rows limit (newest (filter (\<lambda>r. cursor < er_id r \<and> (truthy actor \<longrightarrow> ai_actor r = the actor)) (st_events s)))"

definition next_cursor :: "int \<Rightarrow> event_row list \<Rightarrow> int" where
  "next_cursor cursor events = (if events = [] then cursor else er_id (last events))"

record event_page =
  ep_events :: "event_row list"
  ep_count :: int
  ep_next :: int

definition list_events ::
  "(event_row list \<Rightarrow> event_row list) \<Rightarrow> int option \<Rightarrow> int option \<Rightarrow> string option \<Rightarrow> event_page store_prog" where
  "list_events newest limit cursor actor = gets (\<lambda>s.
     let events = page newest (or_number limit 20) (or_number cursor 0) actor s
     in \<lparr>ep_events = events, ep_count = int (length (st_events s)), ep_next = next_cursor (or_number cursor 0) events\<rparr>)"

section \<open>Policies\<close>

record policy_rule =
  ru_id :: string
  ru_pattern :: string
  ru_decision :: string
  ru_reason :: string

record policy_input =
  pi_name :: string
  pi_description :: "string option"
  pi_rules :: "policy_rule list"
  pi_active :: "bool option"
  pi_user :: "string option"

definition rule_doc :: "policy_rule \<Rightarrow> int json" where
  "rule_doc r = JObj [(''id'', JStr (ru_id r)), (''pattern'', JStr (ru_pattern r)), (''decision'', JStr (ru_decision r)),
                      (''reason'', JStr (ru_reason r))]"

definition rules_doc :: "policy_rule list \<Rightarrow> int json" where
  "rules_doc rs = JArr (map rule_doc rs)"

record stored_policy =
  sp_id :: string
  sp_user :: string
  sp_name :: string
  sp_description :: string
  sp_rules :: "jsnum json"
  sp_active :: bool
  sp_created :: int
  sp_updated :: int

definition row_to_policy :: "policy_row \<Rightarrow> stored_policy option" where
  "row_to_policy r = map_option (\<lambda>rules.
     \<lparr>sp_id = pw_id r, sp_user = pw_user r, sp_name = pw_name r, sp_description = pw_description r, sp_rules = rules,
      sp_active = (pw_active r = 1), sp_created = pw_created r, sp_updated = pw_updated r\<rparr>) (parse_json (pw_rules r))"

fun read_rows :: "policy_row list \<Rightarrow> stored_policy list store_prog" where
  "read_rows [] = ret []"
| "read_rows (r # rs) =
     (case row_to_policy r of
        None \<Rightarrow> throw BadRules
      | Some p \<Rightarrow> andthen (read_rows rs) (\<lambda>ps. ret (p # ps)))"

definition list_stored :: "stored_policy list store_prog" where
  "list_stored = (\<lambda>s. read_rows (sort_key pw_name (st_policies s)) s)"

definition get_stored :: "string \<Rightarrow> stored_policy option store_prog" where
  "get_stored i = (\<lambda>s.
     case find_first (\<lambda>r. pw_id r = i) (st_policies s) of
       None \<Rightarrow> (Inr None, s)
     | Some r \<Rightarrow> (case row_to_policy r of None \<Rightarrow> (Inl BadRules, s) | Some p \<Rightarrow> (Inr (Some p), s)))"

definition generate_id :: "string store_prog" where
  "generate_id = (\<lambda>s. (Inr (case st_ids s of [] \<Rightarrow> [] | i # is \<Rightarrow> i), s\<lparr>st_ids := tl (st_ids s)\<rparr>))"

text \<open>One statement: a row of that name is updated (its id, user and creation stay), else a row is added; an
  id that is taken violates the primary key.\<close>

definition store_upsert :: "policy_input \<Rightarrow> unit store_prog" where
  "store_upsert p =
     andthen generate_id (\<lambda>i s.
       let rules = stringify (rules_doc (pi_rules p)); active = (if pi_active p = Some False then 0 else 1);
           desc = nullish (pi_description p) []
       in if \<exists>r \<in> set (st_policies s). pw_id r = i then (Inl Constraint, s)
          else if \<exists>r \<in> set (st_policies s). pw_name r = pi_name p
          then (Inr (), s\<lparr>st_policies := map (\<lambda>r. if pw_name r = pi_name p
                  then r\<lparr>pw_description := desc, pw_rules := rules, pw_active := active, pw_updated := st_now s\<rparr> else r)
                  (st_policies s)\<rparr>)
          else (Inr (), s\<lparr>st_policies := st_policies s @ [\<lparr>pw_id = i, pw_user = nullish (pi_user p) [], pw_name = pi_name p,
                  pw_description = desc, pw_rules = rules, pw_active = active, pw_created = st_now s,
                  pw_updated = st_now s\<rparr>]\<rparr>))"

definition store_delete :: "string \<Rightarrow> bool store_prog" where
  "store_delete i = (\<lambda>s.
     let kept = filter (\<lambda>r. pw_id r \<noteq> i) (st_policies s)
     in (Inr (length kept < length (st_policies s)), s\<lparr>st_policies := kept\<rparr>))"

section \<open>The specification: a map from names\<close>

text \<open>What a client may rely on: per name the id, the user, the description, the rules and whether active.\<close>

record policy_view =
  vw_id :: string
  vw_user :: string
  vw_description :: string
  vw_rules :: "jsnum json"
  vw_active :: bool

datatype store_op = Upsert policy_input | Remove string

fun run_op :: "store_op \<Rightarrow> store \<Rightarrow> store" where
  "run_op (Upsert p) s = snd (store_upsert p s)"
| "run_op (Remove i) s = snd (store_delete i s)"

definition drawn :: "store \<Rightarrow> string" where
  "drawn s = (case st_ids s of [] \<Rightarrow> [] | i # is \<Rightarrow> i)"

text \<open>The abstract operation; \<open>i\<close> is the fresh id.\<close>

fun spec_op :: "store_op \<Rightarrow> string \<Rightarrow> (string \<rightharpoonup> policy_view) \<Rightarrow> (string \<rightharpoonup> policy_view)" where
  "spec_op (Upsert p) i m =
     m(pi_name p \<mapsto> (let old = m (pi_name p) in
        \<lparr>vw_id = (case old of None \<Rightarrow> i | Some v \<Rightarrow> vw_id v),
         vw_user = (case old of None \<Rightarrow> nullish (pi_user p) [] | Some v \<Rightarrow> vw_user v),
         vw_description = nullish (pi_description p) [], vw_rules = reread (rules_doc (pi_rules p)),
         vw_active = (pi_active p \<noteq> Some False)\<rparr>))"
| "spec_op (Remove i) _ m = (\<lambda>n. case m n of None \<Rightarrow> None | Some v \<Rightarrow> if vw_id v = i then None else Some v)"

definition row_view :: "policy_row \<Rightarrow> policy_view" where
  "row_view r = \<lparr>vw_id = pw_id r, vw_user = pw_user r, vw_description = pw_description r,
     vw_rules = (case parse_json (pw_rules r) of None \<Rightarrow> JNull | Some d \<Rightarrow> d), vw_active = (pw_active r = 1)\<rparr>"

definition policies_of :: "store \<Rightarrow> string \<rightharpoonup> policy_view" where
  "policies_of s = map_of (map (\<lambda>r. (pw_name r, row_view r)) (st_policies s))"

definition store_ok :: "store \<Rightarrow> bool" where
  "store_ok s = (distinct (map pw_name (st_policies s)) \<and> distinct (map pw_id (st_policies s))
     \<and> (\<forall>r \<in> set (st_policies s). parse_json (pw_rules r) \<noteq> None)
     \<and> sorted_wrt (<) (map er_id (st_events s)) \<and> (\<forall>e \<in> set (st_events s). er_id e < st_next s))"

end
