(* ===== verification/LocalStoreProps.thy ===== *)
theory LocalStoreProps
  imports LocalStore
begin

text \<open>
  The local storage refines its specification: the policy table is a map from names, and listing is that
  map in order. Paging through the audit events does not reach all of them.
\<close>

section \<open>Policies\<close>

definition stored_view :: "stored_policy \<Rightarrow> policy_view" where
  "stored_view p = \<lparr>vw_id = sp_id p, vw_user = sp_user p, vw_description = sp_description p, vw_rules = sp_rules p,
     vw_active = sp_active p\<rparr>"

lemma rules_read: "parse_json (stringify (rules_doc rs)) = Some (reread (rules_doc rs))"
  by (rule parse_stringify) (auto simp: safe_doc_def rules_doc_def rule_doc_def)

lemma policies_of_iff:
  assumes "distinct (map pw_name (st_policies s))"
  shows "policies_of s n = Some v \<longleftrightarrow> (\<exists>r \<in> set (st_policies s). pw_name r = n \<and> row_view r = v)"
  using assms by (auto simp: policies_of_def map_of_eq_Some_iff comp_def)

lemma dom_policies: "dom (policies_of s) = pw_name ` set (st_policies s)"
  by (auto simp: policies_of_def dom_map_of_conv_image_fst image_image)

lemma row_to_policy_view: "row_to_policy r = Some p \<Longrightarrow> sp_name p = pw_name r \<and> stored_view p = row_view r"
  by (auto simp: row_to_policy_def stored_view_def row_view_def)

lemma read_rows_ok:
  assumes "\<forall>r \<in> set rs. parse_json (pw_rules r) \<noteq> None"
  shows "\<exists>ps. read_rows rs s = (Inr ps, s) \<and> map sp_name ps = map pw_name rs \<and> map stored_view ps = map row_view rs"
  using assms
proof (induction rs)
  case (Cons r rs)
  then obtain ps where "read_rows rs s = (Inr ps, s)" "map sp_name ps = map pw_name rs" "map stored_view ps = map row_view rs"
    by auto
  moreover obtain p where "row_to_policy r = Some p" using Cons.prems by (auto simp: row_to_policy_def)
  ultimately show ?case using row_to_policy_view [of r p] by (simp add: andthen_apply)
qed simp

lemma list_stored_ok:
  assumes "store_ok s"
  shows "\<exists>ps. list_stored s = (Inr ps, s) \<and> map sp_name ps = sorted_list_of_set (dom (policies_of s))
    \<and> (\<forall>p \<in> set ps. policies_of s (sp_name p) = Some (stored_view p))"
proof -
  let ?rows = "sort_key pw_name (st_policies s)"
  have ok: "distinct (map pw_name (st_policies s))" "\<forall>r \<in> set ?rows. parse_json (pw_rules r) \<noteq> None"
    using assms by (auto simp: store_ok_def)
  obtain ps where ps: "read_rows ?rows s = (Inr ps, s)" "map sp_name ps = map pw_name ?rows" "map stored_view ps = map row_view ?rows"
    using read_rows_ok [OF ok(2)] by blast
  have "sorted (map pw_name ?rows)" "distinct (map pw_name ?rows)"
    using ok(1) by (simp_all add: distinct_map)
  then have "map pw_name ?rows = sorted_list_of_set (set (map pw_name ?rows))"
    by (metis sorted_list_of_set.idem_if_sorted_distinct)
  then have "map sp_name ps = sorted_list_of_set (dom (policies_of s))" using ps(2) by (simp add: dom_policies)
  moreover have "policies_of s (sp_name p) = Some (stored_view p)" if "p \<in> set ps" for p
  proof -
    have "map (\<lambda>p. (sp_name p, stored_view p)) ps = map (\<lambda>r. (pw_name r, row_view r)) ?rows"
      using ps(2,3) by (simp add: list_eq_iff_nth_eq)
    then have "(sp_name p, stored_view p) \<in> (\<lambda>r. (pw_name r, row_view r)) ` set ?rows"
      using that by (metis (mono_tags, lifting) image_eqI list.set_map)
    then show ?thesis using policies_of_iff [OF ok(1)] by auto
  qed
  ultimately show ?thesis using ps(1) by (auto simp: list_stored_def)
qed

definition upserted :: "policy_input \<Rightarrow> store \<Rightarrow> policy_row \<Rightarrow> policy_row" where
  "upserted p s r = r\<lparr>pw_description := nullish (pi_description p) [], pw_rules := stringify (rules_doc (pi_rules p)),
     pw_active := (if pi_active p = Some False then 0 else 1), pw_updated := st_now s\<rparr>"

definition inserted :: "policy_input \<Rightarrow> store \<Rightarrow> policy_row" where
  "inserted p s = \<lparr>pw_id = drawn s, pw_user = nullish (pi_user p) [], pw_name = pi_name p,
     pw_description = nullish (pi_description p) [], pw_rules = stringify (rules_doc (pi_rules p)),
     pw_active = (if pi_active p = Some False then 0 else 1), pw_created = st_now s, pw_updated = st_now s\<rparr>"

lemma upsert_cases:
  assumes "drawn s \<notin> pw_id ` set (st_policies s)"
  shows "store_upsert p s = (Inr (), s\<lparr>st_ids := tl (st_ids s), st_policies :=
     (if pi_name p \<in> pw_name ` set (st_policies s)
      then map (\<lambda>r. if pw_name r = pi_name p then upserted p s r else r) (st_policies s)
      else st_policies s @ [inserted p s])\<rparr>)"
proof -
  have ex: "(\<exists>r \<in> set rs. f r = x) \<longleftrightarrow> x \<in> f ` set rs" for f :: "policy_row \<Rightarrow> string" and x rs by auto
  show ?thesis using assms
    by (simp add: store_upsert_def generate_id_def andthen_apply drawn_def [symmetric] upserted_def inserted_def Let_def ex)
qed

lemma policies_of_simps:
  "policies_of (s\<lparr>st_ids := i, st_policies := rs\<rparr>) = map_of (map (\<lambda>r. (pw_name r, row_view r)) rs)"
  "policies_of (s\<lparr>st_policies := rs\<rparr>) = map_of (map (\<lambda>r. (pw_name r, row_view r)) rs)"
  by (simp_all add: policies_of_def)

lemma map_of_update_named:
  "map_of (map (\<lambda>r. (pw_name r, row_view r)) (map (\<lambda>r. if pw_name r = n then upserted p s r else r) rs)) =
     (\<lambda>k. if k = n then map_option (\<lambda>v. v\<lparr>vw_description := nullish (pi_description p) [],
                         vw_rules := reread (rules_doc (pi_rules p)), vw_active := (pi_active p \<noteq> Some False)\<rparr>)
                       (map_of (map (\<lambda>r. (pw_name r, row_view r)) rs) k)
          else map_of (map (\<lambda>r. (pw_name r, row_view r)) rs) k)"
  by (induction rs) (auto simp: upserted_def row_view_def rules_read fun_eq_iff)

lemma map_of_remove_id:
  assumes "distinct (map pw_name rs)"
  shows "map_of (map (\<lambda>r. (pw_name r, row_view r)) (filter (\<lambda>r. pw_id r \<noteq> i) rs)) n =
     (case map_of (map (\<lambda>r. (pw_name r, row_view r)) rs) n of None \<Rightarrow> None | Some v \<Rightarrow> if vw_id v = i then None else Some v)"
  using assms
proof (induction rs)
  case (Cons r rs)
  moreover have "map_of (map (\<lambda>r. (pw_name r, row_view r)) rs) (pw_name r) = None"
    using Cons.prems by (auto simp: map_of_eq_None_iff image_image)
  ultimately show ?case by (auto simp: row_view_def)
qed simp

lemma run_op_refines:
  assumes "store_ok s" "drawn s \<notin> pw_id ` set (st_policies s)"
  shows "policies_of (run_op op s) = spec_op op (drawn s) (policies_of s)"
proof (cases op)
  case (Upsert p)
  show ?thesis
  proof (cases "pi_name p \<in> pw_name ` set (st_policies s)")
    case True
    then obtain v where v: "policies_of s (pi_name p) = Some v" using dom_policies [of s] by blast
    show ?thesis unfolding Upsert run_op.simps spec_op.simps upsert_cases [OF assms(2)] snd_conv policies_of_simps
      using True v by (simp add: map_of_update_named policies_of_def fun_eq_iff Let_def del: map_map)
  next
    case False
    then have n: "policies_of s (pi_name p) = None" using dom_policies [of s] by blast
    have "map_of (map (\<lambda>r. (pw_name r, row_view r)) (st_policies s @ [inserted p s])) =
        (policies_of s)(pi_name p \<mapsto> row_view (inserted p s))"
      using n by (auto simp: policies_of_def fun_eq_iff map_add_def inserted_def split: option.splits)
    then show ?thesis unfolding Upsert run_op.simps spec_op.simps upsert_cases [OF assms(2)] snd_conv policies_of_simps
      using False n by (simp add: inserted_def row_view_def rules_read Let_def)
  qed
next
  case (Remove i)
  then show ?thesis using map_of_remove_id assms(1)
    by (auto simp: store_delete_def Let_def policies_of_def store_ok_def fun_eq_iff)
qed

lemma run_op_ok:
  assumes "store_ok s" "drawn s \<notin> pw_id ` set (st_policies s)"
  shows "store_ok (run_op op s)"
proof (cases op)
  case (Upsert p)
  have keep: "map pw_name (map (\<lambda>r. if pw_name r = pi_name p then upserted p s r else r) rs) = map pw_name rs"
    "map pw_id (map (\<lambda>r. if pw_name r = pi_name p then upserted p s r else r) rs) = map pw_id rs" for rs
    by (induction rs) (auto simp: upserted_def)
  have read: "parse_json (pw_rules (upserted p s r)) \<noteq> None" "parse_json (pw_rules (inserted p s)) \<noteq> None"
    "pw_id (inserted p s) = drawn s" "pw_name (inserted p s) = pi_name p" for r
    by (simp_all add: upserted_def inserted_def rules_read)
  show ?thesis unfolding Upsert run_op.simps upsert_cases [OF assms(2)] snd_conv
    using assms by (auto simp: store_ok_def keep read simp del: map_map)
next
  case (Remove i)
  then show ?thesis using assms(1) by (auto simp: store_delete_def Let_def store_ok_def distinct_map_filter)
qed

text \<open>C19: The policy table refines a map from names. From a well-formed store, with a fresh id drawn, adding or
  removing a policy gives a well-formed store that stands for the map the specification gives: an upsert
  sets the description, rules and activity of that name and keeps the id and user a name already had, a
  removal drops the entry with that id, every other name is untouched. Listing returns that map, complete
  and in the order of the names, with the rules as they were given.\<close>

theorem policies_refine_a_map:
  assumes "store_ok s" "drawn s \<notin> pw_id ` set (st_policies s)"
  shows "store_ok (run_op op s) \<and> policies_of (run_op op s) = spec_op op (drawn s) (policies_of s)
    \<and> (\<exists>ps. list_stored (run_op op s) = (Inr ps, run_op op s)
         \<and> map sp_name ps = sorted_list_of_set (dom (spec_op op (drawn s) (policies_of s)))
         \<and> (\<forall>p \<in> set ps. spec_op op (drawn s) (policies_of s) (sp_name p) = Some (stored_view p)))"
  using run_op_ok [OF assms] run_op_refines [OF assms] list_stored_ok [OF run_op_ok [OF assms], of op] by simp

definition demo_store :: store where
  "demo_store = \<lparr>st_now = 100, st_next = 4, st_ids = [''p2''],
     st_events = map (\<lambda>i. \<lparr>ai_trace = ''t'', ai_user = None, ai_key = None, ai_actor = ''bot'', ai_action = ''refund'',
        ai_decision = ''allowed'', ai_reason = [], ai_rule = [], ai_policy = None, ai_confidence = 1, ai_latency = 3,
        ai_mode = ''live'', er_id = i, er_created = 10 * i\<rparr>) [1, 2, 3],
     st_policies = [inserted \<lparr>pi_name = ''main'', pi_description = None, pi_rules = [], pi_active = None, pi_user = None\<rparr>
        \<lparr>st_now = 7, st_next = 1, st_ids = [''p1''], st_events = [], st_policies = []\<rparr>]\<rparr>"

lemma demo_store_ok: "store_ok demo_store \<and> drawn demo_store \<notin> pw_id ` set (st_policies demo_store)"
  by (simp add: store_ok_def demo_store_def inserted_def rules_read drawn_def)

theorem policies_refine_a_map_witness:
  "policies_of (run_op (Remove ''p1'') demo_store) = Map.empty \<and> policies_of demo_store ''main'' \<noteq> None"
proof -
  have "policies_of (run_op (Remove ''p1'') demo_store) = spec_op (Remove ''p1'') (drawn demo_store) (policies_of demo_store)"
    using policies_refine_a_map [of demo_store "Remove ''p1''"] demo_store_ok by blast
  then show ?thesis
    by (auto simp: policies_of_def demo_store_def inserted_def row_view_def drawn_def fun_eq_iff)
qed

section \<open>Paging\<close>

text \<open>The cursors of a client that asks for page after page with the cursor it got last.\<close>

fun walk :: "(event_row list \<Rightarrow> event_row list) \<Rightarrow> int \<Rightarrow> string option \<Rightarrow> store \<Rightarrow> nat \<Rightarrow> int" where
  "walk newest limit actor s 0 = 0"
| "walk newest limit actor s (Suc k) =
     (let c = walk newest limit actor s k in next_cursor c (page newest limit c actor s))"

lemma page_ids:
  assumes "\<And>rs. set (newest rs) \<subseteq> set rs" "e \<in> set (page newest limit c actor s)"
  shows "c < er_id e"
proof -
  let ?rows = "filter (\<lambda>r. c < er_id r \<and> (truthy actor \<longrightarrow> ai_actor r = the actor)) (st_events s)"
  have "set (limit_rows limit rs) \<subseteq> set rs" for rs :: "event_row list" by (auto simp: limit_rows_def dest: in_set_takeD)
  then have "e \<in> set ?rows" using assms(1) [of ?rows] assms(2) by (auto simp: page_def)
  then show ?thesis by simp
qed

lemma next_cursor_le:
  assumes "\<And>rs. set (newest rs) \<subseteq> set rs"
  shows "c \<le> next_cursor c (page newest limit c actor s)"
  using page_ids [OF assms, of "last (page newest limit c actor s)" limit c actor s]
  by (auto simp: next_cursor_def)

text \<open>Paging through the audit log does not reach older events. Pages are newest first, but the next
  cursor is the id of the last, oldest event of a page and a page only holds ids above the cursor. So
  an event that is not on the first page, with an id up to the cursor that page returns, is on no page a
  client gets by following the cursors, however many it asks for.\<close>

theorem older_events_are_never_listed:
  assumes "\<And>rs. set (newest rs) \<subseteq> set rs"
    and "e \<notin> set (page newest limit 0 actor s)" "er_id e \<le> next_cursor 0 (page newest limit 0 actor s)"
  shows "e \<notin> set (page newest limit (walk newest limit actor s k) actor s)"
proof (cases k)
  case 0
  then show ?thesis using assms(2) by simp
next
  case (Suc m)
  have "next_cursor 0 (page newest limit 0 actor s) \<le> walk newest limit actor s (Suc m)"
  proof (induction m)
    case (Suc m)
    then show ?case
      using next_cursor_le [OF assms(1), of "walk newest limit actor s (Suc m)" limit actor s]
      by (simp only: walk.simps(2) [of _ _ _ _ "Suc m"] Let_def)
  qed (simp add: Let_def)
  then show ?thesis using assms(3) page_ids [OF assms(1), of e limit _ actor s] Suc by fastforce
qed

theorem older_events_are_never_listed_witness:
  "\<exists>e \<in> set (st_events demo_store). \<forall>k. e \<notin> set (page rev 2 (walk rev 2 None demo_store k) None demo_store)"
proof (rule bexI)
  let ?e = "hd (st_events demo_store)"
  show "\<forall>k. ?e \<notin> set (page rev 2 (walk rev 2 None demo_store k) None demo_store)"
  proof
    fix k
    show "?e \<notin> set (page rev 2 (walk rev 2 None demo_store k) None demo_store)"
      by (rule older_events_are_never_listed)
        (simp_all add: page_def limit_rows_def demo_store_def truthy_def next_cursor_def)
  qed
qed (simp add: demo_store_def)

end
