(* ===== verification/OAuthLogin.thy ===== *)
theory OAuthLogin
  imports AuthRoutes SdkNet
begin

text \<open>
  Login with Google and GitHub: the authorization code flow of \<open>platform/ui/lib/oauth.ts\<close> and the four
  routes under \<open>app/api/auth/google\<close> and \<open>app/api/auth/github\<close>. The provider is an argument: its token
  endpoint answers the form it is sent, its API answers an address and an access token. Members of its
  answers are taken to have the types it documents; an answer that has not fails like one that is missing.
\<close>

datatype provider = Google | GitHub

record provider_config =
  pc_authorize :: string
  pc_token :: string
  pc_scope :: string
  pc_client :: "string option"
  pc_secret :: "string option"

record oauth_env =
  oe_platform :: platform_env
  oe_base :: string
  oe_google :: "string option \<times> string option"
  oe_github :: "string option \<times> string option"
  oe_token :: "string \<Rightarrow> (string \<times> string) list \<Rightarrow> http_answer"
  oe_api :: "string \<Rightarrow> string \<Rightarrow> http_answer"
  oe_num :: "jsnum \<Rightarrow> string"

definition provider_name :: "provider \<Rightarrow> string" where
  "provider_name p = (case p of Google \<Rightarrow> ''google'' | GitHub \<Rightarrow> ''github'')"

definition config_of :: "oauth_env \<Rightarrow> provider \<Rightarrow> provider_config" where
  "config_of oe p =
     (case p of
        Google \<Rightarrow> \<lparr>pc_authorize = ''https://accounts.google.com/o/oauth2/v2/auth'', pc_token = ''https://oauth2.googleapis.com/token'',
          pc_scope = ''openid email profile'', pc_client = fst (oe_google oe), pc_secret = snd (oe_google oe)\<rparr>
      | GitHub \<Rightarrow> \<lparr>pc_authorize = ''https://github.com/login/oauth/authorize'', pc_token = ''https://github.com/login/oauth/access_token'',
          pc_scope = ''read:user user:email'', pc_client = fst (oe_github oe), pc_secret = snd (oe_github oe)\<rparr>)"

definition provider_configured :: "oauth_env \<Rightarrow> provider \<Rightarrow> bool" where
  "provider_configured oe p = (truthy (pc_client (config_of oe p)) \<and> truthy (pc_secret (config_of oe p)))"

text \<open>\<open>buildAuthorizeUrl\<close>; it throws without a client id.\<close>

definition build_authorize_url :: "oauth_env \<Rightarrow> provider \<Rightarrow> string \<Rightarrow> string \<Rightarrow> string option" where
  "build_authorize_url oe p state redirect_uri =
     (let cfg = config_of oe p
      in if \<not> truthy (pc_client cfg) then None
         else Some (pc_authorize cfg @ ''?'' @ search_params
           ([(''client_id'', the (pc_client cfg)), (''redirect_uri'', redirect_uri), (''scope'', pc_scope cfg),
             (''state'', state), (''response_type'', ''code'')]
            @ (if p = Google then [(''access_type'', ''online''), (''prompt'', ''select_account'')] else []))))"

section \<open>Asking the provider\<close>

text \<open>The body of a successful answer.\<close>

definition ok_json :: "http_answer \<Rightarrow> jsnum json option" where
  "ok_json a =
     (case a of
        NoAnswer \<Rightarrow> None
      | HttpAnswer status body \<Rightarrow> if http_ok status then parse_json body else None)"

definition exchange_code :: "oauth_env \<Rightarrow> provider \<Rightarrow> string \<Rightarrow> string \<Rightarrow> string option" where
  "exchange_code oe p code redirect_uri =
     (let cfg = config_of oe p
      in if \<not> provider_configured oe p then None
         else (case ok_json (oe_token oe (pc_token cfg)
                       [(''client_id'', the (pc_client cfg)), (''client_secret'', the (pc_secret cfg)), (''code'', code),
                        (''redirect_uri'', redirect_uri), (''grant_type'', ''authorization_code'')]) of
                 None \<Rightarrow> None
               | Some d \<Rightarrow> (case str_of (member ''access_token'' d) of None \<Rightarrow> None | Some t \<Rightarrow> if t = [] then None else Some t)))"

definition text_or :: "jsnum json option \<Rightarrow> string option \<Rightarrow> string option" where
  "text_or v d = (case v of None \<Rightarrow> d | Some JNull \<Rightarrow> d | Some x \<Rightarrow> str_of (Some x))"

definition fetch_google_profile :: "oauth_env \<Rightarrow> string \<Rightarrow> oauth_profile option" where
  "fetch_google_profile oe token =
     (case ok_json (oe_api oe ''https://openidconnect.googleapis.com/v1/userinfo'' token) of
        None \<Rightarrow> None
      | Some d \<Rightarrow>
          (case (str_of (member ''sub'' d), str_of (member ''email'' d)) of
             (Some sub, Some email) \<Rightarrow>
               (if email = [] then None
                else (case text_or (member ''name'' d) (Some (hd (split_on (CHR ''@'') email))) of
                        None \<Rightarrow> None
                      | Some name \<Rightarrow> Some \<lparr>op_account = sub, op_email = email, op_name = name,
                          op_verified = truthy_json (member ''email_verified'' d)\<rparr>))
           | _ \<Rightarrow> None))"

text \<open>\<open>emails.find(e => e.primary) ?? emails.find(e => e.verified) ?? emails[0]\<close>.\<close>

definition best_email :: "jsnum json list \<Rightarrow> jsnum json option" where
  "best_email es =
     (case find_first (\<lambda>e. truthy_json (member ''primary'' e)) es of
        Some e \<Rightarrow> Some e
      | None \<Rightarrow>
          (case find_first (\<lambda>e. truthy_json (member ''verified'' e)) es of
             Some e \<Rightarrow> Some e
           | None \<Rightarrow> (case es of [] \<Rightarrow> None | e # _ \<Rightarrow> Some e)))"

text \<open>The address and whether it is verified; the list of addresses, when it can be read, decides both.\<close>

definition github_email :: "jsnum json \<Rightarrow> http_answer \<Rightarrow> (string option \<times> bool) option" where
  "github_email d emails =
     (let public = (str_of (member ''email'' d), False)
      in case emails of
           NoAnswer \<Rightarrow> None
         | HttpAnswer status body \<Rightarrow>
             (if \<not> http_ok status then Some public
              else (case parse_json body of
                      Some (JArr es) \<Rightarrow>
                        Some (case best_email es of
                                None \<Rightarrow> public
                              | Some e \<Rightarrow> (str_of (member ''email'' e), truthy_json (member ''verified'' e)))
                    | _ \<Rightarrow> None)))"

definition fetch_github_profile :: "oauth_env \<Rightarrow> string \<Rightarrow> oauth_profile option" where
  "fetch_github_profile oe token =
     (case ok_json (oe_api oe ''https://api.github.com/user'' token) of
        None \<Rightarrow> None
      | Some d \<Rightarrow>
          (if d = JNull then None
           else (case github_email d (oe_api oe ''https://api.github.com/user/emails'' token) of
                   None \<Rightarrow> None
                 | Some (email, verified) \<Rightarrow>
                     (if \<not> truthy email then None
                      else (case text_or (member ''name'' d) (str_of (member ''login'' d)) of
                              None \<Rightarrow> None
                            | Some name \<Rightarrow> Some \<lparr>op_account = js_string_opt (oe_num oe) (member ''id'' d), op_email = the email,
                                op_name = name, op_verified = verified\<rparr>)))))"

definition fetch_profile :: "oauth_env \<Rightarrow> provider \<Rightarrow> string \<Rightarrow> oauth_profile option" where
  "fetch_profile oe p token = (case p of Google \<Rightarrow> fetch_google_profile oe token | GitHub \<Rightarrow> fetch_github_profile oe token)"

section \<open>The routes\<close>

definition state_cookie :: string where
  "state_cookie = ''lelu_oauth_state''"

definition redirect_uri :: "oauth_env \<Rightarrow> provider \<Rightarrow> string" where
  "redirect_uri oe p = oe_base oe @ ''/api/auth/'' @ provider_name p @ ''/callback''"

definition not_configured_reply :: "provider \<Rightarrow> reply" where
  "not_configured_reply p = error_reply 501
     (case p of
        Google \<Rightarrow> ''Google sign-in is not configured yet. Set GOOGLE_CLIENT_ID and GOOGLE_CLIENT_SECRET.''
      | GitHub \<Rightarrow> ''GitHub sign-in is not configured yet. Set GITHUB_CLIENT_ID and GITHUB_CLIENT_SECRET.'')"

definition state_doc :: "string \<Rightarrow> string \<Rightarrow> int json" where
  "state_doc state next_path = JObj [(''state'', JStr state), (''next'', JStr next_path)]"

text \<open>\<open>GET /api/auth/<provider>\<close>, with a fresh random state.\<close>

definition oauth_start :: "oauth_env \<Rightarrow> provider \<Rightarrow> string \<Rightarrow> query_params \<Rightarrow> reply app" where
  "oauth_start oe p state q =
     (if \<not> provider_configured oe p then ret (not_configured_reply p)
      else (case build_authorize_url oe p state (redirect_uri oe p) of
              None \<Rightarrow> throw ConfigError
            | Some url \<Rightarrow>
                ret ((redirect_reply url)\<lparr>rp_cookies :=
                  [(state_cookie, stringify (state_doc state (safe_next_path (map_of q ''next''))), 5 * 60)]\<rparr>)))"

definition fail_login :: "oauth_env \<Rightarrow> string \<Rightarrow> reply" where
  "fail_login oe reason = redirect_reply (oe_base oe @ ''/login?error='' @ reason)"

text \<open>The part inside the \<open>try\<close>; \<open>ids\<close> are the identifiers a new user and a new link would get.\<close>

definition sign_in_oauth :: "oauth_env \<Rightarrow> provider \<Rightarrow> string \<times> string \<Rightarrow> string \<Rightarrow> string \<Rightarrow> reply app" where
  "sign_in_oauth oe p ids code next_path =
     (let pe = oe_platform oe
      in case exchange_code oe p code (redirect_uri oe p) of
           None \<Rightarrow> throw (RemoteError ''token exchange failed'')
         | Some token \<Rightarrow>
             (case fetch_profile oe p token of
                None \<Rightarrow> throw (RemoteError ''profile fetch failed'')
              | Some profile \<Rightarrow>
                  andthen (find_or_create_oauth_user (pe_now pe) (fst ids) (snd ids) (provider_name p) profile) (\<lambda>u.
                  andthen (try_catch (record_login (pe_now pe) (us_id u)) (\<lambda>_. ret ())) (\<lambda>_.
                  case sign_jwt (pe_hmac pe) (pe_secret pe) (pe_now pe) (claims_of u) of
                    None \<Rightarrow> throw ConfigError
                  | Some jwt \<Rightarrow>
                      ret ((redirect_reply (oe_base oe @ next_path))\<lparr>rp_cookies :=
                        [(session_cookie, jwt, week), (state_cookie, [], 0)]\<rparr>)))))"

text \<open>\<open>GET /api/auth/<provider>/callback\<close>; reading a member of a cookie that is \<open>null\<close> throws.\<close>

definition oauth_callback ::
  "oauth_env \<Rightarrow> provider \<Rightarrow> string \<times> string \<Rightarrow> query_params \<Rightarrow> string option \<Rightarrow> reply app" where
  "oauth_callback oe p ids q cookie =
     (let code = map_of q ''code''; state = map_of q ''state''
      in if \<not> truthy code \<or> \<not> truthy state then ret (fail_login oe ''oauth_missing_params'')
         else if \<not> truthy cookie then ret (fail_login oe ''oauth_expired'')
         else (case parse_json (the cookie) of
                 None \<Rightarrow> ret (fail_login oe ''oauth_invalid_state'')
               | Some saved \<Rightarrow>
                   (if saved = JNull then throw BadValue
                    else if member ''state'' saved \<noteq> Some (JStr (the state)) then ret (fail_login oe ''oauth_invalid_state'')
                    else try_catch (sign_in_oauth oe p ids (the code) (js_string_opt (oe_num oe) (member ''next'' saved)))
                           (\<lambda>_. ret (fail_login oe ''oauth_failed'')))))"

text \<open>The two files of each provider differ in its name only.\<close>

definition google_start :: "oauth_env \<Rightarrow> string \<Rightarrow> query_params \<Rightarrow> reply app" where
  "google_start oe = oauth_start oe Google"

definition google_callback :: "oauth_env \<Rightarrow> string \<times> string \<Rightarrow> query_params \<Rightarrow> string option \<Rightarrow> reply app" where
  "google_callback oe = oauth_callback oe Google"

end
