(* ===== verification/OAuthProps.thy ===== *)
theory OAuthProps
  imports OAuthLogin Tenants
begin

text \<open>
  What the OAuth login guarantees: the callback only signs in a browser that started the flow, it sends it
  back to a path of the site, and a provider account always leads to the same user.
\<close>

section \<open>Start and callback\<close>

lemma state_doc_parses:
  "parse_json (stringify (state_doc st nx)) = Some (reread (state_doc st nx))"
  by (rule parse_stringify) (simp add: state_doc_def)

lemma state_doc_members:
  "member ''state'' (reread (state_doc st nx)) = Some (JStr st)" "member ''next'' (reread (state_doc st nx)) = Some (JStr nx)"
  "reread (state_doc st nx) \<noteq> JNull"
  by (simp_all add: state_doc_def member_def)

lemma fail_login_reply: "rp_redirect (fail_login oe r) = Some (oe_base oe @ ''/login?error='' @ r)" "rp_cookies (fail_login oe r) = []"
  by (simp_all add: fail_login_def redirect_reply_def)

lemma sign_in_cases:
  assumes "sign_in_oauth oe p ids code next_path s = (Inr rp, s')"
  obtains u jwt where "sign_jwt (pe_hmac (oe_platform oe)) (pe_secret (oe_platform oe)) (pe_now (oe_platform oe)) (claims_of u) = Some jwt"
    "rp_redirect rp = Some (oe_base oe @ next_path)" "rp_cookies rp = [(session_cookie, jwt, week), (state_cookie, [], 0)]"
  using assms
  by (auto simp: sign_in_oauth_def Let_def andthen_apply redirect_reply_def split: option.splits prod.splits sum.splits)

text \<open>What a callback can answer.\<close>

lemma callback_cases:
  assumes "oauth_callback oe p ids q cookie s = (Inr rp, s')"
  obtains (refused) r where "rp = fail_login oe r"
  | (signed) c saved st code where "cookie = Some c" "parse_json c = Some saved" "saved \<noteq> JNull" "member ''state'' saved = Some (JStr st)"
      "map_of q ''state'' = Some st" "st \<noteq> []" "map_of q ''code'' = Some code"
      "sign_in_oauth oe p ids code (js_string_opt (oe_num oe) (member ''next'' saved)) s = (Inr rp, s')"
  using assms
  by (auto simp: oauth_callback_def Let_def truthy_def try_catch_apply split: option.splits if_splits prod.splits sum.splits)

lemma safe_path_local: "\<exists>r. safe_next_path v = CHR ''/'' # r \<and> \<not> starts_with ''//'' (safe_next_path v)"
  using safe_next_path_local [of v] by (auto simp: starts_with_def)

section \<open>Users of a provider account\<close>

lemma filter_user: "distinct (map u_id us) \<Longrightarrow> r \<in> set us \<Longrightarrow> filter (\<lambda>u. u_id u = u_id r) us = [r]"
  by (rule filter_unique)

text \<open>After a successful call the account is linked to the returned user.\<close>

definition linked_to :: "string \<Rightarrow> string \<Rightarrow> user \<Rightarrow> db \<Rightarrow> bool" where
  "linked_to provider account u s =
     (\<exists>r rest. linked_users provider account s = r # rest \<and> u_id r = us_id u)"

lemma new_link:
  assumes "distinct (map u_id (t_users s))" "r \<in> set (t_users s)" "u_id r = us_id u"
    "(pr, ac) \<notin> (\<lambda>x. (oa_provider x, oa_account x)) ` set (t_oauth s)"
  shows "linked_to pr ac u (s\<lparr>t_oauth := t_oauth s @ [\<lparr>oa_id = i, oa_user = us_id u, oa_provider = pr, oa_account = ac\<rparr>]\<rparr>)"
proof -
  have "filter (\<lambda>a. oa_provider a = pr \<and> oa_account a = ac) (t_oauth s) = []"
    using assms(4) by (force simp: filter_empty_conv)
  moreover have "filter (\<lambda>x. u_id x = us_id u) (t_users s) = [r]" using filter_user [OF assms(1,2)] assms(3) by simp
  ultimately show ?thesis using assms(3) by (simp add: linked_to_def linked_users_def)
qed

lemma find_user_quiet:
  assumes "faults s = []"
  shows "find_user_by_email e s = (Inr (case filter (\<lambda>u. u_email u = norm_email e) (t_users s) of [] \<Rightarrow> None
    | r # _ \<Rightarrow> Some (user_of_row r)), s)"
  using assms by (simp add: find_user_by_email_def quiet_simps split: list.splits)

lemma find_or_create_links:
  assumes "db_ok s" "faults s = []" "find_or_create_oauth_user now i l pr profile s = (Inr u, s')"
  shows "linked_to pr (op_account profile) u s' \<and> faults s' = []"
proof (cases "linked_users pr (op_account profile) s")
  case (Cons r rest)
  then show ?thesis using assms
    by (auto simp: find_or_create_oauth_user_def quiet_simps Let_def linked_to_def user_of_row_def)
next
  case Nil
  have ids: "distinct (map u_id (t_users s))" using assms(1) by (simp add: db_ok_def)
  show ?thesis
  proof (cases "filter (\<lambda>u. u_email u = norm_email (norm_email (op_email profile))) (t_users s)")
    case (Cons r rest)
    then have r: "r \<in> set (t_users s)" by (metis filter_eq_ConsD in_set_conv_decomp)
    show ?thesis using assms(2,3) Nil Cons new_link [OF ids r, of "user_of_row r" pr "op_account profile" l]
      by (auto simp: find_or_create_oauth_user_def quiet_simps Let_def find_user_quiet insert_oauth_def user_of_row_def split: if_splits)
  next
    case none: Nil
    define nu where "nu = \<lparr>us_id = i, us_name = trim (op_name profile), us_email = norm_email (op_email profile),
      us_password = None, us_verified = op_verified profile, us_created = now\<rparr>"
    have nu: "us_id nu = i" by (simp add: nu_def)
    have e: "find_or_create_oauth_user now i l pr profile s =
        andthen (insert_user (new_user_row nu now)) (\<lambda>_. andthen (insert_oauth \<lparr>oa_id = l, oa_user = us_id nu, oa_provider = pr,
            oa_account = op_account profile\<rparr>) (\<lambda>_. ret nu)) s"
      using assms(2) Nil none
      by (simp add: find_or_create_oauth_user_def quiet_simps Let_def find_user_quiet nu_def)
    define s1 where "s1 = s\<lparr>t_users := t_users s @ [new_user_row nu now]\<rparr>"
    have ins: "u_id (new_user_row nu now) \<notin> u_id ` set (t_users s)" "u = nu" "faults s1 = []"
      "(pr, op_account profile) \<notin> (\<lambda>x. (oa_provider x, oa_account x)) ` set (t_oauth s1)"
      "s' = s1\<lparr>t_oauth := t_oauth s1 @ [\<lparr>oa_id = l, oa_user = us_id nu, oa_provider = pr, oa_account = op_account profile\<rparr>]\<rparr>"
      using assms(2,3) e by (auto simp: quiet_simps insert_user_def insert_oauth_def s1_def split: if_splits)
    have "distinct (map u_id (t_users s1))" using ids ins(1) by (simp add: s1_def)
    moreover have "new_user_row nu now \<in> set (t_users s1)" "u_id (new_user_row nu now) = us_id nu"
      by (simp_all add: s1_def new_user_row_def)
    ultimately show ?thesis using new_link [of s1 "new_user_row nu now" nu pr "op_account profile" l] ins by simp
  qed
qed

section \<open>An example\<close>

definition token_doc :: "int json" where
  "token_doc = JObj [(''access_token'', JStr ''t'')]"

definition profile_doc :: "int json" where
  "profile_doc = JObj [(''sub'', JStr ''g1''), (''email'', JStr ''ann@x.io''), (''email_verified'', JBool True), (''name'', JStr ''Ann'')]"

definition oauth_pe :: platform_env where
  "oauth_pe = \<lparr>pe_hmac = (\<lambda>k m. m), pe_sha256 = (\<lambda>t. t), pe_scrypt = (\<lambda>p s. p), pe_secret = Some ''s'', pe_now = 5\<rparr>"

definition demo_oauth :: oauth_env where
  "demo_oauth = \<lparr>oe_platform = oauth_pe, oe_base = ''https://lelu-ai.com'', oe_google = (Some ''id'', Some ''sec''),
     oe_github = (None, None), oe_token = (\<lambda>url form. HttpAnswer 200 (stringify token_doc)),
     oe_api = (\<lambda>url t. HttpAnswer 200 (stringify profile_doc)), oe_num = (\<lambda>n. [])\<rparr>"

definition ann_google :: oauth_profile where
  "ann_google = \<lparr>op_account = ''g1'', op_email = ''ann@x.io'', op_name = ''Ann'', op_verified = True\<rparr>"

lemma demo_docs_parse:
  "parse_json (stringify token_doc) = Some (reread token_doc)" "parse_json (stringify profile_doc) = Some (reread profile_doc)"
  by (rule parse_stringify, simp add: token_doc_def profile_doc_def)+

lemma demo_exchange:
  "exchange_code demo_oauth Google code uri = Some ''t''" "fetch_profile demo_oauth Google ''t'' = Some ann_google"
proof -
  have api: "oe_api demo_oauth url tok = HttpAnswer 200 (stringify profile_doc)"
    "oe_token demo_oauth url form = HttpAnswer 200 (stringify token_doc)" for url tok form
    by (simp_all add: demo_oauth_def)
  have conf: "provider_configured demo_oauth Google"
    by (simp add: provider_configured_def config_of_def demo_oauth_def truthy_def)
  show "exchange_code demo_oauth Google code uri = Some ''t''"
    by (simp add: exchange_code_def conf api ok_json_def http_ok_def demo_docs_parse Let_def) (simp add: token_doc_def member_def)
  show "fetch_profile demo_oauth Google ''t'' = Some ann_google"
    by (simp add: fetch_profile_def fetch_google_profile_def api ok_json_def http_ok_def demo_docs_parse)
      (simp add: profile_doc_def member_def text_or_def truthy_json_def ann_google_def)
qed

lemma ann_is_known:
  "find_or_create_oauth_user 5 ''u9'' ''l9'' ''google'' ann_google demo_db
     = (Inr (user_of_row (demo_user ''u1'' ''ann@x.io'')), demo_db\<lparr>t_oauth := [\<lparr>oa_id = ''l9'', oa_user = ''u1'',
         oa_provider = ''google'', oa_account = ''g1''\<rparr>]\<rparr>)"
proof -
  have n: "norm_email ''ann@x.io'' = ''ann@x.io''" by code_simp
  show ?thesis
    by (simp add: find_or_create_oauth_user_def quiet_simps Let_def demo_db_def demo_user_def ann_google_def linked_users_def
        find_user_quiet n insert_oauth_def user_of_row_def user_exists_def)
qed

lemma demo_sign_in:
  "\<exists>jwt s'. sign_in_oauth demo_oauth Google (''u9'', ''l9'') ''c'' ''/agents'' demo_db
     = (Inr ((redirect_reply (oe_base demo_oauth @ ''/agents''))\<lparr>rp_cookies := [(session_cookie, jwt, week), (state_cookie, [], 0)]\<rparr>), s')"
proof -
  have pe: "oe_platform demo_oauth = oauth_pe" "pe_now oauth_pe = 5" "provider_name Google = ''google''"
    by (simp_all add: demo_oauth_def oauth_pe_def provider_name_def)
  obtain jwt where jwt: "sign_jwt (pe_hmac oauth_pe) (pe_secret oauth_pe) 5 (claims_of (user_of_row (demo_user ''u1'' ''ann@x.io''))) = Some jwt"
    by (simp add: oauth_pe_def sign_jwt_def truthy_def Let_def)
  have q: "faults (demo_db\<lparr>t_oauth := x\<rparr>) = []" for x by (simp add: demo_db_def)
  show ?thesis
    by (simp add: sign_in_oauth_def demo_exchange Let_def pe andthen_apply ann_is_known jwt record_login_def update_user_def
        try_catch_apply update_quiet q) (rule exI, rule refl)
qed

section \<open>Properties\<close>

text \<open>C22: The OAuth callback signs in only the browser that started the flow and keeps it on the site. With
  the cookie that a start has set, every redirect of the callback goes to the site's own base address
  followed by a path that begins with exactly one slash; a session cookie is set only when the state in
  the address is the one the start has drawn, and then the path is the one the start was asked for, made
  local.\<close>

theorem oauth_login_returns_to_the_site:
  assumes "oauth_start oe p state q s0 = (Inr rp0, s1)" "(state_cookie, c, age) \<in> set (rp_cookies rp0)"
    "oauth_callback oe p ids q2 (Some c) s = (Inr rp, s')"
  shows "\<exists>path. rp_redirect rp = Some (oe_base oe @ path) \<and> starts_with ''/'' path \<and> \<not> starts_with ''//'' path
    \<and> ((\<exists>jwt a. (session_cookie, jwt, a) \<in> set (rp_cookies rp)) \<longrightarrow>
         map_of q2 ''state'' = Some state \<and> path = safe_next_path (map_of q ''next''))"
proof -
  let ?next = "safe_next_path (map_of q ''next'')"
  have c: "c = stringify (state_doc state ?next)"
    using assms(1,2) by (auto simp: oauth_start_def not_configured_reply_def error_reply_def json_reply_def split: if_splits option.splits)
  obtain r where local: "?next = CHR ''/'' # r" "\<not> starts_with ''//'' ?next" using safe_path_local by blast
  from assms(3) show ?thesis
  proof (cases rule: callback_cases)
    case (refused r)
    then show ?thesis by (intro exI [of _ "''/login?error='' @ r"]) (simp add: fail_login_reply starts_with_def)
  next
    case (signed c' saved st code)
    then have saved: "saved = reread (state_doc state ?next)" using c state_doc_parses [of state ?next] by simp
    then have st: "st = state" using signed(4) by (simp add: state_doc_members)
    from signed(8) obtain u jwt where "rp_redirect rp = Some (oe_base oe @ js_string_opt (oe_num oe) (member ''next'' saved))"
      by (rule sign_in_cases)
    then have "rp_redirect rp = Some (oe_base oe @ ?next)" using saved by (simp add: state_doc_members js_string_opt_def)
    moreover have "starts_with ''/'' ?next" using local(1) by (simp add: starts_with_def)
    ultimately show ?thesis using local(2) signed(5) st by (intro exI [of _ ?next]) simp
  qed
qed

theorem oauth_login_returns_to_the_site_witness:
  "\<exists>rp path. fst (oauth_callback demo_oauth Google (''u9'', ''l9'') [(''code'', ''c''), (''state'', ''st'')]
        (Some (stringify (state_doc ''st'' ''/agents''))) demo_db) = Inr rp
    \<and> rp_redirect rp = Some (oe_base demo_oauth @ path) \<and> starts_with ''/'' path \<and> path = safe_next_path (Some ''/agents'')"
proof -
  have safe: "safe_next_path (Some ''/agents'') = ''/agents''" by code_simp
  let ?c = "stringify (state_doc ''st'' ''/agents'')"
  have conf: "provider_configured demo_oauth Google" "truthy (pc_client (config_of demo_oauth Google))"
    by (simp_all add: provider_configured_def config_of_def demo_oauth_def truthy_def)
  obtain url where url: "build_authorize_url demo_oauth Google ''st'' (redirect_uri demo_oauth Google) = Some url"
    using conf(2) by (simp add: build_authorize_url_def Let_def)
  have start: "oauth_start demo_oauth Google ''st'' [(''next'', ''/agents'')] demo_db
      = (Inr ((redirect_reply url)\<lparr>rp_cookies := [(state_cookie, ?c, 300)]\<rparr>), demo_db)"
    using conf(1) by (simp add: oauth_start_def url safe)
  have ne: "?c \<noteq> []" by (simp add: state_doc_def)
  obtain jwt s' where run: "oauth_callback demo_oauth Google (''u9'', ''l9'') [(''code'', ''c''), (''state'', ''st'')] (Some ?c) demo_db
      = (Inr ((redirect_reply (oe_base demo_oauth @ ''/agents''))\<lparr>rp_cookies := [(session_cookie, jwt, week), (state_cookie, [], 0)]\<rparr>), s')"
    using demo_sign_in ne by (auto simp: oauth_callback_def Let_def truthy_def state_doc_parses state_doc_members js_string_opt_def try_catch_apply)
  have cookie: "(state_cookie, ?c, 300) \<in> set (rp_cookies ((redirect_reply url)\<lparr>rp_cookies := [(state_cookie, ?c, 300)]\<rparr>))" by simp
  obtain path where "rp_redirect ((redirect_reply (oe_base demo_oauth @ ''/agents''))\<lparr>rp_cookies := [(session_cookie, jwt, week), (state_cookie, [], 0)]\<rparr>)
      = Some (oe_base demo_oauth @ path)" "starts_with ''/'' path" "path = safe_next_path (Some ''/agents'')"
    using oauth_login_returns_to_the_site [OF start cookie run] by auto
  then show ?thesis using run by (metis fst_conv)
qed

text \<open>C36: A provider account always leads to the same user. After a successful login with a provider
  account, whatever name and address the provider reports the next time, the login finds the same user
  and adds nothing to the database.\<close>

theorem oauth_account_leads_to_one_user:
  assumes "db_ok s" "faults s = []" "find_or_create_oauth_user now i l pr profile s = (Inr u, s1)"
    "op_account profile2 = op_account profile"
  shows "\<exists>u2. find_or_create_oauth_user now2 i2 l2 pr profile2 s1 = (Inr u2, s1) \<and> us_id u2 = us_id u"
proof -
  have l: "linked_to pr (op_account profile) u s1" "faults s1 = []" using find_or_create_links [OF assms(1-3)] by auto
  then obtain r rest where "linked_users pr (op_account profile) s1 = r # rest" "u_id r = us_id u" by (auto simp: linked_to_def)
  then show ?thesis using l(2) assms(4) by (simp add: find_or_create_oauth_user_def quiet_simps Let_def user_of_row_def)
qed

theorem oauth_account_leads_to_one_user_witness:
  "\<exists>u2. find_or_create_oauth_user 9 ''u8'' ''l8'' ''google'' (ann_google\<lparr>op_email := ''new@x.io'', op_name := ''A''\<rparr>)
      (demo_db\<lparr>t_oauth := [\<lparr>oa_id = ''l9'', oa_user = ''u1'', oa_provider = ''google'', oa_account = ''g1''\<rparr>]\<rparr>)
     = (Inr u2, demo_db\<lparr>t_oauth := [\<lparr>oa_id = ''l9'', oa_user = ''u1'', oa_provider = ''google'', oa_account = ''g1''\<rparr>]\<rparr>) \<and> us_id u2 = ''u1''"
  using oauth_account_leads_to_one_user [OF demo_db_ok ann_is_known, of "ann_google\<lparr>op_email := ''new@x.io'', op_name := ''A''\<rparr>" 9 "''u8''" "''l8''"]
  by (simp add: user_of_row_def demo_user_def)

text \<open>An address the provider has not verified is enough to enter an existing account. A first login
  with a provider account that reports the address of a stored user, verified or not, is linked to that
  user and signs in as it, whatever the password and the verification of the account.\<close>

theorem reported_address_enters_account:
  assumes "db_ok s" "faults s = []" "r \<in> set (t_users s)" "u_email r = norm_email (norm_email (op_email profile))"
    "(pr, op_account profile) \<notin> (\<lambda>x. (oa_provider x, oa_account x)) ` set (t_oauth s)" "l \<notin> oa_id ` set (t_oauth s)"
  shows "find_or_create_oauth_user now i l pr profile s
    = (Inr (user_of_row r), s\<lparr>t_oauth := t_oauth s @ [\<lparr>oa_id = l, oa_user = u_id r, oa_provider = pr, oa_account = op_account profile\<rparr>]\<rparr>)"
proof -
  have none: "linked_users pr (op_account profile) s = []"
    using assms(5) by (force simp: linked_users_def filter_empty_conv)
  have "filter (\<lambda>u. u_email u = u_email r) (t_users s) = [r]"
    using assms(1,3) by (intro filter_unique) (auto simp: db_ok_def)
  moreover have "user_exists (u_id r) s" using assms(3) by (auto simp: user_exists_def)
  ultimately show ?thesis using assms none
    by (auto simp: find_or_create_oauth_user_def quiet_simps Let_def find_user_quiet insert_oauth_def user_of_row_def)
qed

theorem reported_address_enters_account_witness:
  "fst (find_or_create_oauth_user 5 ''u9'' ''l9'' ''github''
      \<lparr>op_account = ''77'', op_email = ''Ann@x.io'', op_name = ''Mallory'', op_verified = False\<rparr> demo_db)
    = Inr (user_of_row (demo_user ''u1'' ''ann@x.io''))"
proof -
  have n: "norm_email (norm_email ''Ann@x.io'') = ''ann@x.io''" by code_simp
  show ?thesis
    by (subst reported_address_enters_account [OF demo_db_ok, of "demo_user ''u1'' ''ann@x.io''"])
      (simp_all add: n, simp_all add: demo_db_def demo_user_def)
qed

end
