(* ===== verification/Billing.thy ===== *)
theory Billing
  imports ManageRoutes
begin

text \<open>
  Billing: the checkout, portal and webhook routes under \<open>platform/ui/app/api/billing\<close> with
  \<open>platform/ui/lib/stripe.ts\<close>. The payment service is an argument: creating a session answers a JSON value
  or throws, checking a signed event answers the event or throws.
\<close>

record billing =
  be_platform :: platform_env
  be_base :: string
  be_stripe_key :: "string option"
  be_price :: "string option"
  be_webhook_secret :: "string option"
  be_checkout :: "jsnum json \<Rightarrow> jsnum json option"
  be_portal :: "jsnum json \<Rightarrow> jsnum json option"
  be_event :: "string \<Rightarrow> string \<Rightarrow> string \<Rightarrow> jsnum json option"

text \<open>\<open>stripe()\<close> and \<open>paidPriceId()\<close> throw when they are not configured.\<close>

definition with_stripe :: "billing \<Rightarrow> 'a option \<Rightarrow> 'a app" where
  "with_stripe be r =
     (if \<not> truthy (be_stripe_key be) then throw ConfigError
      else (case r of None \<Rightarrow> throw (RemoteError ''stripe'') | Some x \<Rightarrow> ret x))"

definition customer_of :: "string \<Rightarrow> db \<Rightarrow> string option" where
  "customer_of uid s = (case find_first (\<lambda>u. u_id u = uid) (t_users s) of None \<Rightarrow> None | Some u \<Rightarrow> u_stripe u)"

definition session_email :: "platform_env \<Rightarrow> request \<Rightarrow> jsnum json option" where
  "session_email pe rq =
     (case get_current_user (pe_hmac pe) (pe_secret pe) (pe_now pe) (rq_cookie rq) of
        None \<Rightarrow> None | Some session \<Rightarrow> member ''email'' session)"

definition checkout_doc :: "billing \<Rightarrow> string \<Rightarrow> jsnum json option \<Rightarrow> string option \<Rightarrow> string \<Rightarrow> jsnum json" where
  "checkout_doc be uid email customer price = JObj
     ([(''mode'', JStr ''subscription'')]
      @ when_some ''customer'' (map_option JStr customer)
      @ when_some ''customer_email'' (if truthy customer then None else email)
      @ [(''client_reference_id'', JStr uid),
         (''line_items'', JArr [JObj [(''price'', JStr price), (''quantity'', jint 1)]]),
         (''success_url'', JStr (be_base be @ ''/dashboard?upgraded=1'')), (''cancel_url'', JStr (be_base be @ ''/pricing'')),
         (''allow_promotion_codes'', JBool True)])"

definition checkout :: "billing \<Rightarrow> request \<Rightarrow> reply app" where
  "checkout be rq =
     (case session_user (be_platform be) rq of
        None \<Rightarrow> ret unauthorized
      | Some uid \<Rightarrow>
          andthen ensure_schema (\<lambda>_.
          andthen (select (customer_of uid)) (\<lambda>customer.
          guarded ''Failed to start checkout''
            (if \<not> truthy (be_stripe_key be) \<or> \<not> truthy (be_price be) then throw ConfigError
             else
               andthen (with_stripe be (be_checkout be
                          (checkout_doc be uid (session_email (be_platform be) rq) customer (the (be_price be))))) (\<lambda>r.
               ret (if truthy_json (member ''url'' r) then json_reply 200 (JObj [(''url'', jmember ''url'' r)])
                    else error_reply 500 ''Failed to create checkout session''))))))"

definition portal :: "billing \<Rightarrow> request \<Rightarrow> reply app" where
  "portal be rq =
     (case session_user (be_platform be) rq of
        None \<Rightarrow> ret unauthorized
      | Some uid \<Rightarrow>
          andthen ensure_schema (\<lambda>_.
          andthen (select (customer_of uid)) (\<lambda>customer.
          if \<not> truthy customer then ret (error_reply 404 ''No billing account found'')
          else guarded ''Failed to open billing portal''
            (andthen (with_stripe be (be_portal be
                (JObj [(''customer'', JStr (the customer)), (''return_url'', JStr (be_base be @ ''/dashboard''))]))) (\<lambda>r.
             ret (json_reply 200 (JObj (when_some ''url'' (member ''url'' r)))))))))"

section \<open>Events\<close>

text \<open>Setting a customer number that another user has violates the constraint of its column.\<close>

definition set_paid :: "int \<Rightarrow> string \<Rightarrow> string \<Rightarrow> unit app" where
  "set_paid now uid customer = insert_checked
     (\<lambda>s. user_exists uid s \<longrightarrow> list_all (\<lambda>u. u_id u \<noteq> uid \<longrightarrow> u_stripe u \<noteq> Some customer) (t_users s))
     (\<lambda>s. s\<lparr>t_users := map (\<lambda>u. if u_id u = uid
          then u\<lparr>u_plan := ''paid'', u_plan_updated := Some now, u_stripe := Some customer\<rparr> else u) (t_users s)\<rparr>)"

text \<open>No row has the customer number \<open>NULL\<close>, as SQL compares it.\<close>

definition set_plan_of_customer :: "int \<Rightarrow> string option \<Rightarrow> string \<Rightarrow> unit app" where
  "set_plan_of_customer now customer plan = update
     (\<lambda>s. s\<lparr>t_users := map (\<lambda>u. if customer \<noteq> None \<and> u_stripe u = customer then u\<lparr>u_plan := plan, u_plan_updated := Some now\<rparr> else u) (t_users s)\<rparr>)"

text \<open>\<open>event.data.object\<close>.\<close>

definition event_object :: "jsnum json \<Rightarrow> jsnum json" where
  "event_object ev = jmember ''object'' (jmember ''data'' ev)"

definition active_status :: "jsnum json option \<Rightarrow> bool" where
  "active_status v = (v = Some (JStr ''active'') \<or> v = Some (JStr ''trialing''))"

text \<open>What an event asks for.\<close>

datatype plan_change = NoChange | Pay string string | SetPlan "string option" string

definition event_change :: "jsnum json \<Rightarrow> plan_change" where
  "event_change ev =
     (let obj = event_object ev; uid = str_of (member ''client_reference_id'' obj);
          customer = str_of (member ''customer'' obj); t = str_of (member ''type'' ev)
      in if t = Some ''checkout.session.completed'' then
           (if truthy uid \<and> truthy customer then Pay (the uid) (the customer) else NoChange)
         else if t = Some ''customer.subscription.updated'' \<or> t = Some ''customer.subscription.deleted'' then
           SetPlan customer (if active_status (member ''status'' obj) then ''paid'' else ''free'')
         else NoChange)"

fun apply_change :: "int \<Rightarrow> plan_change \<Rightarrow> unit app" where
  "apply_change now NoChange = ret ()"
| "apply_change now (Pay uid customer) = set_paid now uid customer"
| "apply_change now (SetPlan customer plan) = set_plan_of_customer now customer plan"

definition apply_event :: "int \<Rightarrow> jsnum json \<Rightarrow> unit app" where
  "apply_event now ev = apply_change now (event_change ev)"

definition received :: reply where
  "received = json_reply 200 (JObj [(''received'', JBool True)])"

text \<open>\<open>POST billing/webhook\<close> at time \<open>now\<close> with its signature header and raw body. Nothing catches a
  failing statement.\<close>

definition webhook :: "billing \<Rightarrow> int \<Rightarrow> string option \<Rightarrow> string \<Rightarrow> reply app" where
  "webhook be now sig body =
     (if \<not> truthy (be_webhook_secret be) then ret (error_reply 500 ''Webhook not configured'')
      else if \<not> truthy sig then ret (error_reply 400 ''Missing signature'')
      else if \<not> truthy (be_stripe_key be) then ret (error_reply 400 ''Invalid signature'')
      else (case be_event be body (the sig) (the (be_webhook_secret be)) of
              None \<Rightarrow> ret (error_reply 400 ''Invalid signature'')
            | Some ev \<Rightarrow> andthen ensure_schema (\<lambda>_. andthen (apply_event now ev) (\<lambda>_. ret received))))"

section \<open>Properties\<close>

definition plan_state :: "db \<Rightarrow> (string \<times> string \<times> string option) list" where
  "plan_state s = map (\<lambda>u. (u_id u, u_plan u, u_stripe u)) (t_users s)"

lemma plan_state_faults [simp]: "plan_state (s\<lparr>faults := f\<rparr>) = plan_state s"
  by (simp add: plan_state_def)

lemma user_exists_ids: "user_exists uid s = (uid \<in> set (map u_id (t_users s)))"
  by (auto simp: user_exists_def)

text \<open>The two updates on the rows.\<close>

lemma apply_change_quiet:
  assumes "faults s = []" "apply_change now ch s = (r, s1)"
  shows "faults s1 = [] \<and> (r = Inr () \<longrightarrow> (\<exists>s2. apply_change now2 ch s1 = (Inr (), s2) \<and> plan_state s2 = plan_state s1))"
proof (cases ch)
  case NoChange
  then show ?thesis using assms by auto
next
  case (SetPlan customer plan)
  then show ?thesis using assms
    by (auto simp: set_plan_of_customer_def quiet_simps plan_state_def)
next
  case (Pay uid customer)
  let ?pay = "\<lambda>now u. if u_id u = uid then u\<lparr>u_plan := ''paid'', u_plan_updated := Some now, u_stripe := Some customer\<rparr> else u"
  have s1: "faults s1 = []" using assms Pay by (auto simp: set_paid_def quiet_simps split: if_splits)
  show ?thesis
  proof (cases "r = Inr ()")
    case True
    then have e: "s1 = s\<lparr>t_users := map (?pay now) (t_users s)\<rparr>"
      "user_exists uid s \<longrightarrow> list_all (\<lambda>u. u_id u \<noteq> uid \<longrightarrow> u_stripe u \<noteq> Some customer) (t_users s)"
      using assms Pay by (auto simp: set_paid_def quiet_simps split: if_splits)
    have "user_exists uid s1 \<longrightarrow> list_all (\<lambda>u. u_id u \<noteq> uid \<longrightarrow> u_stripe u \<noteq> Some customer) (t_users s1)"
    proof -
      have "t_users s1 = map (?pay now) (t_users s)" using e(1) by simp
      moreover from this have "map u_id (t_users s1) = map u_id (t_users s)" by simp
      then have "user_exists uid s1 = user_exists uid s" by (metis user_exists_ids)
      ultimately have "user_exists uid s1 = user_exists uid s"
        "list_all (\<lambda>u. u_id u \<noteq> uid \<longrightarrow> u_stripe u \<noteq> Some customer) (t_users s1)
          = list_all (\<lambda>u. u_id u \<noteq> uid \<longrightarrow> u_stripe u \<noteq> Some customer) (t_users s)"
        by (auto simp: list_all_iff)
      then show ?thesis using e(2) by simp
    qed
    then have "apply_change now2 ch s1 = (Inr (), s1\<lparr>t_users := map (?pay now2) (t_users s1)\<rparr>)"
      using s1 Pay by (auto simp: set_paid_def quiet_simps)
    moreover have "plan_state (s1\<lparr>t_users := map (?pay now2) (t_users s1)\<rparr>) = plan_state s1"
      using e(1) by (simp add: plan_state_def)
    ultimately show ?thesis using s1 by blast
  next
    case False
    then show ?thesis using s1 by simp
  qed
qed


text \<open>C29: A plan only changes by a signed event. Whatever request reaches the webhook and whatever fails,
  a user's plan or customer number differs afterwards only when the body carries a valid signature and
  its event asks for exactly that: a completed checkout sets the named user to the paid plan, a change of
  a subscription sets the users with its customer number to \<open>paid\<close> or \<open>free\<close>.\<close>

theorem plan_changes_only_by_signed_events:
  assumes "webhook be now sig body s = (r, s')" "plan_state s' \<noteq> plan_state s"
  shows "\<exists>secret g ev. be_webhook_secret be = Some secret \<and> sig = Some g \<and> be_event be body g secret = Some ev
    \<and> (case event_change ev of
         NoChange \<Rightarrow> False
       | Pay uid c \<Rightarrow> plan_state s' = map (\<lambda>(i, pl, cu). if i = uid then (i, ''paid'', Some c) else (i, pl, cu)) (plan_state s)
       | SetPlan customer plan \<Rightarrow> customer \<noteq> None
           \<and> plan_state s' = map (\<lambda>(i, pl, cu). if cu = customer then (i, plan, cu) else (i, pl, cu)) (plan_state s))"
proof -
  define s1 where "s1 = tick s"
  have users: "t_users s1 = t_users s" by (simp add: s1_def)
  then have same: "plan_state s1 = plan_state s" by (simp add: plan_state_def)
  have off: "plan_state s' = plan_state s" if "\<not> (truthy (be_webhook_secret be) \<and> truthy sig \<and> truthy (be_stripe_key be)
      \<and> be_event be body (the sig) (the (be_webhook_secret be)) \<noteq> None)"
    using assms(1) that by (auto simp: webhook_def split: if_splits option.splits)
  then have on: "truthy (be_webhook_secret be)" "truthy sig" "truthy (be_stripe_key be)"
    "be_event be body (the sig) (the (be_webhook_secret be)) \<noteq> None" using assms(2) by blast+
  then obtain secret g ev where w: "be_webhook_secret be = Some secret" "sig = Some g" "be_event be body g secret = Some ev"
    "truthy (be_webhook_secret be)" "truthy sig" "truthy (be_stripe_key be)"
    by (cases "be_webhook_secret be"; cases sig) (auto simp: truthy_def)
  have "ensure_schema s = (Inl DbError, s1) \<or> ensure_schema s = (Inr (), s1)"
    using query_cases [of s] unfolding ensure_schema_def s1_def by (metis prod.exhaust)
  then have "s' = s1 \<or> (\<exists>r1. apply_change now (event_change ev) s1 = (r1, s'))"
    using assms(1) w by (auto simp: webhook_def andthen_apply apply_event_def split: prod.splits sum.splits)
  then obtain r1 where run: "apply_change now (event_change ev) s1 = (r1, s')" using assms(2) same by auto
  have "case event_change ev of
         NoChange \<Rightarrow> False
       | Pay uid c \<Rightarrow> plan_state s' = map (\<lambda>(i, pl, cu). if i = uid then (i, ''paid'', Some c) else (i, pl, cu)) (plan_state s)
       | SetPlan customer plan \<Rightarrow> customer \<noteq> None
           \<and> plan_state s' = map (\<lambda>(i, pl, cu). if cu = customer then (i, plan, cu) else (i, pl, cu)) (plan_state s)"
  proof (cases "event_change ev")
    case NoChange
    then show ?thesis using run assms(2) same by simp
  next
    case (Pay uid c)
    then have "set_paid now uid c s1 = (r1, s')" using run by simp
    then show ?thesis using Pay assms(2) users
      by (auto simp: set_paid_def plan_state_def tick_def comp_def dest!: insert_checked_cases)
  next
    case (SetPlan customer plan)
    then have "set_plan_of_customer now customer plan s1 = (r1, s')" using run by simp
    then show ?thesis using SetPlan assms(2) users
      by (auto simp: set_plan_of_customer_def plan_state_def tick_def comp_def split: if_splits dest!: update_cases)
  qed
  then show ?thesis using w(1-3) by blast
qed

section \<open>Examples\<close>

definition paid_event :: "jsnum json" where
  "paid_event = JObj [(''type'', JStr ''checkout.session.completed''), (''data'', JObj [(''object'',
     JObj [(''client_reference_id'', JStr ''u1''), (''customer'', JStr ''cus_1'')])])]"

definition demo_billing :: billing where
  "demo_billing = \<lparr>be_platform = \<lparr>pe_hmac = (\<lambda>k m. m), pe_sha256 = (\<lambda>t. t), pe_scrypt = (\<lambda>p s. p), pe_secret = None, pe_now = 5\<rparr>,
     be_base = ''https://lelu-ai.com'', be_stripe_key = Some ''sk'', be_price = Some ''pr'', be_webhook_secret = Some ''wh'',
     be_checkout = (\<lambda>d. None), be_portal = (\<lambda>d. None),
     be_event = (\<lambda>body g secret. if g = secret then Some paid_event else None)\<rparr>"

lemma paid_change: "event_change paid_event = Pay ''u1'' ''cus_1''"
  by (simp add: event_change_def event_object_def paid_event_def jmember_def member_def nullish_def truthy_def Let_def)

lemma demo_webhook:
  "\<exists>s1. webhook demo_billing 7 (Some ''wh'') ''x'' demo_db = (Inr received, s1)
     \<and> plan_state s1 = [(''u1'', ''paid'', Some ''cus_1''), (''u2'', ''free'', None)]"
  by (simp add: webhook_def demo_billing_def truthy_def quiet_simps demo_db_ok apply_event_def paid_change set_paid_def)
    (simp add: demo_db_def demo_user_def plan_state_def)


theorem plan_changes_only_by_signed_events_witness:
  "\<exists>s1 secret ev. webhook demo_billing 7 (Some ''wh'') ''x'' demo_db = (Inr received, s1) \<and> plan_state s1 \<noteq> plan_state demo_db
     \<and> be_webhook_secret demo_billing = Some secret \<and> be_event demo_billing ''x'' ''wh'' secret = Some ev"
proof -
  obtain s1 where w: "webhook demo_billing 7 (Some ''wh'') ''x'' demo_db = (Inr received, s1)"
    "plan_state s1 = [(''u1'', ''paid'', Some ''cus_1''), (''u2'', ''free'', None)]" using demo_webhook by blast
  then have "plan_state s1 \<noteq> plan_state demo_db" by (simp add: plan_state_def demo_db_def demo_user_def)
  with plan_changes_only_by_signed_events [OF w(1)] w(1) show ?thesis by auto
qed

end
