(* ===== verification/Simulator.thy ===== *)
theory Simulator
  imports NumberText Web
begin

text \<open>
  The policy simulator, \<open>platform/ui/app/api/simulator/route.ts\<close>: traces are decided by a fixed current policy
  and by a proposed one, and the changes are counted. A request has the members its interface declares, each of
  which may be missing. \<open>Math.exp\<close>, whose result the language leaves to the implementation, is an argument.
\<close>

record trace =
  tr_id :: string
  tr_kind :: string
  tr_action :: string
  tr_logprobs :: "jsnum list option"

record verdict =
  vd_outcome :: string
  vd_reason :: string

record sim_item =
  si_id :: string
  si_kind :: string
  si_changed :: bool
  si_before :: verdict
  si_after :: verdict

record sim_summary =
  ss_total :: nat
  ss_changed :: nat
  ss_unchanged :: nat
  ss_allow_to_deny :: nat
  ss_allow_to_review :: nat
  ss_deny_to_allow :: nat
  ss_review_to_allow :: nat
  ss_review_to_deny :: nat
  ss_deny_to_review :: nat

record sim_policy =
  sp_human :: number
  sp_read_only :: number
  sp_hard :: number
  sp_deny :: "string list"
  sp_allow :: "string list"

section \<open>Reading the policy\<close>

definition word_char :: "char \<Rightarrow> bool" where
  "word_char c = (let n = of_char c :: nat in is_digit c \<or> (65 \<le> n \<and> n \<le> 90) \<or> (97 \<le> n \<and> n \<le> 122) \<or> n = 95)"

text \<open>What follows each occurrence of a text, in order.\<close>

fun after_each :: "string \<Rightarrow> string \<Rightarrow> string list" where
  "after_each k [] = []"
| "after_each k (c # s) = (if starts_with k (c # s) then [drop (length k) (c # s)] else []) @ after_each k s"

text \<open>\<open>[\s\S]*?\<close> up to a line that starts with a word character, or the end.\<close>

fun up_to_next_section :: "string \<Rightarrow> string" where
  "up_to_next_section [] = []"
| "up_to_next_section (c # s) =
     (if c = CHR 10 \<and> (case s of [] \<Rightarrow> False | d # _ \<Rightarrow> word_char d) then [] else c # up_to_next_section s)"

definition agent_scopes_text :: "string \<Rightarrow> string option" where
  "agent_scopes_text yaml =
     (case after_each ''agent_scopes:'' yaml of [] \<Rightarrow> None | s # _ \<Rightarrow> Some (up_to_next_section (dropWhile is_ws s)))"

definition number_char :: "char \<Rightarrow> bool" where
  "number_char c = (is_digit c \<or> c = CHR ''.'')"

definition number_after :: "string \<Rightarrow> string \<Rightarrow> string option" where
  "number_after k s =
     find_first (\<lambda>t. t \<noteq> []) (map (\<lambda>r. takeWhile number_char (dropWhile is_ws r)) (after_each k s))"

text \<open>\<open>parseFloat\<close> of digits and dots: the longest decimal number they start with.\<close>

definition parse_float :: "string \<Rightarrow> number" where
  "parse_float t =
     (let ip = takeWhile is_digit t; r = dropWhile is_digit t;
          fp = (case r of [] \<Rightarrow> [] | _ # r' \<Rightarrow> takeWhile is_digit r')
      in if ip = [] \<and> fp = [] then None
         else Some (num_of_rat (of_nat (read_digits 0 (ip @ fp)) / 10 ^ length fp)))"

definition threshold :: "string \<Rightarrow> rat \<Rightarrow> string \<Rightarrow> number" where
  "threshold k d s = (case number_after k s of None \<Rightarrow> Some (num_of_rat d) | Some t \<Rightarrow> parse_float t)"

definition line_end :: "char \<Rightarrow> bool" where
  "line_end c = (c = CHR 10 \<or> c = CHR 13)"

text \<open>\<open>\s*\[(.*?)\]\<close>.\<close>

definition bracketed :: "string \<Rightarrow> string option" where
  "bracketed r =
     (case dropWhile is_ws r of
        [] \<Rightarrow> None
      | c # s \<Rightarrow>
          (if c \<noteq> CHR ''['' then None
           else let inner = takeWhile (\<lambda>d. d \<noteq> CHR '']'' \<and> \<not> line_end d) s
                in if starts_with '']'' (drop (length inner) s) then Some inner else None))"

definition list_after :: "string \<Rightarrow> string \<Rightarrow> string list" where
  "list_after k s =
     (case find_first (\<lambda>x. x \<noteq> None) (map bracketed (after_each k s)) of
        Some (Some inner) \<Rightarrow> map (\<lambda>a. filter (\<lambda>c. c \<noteq> CHR 0x27 \<and> c \<noteq> CHR 0x22) (trim a)) (split_on (CHR '','') inner)
      | _ \<Rightarrow> [])"

text \<open>\<open>None\<close>: without a section \<open>agent_scopes\<close> the policy has neither thresholds nor lists.\<close>

definition parse_policy_yaml :: "string \<Rightarrow> sim_policy option" where
  "parse_policy_yaml yaml =
     map_option (\<lambda>s. \<lparr>sp_human = threshold ''require_human_approval_if_confidence_below:'' (9 / 10) s,
         sp_read_only = threshold ''downgrade_to_read_only_if_confidence_below:'' (7 / 10) s,
         sp_hard = threshold ''hard_deny_if_confidence_below:'' (5 / 10) s,
         sp_deny = list_after ''deny:'' s, sp_allow = list_after ''allow:'' s\<rparr>) (agent_scopes_text yaml)"

section \<open>Deciding a trace\<close>

definition verdict_of :: "string \<Rightarrow> string \<Rightarrow> verdict" where
  "verdict_of out why = \<lparr>vd_outcome = out, vd_reason = why\<rparr>"

definition human_verdict :: verdict where
  "human_verdict = verdict_of ''allow'' ''Human action - always allowed''"

definition evaluate_current :: "trace \<Rightarrow> verdict" where
  "evaluate_current t =
     (if tr_kind t = ''human'' then human_verdict
      else if tr_action t = ''delete_invoices'' then verdict_of ''deny'' ''Delete actions are denied by current policy''
      else if tr_action t = ''approve_refunds'' then verdict_of ''review'' ''Refunds require human approval in current policy''
      else verdict_of ''allow'' ''Action allowed by current policy'')"

definition trace_confidence :: "(number \<Rightarrow> number) \<Rightarrow> trace \<Rightarrow> number" where
  "trace_confidence mexp t =
     (case tr_logprobs t of
        None \<Rightarrow> Some (Fin 1)
      | Some ls \<Rightarrow> mexp (num_div_nat (foldl (\<lambda>a b. num_add a (Some b)) (Some (Fin 0)) ls) (length ls)))"

definition below :: "number \<Rightarrow> string \<Rightarrow> number \<Rightarrow> string" where
  "below c what bound = ''Confidence '' @ to_fixed 2 c @ '' below '' @ what @ '' threshold '' @ number_text bound"

definition evaluate_confidence :: "sim_policy \<Rightarrow> string \<Rightarrow> number \<Rightarrow> verdict" where
  "evaluate_confidence p act c =
     (if num_lt c (sp_hard p) then verdict_of ''deny'' (below c ''hard deny'' (sp_hard p))
      else if num_lt c (sp_read_only p) then verdict_of ''deny'' (below c ''read-only'' (sp_read_only p))
      else if num_lt c (sp_human p) then verdict_of ''review'' (below c ''human approval'' (sp_human p))
      else if 0 < length (sp_allow p) \<and> act \<in> set (sp_allow p)
        then verdict_of ''allow'' ''Action is in allow list and confidence is sufficient''
      else verdict_of ''allow'' (''Confidence '' @ to_fixed 2 c @ '' meets threshold''))"

definition no_lists :: string where
  "no_lists = ''Cannot read properties of undefined (reading '' @ CHR 0x27 # ''includes'' @ CHR 0x27 # '')''"

text \<open>\<open>Inl\<close>: the message of the \<open>TypeError\<close> for a policy without lists.\<close>

definition evaluate_proposed :: "(number \<Rightarrow> number) \<Rightarrow> sim_policy option \<Rightarrow> trace \<Rightarrow> string + verdict" where
  "evaluate_proposed mexp pol t =
     (if tr_kind t = ''human'' then Inr human_verdict
      else case pol of
             None \<Rightarrow> Inl no_lists
           | Some p \<Rightarrow>
               (if tr_action t \<in> set (sp_deny p) then Inr (verdict_of ''deny'' ''Action is in deny list'')
                else Inr (evaluate_confidence p (tr_action t) (trace_confidence mexp t))))"

section \<open>Replaying traces\<close>

definition count_transition :: "string \<Rightarrow> sim_summary \<Rightarrow> sim_summary" where
  "count_transition tn s =
     (if tn = ''allow_to_deny'' then s\<lparr>ss_allow_to_deny := ss_allow_to_deny s + 1\<rparr>
      else if tn = ''allow_to_review'' then s\<lparr>ss_allow_to_review := ss_allow_to_review s + 1\<rparr>
      else if tn = ''deny_to_allow'' then s\<lparr>ss_deny_to_allow := ss_deny_to_allow s + 1\<rparr>
      else if tn = ''review_to_allow'' then s\<lparr>ss_review_to_allow := ss_review_to_allow s + 1\<rparr>
      else if tn = ''review_to_deny'' then s\<lparr>ss_review_to_deny := ss_review_to_deny s + 1\<rparr>
      else if tn = ''deny_to_review'' then s\<lparr>ss_deny_to_review := ss_deny_to_review s + 1\<rparr>
      else s)"

definition count_item :: "sim_item \<Rightarrow> sim_summary \<Rightarrow> sim_summary" where
  "count_item i s =
     (if si_changed i
      then count_transition (vd_outcome (si_before i) @ ''_to_'' @ vd_outcome (si_after i)) (s\<lparr>ss_changed := ss_changed s + 1\<rparr>)
      else s\<lparr>ss_unchanged := ss_unchanged s + 1\<rparr>)"

definition sim_item_of :: "trace \<Rightarrow> verdict \<Rightarrow> verdict \<Rightarrow> sim_item" where
  "sim_item_of t b a = \<lparr>si_id = tr_id t, si_kind = tr_kind t, si_changed = (vd_outcome b \<noteq> vd_outcome a), si_before = b, si_after = a\<rparr>"

fun replay :: "(number \<Rightarrow> number) \<Rightarrow> sim_policy option \<Rightarrow> trace list \<Rightarrow> sim_summary \<Rightarrow> sim_item list
    \<Rightarrow> string + sim_summary \<times> sim_item list" where
  "replay mexp pol [] s is = Inr (s, is)"
| "replay mexp pol (t # ts) s is =
     (let b = evaluate_current t
      in case evaluate_proposed mexp pol t of
           Inl e \<Rightarrow> Inl e
         | Inr a \<Rightarrow> (let i = sim_item_of t b a in replay mexp pol ts (count_item i s) (is @ [i])))"

definition no_counts :: "nat \<Rightarrow> sim_summary" where
  "no_counts n = \<lparr>ss_total = n, ss_changed = 0, ss_unchanged = 0, ss_allow_to_deny = 0, ss_allow_to_review = 0,
     ss_deny_to_allow = 0, ss_review_to_allow = 0, ss_review_to_deny = 0, ss_deny_to_review = 0\<rparr>"

definition simulate_policy_change :: "(number \<Rightarrow> number) \<Rightarrow> string \<Rightarrow> trace list \<Rightarrow> string + sim_summary \<times> sim_item list" where
  "simulate_policy_change mexp yaml ts = replay mexp (parse_policy_yaml yaml) ts (no_counts (length ts)) []"

section \<open>The route\<close>

definition verdict_doc :: "verdict \<Rightarrow> jsnum json" where
  "verdict_doc v = JObj [(''outcome'', JStr (vd_outcome v)), (''reason'', JStr (vd_reason v))]"

definition sim_item_doc :: "sim_item \<Rightarrow> jsnum json" where
  "sim_item_doc i = JObj [(''id'', JStr (si_id i)), (''kind'', JStr (si_kind i)), (''changed'', JBool (si_changed i)),
     (''before'', verdict_doc (si_before i)), (''after'', verdict_doc (si_after i))]"

definition summary_doc :: "sim_summary \<Rightarrow> jsnum json" where
  "summary_doc s = JObj [(''total'', jint (int (ss_total s))), (''changed'', jint (int (ss_changed s))),
     (''unchanged'', jint (int (ss_unchanged s))), (''allow_to_deny'', jint (int (ss_allow_to_deny s))),
     (''allow_to_review'', jint (int (ss_allow_to_review s))), (''deny_to_allow'', jint (int (ss_deny_to_allow s))),
     (''review_to_allow'', jint (int (ss_review_to_allow s))), (''review_to_deny'', jint (int (ss_review_to_deny s))),
     (''deny_to_review'', jint (int (ss_deny_to_review s)))]"

record sim_request =
  sr_yaml :: "string option"
  sr_traces :: "trace list option"

text \<open>\<open>Inl\<close> is the message that reading the body throws.\<close>

definition simulator_post :: "(number \<Rightarrow> number) \<Rightarrow> string + sim_request \<Rightarrow> reply" where
  "simulator_post mexp body =
     (let failed = (\<lambda>e. error_reply 500 (if e = [] then ''Simulation failed'' else e))
      in case body of
           Inl e \<Rightarrow> failed e
         | Inr r \<Rightarrow>
             (if \<not> truthy (sr_yaml r) \<or> sr_traces r = None
              then error_reply 400 ''Missing required fields: proposed_policy_yaml and traces''
              else case simulate_policy_change mexp (the (sr_yaml r)) (the (sr_traces r)) of
                     Inl e \<Rightarrow> failed e
                   | Inr (s, is) \<Rightarrow> json_reply 200 (JObj [(''summary'', summary_doc s), (''items'', JArr (map sim_item_doc is))])))"

section \<open>The counts\<close>

definition moves :: "string \<Rightarrow> string \<Rightarrow> sim_item list \<Rightarrow> nat" where
  "moves b a is = length (filter (\<lambda>i. vd_outcome (si_before i) = b \<and> vd_outcome (si_after i) = a) is)"

definition counts :: "sim_summary \<Rightarrow> sim_item list \<Rightarrow> bool" where
  "counts s is =
     (ss_changed s = length (filter si_changed is) \<and> ss_unchanged s = length (filter (\<lambda>i. \<not> si_changed i) is)
      \<and> ss_allow_to_deny s = moves ''allow'' ''deny'' is \<and> ss_allow_to_review s = moves ''allow'' ''review'' is
      \<and> ss_deny_to_allow s = moves ''deny'' ''allow'' is \<and> ss_review_to_allow s = moves ''review'' ''allow'' is
      \<and> ss_review_to_deny s = moves ''review'' ''deny'' is \<and> ss_deny_to_review s = moves ''deny'' ''review'' is
      \<and> ss_changed s = ss_allow_to_deny s + ss_allow_to_review s + ss_deny_to_allow s + ss_review_to_allow s
          + ss_review_to_deny s + ss_deny_to_review s)"

definition outcomes :: "string set" where
  "outcomes = {''allow'', ''deny'', ''review''}"

definition good_item :: "sim_item \<Rightarrow> bool" where
  "good_item i = (vd_outcome (si_before i) \<in> outcomes \<and> vd_outcome (si_after i) \<in> outcomes
     \<and> si_changed i = (vd_outcome (si_before i) \<noteq> vd_outcome (si_after i)))"

lemma moves_snoc [simp]:
  "moves b a (is @ [i]) = moves b a is + (if vd_outcome (si_before i) = b \<and> vd_outcome (si_after i) = a then 1 else 0)"
  by (simp add: moves_def)

lemma count_item_total [simp]: "ss_total (count_item i s) = ss_total s"
  by (simp add: count_item_def count_transition_def)

lemma count_item_counts:
  assumes "counts s is" "good_item i"
  shows "counts (count_item i s) (is @ [i])"
proof (cases "si_changed i")
  case False
  then have "vd_outcome (si_before i) = vd_outcome (si_after i)" using assms(2) by (simp add: good_item_def)
  then show ?thesis using False assms(1) by (auto simp: counts_def count_item_def)
next
  case True
  then consider "vd_outcome (si_before i) = ''allow''" "vd_outcome (si_after i) = ''deny''"
    | "vd_outcome (si_before i) = ''allow''" "vd_outcome (si_after i) = ''review''"
    | "vd_outcome (si_before i) = ''deny''" "vd_outcome (si_after i) = ''allow''"
    | "vd_outcome (si_before i) = ''review''" "vd_outcome (si_after i) = ''allow''"
    | "vd_outcome (si_before i) = ''review''" "vd_outcome (si_after i) = ''deny''"
    | "vd_outcome (si_before i) = ''deny''" "vd_outcome (si_after i) = ''review''"
    using assms(2) by (auto simp: good_item_def outcomes_def)
  then show ?thesis
    using True assms(1) by cases (simp_all add: counts_def count_item_def count_transition_def)
qed

lemma current_outcome: "vd_outcome (evaluate_current t) \<in> outcomes"
  by (simp add: evaluate_current_def human_verdict_def verdict_of_def outcomes_def)

lemma confidence_outcome: "vd_outcome (evaluate_confidence p a c) \<in> outcomes"
  by (simp add: evaluate_confidence_def verdict_of_def outcomes_def)

lemma proposed_outcome: "evaluate_proposed mexp pol t = Inr a \<Longrightarrow> vd_outcome a \<in> outcomes"
  using confidence_outcome
  by (auto simp: evaluate_proposed_def human_verdict_def verdict_of_def outcomes_def split: if_splits option.splits)

lemma replay_counts:
  assumes "replay mexp pol ts s is = Inr (s', is')" "counts s is"
  shows "counts s' is' \<and> ss_total s' = ss_total s \<and> map si_id is' = map si_id is @ map tr_id ts"
  using assms
proof (induction ts arbitrary: s "is")
  case Nil
  then show ?case by simp
next
  case (Cons t ts)
  obtain a where a: "evaluate_proposed mexp pol t = Inr a" using Cons.prems(1) by (auto split: sum.splits)
  define i where "i = sim_item_of t (evaluate_current t) a"
  have "good_item i" using current_outcome proposed_outcome [OF a] by (simp add: i_def good_item_def sim_item_of_def)
  note c = count_item_counts [OF Cons.prems(2) this]
  have "replay mexp pol ts (count_item i s) (is @ [i]) = Inr (s', is')" using Cons.prems(1) a by (simp add: i_def Let_def)
  from Cons.IH [OF this c] show ?case by (simp add: i_def sim_item_of_def)
qed

text \<open>The summary of a simulation is what its items say: one item per trace in their order, every trace either
  changed or unchanged, each of the six transitions counted exactly, and the changed traces are their sum.\<close>

theorem simulator_summary_counts_its_items:
  assumes "simulate_policy_change mexp yaml ts = Inr (s, is)"
  shows "map si_id is = map tr_id ts \<and> ss_total s = length is \<and> ss_total s = ss_changed s + ss_unchanged s \<and> counts s is"
proof -
  have "counts (no_counts (length ts)) []" by (simp add: counts_def no_counts_def moves_def)
  from replay_counts [OF assms [unfolded simulate_policy_change_def] this]
  have r: "counts s is" "ss_total s = length ts" "map si_id is = map tr_id ts" by (simp_all add: no_counts_def)
  have "length ts = length is" using arg_cong [OF r(3), of length] by simp
  then show ?thesis using r sum_length_filter_compl [of si_changed "is"] by (simp add: counts_def)
qed

section \<open>Confidence\<close>

definition rank :: "string \<Rightarrow> nat" where
  "rank out = (if out = ''deny'' then 0 else if out = ''review'' then 1 else 2)"

lemma num_lt_mono: "num_lt y b \<Longrightarrow> \<not> num_lt y x \<Longrightarrow> x \<noteq> None \<Longrightarrow> num_lt x b"
  by (cases x; cases y; cases b; cases "the x"; cases "the y"; cases "the b"; auto)

lemma confidence_mono:
  assumes "x \<noteq> None" "\<not> num_lt y x"
  shows "rank (vd_outcome (evaluate_confidence p a x)) \<le> rank (vd_outcome (evaluate_confidence p a y))"
proof -
  have "num_lt y b \<Longrightarrow> num_lt x b" for b using num_lt_mono assms by blast
  then show ?thesis by (auto simp: evaluate_confidence_def rank_def verdict_of_def)
qed

text \<open>More confidence never leads to a stricter simulated outcome, whatever the thresholds and their order: of
  two traces with the same kind and action, the one whose confidence is not lower is decided at least as freely.\<close>

theorem simulator_rises_with_confidence:
  assumes "tr_kind t = tr_kind u" "tr_action t = tr_action u"
    "trace_confidence mexp t \<noteq> None" "\<not> num_lt (trace_confidence mexp u) (trace_confidence mexp t)"
    "evaluate_proposed mexp pol t = Inr v" "evaluate_proposed mexp pol u = Inr w"
  shows "rank (vd_outcome v) \<le> rank (vd_outcome w)"
  using assms confidence_mono [OF assms(3,4)]
  by (auto simp: evaluate_proposed_def split: if_splits option.splits)

text \<open>An agent that reports an empty list of log probabilities passes every threshold of the proposed policy: with
  \<open>Math.exp(NaN)\<close> being \<open>NaN\<close>, its actions that are not on the deny list are allowed, and the allow list never matters.\<close>

theorem simulator_allows_empty_signals:
  assumes "mexp None = None" "tr_kind t \<noteq> ''human''" "tr_logprobs t = Some []" "tr_action t \<notin> set (sp_deny p)"
  shows "\<exists>v. evaluate_proposed mexp (Some (p\<lparr>sp_allow := allow\<rparr>)) t = Inr v \<and> vd_outcome v = ''allow''"
  using assms by (simp add: evaluate_proposed_def trace_confidence_def evaluate_confidence_def verdict_of_def)

section \<open>Examples\<close>

definition demo_yaml :: string where
  "demo_yaml = ''agent_scopes:'' @ [CHR 10] @ ''  deny: [drop, '' @ [CHR 0x27] @ ''wipe'' @ [CHR 0x27] @ '']'' @ [CHR 10] @ ''roles:''"

definition demo_trace :: "string \<Rightarrow> string \<Rightarrow> jsnum list option \<Rightarrow> trace" where
  "demo_trace kind act ls = \<lparr>tr_id = ''t1'', tr_kind = kind, tr_action = act, tr_logprobs = ls\<rparr>"

definition demo_policy :: sim_policy where
  "demo_policy = \<lparr>sp_human = Some (Fin 1), sp_read_only = Some (Fin (1 / 2)), sp_hard = Some (Fin (1 / 4)),
     sp_deny = [''drop''], sp_allow = []\<rparr>"

lemma demo_scopes:
  "agent_scopes_text demo_yaml = Some (''deny: [drop, '' @ [CHR 0x27] @ ''wipe'' @ [CHR 0x27] @ '']'')"
  by code_simp

lemma demo_deny: "list_after ''deny:'' (''deny: [drop, '' @ [CHR 0x27] @ ''wipe'' @ [CHR 0x27] @ '']'') = [''drop'', ''wipe'']"
  by code_simp

theorem simulator_summary_counts_its_items_witness:
  "\<exists>s is. simulate_policy_change (\<lambda>v. v) demo_yaml [demo_trace ''agent'' ''wipe'' None, demo_trace ''human'' ''drop'' None] = Inr (s, is)
     \<and> map si_id is = [''t1'', ''t1''] \<and> ss_allow_to_deny s = 1 \<and> ss_unchanged s = 1 \<and> counts s is"
proof -
  obtain pol where pol: "parse_policy_yaml demo_yaml = Some pol" "sp_deny pol = [''drop'', ''wipe'']"
    using demo_scopes demo_deny by (simp add: parse_policy_yaml_def)
  have "\<exists>s is. simulate_policy_change (\<lambda>v. v) demo_yaml [demo_trace ''agent'' ''wipe'' None, demo_trace ''human'' ''drop'' None] = Inr (s, is)
     \<and> ss_allow_to_deny s = 1 \<and> ss_unchanged s = 1"
    by (simp add: simulate_policy_change_def pol demo_trace_def evaluate_proposed_def evaluate_current_def human_verdict_def
        verdict_of_def count_item_def sim_item_of_def no_counts_def count_transition_def Let_def)
  then obtain s "is" where r: "simulate_policy_change (\<lambda>v. v) demo_yaml [demo_trace ''agent'' ''wipe'' None, demo_trace ''human'' ''drop'' None] = Inr (s, is)"
     "ss_allow_to_deny s = 1" "ss_unchanged s = 1" by blast
  with simulator_summary_counts_its_items [OF r(1)] show ?thesis by (auto simp: demo_trace_def)
qed

theorem simulator_rises_with_confidence_witness:
  "\<exists>v w. evaluate_proposed (\<lambda>c. c) (Some demo_policy) (demo_trace ''agent'' ''pay'' (Some [])) = Inr v
     \<and> evaluate_proposed (\<lambda>c. Some (Fin (3 / 4))) (Some demo_policy) (demo_trace ''agent'' ''pay'' (Some [])) = Inr w
     \<and> vd_outcome v = ''allow'' \<and> vd_outcome w = ''review'' \<and> rank (vd_outcome w) \<le> rank ''allow''"
proof -
  let ?t = "demo_trace ''agent'' ''pay'' (Some [])" and ?u = "demo_trace ''agent'' ''pay'' None" and ?e = "\<lambda>c. Some (Fin (3 / 4))"
  have c: "trace_confidence ?e ?t = Some (Fin (3 / 4))" "trace_confidence ?e ?u = Some (Fin 1)"
    by (simp_all add: trace_confidence_def demo_trace_def)
  have "\<exists>w. evaluate_proposed ?e (Some demo_policy) ?t = Inr w \<and> vd_outcome w = ''review''"
    by (simp add: evaluate_proposed_def demo_trace_def demo_policy_def trace_confidence_def evaluate_confidence_def verdict_of_def)
  then obtain w where w: "evaluate_proposed ?e (Some demo_policy) ?t = Inr w" "vd_outcome w = ''review''" by blast
  have "\<exists>x. evaluate_proposed ?e (Some demo_policy) ?u = Inr x \<and> vd_outcome x = ''allow''"
    by (simp add: evaluate_proposed_def demo_trace_def demo_policy_def trace_confidence_def evaluate_confidence_def verdict_of_def)
  then obtain x where x: "evaluate_proposed ?e (Some demo_policy) ?u = Inr x" "vd_outcome x = ''allow''" by blast
  have "rank (vd_outcome w) \<le> rank (vd_outcome x)"
    by (rule simulator_rises_with_confidence [of ?t ?u ?e "Some demo_policy"]) (use c w x in \<open>simp_all add: demo_trace_def\<close>)
  moreover obtain v where "evaluate_proposed (\<lambda>c. c) (Some demo_policy) ?t = Inr v" "vd_outcome v = ''allow''"
    by (simp add: evaluate_proposed_def demo_trace_def demo_policy_def trace_confidence_def evaluate_confidence_def verdict_of_def)
  ultimately show ?thesis using w x by auto
qed

theorem simulator_allows_empty_signals_witness:
  "\<exists>v. evaluate_proposed (\<lambda>c. c) (Some (demo_policy\<lparr>sp_allow := [''read'']\<rparr>)) (demo_trace ''agent'' ''transfer_funds'' (Some [])) = Inr v
     \<and> vd_outcome v = ''allow''"
  by (rule simulator_allows_empty_signals) (simp_all add: demo_trace_def demo_policy_def)

end
