(* ===== verification/NhiScore.thy ===== *)
theory NhiScore
  imports JsNumber
begin

text \<open>
  Risk scoring of non-human identities, \<open>platform/ui/lib/nhi-scoring.ts\<close>. Scores are IEEE doubles: every
  operation rounds with \<open>fl\<close>. Times are milliseconds; the quotient of two times and a day is below
  \<open>2^27\<close>, where rounding it to a double never reaches the next whole number, so its floor is the integer
  quotient. Dashes and the less-or-equal sign of the texts are outside Latin-1 and written \<open>-\<close> and \<open><=\<close>.
\<close>

datatype severity = Critical | High | Medium | Low

datatype risk_level = LCritical | LHigh | LMedium | LLow | LNone

datatype nhi_type = RegisteredAgent | KeyIdentity

record nhi_finding =
  nf_check :: string
  nf_title :: string
  nf_severity :: severity
  nf_description :: string
  nf_remediation :: string

text \<open>The members that scoring reads; \<open>ni_seen\<close> is \<open>None\<close> without a date of last activity.\<close>

record nhi_input =
  ni_type :: nhi_type
  ni_name :: string
  ni_status :: string
  ni_scopes :: "string list"
  ni_seen :: "int option"
  ni_owner :: "string option"
  ni_expires :: "string option"

definition in_quotes :: "string \<Rightarrow> string" where
  "in_quotes s = CHR 0x22 # s @ [CHR 0x22]"

definition stale_days :: "int \<Rightarrow> nhi_input \<Rightarrow> int option" where
  "stale_days now e = map_option (\<lambda>t. (now - t) div 86400000) (ni_seen e)"

definition is_stale :: "int \<Rightarrow> nhi_input \<Rightarrow> bool" where
  "is_stale now e = ((case stale_days now e of None \<Rightarrow> False | Some d \<Rightarrow> 30 < d) \<and> ni_status e = ''active'')"

definition wildcard_scope :: "string \<Rightarrow> bool" where
  "wildcard_scope s = (s = ''*'' \<or> ends_with '':*'' s \<or> ends_with ''/*'' s)"

text \<open>\<open>/admin|:write$|:delete$|:manage$|root/i\<close>.\<close>

definition admin_scope :: "string \<Rightarrow> bool" where
  "admin_scope s =
     (let t = ascii_lowers s
      in contains ''admin'' t \<or> ends_with '':write'' t \<or> ends_with '':delete'' t \<or> ends_with '':manage'' t \<or> contains ''root'' t)"

definition offboarding_finding :: "nhi_input \<Rightarrow> nhi_finding" where
  "offboarding_finding e = \<lparr>nf_check = ''NHI-01'', nf_title = ''Improper Offboarding'', nf_severity = Critical,
     nf_description = ''Identity '' @ in_quotes (ni_name e) @ '' has status '' @ in_quotes (ni_status e)
       @ '' but may still have active grants.'',
     nf_remediation = ''Rotate all credentials and verify downstream access has been revoked.''\<rparr>"

definition stale_finding :: "int \<Rightarrow> nhi_input \<Rightarrow> nhi_finding" where
  "stale_finding now e = \<lparr>nf_check = ''NHI-01'', nf_title = ''Stale Identity Not Decommissioned'', nf_severity = Medium,
     nf_description = in_quotes (ni_name e) @ '' has had no activity in '' @ show_int (the (stale_days now e))
       @ '' days but remains active.'',
     nf_remediation = ''Review whether this identity is still needed. If not, revoke it.''\<rparr>"

definition wildcard_finding :: "nhi_input \<Rightarrow> nhi_finding" where
  "wildcard_finding e = \<lparr>nf_check = ''NHI-05'', nf_title = ''Overprivileged - Wildcard Scope'', nf_severity = Critical,
     nf_description = in_quotes (ni_name e) @ '' has wildcard scope(s): '' @ join '', '' (filter wildcard_scope (ni_scopes e)) @ ''.'',
     nf_remediation = ''Replace wildcards with minimum specific scopes.''\<rparr>"

definition admin_finding :: "nhi_input \<Rightarrow> nhi_finding" where
  "admin_finding e = \<lparr>nf_check = ''NHI-05'', nf_title = ''Overprivileged - Admin Scope'', nf_severity = High,
     nf_description = in_quotes (ni_name e) @ '' holds admin/write/delete scope(s): '' @ join '', '' (filter admin_scope (ni_scopes e)) @ ''.'',
     nf_remediation = ''Scope down to read-only where possible.''\<rparr>"

definition sprawl_finding :: "nhi_input \<Rightarrow> nhi_finding" where
  "sprawl_finding e = \<lparr>nf_check = ''NHI-05'', nf_title = ''Scope Sprawl'', nf_severity = Medium,
     nf_description = in_quotes (ni_name e) @ '' has '' @ show_nat (length (ni_scopes e)) @ '' scopes - increases blast radius.'',
     nf_remediation = ''Audit and remove unused scopes. Target <= 3 per identity.''\<rparr>"

definition expiry_finding :: "nhi_input \<Rightarrow> nhi_finding" where
  "expiry_finding e = \<lparr>nf_check = ''NHI-07'', nf_title = ''Long-Lived Secret - No Expiry'', nf_severity = High,
     nf_description = ''API key '' @ in_quotes (ni_name e) @ '' has no expiry date.'',
     nf_remediation = ''Set a maximum 90-day expiry and enable rotation.''\<rparr>"

definition owner_finding :: "nhi_input \<Rightarrow> nhi_finding" where
  "owner_finding e = \<lparr>nf_check = ''NHI-10'', nf_title = ''No Accountable Owner'', nf_severity = Medium,
     nf_description = ''Agent '' @ in_quotes (ni_name e) @ '' has no owner email set.'',
     nf_remediation = ''Assign an owner when registering agents.''\<rparr>"

definition when_holds :: "bool \<Rightarrow> 'a \<Rightarrow> 'a list" where
  "when_holds b x = (if b then [x] else [])"

definition nhi_findings :: "int \<Rightarrow> nhi_input \<Rightarrow> nhi_finding list" where
  "nhi_findings now e =
     when_holds (ni_status e = ''revoked'' \<or> ni_status e = ''suspended'') (offboarding_finding e)
     @ when_holds (is_stale now e) (stale_finding now e)
     @ when_holds (filter wildcard_scope (ni_scopes e) \<noteq> []) (wildcard_finding e)
     @ when_holds (filter admin_scope (ni_scopes e) \<noteq> []) (admin_finding e)
     @ when_holds (5 < length (ni_scopes e)) (sprawl_finding e)
     @ when_holds (ni_type e = KeyIdentity \<and> \<not> truthy (ni_expires e)) (expiry_finding e)
     @ when_holds (ni_type e = RegisteredAgent \<and> \<not> truthy (ni_owner e)) (owner_finding e)"

section \<open>The score\<close>

fun weight :: "severity \<Rightarrow> rat" where
  "weight Critical = 1"
| "weight High = fl (7 / 10)"
| "weight Medium = fl (4 / 10)"
| "weight Low = fl (15 / 100)"

text \<open>The loop: the sum of the weights and the largest of them.\<close>

fun add_weights :: "severity list \<Rightarrow> rat \<times> rat \<Rightarrow> rat \<times> rat" where
  "add_weights [] acc = acc"
| "add_weights (v # vs) (tot, mx) = add_weights vs (fl (tot + weight v), if mx < weight v then weight v else mx)"

definition risk_score :: "bool \<Rightarrow> severity list \<Rightarrow> rat" where
  "risk_score stale vs =
     (let (tot, mx) = add_weights vs (0, 0);
          score = (if vs = [] then 0 else fl (fl (fl (tot / of_nat (length vs)) + mx) / 2));
          score = (if stale then fl (score + fl (1 / 10)) else score)
      in min 1 score)"

definition level_of :: "rat \<Rightarrow> risk_level" where
  "level_of score =
     (if fl (8 / 10) \<le> score then LCritical
      else if fl (55 / 100) \<le> score then LHigh
      else if fl (3 / 10) \<le> score then LMedium
      else if 0 < score then LLow
      else LNone)"

definition score_nhi :: "int \<Rightarrow> nhi_input \<Rightarrow> rat \<times> risk_level \<times> nhi_finding list" where
  "score_nhi now e =
     (let fs = nhi_findings now e; score = risk_score (is_stale now e) (map nf_severity fs)
      in (score, level_of score, fs))"

section \<open>Every combination of findings\<close>

definition worst :: "severity list \<Rightarrow> risk_level" where
  "worst vs =
     (if Critical \<in> set vs then LCritical else if High \<in> set vs then LHigh
      else if Medium \<in> set vs then LMedium else if Low \<in> set vs then LLow else LNone)"

text \<open>The severities of the findings, by which of the checks fire: an identity is offboarded or stale or
  neither, and has no expiry or no owner or neither.\<close>

definition severities :: "bool \<Rightarrow> bool \<Rightarrow> bool \<Rightarrow> bool \<Rightarrow> bool \<Rightarrow> bool \<Rightarrow> bool \<Rightarrow> severity list" where
  "severities off stale wild adm sprawl expiry ownerless =
     when_holds off Critical @ when_holds stale Medium @ when_holds wild Critical @ when_holds adm High
     @ when_holds sprawl Medium @ when_holds expiry High @ when_holds ownerless Medium"

section \<open>Rounding errors\<close>

lemma nearest: "\<bar>of_int (round_half_even x) - x\<bar> \<le> 1 / 2"
proof -
  have "of_int \<lfloor>x\<rfloor> \<le> x" "x < of_int \<lfloor>x\<rfloor> + 1" by linarith+
  then show ?thesis by (auto simp: round_half_even_def Let_def abs_if not_less simp del: of_int_floor_le)
qed

lemma ilog2_below_8:
  assumes "0 < x" "x < 8"
  shows "ilog2 x \<le> 2"
proof (cases "1 \<le> x")
  case True
  have "\<lfloor>x\<rfloor> < 8" using assms(2) by linarith
  then have "nat \<lfloor>x\<rfloor> < 2 ^ 3" using True by (simp add: nat_less_iff)
  then have "nbits (nat \<lfloor>x\<rfloor>) \<le> 3" by (rule nbits_le)
  then show ?thesis using True by (simp add: ilog2_def)
next
  case False
  then show ?thesis by (simp add: ilog2_def)
qed

definition ulp :: rat where
  "ulp = 1 / 2 ^ 51"

lemma fl_error:
  assumes "0 \<le> x" "x < 8"
  shows "\<bar>fl x - x\<bar> \<le> ulp"
proof (cases "x = 0")
  case True
  then show ?thesis by (simp add: ulp_def)
next
  case False
  then have pos: "0 < x" using assms(1) by simp
  define e where "e = max (ilog2 x - 52) (- 1074)"
  have "e \<le> - 50" using ilog2_below_8 [OF pos assms(2)] by (simp add: e_def)
  then have "nat (- e) \<ge> 50" by simp
  then have "(2::rat) ^ 50 \<le> 2 ^ nat (- e)" by (rule power_increasing) simp
  then have small: "pow2 e \<le> 1 / 2 ^ 50" using \<open>e \<le> - 50\<close> by (auto simp: pow2_def field_simps)
  have "fl x - x = (of_int (round_half_even (x / pow2 e)) - x / pow2 e) * pow2 e"
    using pos by (simp add: fl_def fl_pos_def Let_def e_def left_diff_distrib)
  then have "\<bar>fl x - x\<bar> \<le> 1 / 2 * pow2 e"
    using nearest [of "x / pow2 e"] by (simp add: abs_mult mult_right_mono less_imp_le)
  then show ?thesis using small by (simp add: ulp_def)
qed

text \<open>The score in exact arithmetic.\<close>

fun real_weight :: "severity \<Rightarrow> rat" where
  "real_weight Critical = 1"
| "real_weight High = 7 / 10"
| "real_weight Medium = 4 / 10"
| "real_weight Low = 15 / 100"

lemma weight_error: "\<bar>weight v - real_weight v\<bar> \<le> ulp" "0 \<le> real_weight v" "real_weight v \<le> 1" "0 \<le> weight v"
  using fl_error [of "7 / 10"] fl_error [of "4 / 10"] fl_error [of "15 / 100"]
  by (cases v; simp add: ulp_def fl_nonneg)+

fun real_max :: "severity list \<Rightarrow> rat \<Rightarrow> rat" where
  "real_max [] m = m"
| "real_max (v # vs) m = real_max vs (max m (real_weight v))"

lemma add_weights_error:
  assumes "add_weights vs (t, m) = (t', m')" "0 \<le> t" "t \<le> rt + d" "rt \<le> t + d" "0 \<le> d" "rt + of_nat (length vs) \<le> 6"
    "d + of_nat (length vs) * (2 * ulp) \<le> 1" "\<bar>m - rm\<bar> \<le> ulp"
  shows "0 \<le> t' \<and> \<bar>t' - (rt + sum_list (map real_weight vs))\<bar> \<le> d + of_nat (length vs) * (2 * ulp)
    \<and> \<bar>m' - real_max vs rm\<bar> \<le> ulp"
  using assms
proof (induction vs arbitrary: t m rt rm d)
  case Nil
  then show ?case by (auto simp: abs_le_iff)
next
  case (Cons v vs)
  let ?t = "fl (t + weight v)" and ?m = "if m < weight v then weight v else m"
  note w = weight_error [of v]
  have u: "0 \<le> ulp" "ulp \<le> 1 / 100" by (simp_all add: ulp_def)
  have len: "rt + 1 + of_nat (length vs) \<le> 6" using Cons.prems(6) by simp
  have d: "d + 2 * ulp + of_nat (length vs) * (2 * ulp) \<le> 1" using Cons.prems(7) by (simp add: algebra_simps)
  have nn: "0 \<le> of_nat (length vs) * (2 * ulp)" using u by simp
  have "t + weight v < 8"
  proof -
    have "(0::rat) \<le> of_nat (length vs)" "weight v \<le> real_weight v + ulp" using w(1) by (simp_all add: abs_le_iff)
    then show ?thesis using Cons.prems(3) w(3) u len d nn by linarith
  qed
  moreover have "0 \<le> t + weight v" using Cons.prems(2) w(4) by simp
  ultimately have f: "\<bar>?t - (t + weight v)\<bar> \<le> ulp" "0 \<le> ?t" by (simp_all add: fl_error fl_nonneg)
  have step: "?t \<le> (rt + real_weight v) + (d + 2 * ulp)" "rt + real_weight v \<le> ?t + (d + 2 * ulp)"
    using f w(1) Cons.prems(3,4) by (simp_all add: abs_le_iff)
  have m: "\<bar>?m - max rm (real_weight v)\<bar> \<le> ulp"
    using Cons.prems(8) w(1) by (auto simp: abs_le_iff max_def split: if_splits)
  have r: "rt + real_weight v + of_nat (length vs) \<le> 6" using len w(3) by linarith
  have run: "add_weights vs (?t, ?m) = (t', m')" using Cons.prems(1) by simp
  have d0: "0 \<le> d + 2 * ulp" using Cons.prems(5) u by simp
  from Cons.IH [OF run f(2) step d0 r d m] show ?case by (simp add: algebra_simps)
qed

definition exact_score :: "bool \<Rightarrow> severity list \<Rightarrow> rat" where
  "exact_score stale vs =
     (sum_list (map real_weight vs) / of_nat (length vs) + real_max vs 0) / 2 + (if stale then 1 / 10 else 0)"

lemma real_max_le: "m \<le> 1 \<Longrightarrow> real_max vs m \<le> 1"
  by (induction vs arbitrary: m) (simp_all add: weight_error)

lemma real_max_nonneg: "0 \<le> m \<Longrightarrow> 0 \<le> real_max vs m"
  by (induction vs arbitrary: m) (simp_all add: weight_error le_max_iff_disj)

lemma weights_le_length: "sum_list (map real_weight vs) \<le> of_nat (length vs)" "0 \<le> sum_list (map real_weight vs)"
  by (induction vs) (simp_all add: weight_error add_mono add.commute)

lemma add_weights_max_nonneg: "add_weights vs (t, m) = (t', m') \<Longrightarrow> 0 \<le> m \<Longrightarrow> 0 \<le> m'"
  by (induction vs arbitrary: t m) (auto simp: weight_error split: if_splits)

lemma add_weights_sum_nonneg: "add_weights vs (t, m) = (t', m') \<Longrightarrow> 0 \<le> t \<Longrightarrow> 0 \<le> t'"
  by (induction vs arbitrary: t m) (auto simp: weight_error fl_nonneg split: if_splits)

lemma half_near: "\<bar>x - y\<bar> \<le> 15 * u \<Longrightarrow> 0 \<le> u \<Longrightarrow> \<bar>x / 2 - y / 2\<bar> \<le> 8 * (u::rat)"
  by linarith

lemma fl_near: "0 \<le> x \<Longrightarrow> x < 8 \<Longrightarrow> \<bar>x - y\<bar> \<le> d \<Longrightarrow> \<bar>fl x - y\<bar> \<le> d + ulp"
  using fl_error [of x] by linarith

text \<open>The doubles that are computed stay within 11 units of the last place below two of the exact score.\<close>

lemma base_score_near:
  assumes "add_weights vs (0, 0) = (t, m)" "vs \<noteq> []" "length vs \<le> 6"
  shows "\<bar>fl (fl (fl (t / of_nat (length vs)) + m) / 2) - exact_score False vs\<bar> \<le> 9 * ulp"
proof -
  define n :: rat where "n = of_nat (length vs)"
  define S where "S = sum_list (map real_weight vs)"
  define M where "M = real_max vs 0"
  have u: "0 \<le> ulp" "ulp \<le> 1 / 100" by (simp_all add: ulp_def)
  have "1 \<le> length vs" using assms(2) by (cases vs) simp_all
  then have n: "1 \<le> n" "n \<le> 6" using assms(3) by (simp_all add: n_def)
  have nu: "n * (2 * ulp) \<le> 12 * ulp" using mult_right_mono [OF n(2), of "2 * ulp"] u by simp
  have "0 \<le> t \<and> \<bar>t - (0 + S)\<bar> \<le> 0 + n * (2 * ulp) \<and> \<bar>m - M\<bar> \<le> ulp"
    unfolding S_def M_def n_def
    by (rule add_weights_error [OF assms(1)]) (use n nu u in \<open>simp_all add: n_def ulp_def\<close>)
  then have t: "0 \<le> t" "\<bar>t - S\<bar> \<le> 12 * ulp" and m: "\<bar>m - M\<bar> \<le> ulp" using nu by linarith+
  have m0: "0 \<le> m" using add_weights_max_nonneg [OF assms(1)] by simp
  have S: "0 \<le> S" "S \<le> n" and M: "M \<le> 1"
    using weights_le_length [of vs] real_max_le [of 0 vs] by (simp_all add: S_def n_def M_def)
  have Sn: "S / n \<le> 1" using S n by simp
  have "t / n - S / n = (t - S) / n" by (simp add: diff_divide_distrib)
  then have "\<bar>t / n - S / n\<bar> = \<bar>t - S\<bar> / n" using n by (simp add: abs_divide)
  also have "\<dots> \<le> \<bar>t - S\<bar> / 1" using n by (intro divide_left_mono) simp_all
  finally have tn: "\<bar>t / n - S / n\<bar> \<le> 12 * ulp" using t by simp
  have "0 \<le> t / n" "t / n < 8" using t n tn Sn u by (simp, linarith)
  from fl_near [OF this tn] have q: "\<bar>fl (t / n) - S / n\<bar> \<le> 13 * ulp" by simp
  have q0: "0 \<le> fl (t / n)" using \<open>0 \<le> t / n\<close> by (rule fl_nonneg)
  have qm: "\<bar>fl (t / n) + m - (S / n + M)\<bar> \<le> 14 * ulp" using q m by linarith
  have "0 \<le> fl (t / n) + m" "fl (t / n) + m < 8" using q0 m0 qm Sn M u by linarith+
  from fl_near [OF this qm] have r: "\<bar>fl (fl (t / n) + m) - (S / n + M)\<bar> \<le> 15 * ulp" by simp
  have r0: "0 \<le> fl (fl (t / n) + m)" using \<open>0 \<le> fl (t / n) + m\<close> by (rule fl_nonneg)
  then have h: "\<bar>fl (fl (t / n) + m) / 2 - (S / n + M) / 2\<bar> \<le> 8 * ulp" using half_near [OF r u(1)] by simp
  have "0 \<le> fl (fl (t / n) + m) / 2" "fl (fl (t / n) + m) / 2 < 8" using r0 r Sn M u by linarith+
  from fl_near [OF this h] show ?thesis by (simp add: exact_score_def S_def M_def n_def)
qed

lemma risk_score_near:
  assumes "vs \<noteq> []" "length vs \<le> 6"
  shows "\<bar>risk_score stale vs - min 1 (exact_score stale vs)\<bar> \<le> 11 * ulp"
proof -
  obtain t m where run: "add_weights vs (0, 0) = (t, m)" by fastforce
  define b where "b = fl (fl (fl (t / of_nat (length vs)) + m) / 2)"
  have u: "0 \<le> ulp" "ulp \<le> 1 / 100" by (simp_all add: ulp_def)
  have b: "\<bar>b - exact_score False vs\<bar> \<le> 9 * ulp"
    unfolding b_def by (rule base_score_near [OF run assms])
  have "sum_list (map real_weight vs) / of_nat (length vs) \<le> 1"
    using weights_le_length [of vs] assms(1) by (simp add: divide_le_eq)
  then have "exact_score False vs \<le> 1"
    using real_max_le [of 0 vs] by (simp add: exact_score_def)
  then have x: "exact_score True vs = exact_score False vs + 1 / 10" "exact_score False vs \<le> 1"
    by (simp_all add: exact_score_def)
  show ?thesis
  proof (cases stale)
    case True
    have p: "\<bar>fl (1 / 10) - 1 / 10\<bar> \<le> ulp" by (rule fl_error) simp_all
    have "0 \<le> b" unfolding b_def
      using add_weights_max_nonneg [OF run] add_weights_sum_nonneg [OF run]
      by (intro fl_nonneg divide_nonneg_pos) (simp_all add: fl_nonneg)
    then have "0 \<le> b + fl (1 / 10)" by (simp add: fl_nonneg)
    moreover have "b + fl (1 / 10) < 8" using b p x u by linarith
    moreover have "\<bar>b + fl (1 / 10) - exact_score True vs\<bar> \<le> 10 * ulp" using b p x by linarith
    ultimately have "\<bar>fl (b + fl (1 / 10)) - exact_score True vs\<bar> \<le> 10 * ulp + ulp" by (rule fl_near)
    then show ?thesis using True assms run by (auto simp: risk_score_def b_def min_def Let_def)
  next
    case False
    then show ?thesis using assms run b u by (auto simp: risk_score_def b_def min_def Let_def)
  qed
qed

section \<open>The level is the worst severity\<close>

definition clear_of_bounds :: "rat \<Rightarrow> bool" where
  "clear_of_bounds x = list_all (\<lambda>b. 1 / 1000 \<le> \<bar>x - b\<bar>) [8 / 10, 55 / 100, 3 / 10, 0]"

definition exact_level :: "rat \<Rightarrow> risk_level" where
  "exact_level x =
     (if 8 / 10 \<le> x then LCritical else if 55 / 100 \<le> x then LHigh else if 3 / 10 \<le> x then LMedium
      else if 0 < x then LLow else LNone)"

lemma level_near:
  assumes "clear_of_bounds x" "\<bar>s - x\<bar> \<le> 11 * ulp"
  shows "level_of s = exact_level x"
proof -
  have "\<bar>fl (8 / 10) - 8 / 10\<bar> \<le> ulp" "\<bar>fl (55 / 100) - 55 / 100\<bar> \<le> ulp" "\<bar>fl (3 / 10) - 3 / 10\<bar> \<le> ulp"
    by (rule fl_error; simp)+
  moreover have u: "0 \<le> ulp" "ulp \<le> 1 / 100000" by (simp_all add: ulp_def)
  moreover have "1 / 1000 \<le> \<bar>x - 8 / 10\<bar>" "1 / 1000 \<le> \<bar>x - 55 / 100\<bar>" "1 / 1000 \<le> \<bar>x - 3 / 10\<bar>" "1 / 1000 \<le> \<bar>x\<bar>"
    using assms(1) by (simp_all add: clear_of_bounds_def)
  ultimately have "(fl (8 / 10) \<le> s) = (8 / 10 \<le> x)" "(fl (55 / 100) \<le> s) = (55 / 100 \<le> x)"
    "(fl (3 / 10) \<le> s) = (3 / 10 \<le> x)" "(0 < s) = (0 < x)"
    using assms(2) by linarith+
  then show ?thesis by (simp add: level_of_def exact_level_def)
qed

lemma severities_clear:
  assumes "\<not> (off \<and> stale)" "\<not> (expiry \<and> ownerless)"
    "vs = severities off stale wild adm sprawl expiry ownerless" "vs \<noteq> []" "vs \<noteq> [Critical, Medium, Medium]"
  shows "clear_of_bounds (min 1 (exact_score stale vs)) \<and> exact_level (min 1 (exact_score stale vs)) = worst vs"
  using assms(1,2,4,5) unfolding assms(3)
  by (cases off; cases stale; cases wild; cases adm; cases sprawl; cases expiry; cases ownerless;
      simp add: severities_def when_holds_def clear_of_bounds_def exact_level_def exact_score_def worst_def min_def max_def)

text \<open>One wildcard and two medium findings without staleness stand exactly on the critical bound, where the
  rounded operations decide.\<close>

lemma boundary_steps:
  "fl (4 / 10) = 3602879701896397 / 9007199254740992"
  "fl (1 + 3602879701896397 / 9007199254740992) = 3152519739159347 / 2251799813685248"
  "fl (3152519739159347 / 2251799813685248 + 3602879701896397 / 9007199254740992) = 2026619832316723 / 1125899906842624"
  "fl (2026619832316723 / 1125899906842624 / 3) = 5404319552844595 / 9007199254740992"
  "fl (5404319552844595 / 9007199254740992 + 1) = 3602879701896397 / 2251799813685248"
  "fl (3602879701896397 / 2251799813685248 / 2) = 3602879701896397 / 4503599627370496"
  "fl (8 / 10) = 3602879701896397 / 4503599627370496"
  by code_simp+

lemma boundary_total:
  "add_weights [Critical, Medium, Medium] (0, 0) = (2026619832316723 / 1125899906842624, 1)"
proof -
  have "fl (0 + 1) = 1" "(0::rat) < 1" "\<not> (1::rat) < 3602879701896397 / 9007199254740992" by code_simp+
  then show ?thesis by (simp only: add_weights.simps weight.simps boundary_steps if_True if_False)
qed

lemma boundary_score: "risk_score False [Critical, Medium, Medium] = fl (8 / 10)"
proof -
  have "of_nat (length [Critical, Medium, Medium]) = (3::rat)" "[Critical, Medium, Medium] \<noteq> []"
    "min 1 (3602879701896397 / 4503599627370496) = (3602879701896397 / 4503599627370496 :: rat)"
    by simp_all
  then show ?thesis
    by (simp only: risk_score_def Let_def boundary_total boundary_steps prod.case if_False)
qed

lemma boundary_level: "level_of (risk_score False [Critical, Medium, Medium]) = LCritical"
  by (simp add: boundary_score level_of_def)

lemma nhi_severities:
  "map nf_severity (nhi_findings now e) =
     severities (ni_status e = ''revoked'' \<or> ni_status e = ''suspended'') (is_stale now e)
       (filter wildcard_scope (ni_scopes e) \<noteq> []) (filter admin_scope (ni_scopes e) \<noteq> [])
       (5 < length (ni_scopes e)) (ni_type e = KeyIdentity \<and> \<not> truthy (ni_expires e))
       (ni_type e = RegisteredAgent \<and> \<not> truthy (ni_owner e))"
  by (simp add: nhi_findings_def severities_def when_holds_def offboarding_finding_def stale_finding_def wildcard_finding_def
      admin_finding_def sprawl_finding_def expiry_finding_def owner_finding_def)

lemma severities_stale:
  "severities off stale wild adm sprawl expiry ownerless = [] \<Longrightarrow> \<not> stale"
  "\<not> (off \<and> stale) \<Longrightarrow> \<not> (expiry \<and> ownerless) \<Longrightarrow> length (severities off stale wild adm sprawl expiry ownerless) \<le> 6"
  by (auto simp: severities_def when_holds_def)

lemma severities_level:
  assumes "\<not> (off \<and> stale)" "\<not> (expiry \<and> ownerless)"
  shows "level_of (risk_score stale (severities off stale wild adm sprawl expiry ownerless))
    = worst (severities off stale wild adm sprawl expiry ownerless)"
proof -
  define vs where "vs = severities off stale wild adm sprawl expiry ownerless"
  consider "vs = []" | "vs = [Critical, Medium, Medium]" "\<not> stale"
    | "vs = [Critical, Medium, Medium]" "stale" | "vs \<noteq> []" "vs \<noteq> [Critical, Medium, Medium]" by blast
  then have "level_of (risk_score stale vs) = worst vs"
  proof cases
    case 1
    then have "\<not> stale" unfolding vs_def by (rule severities_stale)
    moreover have "0 < fl (8 / 10)" "0 < fl (55 / 100)" "0 < fl (3 / 10)" by code_simp+
    ultimately show ?thesis using 1 by (simp add: risk_score_def level_of_def worst_def)
  next
    case 2
    then show ?thesis by (simp add: boundary_level worst_def)
  next
    case 3
    have "hd vs = Medium" using 3(2) assms(1) by (simp add: vs_def severities_def when_holds_def)
    then show ?thesis using 3(1) by simp
  next
    case 4
    note clear = severities_clear [OF assms vs_def 4]
    have "length vs \<le> 6" unfolding vs_def by (rule severities_stale(2) [OF assms])
    from risk_score_near [OF 4(1) this] have "level_of (risk_score stale vs) = exact_level (min 1 (exact_score stale vs))"
      by (intro level_near) (use clear in simp_all)
    then show ?thesis using clear by simp
  qed
  then show ?thesis by (simp add: vs_def)
qed

lemma risk_score_range: "0 \<le> risk_score stale vs \<and> risk_score stale vs \<le> 1"
proof -
  obtain t m where run: "add_weights vs (0, 0) = (t, m)" by fastforce
  then have "0 \<le> t" "0 \<le> m" using add_weights_max_nonneg add_weights_sum_nonneg by (blast, blast)
  then show ?thesis using run by (simp add: risk_score_def Let_def fl_nonneg)
qed

text \<open>The level of an identity is the worst severity among its findings: averaging with the other findings, the
  bonus of a stale identity and every rounding never move it to another level, and the score is in [0,1].\<close>

theorem nhi_level_is_the_worst_finding:
  "case score_nhi now e of (score, level, fs) \<Rightarrow> level = worst (map nf_severity fs) \<and> 0 \<le> score \<and> score \<le> 1"
  using severities_level risk_score_range
  by (auto simp: score_nhi_def Let_def nhi_severities is_stale_def)

end
