(* ===== verification/ConsolePages.thy ===== *)
theory ConsolePages
  imports Pages ManageRoutes NhiScore
begin

text \<open>
  The pages of the console: policies (\<open>app/policies/page.tsx\<close>), agents (\<open>app/agents/page.tsx\<close>), API keys
  (\<open>app/api-key/page.tsx\<close>), the dashboard (\<open>app/dashboard/page.tsx\<close>) and the risk page (\<open>app/nhi/page.tsx\<close>). Rows are
  the JSON objects of the answers.
\<close>

section \<open>Policies\<close>

record test_outcome =
  to_decision :: "jsnum json option"
  to_reason :: "jsnum json option"
  to_rule :: string

record policies_page =
  pg_policies :: "jsnum json list"
  pg_loading :: bool
  pg_error :: string
  pg_expanded :: "jsnum json option"
  pg_show_create :: bool
  pg_creating :: bool
  pg_create_error :: string
  pg_name :: string
  pg_desc :: string
  pg_rules :: "jsnum json list"
  pg_editing :: "jsnum json option"
  pg_draft :: "jsnum json option"
  pg_saving :: bool
  pg_test_tool :: "(string \<times> string) list"
  pg_test_result :: "string \<Rightarrow> test_outcome option"
  pg_testing :: "string option"
  pg_delete_id :: "string option"
  pg_deleting :: bool

definition page_rule :: "string \<Rightarrow> string \<Rightarrow> string \<Rightarrow> string \<Rightarrow> jsnum json" where
  "page_rule i pattern decision reason = JObj [(''pattern'', JStr pattern), (''decision'', JStr decision), (''reason'', JStr reason), (''id'', JStr i)]"

text \<open>The default rules with drawn identifiers.\<close>

definition default_rules :: "string \<Rightarrow> string \<Rightarrow> string \<Rightarrow> string \<Rightarrow> jsnum json list" where
  "default_rules i1 i2 i3 i4 =
     [page_rule i1 ''delete|drop|truncate|destroy'' ''deny'' ''Destructive operations are blocked.'',
      page_rule i2 ''send_email|send_message|publish|notify'' ''human_review'' ''Outbound communications need human sign-off.'',
      page_rule i3 ''transfer|payment|charge|refund'' ''human_review'' ''Financial operations require approval.'',
      page_rule i4 ''read|get|list|query|search|fetch'' ''allow'' ''Read-only operations are permitted.'']"

definition policies_fetched :: "page_answer \<Rightarrow> policies_page \<Rightarrow> policies_page" where
  "policies_fetched a pg =
     (case read_answer a of
        Accepted d \<Rightarrow> pg\<lparr>pg_policies := jlist (member ''policies'' d), pg_loading := False\<rparr>
      | _ \<Rightarrow> pg\<lparr>pg_error := ''Failed to load policies. Please refresh.'', pg_loading := False\<rparr>)"

definition create_submit :: "policies_page \<Rightarrow> (policies_page \<times> page_call) option" where
  "create_submit pg =
     (if trim (pg_name pg) = [] then None
      else Some (pg\<lparr>pg_creating := True, pg_create_error := []\<rparr>,
         page_send ''POST'' ''/api/policies'' (JObj [(''name'', JStr (trim (pg_name pg))),
            (''description'', JStr (trim (pg_desc pg))), (''rules'', JArr (pg_rules pg))])))"

definition create_answered :: "jsnum json list \<Rightarrow> page_answer \<Rightarrow> policies_page \<Rightarrow> policies_page" where
  "create_answered fresh a pg =
     (let pg1 = pg\<lparr>pg_creating := False\<rparr>
      in case read_answer a of
           Thrown \<Rightarrow> pg1\<lparr>pg_create_error := ''Something went wrong.''\<rparr>
         | Refused d \<Rightarrow> pg1\<lparr>pg_create_error := error_text ''Failed to create'' d\<rparr>
         | Accepted d \<Rightarrow>
             (let p = jmember ''policy'' d
              in pg1\<lparr>pg_policies := p # pg_policies pg1, pg_expanded := member ''id'' p, pg_show_create := False,
                     pg_name := [], pg_desc := [], pg_rules := fresh\<rparr>))"

definition is_active :: "jsnum json \<Rightarrow> bool" where
  "is_active p = truthy_json (member ''isActive'' p)"

definition id_text :: "jsnum json \<Rightarrow> string" where
  "id_text p = nullish (str_of (member ''id'' p)) []"

text \<open>The row is toggled before the request, and put back only when there is no answer at all.\<close>

definition toggle_active :: "jsnum json \<Rightarrow> policies_page \<Rightarrow> policies_page \<times> page_call" where
  "toggle_active p pg =
     (pg\<lparr>pg_policies := map (\<lambda>x. if same_id x p then with_member ''isActive'' (JBool (\<not> is_active p)) p else x) (pg_policies pg)\<rparr>,
      page_send ''PUT'' (''/api/policies/'' @ id_text p) (JObj [(''isActive'', JBool (\<not> is_active p))]))"

definition toggle_answered :: "jsnum json \<Rightarrow> page_answer \<Rightarrow> policies_page \<Rightarrow> policies_page" where
  "toggle_answered p a pg =
     (if a = NoReply then pg\<lparr>pg_policies := map (\<lambda>x. if same_id x p then p else x) (pg_policies pg)\<rparr> else pg)"

definition start_edit :: "jsnum json \<Rightarrow> policies_page \<Rightarrow> policies_page" where
  "start_edit p pg = pg\<lparr>pg_editing := member ''id'' p, pg_draft := Some p, pg_expanded := member ''id'' p\<rparr>"

definition save_submit :: "policies_page \<Rightarrow> (policies_page \<times> page_call) option" where
  "save_submit pg =
     (case pg_draft pg of
        None \<Rightarrow> None
      | Some p \<Rightarrow> Some (pg\<lparr>pg_saving := True\<rparr>, page_send ''PUT'' (''/api/policies/'' @ id_text p)
          (JObj (when_some ''name'' (member ''name'' p) @ when_some ''description'' (member ''description'' p)
                 @ when_some ''rules'' (member ''rules'' p)))))"

definition save_answered :: "jsnum json \<Rightarrow> page_answer \<Rightarrow> policies_page \<Rightarrow> policies_page" where
  "save_answered draft a pg =
     (case read_answer a of
        Accepted d \<Rightarrow> pg\<lparr>pg_policies := map (\<lambda>x. if same_id x draft then jmember ''policy'' d else x) (pg_policies pg),
            pg_editing := None, pg_draft := None, pg_saving := False\<rparr>
      | _ \<Rightarrow> pg\<lparr>pg_saving := False\<rparr>)"

definition delete_submit :: "string \<Rightarrow> policies_page \<Rightarrow> policies_page \<times> page_call" where
  "delete_submit i pg = (pg\<lparr>pg_deleting := True\<rparr>, \<lparr>pc_method = ''DELETE'', pc_path = ''/api/policies/'' @ i, pc_body = None\<rparr>)"

text \<open>Any answer counts as a deletion. \<open>expanded\<close> is the expanded policy at the click.\<close>

definition delete_answered :: "jsnum json option \<Rightarrow> string \<Rightarrow> page_answer \<Rightarrow> policies_page \<Rightarrow> policies_page" where
  "delete_answered expanded i a pg =
     (if a = NoReply then pg\<lparr>pg_deleting := False\<rparr>
      else pg\<lparr>pg_policies := filter (\<lambda>x. \<not> has_id i x) (pg_policies pg), pg_delete_id := None,
              pg_expanded := (if expanded = Some (JStr i) then None else pg_expanded pg), pg_deleting := False\<rparr>)"

text \<open>The loop of \<open>testPolicy\<close>; a pattern that is not a regular expression is skipped.\<close>

fun test_rules :: "(jsnum json option \<Rightarrow> string \<Rightarrow> bool option) \<Rightarrow> (jsnum \<Rightarrow> string) \<Rightarrow> jsnum json list \<Rightarrow> string \<Rightarrow> test_outcome option" where
  "test_rules regex num [] tool = None"
| "test_rules regex num (r # rs) tool =
     (case (if r = JNull then None else regex (member ''pattern'' r) tool) of
        Some True \<Rightarrow> Some \<lparr>to_decision = member ''decision'' r, to_reason = member ''reason'' r,
            to_rule = ''rule:'' @ js_string_opt num (member ''id'' r)\<rparr>
      | _ \<Rightarrow> test_rules regex num rs tool)"

definition default_outcome :: test_outcome where
  "default_outcome = \<lparr>to_decision = Some (JStr ''allow''), to_reason = Some (JStr ''No rule matched - default allow.''),
     to_rule = ''default-fallthrough''\<rparr>"

definition test_policy :: "(jsnum json option \<Rightarrow> string \<Rightarrow> bool option) \<Rightarrow> (jsnum \<Rightarrow> string) \<Rightarrow> string \<Rightarrow> jsnum json \<Rightarrow> policies_page \<Rightarrow> policies_page" where
  "test_policy regex num i p pg =
     (let tool = trim (nullish (map_of (pg_test_tool pg) i) [])
      in if tool = [] then pg
         else pg\<lparr>pg_test_result := (pg_test_result pg)(i := Some (nullish (test_rules regex num (jlist (member ''rules'' p)) tool) default_outcome)),
                 pg_testing := None\<rparr>)"

definition add_rule :: "string \<Rightarrow> jsnum json list \<Rightarrow> jsnum json list" where
  "add_rule i rs = rs @ [JObj [(''id'', JStr i), (''pattern'', JStr []), (''decision'', JStr ''allow''), (''reason'', JStr [])]]"

definition update_rule :: "string \<Rightarrow> string \<Rightarrow> string \<Rightarrow> jsnum json list \<Rightarrow> jsnum json list" where
  "update_rule i field v rs = map (\<lambda>r. if has_id i r then with_member field (JStr v) r else r) rs"

definition remove_rule :: "string \<Rightarrow> jsnum json list \<Rightarrow> jsnum json list" where
  "remove_rule i rs = filter (\<lambda>r. \<not> has_id i r) rs"

section \<open>Agents\<close>

record agent_form =
  af_name :: string
  af_description :: string
  af_type :: string
  af_owner :: string
  af_scopes :: string

datatype agent_action = Revoke | Suspend

record agents_page =
  ap_agents :: "jsnum json list"
  ap_loading :: bool
  ap_error :: string
  ap_show_create :: bool
  ap_form :: agent_form
  ap_creating :: bool
  ap_create_error :: string
  ap_action :: "(string \<times> agent_action) option"
  ap_actioning :: bool

definition empty_form :: agent_form where
  "empty_form = \<lparr>af_name = [], af_description = [], af_type = ''autonomous'', af_owner = [], af_scopes = []\<rparr>"

definition agents_fetched :: "page_answer \<Rightarrow> agents_page \<Rightarrow> agents_page" where
  "agents_fetched a pg =
     (case read_answer a of
        Accepted d \<Rightarrow> pg\<lparr>ap_agents := jlist (member ''agents'' d), ap_loading := False\<rparr>
      | _ \<Rightarrow> pg\<lparr>ap_error := ''Failed to load agents. Please refresh.'', ap_loading := False\<rparr>)"

definition split_scopes :: "string \<Rightarrow> string list" where
  "split_scopes s = filter (\<lambda>x. x \<noteq> []) (map trim (split_on (CHR '','') s))"

definition agent_submit :: "agents_page \<Rightarrow> (agents_page \<times> page_call) option" where
  "agent_submit pg =
     (let f = ap_form pg
      in if trim (af_name f) = [] then None
         else Some (pg\<lparr>ap_creating := True, ap_create_error := []\<rparr>,
            page_send ''POST'' ''/api/agents'' (JObj [(''name'', JStr (trim (af_name f))),
              (''description'', JStr (trim (af_description f))), (''agentType'', JStr (af_type f)),
              (''ownerEmail'', JStr (trim (af_owner f))), (''scopes'', JArr (map JStr (split_scopes (af_scopes f))))])))"

definition agent_answered :: "page_answer \<Rightarrow> agents_page \<Rightarrow> agents_page" where
  "agent_answered a pg =
     (let pg1 = pg\<lparr>ap_creating := False\<rparr>
      in case read_answer a of
           Thrown \<Rightarrow> pg1\<lparr>ap_create_error := ''Something went wrong. Please try again.''\<rparr>
         | Refused d \<Rightarrow> pg1\<lparr>ap_create_error := error_text ''Failed to create agent'' d\<rparr>
         | Accepted d \<Rightarrow> pg1\<lparr>ap_agents := jmember ''agent'' d # ap_agents pg1, ap_show_create := False, ap_form := empty_form\<rparr>)"

fun action_call :: "string \<times> agent_action \<Rightarrow> page_call" where
  "action_call (i, Revoke) = \<lparr>pc_method = ''DELETE'', pc_path = ''/api/agents/'' @ i, pc_body = None\<rparr>"
| "action_call (i, Suspend) = \<lparr>pc_method = ''POST'', pc_path = ''/api/agents/'' @ i @ ''/suspend'', pc_body = None\<rparr>"

fun action_status :: "agent_action \<Rightarrow> string" where
  "action_status Revoke = ''revoked''"
| "action_status Suspend = ''suspended''"

definition action_submit :: "agents_page \<Rightarrow> (agents_page \<times> page_call) option" where
  "action_submit pg = map_option (\<lambda>act. (pg\<lparr>ap_actioning := True\<rparr>, action_call act)) (ap_action pg)"

definition action_accepted :: "page_answer \<Rightarrow> bool" where
  "action_accepted a = (case a of NoReply \<Rightarrow> False | Replied st body \<Rightarrow> http_ok st)"

definition action_answered :: "string \<times> agent_action \<Rightarrow> page_answer \<Rightarrow> agents_page \<Rightarrow> agents_page" where
  "action_answered act a pg =
     (let pg1 = pg\<lparr>ap_actioning := False, ap_action := None\<rparr>
      in if action_accepted a
         then pg1\<lparr>ap_agents := map (\<lambda>x. if has_id (fst act) x then with_member ''status'' (JStr (action_status (snd act))) x else x) (ap_agents pg1)\<rparr>
         else pg1)"

definition status_count :: "string \<Rightarrow> agents_page \<Rightarrow> nat" where
  "status_count st pg = length (filter (\<lambda>x. member ''status'' x = Some (JStr st)) (ap_agents pg))"

section \<open>API keys\<close>

record keys_page =
  kp_keys :: "jsnum json list"
  kp_loading :: bool
  kp_show_create :: bool
  kp_reveal :: "(jsnum json \<times> string) option"
  kp_revoke :: "string option"
  kp_revoking :: bool

text \<open>The second component is where the router goes.\<close>

definition keys_fetched :: "page_answer \<Rightarrow> keys_page \<Rightarrow> keys_page \<times> string option" where
  "keys_fetched a pg =
     (let pg1 = pg\<lparr>kp_loading := False\<rparr>
      in case a of
           NoReply \<Rightarrow> (pg1, None)
         | Replied st body \<Rightarrow>
             (if st = 401 then (pg1, Some ''/login?next=/api-key'')
              else case body of
                     None \<Rightarrow> (pg1, None)
                   | Some d \<Rightarrow> (if truthy_value d then pg1\<lparr>kp_keys := jlist (member ''keys'' d)\<rparr> else pg1, None)))"

definition key_created :: "jsnum json \<Rightarrow> string \<Rightarrow> keys_page \<Rightarrow> keys_page" where
  "key_created k full pg = pg\<lparr>kp_show_create := False, kp_keys := k # kp_keys pg, kp_reveal := Some (k, full)\<rparr>"

definition revoke_submit :: "keys_page \<Rightarrow> (keys_page \<times> page_call) option" where
  "revoke_submit pg = map_option (\<lambda>i. (pg\<lparr>kp_revoking := True\<rparr>,
     \<lparr>pc_method = ''DELETE'', pc_path = ''/api/dashboard/keys/'' @ i, pc_body = None\<rparr>)) (kp_revoke pg)"

text \<open>Any answer counts as a revocation.\<close>

definition revoke_answered :: "string \<Rightarrow> page_answer \<Rightarrow> keys_page \<Rightarrow> keys_page" where
  "revoke_answered i a pg =
     (let pg1 = pg\<lparr>kp_revoking := False, kp_revoke := None\<rparr>
      in if a = NoReply then pg1
         else pg1\<lparr>kp_keys := map (\<lambda>k. if has_id i k then with_member ''revoked'' (JBool True) k else k) (kp_keys pg1)\<rparr>)"

definition is_revoked :: "jsnum json \<Rightarrow> bool" where
  "is_revoked k = truthy_json (member ''revoked'' k)"

definition active_keys :: "keys_page \<Rightarrow> jsnum json list" where
  "active_keys pg = filter (\<lambda>k. \<not> is_revoked k) (kp_keys pg)"

definition revoked_keys :: "keys_page \<Rightarrow> jsnum json list" where
  "revoked_keys pg = filter is_revoked (kp_keys pg)"

section \<open>The dialog for a new key\<close>

record key_dialog =
  nk_name :: string
  nk_loading :: bool
  nk_error :: string

definition key_submit :: "key_dialog \<Rightarrow> key_dialog \<times> page_call" where
  "key_submit pg = (pg\<lparr>nk_error := [], nk_loading := True\<rparr>, page_send ''POST'' ''/api/dashboard/keys'' (JObj [(''name'', JStr (nk_name pg))]))"

text \<open>The second component is the new key and its text, for \<open>onCreated\<close>.\<close>

definition key_answered :: "page_answer \<Rightarrow> key_dialog \<Rightarrow> key_dialog \<times> (jsnum json \<times> string) option" where
  "key_answered a pg =
     (let pg1 = pg\<lparr>nk_loading := False\<rparr>
      in case read_answer a of
           Thrown \<Rightarrow> (pg1\<lparr>nk_error := ''Something went wrong. Please try again.''\<rparr>, None)
         | Refused d \<Rightarrow> (pg1\<lparr>nk_error := error_text ''Failed to create key'' d\<rparr>, None)
         | Accepted d \<Rightarrow> (pg1, Some (jmember ''key'' d, nullish (str_of (member ''fullKey'' d)) [])))"

section \<open>The dashboard\<close>

record dashboard_page =
  db_keys :: "jsnum json list"
  db_agents :: nat
  db_loading :: bool
  db_error :: string
  db_show_create :: bool
  db_key_name :: string
  db_creating :: bool
  db_create_error :: string
  db_revealed :: "string option"
  db_revoke :: "string option"
  db_revoking :: bool

definition live_keys :: "jsnum json \<Rightarrow> jsnum json list" where
  "live_keys d = filter (\<lambda>k. \<not> is_revoked k) (jlist (member ''keys'' d))"

definition active_agents :: "jsnum json \<Rightarrow> nat" where
  "active_agents d = length (filter (\<lambda>x. member ''status'' x = Some (JStr ''active'')) (jlist (member ''agents'' d)))"

text \<open>\<open>fetchData()\<close>: the answers for the keys and the agents, and where the router goes. A failure after the keys
  were read leaves them on the page.\<close>

definition data_fetched :: "page_answer \<Rightarrow> page_answer \<Rightarrow> dashboard_page \<Rightarrow> dashboard_page \<times> string option" where
  "data_fetched keys agents pg =
     (let failed = pg\<lparr>db_error := ''Failed to load data. Please refresh.'', db_loading := False\<rparr>
      in if keys = NoReply \<or> agents = NoReply then (failed, None)
         else if (case keys of Replied st body \<Rightarrow> st = 401 | NoReply \<Rightarrow> False)
           then (pg\<lparr>db_loading := False\<rparr>, Some ''/login?next=/dashboard'')
         else
             (case read_answer keys of
                Accepted d \<Rightarrow>
                  (let pg1 = pg\<lparr>db_keys := live_keys d\<rparr>
                   in case agents of
                        Replied st body \<Rightarrow>
                          (if \<not> http_ok st then (pg1\<lparr>db_loading := False\<rparr>, None)
                           else case read_answer agents of
                                  Accepted e \<Rightarrow> (pg1\<lparr>db_agents := active_agents e, db_loading := False\<rparr>, None)
                                | _ \<Rightarrow> (failed\<lparr>db_keys := live_keys d\<rparr>, None))
                      | NoReply \<Rightarrow> (failed, None))
              | _ \<Rightarrow> (failed, None)))"

definition dashboard_create :: "dashboard_page \<Rightarrow> (dashboard_page \<times> page_call) option" where
  "dashboard_create pg =
     (if trim (db_key_name pg) = [] then None
      else Some (pg\<lparr>db_creating := True, db_create_error := []\<rparr>,
         page_send ''POST'' ''/api/dashboard/keys'' (JObj [(''name'', JStr (trim (db_key_name pg)))])))"

text \<open>The answer to the creation, after which the keys are read again.\<close>

definition dashboard_created :: "page_answer \<Rightarrow> dashboard_page \<Rightarrow> dashboard_page \<times> page_call option" where
  "dashboard_created a pg =
     (case read_answer a of
        Thrown \<Rightarrow> (pg\<lparr>db_create_error := ''Something went wrong. Please try again.'', db_creating := False\<rparr>, None)
      | Refused d \<Rightarrow> (pg\<lparr>db_create_error := error_text ''Failed to create key'' d, db_creating := False\<rparr>, None)
      | Accepted d \<Rightarrow> (pg\<lparr>db_revealed := str_of (member ''fullKey'' d)\<rparr>, Some (page_get ''/api/dashboard/keys'')))"

definition keys_refetched :: "page_answer \<Rightarrow> dashboard_page \<Rightarrow> dashboard_page" where
  "keys_refetched a pg =
     (let pg1 = pg\<lparr>db_creating := False\<rparr>
      in case a of
           Replied st body \<Rightarrow>
             (if \<not> http_ok st then pg1
              else case read_answer a of
                     Accepted d \<Rightarrow> pg1\<lparr>db_keys := live_keys d\<rparr>
                   | _ \<Rightarrow> pg1\<lparr>db_create_error := ''Something went wrong. Please try again.''\<rparr>)
         | NoReply \<Rightarrow> pg1\<lparr>db_create_error := ''Something went wrong. Please try again.''\<rparr>)"

definition dashboard_revoked :: "string \<Rightarrow> page_answer \<Rightarrow> dashboard_page \<Rightarrow> dashboard_page" where
  "dashboard_revoked i a pg =
     (let pg1 = pg\<lparr>db_revoking := False, db_revoke := None\<rparr>
      in if action_accepted a then pg1\<lparr>db_keys := filter (\<lambda>k. \<not> has_id i k) (db_keys pg1)\<rparr> else pg1)"

definition close_dialog :: "dashboard_page \<Rightarrow> dashboard_page" where
  "close_dialog pg = pg\<lparr>db_show_create := False, db_key_name := [], db_create_error := [], db_revealed := None\<rparr>"

section \<open>The analytics page\<close>

record admin_page =
  dp_stats :: "jsnum json option"
  dp_loading :: bool
  dp_refreshing :: bool
  dp_forbidden :: bool
  dp_error :: string

definition stats_answered :: "page_answer \<Rightarrow> admin_page \<Rightarrow> admin_page" where
  "stats_answered a pg =
     (let pg1 = pg\<lparr>dp_loading := False, dp_refreshing := False\<rparr>; failed = pg1\<lparr>dp_error := ''Failed to load analytics. Please refresh.''\<rparr>
      in case a of
           NoReply \<Rightarrow> failed
         | Replied st body \<Rightarrow>
             (if st = 401 \<or> st = 404 then pg1\<lparr>dp_forbidden := True\<rparr>
              else if \<not> http_ok st then failed
              else case body of None \<Rightarrow> failed | Some d \<Rightarrow> pg1\<lparr>dp_stats := Some d, dp_forbidden := False, dp_error := []\<rparr>))"

end
