(* ===== verification/ConsoleProps.thy ===== *)
theory ConsoleProps
  imports ConsolePages AccountFlow
begin

text \<open>
  What the console shows against what the routes do: the test panel and the platform's evaluation, the status of
  agents and the stored one, and the pages that take any answer for success.
\<close>

section \<open>The test panel\<close>

definition panel_verdict :: "policy_verdict \<Rightarrow> jsnum json option \<times> jsnum json option" where
  "panel_verdict v = (pv_decision v, pv_reason v)"

lemma test_rules_first:
  "map_option (\<lambda>v. (to_decision v, to_reason v)) (test_rules regex num rs tool)
    = map_option panel_verdict (first_stored regex num (map (Pair name) rs) tool)"
  by (induction rs) (auto simp: stored_test_def stored_verdict_def panel_verdict_def split: option.splits)

text \<open>The test panel of a policy gives the decision and the reason that the platform's evaluation of that
  policy gives, for every tool, rules and regular expressions; without a matching rule it shows the default.\<close>

theorem test_panel_is_the_evaluation:
  assumes "trim (nullish (map_of (pg_test_tool pg) i) []) = tool" "tool \<noteq> []"
  shows "\<exists>r. pg_test_result (test_policy regex num i (policy_json mg p) pg) i = Some r
    \<and> (to_decision r, to_reason r) = (case evaluate_with_policies regex num tool [p] of
         Some v \<Rightarrow> (pv_decision v, pv_reason v)
       | None \<Rightarrow> (Some (JStr ''allow''), Some (JStr ''No rule matched - default allow.'')))"
proof -
  have rules: "jlist (member ''rules'' (policy_json mg p)) = p_rules p" by (simp add: policy_json_def jlist_def member_def)
  have "map_option (\<lambda>v. (to_decision v, to_reason v)) (test_rules regex num (p_rules p) tool)
      = map_option panel_verdict (evaluate_with_policies regex num tool [p])"
    using test_rules_first [of regex num "p_rules p" tool "p_name p"] by (simp add: evaluate_with_policies_def)
  then show ?thesis
    using assms by (auto simp: test_policy_def rules Let_def nullish_def default_outcome_def panel_verdict_def split: option.splits)
qed

section \<open>Agents\<close>

text \<open>What the page shows of its agents, and what is stored for an account.\<close>

definition agents_shown :: "agents_page \<Rightarrow> (jsnum json option \<times> jsnum json option) list" where
  "agents_shown pg = map (\<lambda>x. (member ''id'' x, member ''status'' x)) (ap_agents pg)"

definition agents_stored :: "string \<Rightarrow> db \<Rightarrow> (jsnum json option \<times> jsnum json option) list" where
  "agents_stored uid s =
     map (\<lambda>g. (Some (JStr (g_id g)), Some (JStr (g_status g)))) (newest_first g_created (filter (\<lambda>g. g_user g = uid) (t_agents s)))"

fun action_route :: "manage \<Rightarrow> string \<times> agent_action \<Rightarrow> request \<Rightarrow> reply app" where
  "action_route mg (i, Revoke) rq = agent_delete mg i rq"
| "action_route mg (i, Suspend) rq = agent_suspend mg i rq"

text \<open>A route that throws is answered with status 500.\<close>

definition served :: "app_error + reply \<Rightarrow> page_answer" where
  "served r = (case r of Inl e \<Rightarrow> Replied 500 None | Inr rp \<Rightarrow> Replied (rp_status rp) (Some (rp_body rp)))"

definition mark :: "string \<Rightarrow> string \<Rightarrow> jsnum json option \<times> jsnum json option \<Rightarrow> jsnum json option \<times> jsnum json option" where
  "mark i st x = (if fst x = Some (JStr i) then (fst x, Some (JStr st)) else x)"

lemma with_member_member: "member k (with_member k v x) = Some v"
proof -
  have r: "map_of (rev (map (\<lambda>(n, w). if n = k then (n, v) else (n, w)) kvs)) k = (if k \<in> fst ` set kvs then Some v else None)" for kvs
    by (induction kvs) (auto simp: map_add_def map_of_append split: option.splits prod.splits)
  show ?thesis by (auto simp: with_member_def member_def r Let_def)
qed

lemma with_member_other: "k \<noteq> n \<Longrightarrow> x = JObj kvs \<Longrightarrow> member n (with_member k v x) = member n x"
proof -
  assume k: "k \<noteq> n" "x = JObj kvs"
  have "map_of (rev (map (\<lambda>(m, w). if m = k then (m, v) else (m, w)) ms)) n = map_of (rev ms) n" for ms
    using k(1) by (induction ms) (auto simp: map_of_append map_add_def split: option.splits)
  then show ?thesis using k by (simp add: with_member_def member_def Let_def)
qed

lemma map_newest_first:
  assumes "\<And>x. created (f x) = created x"
  shows "map f (newest_first created xs) = newest_first created (map f xs)"
proof -
  have "map f (insort_key (\<lambda>x. - created x) x xs) = insort_key (\<lambda>x. - created x) (f x) (map f xs)" for x xs
    using assms by (induction xs) simp_all
  then have "map f (sort_key (\<lambda>x. - created x) xs) = sort_key (\<lambda>x. - created x) (map f xs)"
    by (induction xs) simp_all
  then show ?thesis by (simp add: newest_first_def)
qed

definition set_row :: "int \<Rightarrow> string \<Rightarrow> string \<Rightarrow> string \<Rightarrow> agent_row \<Rightarrow> agent_row" where
  "set_row now i uid st g = (if owns_agent i uid g then g\<lparr>g_status := st, g_updated := now\<rparr> else g)"

lemma stored_after_set:
  "agents_stored uid (s\<lparr>t_agents := map (set_row now i uid st) (t_agents s)\<rparr>) = map (mark i st) (agents_stored uid s)"
proof -
  have f: "filter (\<lambda>g. g_user g = uid) (map (set_row now i uid st) gs) = map (set_row now i uid st) (filter (\<lambda>g. g_user g = uid) gs)" for gs
    by (induction gs) (simp_all add: set_row_def owns_agent_def)
  have "newest_first g_created (map (set_row now i uid st) (filter (\<lambda>g. g_user g = uid) (t_agents s)))
      = map (set_row now i uid st) (newest_first g_created (filter (\<lambda>g. g_user g = uid) (t_agents s)))"
    by (subst map_newest_first) (simp_all add: set_row_def)
  then show ?thesis
    by (auto simp: agents_stored_def f set_row_def owns_agent_def mark_def newest_first_def)
qed

lemma set_status_cases:
  assumes "set_agent_status now i uid st s = (r, s')"
  shows "(\<exists>f. s' = s\<lparr>faults := f, t_agents := map (set_row now i uid st) (t_agents s)\<rparr> \<and> r = Inr (list_ex (owns_agent i uid) (t_agents s)))
    \<or> (t_agents s' = t_agents s \<and> r = Inl DbError)"
  using assms
  by (auto simp: set_agent_status_def ensure_schema_def andthen_apply modify_def ret_def tick_def set_row_def [abs_def]
      split: prod.splits sum.splits dest!: query_cases select_cases)

text \<open>What an answer makes of the page, and what a request makes of the database.\<close>

lemma action_answered_shown:
  assumes "list_all (\<lambda>x. \<exists>kvs. x = JObj kvs) (ap_agents pg)"
  shows "agents_shown (action_answered (i, k) a pg)
    = (if action_accepted a then map (mark i (action_status k)) (agents_shown pg) else agents_shown pg)"
  using assms
  by (auto simp: action_answered_def agents_shown_def mark_def has_id_def with_member_member with_member_other list_all_iff Let_def)

lemma answers_accepted:
  "\<not> action_accepted (served (Inr unauthorized))" "\<not> action_accepted (served (Inr agent_not_found))"
  "\<not> action_accepted (served (Inl e))" "action_accepted (served (Inr (json_reply 200 d)))"
  by (simp_all add: action_accepted_def served_def unauthorized_def agent_not_found_def error_reply_def json_reply_def http_ok_def)

lemma mark_missing: "\<not> list_ex (owns_agent i uid) (t_agents s) \<Longrightarrow> map (mark i st) (agents_stored uid s) = agents_stored uid s"
  by (auto simp: agents_stored_def mark_def list_ex_iff owns_agent_def newest_first_def)

lemma agent_set_cases:
  assumes "session_user (mg_platform mg) rq \<in> {None, Some uid}" "agent_set mg st i rq s = (r, s')"
  shows "agents_stored uid s' = (if action_accepted (served r) then map (mark i st) (agents_stored uid s) else agents_stored uid s)"
proof (cases "session_user (mg_platform mg) rq")
  case None
  then show ?thesis using assms(2) answers_accepted by (auto simp: agent_set_def ret_def)
next
  case (Some u)
  then have u: "u = uid" using assms(1) by simp
  obtain r1 s1 where run: "set_agent_status (pe_now (mg_platform mg)) i uid st s = (r1, s1)" by force
  show ?thesis
  proof (cases r1)
    case (Inl e)
    then have "r = Inl e" "s' = s1" using assms(2) Some u run by (simp_all add: agent_set_def andthen_apply)
    moreover have "t_agents s1 = t_agents s" using set_status_cases [OF run] Inl by auto
    ultimately show ?thesis using answers_accepted by (simp add: agents_stored_def)
  next
    case (Inr hit)
    obtain f where f: "s1 = s\<lparr>faults := f, t_agents := map (set_row (pe_now (mg_platform mg)) i uid st) (t_agents s)\<rparr>"
      "hit = list_ex (owns_agent i uid) (t_agents s)" using set_status_cases [OF run] Inr by auto
    have "agents_stored uid s1 = map (mark i st) (agents_stored uid s)"
      using stored_after_set [where uid = uid and s = "s\<lparr>faults := f\<rparr>"] f(1) by (simp add: agents_stored_def)
    moreover have "s' = s1" "r = (if hit then Inr (json_reply 200 (JObj [(''success'', JBool True), (''status'', JStr st)])) else Inr agent_not_found)"
      using assms(2) Some u run Inr by (auto simp: agent_set_def andthen_apply ret_def)
    ultimately show ?thesis using f(2) mark_missing answers_accepted by (cases hit) auto
  qed
qed

text \<open>C16: The agents page follows the database. As long as its answers arrive, revoking or suspending an agent, with
  whatever session, on whatever agent and whatever statements fail, leaves the page showing for the
  account exactly the statuses that are stored, if it did before.\<close>

theorem agents_page_follows_the_database:
  assumes "agents_shown pg = agents_stored uid s" "list_all (\<lambda>x. \<exists>kvs. x = JObj kvs) (ap_agents pg)"
    "session_user (mg_platform mg) rq \<in> {None, Some uid}" "action_route mg act rq s = (r, s')"
  shows "agents_shown (action_answered act (served r) pg) = agents_stored uid s'"
proof -
  obtain i k where act: "act = (i, k)" by force
  have "action_route mg act rq = agent_set mg (action_status k) i rq"
    by (cases k) (simp_all add: act agent_delete_def agent_suspend_def)
  then have "agents_stored uid s'
      = (if action_accepted (served r) then map (mark i (action_status k)) (agents_stored uid s) else agents_stored uid s)"
    using agent_set_cases [OF assms(3)] assms(4) by simp
  then show ?thesis using action_answered_shown [OF assms(2)] assms(1) by (simp add: act)
qed

section \<open>Refused changes\<close>

text \<open>C37: The keys page and the policies page take every answer for success. When the session has ended, the routes
  refuse to revoke a key or to delete a policy and change nothing, but the pages then show every key with
  that identifier as revoked and no policy with that identifier at all.\<close>

theorem refused_changes_are_shown_as_done:
  assumes "session_user (mg_platform mg) rq = None" "bearer rq = None"
  shows "dashboard_keys_delete mg i rq s = (Inr unauthorized, s)
    \<and> list_all (\<lambda>k. has_id i k \<longrightarrow> is_revoked k) (kp_keys (revoke_answered i (served (Inr unauthorized)) kp))
    \<and> policy_delete mg j rq s = (Inr (unauthorized, None), s)
    \<and> \<not> list_ex (has_id j) (pg_policies (delete_answered expanded j (served (Inr unauthorized)) pg))"
proof -
  have "dashboard_keys_delete mg i rq s = (Inr unauthorized, s)"
    using assms(1) by (simp add: dashboard_keys_delete_def ret_def)
  moreover have "policy_delete mg j rq s = (Inr (unauthorized, None), s)"
    using assms by (simp add: policy_delete_def as_user_def resolve_user_id_def andthen_apply ret_def truthy_def)
  moreover have "list_all (\<lambda>k. has_id i k \<longrightarrow> is_revoked k) (kp_keys (revoke_answered i (served (Inr unauthorized)) kp))"
    by (auto simp: revoke_answered_def served_def Let_def list_all_iff is_revoked_def with_member_member truthy_json_def)
  moreover have "\<not> list_ex (has_id j) (pg_policies (delete_answered expanded j (served (Inr unauthorized)) pg))"
    by (simp add: delete_answered_def served_def list_ex_iff)
  ultimately show ?thesis by blast
qed

section \<open>Examples\<close>

definition demo_manage :: manage where
  "demo_manage = \<lparr>mg_platform = demo_env, mg_stamp = show_int, mg_num = (\<lambda>_. []), mg_month = 0, mg_reset = []\<rparr>"

definition no_credential :: request where
  "no_credential = \<lparr>rq_auth = None, rq_cookie = None, rq_body = []\<rparr>"

lemma no_session: "session_user (mg_platform demo_manage) no_credential = None" "bearer no_credential = None"
  by (simp_all add: session_user_def get_current_user_def no_credential_def truthy_def bearer_def)

definition demo_keys_page :: keys_page where
  "demo_keys_page = \<lparr>kp_keys = [JObj [(''id'', JStr ''k1''), (''revoked'', JBool False)]], kp_loading = False, kp_show_create = False,
     kp_reveal = None, kp_revoke = Some ''k1'', kp_revoking = True\<rparr>"

definition demo_policies_page :: policies_page where
  "demo_policies_page = \<lparr>pg_policies = [JObj [(''id'', JStr ''p1'')]], pg_loading = False, pg_error = [], pg_expanded = None,
     pg_show_create = False, pg_creating = False, pg_create_error = [], pg_name = [], pg_desc = [], pg_rules = [],
     pg_editing = None, pg_draft = None, pg_saving = False, pg_test_tool = [(''p1'', '' delete_user '')], pg_test_result = Map.empty,
     pg_testing = None, pg_delete_id = Some ''p1'', pg_deleting = True\<rparr>"

theorem refused_changes_are_shown_as_done_witness:
  "dashboard_keys_delete demo_manage ''k1'' no_credential demo_db = (Inr unauthorized, demo_db)
    \<and> list_all (\<lambda>k. has_id ''k1'' k \<longrightarrow> is_revoked k) (kp_keys (revoke_answered ''k1'' (served (Inr unauthorized)) demo_keys_page))
    \<and> kp_keys (revoke_answered ''k1'' (served (Inr unauthorized)) demo_keys_page) \<noteq> []
    \<and> pg_policies (delete_answered None ''p1'' (served (Inr unauthorized)) demo_policies_page) = []"
  using refused_changes_are_shown_as_done [OF no_session, of "''k1''" demo_db demo_keys_page "''p1''" None demo_policies_page]
  by (simp add: demo_keys_page_def demo_policies_page_def revoke_answered_def delete_answered_def served_def has_id_def member_def)

definition demo_policy_row :: policy_row where
  "demo_policy_row = \<lparr>p_id = ''p1'', p_user = ''u1'', p_name = ''mine'', p_description = [],
     p_rules = [page_rule ''r1'' ''delete'' ''deny'' ''no''], p_active = True, p_created = 0, p_updated = 0\<rparr>"

theorem test_panel_is_the_evaluation_witness:
  "\<exists>r. pg_test_result (test_policy (\<lambda>v t. Some (v = Some (JStr ''delete''))) (\<lambda>_. []) ''p1'' (policy_json demo_manage demo_policy_row) demo_policies_page) ''p1'' = Some r
    \<and> to_decision r = Some (JStr ''deny'')"
proof -
  have "trim (nullish (map_of (pg_test_tool demo_policies_page) ''p1'') []) = ''delete_user''"
    unfolding demo_policies_page_def by code_simp
  from test_panel_is_the_evaluation [OF this, of "\<lambda>v t. Some (v = Some (JStr ''delete''))" "\<lambda>_. []" demo_manage demo_policy_row]
  show ?thesis
    by (auto simp: evaluate_with_policies_def demo_policy_row_def stored_test_def stored_verdict_def page_rule_def member_def)
qed

definition demo_agent :: "string \<Rightarrow> agent_row" where
  "demo_agent uid = \<lparr>g_id = ''a1'', g_user = uid, g_name = ''bot'', g_description = [], g_type = ''autonomous'', g_owner = [],
     g_status = ''active'', g_scopes = [], g_last_seen = None, g_created = 0, g_updated = 0\<rparr>"

definition demo_agents_page :: "agents_page" where
  "demo_agents_page = \<lparr>ap_agents = [agent_json demo_manage (demo_agent ''u1'')], ap_loading = False, ap_error = [], ap_show_create = False,
     ap_form = empty_form, ap_creating = False, ap_create_error = [], ap_action = Some (''a1'', Revoke), ap_actioning = True\<rparr>"

theorem agents_page_follows_the_database_witness:
  "\<exists>r s'. action_route demo_manage (''a1'', Revoke) no_credential (demo_db\<lparr>t_agents := [demo_agent ''u1'']\<rparr>) = (r, s')
    \<and> agents_shown (action_answered (''a1'', Revoke) (served r) demo_agents_page) = agents_stored ''u1'' s'
    \<and> agents_stored ''u1'' s' \<noteq> []"
proof -
  let ?s = "demo_db\<lparr>t_agents := [demo_agent ''u1'']\<rparr>"
  have r: "action_route demo_manage (''a1'', Revoke) no_credential ?s = (Inr unauthorized, ?s)"
    using no_session by (simp add: agent_delete_def agent_set_def ret_def)
  have "agents_shown demo_agents_page = agents_stored ''u1'' ?s"
    by (simp add: agents_shown_def demo_agents_page_def agents_stored_def newest_first_def agent_json_def demo_agent_def member_def)
  moreover have "list_all (\<lambda>x. \<exists>kvs. x = JObj kvs) (ap_agents demo_agents_page)" by (simp add: demo_agents_page_def agent_json_def)
  ultimately show ?thesis
    using agents_page_follows_the_database [OF _ _ _ r] no_session r
    by (simp add: agents_stored_def newest_first_def demo_agent_def)
qed

end
