(* ===== verification/RiskPage.thy ===== *)
theory RiskPage
  imports Pages NhiScore "HOL-Library.Multiset"
begin

text \<open>
  The risk page, \<open>app/nhi/page.tsx\<close>: the identities of the two answers are scored in the browser, ordered and
  counted. \<open>when\<close> reads a date, \<open>None\<close> for an invalid one.
\<close>

definition jtext :: "string \<Rightarrow> jsnum json \<Rightarrow> string" where
  "jtext k x = nullish (str_of (member k x)) []"

definition text_list :: "jsnum json option \<Rightarrow> string list" where
  "text_list v = map (\<lambda>x. case x of JStr s \<Rightarrow> s | _ \<Rightarrow> []) (jlist v)"

text \<open>\<open>entry.lastSeen ? new Date(entry.lastSeen) : null\<close>.\<close>

definition seen_at :: "(string \<Rightarrow> int option) \<Rightarrow> string option \<Rightarrow> int option" where
  "seen_at when t = (if truthy t then when (the t) else None)"

definition agent_identity :: "(string \<Rightarrow> int option) \<Rightarrow> jsnum json \<Rightarrow> nhi_input" where
  "agent_identity when a = \<lparr>ni_type = RegisteredAgent, ni_name = jtext ''name'' a, ni_status = jtext ''status'' a,
     ni_scopes = text_list (member ''scopes'' a),
     ni_seen = seen_at when (case str_of (member ''lastSeenAt'' a) of Some t \<Rightarrow> Some t | None \<Rightarrow> str_of (member ''createdAt'' a)),
     ni_owner = str_of (member ''ownerEmail'' a), ni_expires = None\<rparr>"

definition key_identity :: "(string \<Rightarrow> int option) \<Rightarrow> jsnum json \<Rightarrow> nhi_input" where
  "key_identity when k = \<lparr>ni_type = KeyIdentity, ni_name = jtext ''name'' k, ni_status = ''active'', ni_scopes = [],
     ni_seen = seen_at when (str_of (member ''lastUsedAt'' k)), ni_owner = None, ni_expires = str_of (member ''expiresAt'' k)\<rparr>"

record nhi_entry =
  ne_id :: string
  ne_input :: nhi_input
  ne_score :: rat
  ne_level :: risk_level
  ne_findings :: "nhi_finding list"

definition scored :: "int \<Rightarrow> string \<Rightarrow> nhi_input \<Rightarrow> nhi_entry" where
  "scored now i e = (case score_nhi now e of (sc, lv, fs) \<Rightarrow>
     \<lparr>ne_id = i, ne_input = e, ne_score = sc, ne_level = lv, ne_findings = fs\<rparr>)"

definition live_key_object :: "jsnum json \<Rightarrow> bool" where
  "live_key_object k = (\<not> truthy_json (member ''revoked'' k))"

definition nhi_entries :: "int \<Rightarrow> (string \<Rightarrow> int option) \<Rightarrow> jsnum json list \<Rightarrow> jsnum json list \<Rightarrow> nhi_entry list" where
  "nhi_entries now when agents keys =
     sort_key (\<lambda>e. - ne_score e)
       (map (\<lambda>a. scored now (jtext ''id'' a) (agent_identity when a)) agents
        @ map (\<lambda>k. scored now (jtext ''id'' k) (key_identity when k)) (filter live_key_object keys))"

text \<open>The members of an answer: an error status gives none, a body that cannot be read rejects.\<close>

definition members_of :: "string \<Rightarrow> page_answer \<Rightarrow> jsnum json list option" where
  "members_of k a =
     (case a of
        NoReply \<Rightarrow> None
      | Replied st body \<Rightarrow>
          (if \<not> http_ok st then Some []
           else case body of None \<Rightarrow> None | Some d \<Rightarrow> if d = JNull then None else Some (jlist (member k d))))"

definition build_nhis :: "int \<Rightarrow> (string \<Rightarrow> int option) \<Rightarrow> page_answer \<Rightarrow> page_answer \<Rightarrow> nhi_entry list option" where
  "build_nhis now when agents keys =
     (case (members_of ''agents'' agents, members_of ''keys'' keys) of
        (Some xs, Some ys) \<Rightarrow> Some (nhi_entries now when xs ys)
      | _ \<Rightarrow> None)"

record risk_page =
  sp_nhis :: "nhi_entry list"
  sp_loading :: bool
  sp_scanning :: bool
  sp_filter :: "risk_level option"

text \<open>Both calls of \<open>buildNHIs\<close>; a rejected scan leaves the page scanning.\<close>

definition first_scan :: "nhi_entry list option \<Rightarrow> risk_page \<Rightarrow> risk_page" where
  "first_scan r pg = (case r of None \<Rightarrow> pg | Some es \<Rightarrow> pg\<lparr>sp_nhis := es\<rparr>)\<lparr>sp_loading := False\<rparr>"

definition scan_again :: "nhi_entry list option \<Rightarrow> risk_page \<Rightarrow> risk_page" where
  "scan_again r pg = (case r of None \<Rightarrow> pg\<lparr>sp_scanning := True\<rparr> | Some es \<Rightarrow> pg\<lparr>sp_nhis := es, sp_scanning := False\<rparr>)"

definition shown_entries :: "risk_page \<Rightarrow> nhi_entry list" where
  "shown_entries pg = (case sp_filter pg of None \<Rightarrow> sp_nhis pg | Some l \<Rightarrow> filter (\<lambda>e. ne_level e = l) (sp_nhis pg))"

definition level_count :: "risk_page \<Rightarrow> risk_level \<Rightarrow> nat" where
  "level_count pg l = length (filter (\<lambda>e. ne_level e = l) (sp_nhis pg))"

text \<open>The width of the score bar.\<close>

definition score_percent :: "rat \<Rightarrow> int" where
  "score_percent sc = \<lfloor>fl (sc * 100) + 1 / 2\<rfloor>"

section \<open>Order\<close>

fun level_rank :: "risk_level \<Rightarrow> nat" where
  "level_rank LCritical = 4"
| "level_rank LHigh = 3"
| "level_rank LMedium = 2"
| "level_rank LLow = 1"
| "level_rank LNone = 0"

lemma bounds_ordered: "fl (3 / 10) \<le> fl (55 / 100)" "fl (55 / 100) \<le> fl (8 / 10)" "0 < fl (3 / 10)"
  by code_simp+

lemma level_mono: "x \<le> y \<Longrightarrow> level_rank (level_of x) \<le> level_rank (level_of y)"
  using bounds_ordered by (auto simp: level_of_def)

lemma scored_level: "ne_level (scored now i e) = level_of (ne_score (scored now i e))"
  by (simp add: scored_def score_nhi_def Let_def)

lemma scored_worst: "ne_level (scored now i e) = worst (map nf_severity (ne_findings (scored now i e)))"
  using severities_level by (simp add: scored_def score_nhi_def Let_def nhi_severities is_stale_def)

lemma entries_scored: "e \<in> set (nhi_entries now when xs ys) \<Longrightarrow> \<exists>i x. e = scored now i x"
  by (auto simp: nhi_entries_def)

text \<open>The risk page lists the worst identities first: every registered agent and every key that is not revoked
  appears once, no entry follows one with a less severe worst finding, and the counts per level
  add up to the number of entries.\<close>

theorem risk_page_lists_worst_first:
  assumes "build_nhis now when (Replied 200 (Some (JObj [(''agents'', JArr xs)]))) (Replied 200 (Some (JObj [(''keys'', JArr ys)]))) = Some es"
  shows "mset (map ne_id es) = mset (map (jtext ''id'') (xs @ filter live_key_object ys))
    \<and> sorted (map (\<lambda>e. - int (level_rank (worst (map nf_severity (ne_findings e))))) es)
    \<and> (\<Sum>l \<leftarrow> [LCritical, LHigh, LMedium, LLow, LNone]. level_count (first_scan (Some es) pg) l) = length es"
proof -
  have es: "es = nhi_entries now when xs ys"
    using assms by (simp add: build_nhis_def members_of_def http_ok_def jlist_def member_def)
  have ids: "ne_id (scored now i e) = i" for i e by (simp add: scored_def score_nhi_def Let_def)
  have "mset (map ne_id es) = mset (map (jtext ''id'') (xs @ filter live_key_object ys))"
    by (simp add: es nhi_entries_def image_mset.compositionality comp_def ids)
  moreover have "sorted (map (\<lambda>e. - int (level_rank (worst (map nf_severity (ne_findings e))))) es)"
  proof -
    have "sorted (map (\<lambda>e. - ne_score e) es)" by (simp add: es nhi_entries_def)
    moreover have "- int (level_rank (worst (map nf_severity (ne_findings d)))) \<le> - int (level_rank (worst (map nf_severity (ne_findings e))))"
      if "d \<in> set es" "e \<in> set es" "- ne_score d \<le> - ne_score e" for d e
      using that entries_scored level_mono unfolding es by (metis neg_le_iff_le of_nat_le_iff scored_level scored_worst)
    ultimately show ?thesis by (auto simp: sorted_wrt_map elim!: sorted_wrt_mono_rel [rotated])
  qed
  moreover have "(\<Sum>l \<leftarrow> [LCritical, LHigh, LMedium, LLow, LNone]. level_count (first_scan (Some es) pg) l) = length es"
  proof -
    have "(\<Sum>l \<leftarrow> [LCritical, LHigh, LMedium, LLow, LNone]. length (filter (\<lambda>e. ne_level e = l) zs)) = length zs" for zs
    proof (induction zs)
      case (Cons z zs)
      then show ?case by (cases "ne_level z") simp_all
    qed simp
    then show ?thesis by (simp add: level_count_def first_scan_def)
  qed
  ultimately show ?thesis by blast
qed

text \<open>A registered agent without an owner and a revoked key.\<close>

theorem risk_page_lists_worst_first_witness:
  "\<exists>es. build_nhis 0 (\<lambda>_. None) (Replied 200 (Some (JObj [(''agents'', JArr [JObj [(''id'', JStr ''a1''), (''name'', JStr ''bot'')]])])))
       (Replied 200 (Some (JObj [(''keys'', JArr [JObj [(''id'', JStr ''k1''), (''revoked'', JBool True)]])]))) = Some es
     \<and> map ne_id es = [''a1'']"
proof -
  let ?xs = "[JObj [(''id'', JStr ''a1''), (''name'', JStr ''bot'')]]" and ?ys = "[JObj [(''id'', JStr ''k1''), (''revoked'', JBool True)]]"
  obtain es where es: "build_nhis 0 (\<lambda>_. None) (Replied 200 (Some (JObj [(''agents'', JArr ?xs)])))
       (Replied 200 (Some (JObj [(''keys'', JArr ?ys)]))) = Some es"
    by (simp add: build_nhis_def members_of_def http_ok_def)
  have "mset (map ne_id es) = mset (map (jtext ''id'') (?xs @ filter live_key_object ?ys))"
    using risk_page_lists_worst_first [OF es] by blast
  then have "mset (map ne_id es) = {#''a1''#}"
    by (simp add: jtext_def member_def nullish_def live_key_object_def truthy_json_def)
  then show ?thesis using es by (metis mset_single_iff_right)
qed

end
