(* ===== verification/SafetyPage.thy ===== *)
theory SafetyPage
  imports Pages
begin

text \<open>
  The policy safety flow, \<open>app/policies/safety/page.tsx\<close>, as a step relation: a state is what the page holds
  and the requests it has sent. Buttons that are not shown or are disabled do not act; an answer may
  arrive on any step of the flow.
\<close>

datatype flow_step = Draft | Simulate | ReviewStep | ApplyStep

record safety_page =
  sf_step :: flow_step
  sf_yaml :: string
  sf_traces :: string
  sf_result :: "jsnum json option"
  sf_loading :: bool
  sf_error :: "string option"
  sf_applied :: bool

type_synonym flow = "safety_page \<times> page_call list"

fun step_index :: "flow_step \<Rightarrow> nat" where
  "step_index Draft = 0"
| "step_index Simulate = 1"
| "step_index ReviewStep = 2"
| "step_index ApplyStep = 3"

lemma step_index_bounds:
  "2 \<le> step_index st \<longleftrightarrow> st = ReviewStep \<or> st = ApplyStep" "3 \<le> step_index st \<longleftrightarrow> st = ApplyStep"
  by (cases st; simp)+

text \<open>A body that the page takes for a result is an object.\<close>

definition typed_answer :: "page_answer \<Rightarrow> bool" where
  "typed_answer a = (case a of Replied st (Some d) \<Rightarrow> http_ok st \<longrightarrow> is_object (Some d) | _ \<Rightarrow> True)"

definition invalid_traces :: string where
  "invalid_traces = ''Invalid JSON in traces field''"

definition simulator_call :: "string \<Rightarrow> jsnum json \<Rightarrow> page_call" where
  "simulator_call yaml traces = page_send ''POST'' ''/api/simulator'' (JObj [(''proposed_policy_yaml'', JStr yaml), (''traces'', traces)])"

text \<open>\<open>runSimulation\<close> up to its request: traces that are not JSON stop it.\<close>

definition run_simulation :: "flow \<Rightarrow> flow" where
  "run_simulation = (\<lambda>(pg, calls).
     (case parse_json (sf_traces pg) of
        None \<Rightarrow> (pg\<lparr>sf_error := Some invalid_traces, sf_loading := False\<rparr>, calls)
      | Some v \<Rightarrow> (pg\<lparr>sf_error := None, sf_loading := True\<rparr>, calls @ [simulator_call (sf_yaml pg) v])))"

text \<open>The answer. \<open>why\<close> is the message that a failed request or body throws; of a refused one the error is shown.\<close>

definition simulation_answered :: "string \<Rightarrow> page_answer \<Rightarrow> safety_page \<Rightarrow> safety_page" where
  "simulation_answered why a pg =
     (let pg1 = pg\<lparr>sf_loading := False\<rparr>
      in case a of
           NoReply \<Rightarrow> pg1\<lparr>sf_error := Some why\<rparr>
         | Replied st body \<Rightarrow>
             (if http_ok st
              then (case body of None \<Rightarrow> pg1\<lparr>sf_error := Some why\<rparr> | Some d \<Rightarrow> pg1\<lparr>sf_result := Some d, sf_step := ReviewStep\<rparr>)
              else if body = Some JNull then pg1\<lparr>sf_error := Some why\<rparr>
              else pg1\<lparr>sf_error := Some (error_text (''Simulation failed ('' @ show_int st @ '')'') (nullish body (JObj [])))\<rparr>))"

definition apply_policy :: "safety_page \<Rightarrow> safety_page" where
  "apply_policy pg = pg\<lparr>sf_applied := True, sf_step := ApplyStep\<rparr>"

definition start_new :: "safety_page \<Rightarrow> safety_page" where
  "start_new pg = pg\<lparr>sf_step := Draft, sf_result := None, sf_applied := False, sf_error := None\<rparr>"

inductive flow_next :: "flow \<Rightarrow> flow \<Rightarrow> bool" where
  EditYaml: "sf_step pg = Draft \<Longrightarrow> flow_next (pg, calls) (pg\<lparr>sf_yaml := v\<rparr>, calls)"
| EditTraces: "sf_step pg = Draft \<Longrightarrow> flow_next (pg, calls) (pg\<lparr>sf_traces := v\<rparr>, calls)"
| GoSimulate: "sf_step pg = Draft \<Longrightarrow> flow_next (pg, calls) (pg\<lparr>sf_step := Simulate\<rparr>, calls)"
| BackToDraft: "sf_step pg = Simulate \<or> sf_step pg = ReviewStep \<and> sf_result pg \<noteq> None \<Longrightarrow>
    flow_next (pg, calls) (pg\<lparr>sf_step := Draft\<rparr>, calls)"
| Run: "sf_step pg = Simulate \<Longrightarrow> \<not> sf_loading pg \<Longrightarrow> flow_next (pg, calls) (run_simulation (pg, calls))"
| Answered: "sf_loading pg \<Longrightarrow> typed_answer a \<Longrightarrow> flow_next (pg, calls) (simulation_answered why a pg, calls)"
| Stepper: "step_index st \<le> step_index (sf_step pg) \<Longrightarrow> flow_next (pg, calls) (pg\<lparr>sf_step := st\<rparr>, calls)"
| Apply: "sf_step pg = ReviewStep \<Longrightarrow> sf_result pg \<noteq> None \<Longrightarrow> flow_next (pg, calls) (apply_policy pg, calls)"
| StartNew: "sf_step pg = ApplyStep \<Longrightarrow> flow_next (pg, calls) (start_new pg, calls)"

inductive_cases flow_nextE: "flow_next (pg, calls) f"

definition first_flow :: "string \<Rightarrow> string \<Rightarrow> flow" where
  "first_flow yaml traces = (\<lparr>sf_step = Draft, sf_yaml = yaml, sf_traces = traces, sf_result = None, sf_loading = False,
     sf_error = None, sf_applied = False\<rparr>, [])"

inductive flow_reaches :: "flow \<Rightarrow> flow \<Rightarrow> bool" where
  Start: "flow_reaches f f"
| Next: "flow_reaches f g \<Longrightarrow> flow_next g h \<Longrightarrow> flow_reaches f h"

text \<open>The banner over a result.\<close>

definition impact_label :: "nat \<Rightarrow> nat \<Rightarrow> string" where
  "impact_label changed allow_to_deny =
     (if changed = 0 then ''No Impact - Safe to Apply''
      else if 0 < allow_to_deny then ''Breaking Change - '' @ show_nat allow_to_deny @ '' action(s) would be newly denied''
      else ''Moderate Impact - '' @ show_nat changed @ '' decision(s) changed'')"

section \<open>Properties\<close>

definition only_simulations :: "page_call list \<Rightarrow> bool" where
  "only_simulations calls = list_all (\<lambda>c. pc_method c = ''POST'' \<and> pc_path c = ''/api/simulator'') calls"

definition flow_ok :: "flow \<Rightarrow> bool" where
  "flow_ok f = (only_simulations (snd f)
     \<and> (sf_step (fst f) \<in> {ReviewStep, ApplyStep} \<or> sf_applied (fst f) \<longrightarrow> sf_result (fst f) \<noteq> None)
     \<and> (sf_result (fst f) \<noteq> None \<or> sf_loading (fst f) \<longrightarrow> snd f \<noteq> [])
     \<and> (sf_step (fst f) = ApplyStep \<longrightarrow> sf_applied (fst f)))"

lemma flow_ok_next:
  assumes "flow_next f g" "flow_ok f"
  shows "flow_ok g"
  using assms
  by (induction rule: flow_next.induct)
    (auto simp: flow_ok_def run_simulation_def simulation_answered_def apply_policy_def start_new_def only_simulations_def
      simulator_call_def page_send_def Let_def step_index_bounds split: option.splits page_answer.splits flow_step.splits)

lemma flow_ok_reaches:
  assumes "flow_reaches f g" "flow_ok f"
  shows "flow_ok g"
  using assms by (induction rule: flow_reaches.induct) (auto intro: flow_ok_next)

text \<open>C17: The flow deploys nothing. In every run of the page, whatever is clicked and answered in whatever order, each
  request is a simulation; a policy is reported as deployed only after a result was shown for some
  simulation that was sent, and nothing is sent for it.\<close>

theorem safety_flow_never_deploys:
  assumes "flow_reaches (first_flow yaml traces) (pg, calls)"
  shows "only_simulations calls \<and> (sf_applied pg \<longrightarrow> sf_result pg \<noteq> None \<and> calls \<noteq> [])"
proof -
  have "flow_ok (first_flow yaml traces)" by (simp add: flow_ok_def first_flow_def only_simulations_def)
  from flow_ok_reaches [OF assms this] show ?thesis by (auto simp: flow_ok_def)
qed

text \<open>Four clicks and one answer.\<close>

theorem safety_flow_never_deploys_witness:
  "\<exists>pg calls. flow_reaches (first_flow ''version: 1'' ''[]'') (pg, calls) \<and> sf_applied pg \<and> only_simulations calls \<and> length calls = 1"
proof -
  let ?r = "Replied 200 (Some (JObj []))"
  let ?f = "first_flow ''version: 1'' ''[]''"
  have js: "parse_json ''[]'' = Some (JArr [])" by code_simp
  let ?p1 = "(fst ?f)\<lparr>sf_step := Simulate\<rparr>" and ?c = "[simulator_call ''version: 1'' (JArr [])]"
  have "flow_next ?f (?p1, [])" using GoSimulate [of "fst ?f" "[]"] by (simp add: first_flow_def)
  moreover have "flow_next (?p1, []) (?p1\<lparr>sf_error := None, sf_loading := True\<rparr>, ?c)"
    using Run [of ?p1 "[]"] js by (simp add: run_simulation_def first_flow_def)
  moreover have "flow_next (?p1\<lparr>sf_error := None, sf_loading := True\<rparr>, ?c) (simulation_answered [] ?r (?p1\<lparr>sf_error := None, sf_loading := True\<rparr>), ?c)"
    by (rule Answered) (simp_all add: typed_answer_def is_object_def)
  moreover have "flow_next (simulation_answered [] ?r (?p1\<lparr>sf_error := None, sf_loading := True\<rparr>), ?c)
      (apply_policy (simulation_answered [] ?r (?p1\<lparr>sf_error := None, sf_loading := True\<rparr>)), ?c)"
    by (rule Apply) (simp_all add: simulation_answered_def http_ok_def)
  ultimately have run: "flow_reaches ?f (apply_policy (simulation_answered [] ?r (?p1\<lparr>sf_error := None, sf_loading := True\<rparr>)), ?c)"
    by (meson Start Next)
  show ?thesis
    using safety_flow_never_deploys [OF run] run by (intro exI conjI) (assumption, simp_all add: apply_policy_def)
qed

end
